(* ===== verification/Prelude.thy ===== *)
theory Prelude
  imports Main "HOL-Library.Word" "HOL-Library.Sublist" "HOL-Library.Code_Target_Numeral"
begin

text \<open>
  Prelude of the development: the error type that stands for Go's \<open>error\<close> values, the
  result type of fallible functions and its combinators, the reading of Go maps, and the
  named collections of facts the component theories share.

  A Go error is modelled by its format string as it stands in the source and the list of
  its string arguments, so that the message every branch reports stays visible. A Go
  function returning \<open>(T, error)\<close> is a function into \<open>'a result\<close>: \<open>Inl\<close> is the non-nil
  error, \<open>Inr\<close> the value.
\<close>

datatype go_error = GoError string "string list"

type_synonym 'a result = "go_error + 'a"

text \<open>Go maps from strings to strings; reading a missing key gives the zero value.\<close>

type_synonym params = "string \<rightharpoonup> string"

definition mget :: "params \<Rightarrow> string \<Rightarrow> string" where
  "mget m k = (case m k of None \<Rightarrow> '''' | Some v \<Rightarrow> v)"

definition err :: "string \<Rightarrow> string list \<Rightarrow> 'a result" where
  "err f args = Inl (GoError f args)"

definition bindE :: "'a result \<Rightarrow> ('a \<Rightarrow> 'b result) \<Rightarrow> 'b result" where
  "bindE r f = (case r of Inl e \<Rightarrow> Inl e | Inr x \<Rightarrow> f x)"

named_theorems result_simps "evaluation and inversion of fallible steps"
named_theorems go_simps "evaluation of the models of Go's library functions"

lemma bindE_Inl [simp, result_simps]: "bindE (Inl e) f = Inl e"
  by (simp add: bindE_def)

lemma bindE_Inr [simp, result_simps]: "bindE (Inr x) f = f x"
  by (simp add: bindE_def)

lemma bindE_eq_Inr [result_simps]:
  "bindE r f = Inr y \<longleftrightarrow> (\<exists>x. r = Inr x \<and> f x = Inr y)"
  by (cases r) auto

lemma bindE_eq_Inl [result_simps]:
  "bindE r f = Inl e \<longleftrightarrow> r = Inl e \<or> (\<exists>x. r = Inr x \<and> f x = Inl e)"
  by (cases r) auto

lemma err_neq_Inr [simp, result_simps]: "err f a \<noteq> Inr x" "Inr x \<noteq> err f a"
  by (simp_all add: err_def)

lemma err_eq_Inl [simp]: "err f a = Inl e \<longleftrightarrow> e = GoError f a"
  by (auto simp: err_def)

text \<open>The outcome of a concrete run, for evaluation.\<close>

lemma run_ok: "\<not> isl r \<Longrightarrow> \<exists>x. r = Inr x"
  by (cases r) auto

lemma run_fails: "isl r \<Longrightarrow> \<exists>e. r = Inl e"
  by (cases r) auto

lemma mget_update [simp]: "mget (m(k \<mapsto> v)) k' = (if k' = k then v else mget m k')"
  by (simp add: mget_def)

lemma mget_empty [simp]: "mget Map.empty k = ''''"
  by (simp add: mget_def)

text \<open>
  Sequencing a fallible function over a list, stopping at the first error, as a Go loop
  with an early return does.
\<close>

fun mapE :: "('a \<Rightarrow> 'b result) \<Rightarrow> 'a list \<Rightarrow> 'b list result" where
  "mapE f [] = Inr []"
| "mapE f (x # xs) = bindE (f x) (\<lambda>y. bindE (mapE f xs) (\<lambda>ys. Inr (y # ys)))"

lemma mapE_length: "mapE f xs = Inr ys \<Longrightarrow> length ys = length xs"
  by (induction xs arbitrary: ys) (auto simp: result_simps)

lemma mapE_set:
  "mapE f xs = Inr ys \<Longrightarrow> y \<in> set ys \<Longrightarrow> \<exists>x \<in> set xs. f x = Inr y"
  by (induction xs arbitrary: ys) (auto simp: result_simps)

lemma mapE_all:
  "mapE f xs = Inr ys \<Longrightarrow> (\<And>x y. x \<in> set xs \<Longrightarrow> f x = Inr y \<Longrightarrow> P y) \<Longrightarrow> list_all P ys"
  by (auto simp: list_all_iff dest: mapE_set)

lemma mapE_nth:
  "mapE f xs = Inr ys \<Longrightarrow> i < length xs \<Longrightarrow> f (xs ! i) = Inr (ys ! i)"
proof (induction xs arbitrary: ys i)
  case Nil
  then show ?case by simp
next
  case (Cons x xs)
  then show ?case by (cases i) (auto simp: result_simps)
qed

text \<open>A check list: the first failing check is the result.\<close>

fun checkE :: "unit result list \<Rightarrow> unit result" where
  "checkE [] = Inr ()"
| "checkE (r # rs) = bindE r (\<lambda>_. checkE rs)"

lemma checkE_Inr: "checkE rs = Inr u \<longleftrightarrow> list_all (\<lambda>r. r = Inr ()) rs"
  by (induction rs) (auto simp: result_simps)

text \<open>
  A codec: an encoder and a partial decoder that recovers what was encoded. Everything a
  client of a codec needs follows from the one law.
\<close>

locale codec =
  fixes enc :: "'a \<Rightarrow> 'b" and dec :: "'b \<Rightarrow> 'a option" and ok :: "'a \<Rightarrow> bool"
  assumes dec_enc: "ok x \<Longrightarrow> dec (enc x) = Some x"
begin

lemma enc_inj: "ok x \<Longrightarrow> ok y \<Longrightarrow> enc x = enc y \<Longrightarrow> x = y"
  using dec_enc by (metis option.inject)

lemma enc_eq_iff: "ok x \<Longrightarrow> ok y \<Longrightarrow> enc x = enc y \<longleftrightarrow> x = y"
  using enc_inj by blast

lemma canonical: "ok x \<Longrightarrow> dec z = Some x \<Longrightarrow> dec (enc x) = dec z"
  by (simp add: dec_enc)

end

text \<open>
  A transition system with an invariant: the contract that every stateful component of
  the core is proved against.
\<close>

inductive reach :: "('s \<Rightarrow> 's \<Rightarrow> bool) \<Rightarrow> 's \<Rightarrow> 's \<Rightarrow> bool" for step where
  reach_refl [intro]: "reach step s s"
| reach_step [intro]: "reach step s t \<Longrightarrow> step t u \<Longrightarrow> reach step s u"

locale invariant_system =
  fixes init :: "'s" and step :: "'s \<Rightarrow> 's \<Rightarrow> bool" and inv :: "'s \<Rightarrow> bool"
  assumes inv_init: "inv init"
    and inv_step: "inv s \<Longrightarrow> step s t \<Longrightarrow> inv t"
begin

lemma reach_inv_from: "reach step s t \<Longrightarrow> inv s \<Longrightarrow> inv t"
  by (induction rule: reach.induct) (auto intro: inv_step)

lemma reachable_inv: "reach step init t \<Longrightarrow> inv t"
  by (rule reach_inv_from [OF _ inv_init])

end

end
