(* ===== verification/Go_Strings.thy ===== *)
theory Go_Strings
  imports Prelude
begin

text \<open>
  Go's \<open>strings\<close> package, the part the converter uses. A Go string is a sequence of bytes
  and so is the type \<^typ>\<open>string\<close> (a list of 8-bit characters): lengths and indices count
  bytes, as in Go. Unicode white space is recognised in its UTF-8 encoding.
  \<open>strings.ToLower\<close> is modelled on ASCII letters; bytes of multi-byte characters are left
  as they are (Go would also lower non-ASCII letters).
\<close>

section \<open>Bytes\<close>

definition code :: "char \<Rightarrow> nat" where
  "code c = of_char c"

definition is_digit :: "char \<Rightarrow> bool" where
  "is_digit c \<longleftrightarrow> 48 \<le> code c \<and> code c \<le> 57"

definition is_upper :: "char \<Rightarrow> bool" where
  "is_upper c \<longleftrightarrow> 65 \<le> code c \<and> code c \<le> 90"

definition is_lower :: "char \<Rightarrow> bool" where
  "is_lower c \<longleftrightarrow> 97 \<le> code c \<and> code c \<le> 122"

definition is_hex :: "char \<Rightarrow> bool" where
  "is_hex c \<longleftrightarrow> is_digit c \<or> (97 \<le> code c \<and> code c \<le> 102) \<or> (65 \<le> code c \<and> code c \<le> 70)"

definition hex_val :: "char \<Rightarrow> nat" where
  "hex_val c = (if is_digit c then code c - 48
                else if 97 \<le> code c then code c - 87 else code c - 55)"

definition to_lower_byte :: "char \<Rightarrow> char" where
  "to_lower_byte c = (if is_upper c then char_of (code c + 32) else c)"

definition to_lower :: "string \<Rightarrow> string" where
  "to_lower s = map to_lower_byte s"

lemma code_bound [simp]: "code c < 256"
  using nat_of_char_less_256 [of c] by (simp add: code_def)

lemma code_inj: "code c = code d \<longleftrightarrow> c = d"
  by (simp add: code_def)

lemma code_char_of: "n < 256 \<Longrightarrow> code (char_of n) = n"
  by (simp add: code_def)

lemma to_lower_byte_idem [simp]: "to_lower_byte (to_lower_byte c) = to_lower_byte c"
  by (auto simp: to_lower_byte_def is_upper_def code_char_of)

lemma to_lower_idem [simp]: "to_lower (to_lower s) = to_lower s"
  by (simp add: to_lower_def)

lemma to_lower_length [simp]: "length (to_lower s) = length s"
  by (simp add: to_lower_def)

lemma to_lower_append: "to_lower (s @ t) = to_lower s @ to_lower t"
  by (simp add: to_lower_def)

section \<open>Prefixes, search, cutting\<close>

definition has_prefix :: "string \<Rightarrow> string \<Rightarrow> bool" where
  "has_prefix s p \<longleftrightarrow> take (length p) s = p"

definition has_suffix :: "string \<Rightarrow> string \<Rightarrow> bool" where
  "has_suffix s p \<longleftrightarrow> length p \<le> length s \<and> drop (length s - length p) s = p"

definition trim_prefix :: "string \<Rightarrow> string \<Rightarrow> string" where
  "trim_prefix s p = (if has_prefix s p then drop (length p) s else s)"

definition trim_suffix :: "string \<Rightarrow> string \<Rightarrow> string" where
  "trim_suffix s p = (if has_suffix s p then take (length s - length p) s else s)"

fun str_index :: "string \<Rightarrow> string \<Rightarrow> nat option" where
  "str_index [] p = (if p = [] then Some 0 else None)"
| "str_index (c # s) p =
     (if has_prefix (c # s) p then Some 0 else map_option Suc (str_index s p))"

fun last_index :: "string \<Rightarrow> string \<Rightarrow> nat option" where
  "last_index [] p = (if p = [] then Some 0 else None)"
| "last_index (c # s) p =
     (case last_index s p of
        Some i \<Rightarrow> Some (Suc i)
      | None \<Rightarrow> if has_prefix (c # s) p then Some 0 else None)"

fun index_any :: "string \<Rightarrow> string \<Rightarrow> nat option" where
  "index_any [] cs = None"
| "index_any (c # s) cs = (if c \<in> set cs then Some 0 else map_option Suc (index_any s cs))"

definition contains :: "string \<Rightarrow> string \<Rightarrow> bool" where
  "contains s p \<longleftrightarrow> str_index s p \<noteq> None"

definition cut :: "string \<Rightarrow> string \<Rightarrow> string \<times> string \<times> bool" where
  "cut s sep = (case str_index s sep of
                  None \<Rightarrow> (s, '''', False)
                | Some i \<Rightarrow> (take i s, drop (i + length sep) s, True))"

text \<open>\<open>strings.Split\<close> for a separator of one byte, and \<open>strings.Join\<close>.\<close>

fun split_byte :: "char \<Rightarrow> string \<Rightarrow> string list" where
  "split_byte c [] = [[]]"
| "split_byte c (x # xs) =
     (if x = c then [] # split_byte c xs
      else case split_byte c xs of [] \<Rightarrow> [[x]] | h # t \<Rightarrow> (x # h) # t)"

fun join :: "string \<Rightarrow> string list \<Rightarrow> string" where
  "join sep [] = ''''"
| "join sep [x] = x"
| "join sep (x # y # zs) = x @ sep @ join sep (y # zs)"

lemma has_prefix_append [simp]: "has_prefix (p @ s) p"
  by (simp add: has_prefix_def)

lemma has_prefix_Nil [simp]: "has_prefix s []"
  by (simp add: has_prefix_def)

lemma has_prefix_iff: "has_prefix s p \<longleftrightarrow> (\<exists>t. s = p @ t)"
  unfolding has_prefix_def by (metis append_eq_conv_conj append_take_drop_id)

lemma has_prefix_drop: "has_prefix s p \<Longrightarrow> s = p @ drop (length p) s"
  unfolding has_prefix_def by (metis append_take_drop_id)

lemma has_prefix_Cons [simp]: "has_prefix (a # s) (b # p) \<longleftrightarrow> a = b \<and> has_prefix s p"
  by (auto simp: has_prefix_def)

lemma has_prefix_Nil_Cons [simp]: "\<not> has_prefix [] (b # p)"
  by (simp add: has_prefix_def)

text \<open>Two prefixes of one string are prefixes of each other.\<close>

lemma has_prefix_linear:
  assumes "has_prefix s p" and "has_prefix s q"
  shows "has_prefix p q \<or> has_prefix q p"
proof -
  from assms obtain t where "s = p @ t" by (auto simp: has_prefix_iff)
  moreover from assms obtain u where "s = q @ u" by (auto simp: has_prefix_iff)
  ultimately have "p @ t = q @ u" by simp
  then show ?thesis by (auto simp: append_eq_append_conv2 has_prefix_iff)
qed

lemma str_index_Some:
  "str_index s p = Some i \<Longrightarrow> i + length p \<le> length s \<and> take (length p) (drop i s) = p"
proof (induction s arbitrary: i)
  case Nil
  then show ?case by (auto split: if_splits)
next
  case (Cons c s)
  show ?case
  proof (cases "has_prefix (c # s) p")
    case True
    with Cons.prems have "i = 0" by simp
    with True show ?thesis
      unfolding has_prefix_def by (metis drop0 length_take min.cobounded2 add_0 min.commute nle_le)
  next
    case False
    with Cons.prems obtain j where "str_index s p = Some j" and "i = Suc j"
      by auto
    with Cons.IH show ?thesis by auto
  qed
qed

lemma str_index_split:
  assumes "str_index s p = Some i"
  shows "s = take i s @ p @ drop (i + length p) s"
proof -
  from str_index_Some [OF assms] have "drop i s = p @ drop (length p) (drop i s)"
    by (metis append_take_drop_id)
  then show ?thesis by (metis append_take_drop_id drop_drop add.commute)
qed

lemma cut_join:
  "cut s sep = (a, b, True) \<Longrightarrow> s = a @ sep @ b"
  by (auto simp: cut_def split: option.splits dest: str_index_split)

lemma cut_none: "cut s sep = (a, b, False) \<Longrightarrow> a = s \<and> b = ''''"
  by (auto simp: cut_def split: option.splits)

lemma split_byte_ne [simp]: "split_byte c s \<noteq> []"
  by (induction s) (auto split: list.splits)

lemma join_Cons_ne: "xs \<noteq> [] \<Longrightarrow> join sep (x # xs) = x @ sep @ join sep xs"
  by (cases xs) auto

lemma join_split_byte: "join [c] (split_byte c s) = s"
proof (induction s)
  case Nil
  then show ?case by simp
next
  case (Cons x xs)
  show ?case
  proof (cases "x = c")
    case True
    then show ?thesis by (simp add: join_Cons_ne Cons.IH)
  next
    case False
    obtain h t where ht: "split_byte c xs = h # t"
      by (cases "split_byte c xs") auto
    with Cons.IH have "join [c] (h # t) = xs" by simp
    with False ht show ?thesis by (cases t) auto
  qed
qed

lemma split_byte_no_sep: "\<forall>p \<in> set (split_byte c s). c \<notin> set p"
proof (induction s)
  case Nil
  then show ?case by simp
next
  case (Cons x xs)
  then show ?case by (cases "split_byte c xs") auto
qed

lemma split_byte_atom: "c \<notin> set s \<Longrightarrow> split_byte c s = [s]"
  by (induction s) auto

lemma split_byte_append:
  "c \<notin> set s \<Longrightarrow> split_byte c (s @ c # t) = s # split_byte c t"
  by (induction s) auto

lemma split_byte_join:
  "xs \<noteq> [] \<Longrightarrow> \<forall>x \<in> set xs. c \<notin> set x \<Longrightarrow> split_byte c (join [c] xs) = xs"
  by (induction "[c]" xs rule: join.induct) (auto simp: split_byte_atom split_byte_append)

text \<open>\<open>strings.Split\<close> for a longer separator.\<close>

function split_str :: "string \<Rightarrow> string \<Rightarrow> string list" where
  "split_str s sep =
     (if sep = [] then [s]
      else case str_index s sep of
             None \<Rightarrow> [s]
           | Some i \<Rightarrow> take i s # split_str (drop (i + length sep) s) sep)"
  by pat_completeness auto
termination
  by (relation "measure (\<lambda>(s, sep). length s)") (auto dest!: str_index_Some simp: gr0_conv_Suc neq_Nil_conv)

declare split_str.simps [simp del]

lemma split_str_ne: "split_str s sep \<noteq> []"
  by (subst split_str.simps) (auto split: option.splits)

lemma split_str_join: "join sep (split_str s sep) = s"
proof (induction s sep rule: split_str.induct)
  case (1 s sep)
  show ?case
  proof (cases "sep = [] \<or> str_index s sep = None")
    case True
    then show ?thesis by (auto simp: split_str.simps [of s sep])
  next
    case False
    then obtain i where i: "str_index s sep = Some i" and ne: "sep \<noteq> []" by auto
    with "1" have "join sep (split_str (drop (i + length sep) s) sep) = drop (i + length sep) s"
      by simp
    with i ne show ?thesis
      by (auto simp: split_str.simps [of s sep] join_Cons_ne split_str_ne
          str_index_split [OF i, symmetric])
  qed
qed

section \<open>Trimming\<close>

text \<open>
  The number of bytes of the white-space character at the start of a string (0 if there
  is none), and the same for the end of a string, given reversed. White space is
  \<open>unicode.IsSpace\<close>: the ASCII blanks, U+0085, U+00A0, U+1680, U+2000 to U+200A, U+2028,
  U+2029, U+202F, U+205F and U+3000.
\<close>

definition ascii_space :: "char \<Rightarrow> bool" where
  "ascii_space c \<longleftrightarrow> code c = 32 \<or> (9 \<le> code c \<and> code c \<le> 13)"

definition space3 :: "nat \<Rightarrow> nat \<Rightarrow> nat \<Rightarrow> bool" where
  "space3 a b c \<longleftrightarrow>
     (a = 0xE1 \<and> b = 0x9A \<and> c = 0x80) \<or>
     (a = 0xE2 \<and> b = 0x80 \<and> ((0x80 \<le> c \<and> c \<le> 0x8A) \<or> c = 0xA8 \<or> c = 0xA9 \<or> c = 0xAF)) \<or>
     (a = 0xE2 \<and> b = 0x81 \<and> c = 0x9F) \<or>
     (a = 0xE3 \<and> b = 0x80 \<and> c = 0x80)"

fun lead_space :: "string \<Rightarrow> nat" where
  "lead_space [] = 0"
| "lead_space [a] = (if ascii_space a then 1 else 0)"
| "lead_space [a, b] =
     (if ascii_space a then 1
      else if code a = 0xC2 \<and> (code b = 0x85 \<or> code b = 0xA0) then 2 else 0)"
| "lead_space (a # b # c # s) =
     (if ascii_space a then 1
      else if code a = 0xC2 \<and> (code b = 0x85 \<or> code b = 0xA0) then 2
      else if space3 (code a) (code b) (code c) then 3 else 0)"

fun trail_space :: "string \<Rightarrow> nat" where
  "trail_space [] = 0"
| "trail_space [a] = (if ascii_space a then 1 else 0)"
| "trail_space [a, b] =
     (if ascii_space a then 1
      else if code b = 0xC2 \<and> (code a = 0x85 \<or> code a = 0xA0) then 2 else 0)"
| "trail_space (a # b # c # s) =
     (if ascii_space a then 1
      else if code b = 0xC2 \<and> (code a = 0x85 \<or> code a = 0xA0) then 2
      else if space3 (code c) (code b) (code a) then 3 else 0)"

function strip_by :: "(string \<Rightarrow> nat) \<Rightarrow> string \<Rightarrow> string" where
  "strip_by f s = (if f s = 0 \<or> s = [] then s else strip_by f (drop (f s) s))"
  by pat_completeness auto
termination
  by (relation "measure (\<lambda>(f, s). length s)") auto

declare strip_by.simps [simp del]

definition trim_left_space :: "string \<Rightarrow> string" where
  "trim_left_space s = strip_by lead_space s"

definition trim_right_space :: "string \<Rightarrow> string" where
  "trim_right_space s = rev (strip_by trail_space (rev s))"

definition trim_space :: "string \<Rightarrow> string" where
  "trim_space s = trim_right_space (trim_left_space s)"

text \<open>\<open>strings.Trim\<close>, \<open>TrimRight\<close> for a set of bytes.\<close>

definition trim_right_set :: "string \<Rightarrow> string \<Rightarrow> string" where
  "trim_right_set s cs = rev (dropWhile (\<lambda>c. c \<in> set cs) (rev s))"

definition trim_set :: "string \<Rightarrow> string \<Rightarrow> string" where
  "trim_set s cs = trim_right_set (dropWhile (\<lambda>c. c \<in> set cs) s) cs"

lemma strip_by_Nil [simp]: "strip_by f [] = []"
  by (subst strip_by.simps) simp

lemma strip_by_stop: "f s = 0 \<Longrightarrow> strip_by f s = s"
  by (subst strip_by.simps) simp

lemma strip_by_fix: "f (strip_by f s) = 0 \<or> strip_by f s = []"
proof (induction f s rule: strip_by.induct)
  case (1 f s)
  then show ?case by (cases "f s = 0 \<or> s = []") (auto simp: strip_by.simps [of f s])
qed

lemma strip_by_suffix: "\<exists>t. s = t @ strip_by f s"
proof (induction f s rule: strip_by.induct)
  case (1 f s)
  show ?case
  proof (cases "f s = 0 \<or> s = []")
    case True
    then show ?thesis by (auto simp: strip_by.simps [of f s])
  next
    case False
    with "1" obtain t where "drop (f s) s = t @ strip_by f (drop (f s) s)" by auto
    then have "s = (take (f s) s @ t) @ strip_by f (drop (f s) s)"
      by (metis append.assoc append_take_drop_id)
    moreover have "strip_by f s = strip_by f (drop (f s) s)"
      using False by (subst strip_by.simps) simp
    ultimately show ?thesis by metis
  qed
qed

lemma trim_space_Nil [simp]: "trim_space [] = []"
  by (simp add: trim_space_def trim_left_space_def trim_right_space_def)

text \<open>Trimming keeps a contiguous part of its argument.\<close>

lemma trim_space_infix: "\<exists>a b. s = a @ trim_space s @ b"
proof -
  obtain a where a: "s = a @ trim_left_space s"
    using strip_by_suffix [of s lead_space] by (auto simp: trim_left_space_def)
  obtain b where "rev (trim_left_space s) = b @ strip_by trail_space (rev (trim_left_space s))"
    using strip_by_suffix by blast
  then have "trim_left_space s = trim_space s @ rev b"
    unfolding trim_space_def trim_right_space_def
    by (metis rev_append rev_rev_ident)
  with a show ?thesis by metis
qed

lemma set_trim_space: "set (trim_space s) \<subseteq> set s"
  using trim_space_infix [of s] by (metis Un_upper1 Un_upper2 set_append subset_trans)

lemma trim_space_length: "length (trim_space s) \<le> length s"
  using trim_space_infix [of s] by (metis add_leE le_add2 length_append le_add1 nat_le_linear order_trans)

text \<open>A string of printable ASCII without blanks is left alone.\<close>

definition graphic :: "char \<Rightarrow> bool" where
  "graphic c \<longleftrightarrow> 33 \<le> code c \<and> code c \<le> 126"

lemma lead_space_graphic: "graphic a \<Longrightarrow> lead_space (a # s) = 0"
  by (cases s; cases "tl s") (auto simp: graphic_def ascii_space_def space3_def)

lemma trail_space_graphic: "graphic a \<Longrightarrow> trail_space (a # b) = 0 \<or> code a = 0x85"
  by (cases b; cases "tl b") (auto simp: graphic_def ascii_space_def space3_def)

lemma trail_space_graphic': "graphic a \<Longrightarrow> trail_space (a # s) = 0"
  using trail_space_graphic [of a s] by (auto simp: graphic_def)

lemma trim_space_graphic:
  assumes "list_all graphic s"
  shows "trim_space s = s"
proof (cases s)
  case Nil
  then show ?thesis by simp
next
  case (Cons a t)
  with assms have l: "trim_left_space s = s"
    by (simp add: trim_left_space_def strip_by_stop lead_space_graphic)
  obtain b u where bu: "rev s = b # u" using Cons by (cases "rev s") auto
  with assms have "graphic b"
    by (metis list.set_intros(1) list_all_iff set_rev)
  with bu have "strip_by trail_space (rev s) = rev s"
    by (simp add: strip_by_stop trail_space_graphic')
  with l show ?thesis by (simp add: trim_space_def trim_right_space_def)
qed

section \<open>Replacing, fields\<close>

definition replace_byte :: "char \<Rightarrow> char \<Rightarrow> string \<Rightarrow> string" where
  "replace_byte a b s = map (\<lambda>c. if c = a then b else c) s"

text \<open>\<open>strings.ReplaceAll\<close> with a non-empty old string.\<close>

definition replace_all :: "string \<Rightarrow> string \<Rightarrow> string \<Rightarrow> string" where
  "replace_all s old new = join new (split_str s old)"

text \<open>\<open>strings.Fields\<close>: the maximal runs of non-space characters.\<close>

function fields_aux :: "string \<Rightarrow> string \<Rightarrow> string list" where
  "fields_aux acc [] = (if acc = [] then [] else [rev acc])"
| "fields_aux acc (c # s) =
     (let n = lead_space (c # s)
      in if n = 0 then fields_aux (c # acc) s
         else (if acc = [] then [] else [rev acc]) @ fields_aux [] (drop n (c # s)))"
  by pat_completeness auto
termination
  by (relation "measure (\<lambda>(acc, s). length s)") auto

definition fields :: "string \<Rightarrow> string list" where
  "fields s = fields_aux [] s"

lemma replace_byte_gone: "a \<noteq> b \<Longrightarrow> a \<notin> set (replace_byte a b s)"
  by (auto simp: replace_byte_def)

lemma replace_byte_length [simp]: "length (replace_byte a b s) = length s"
  by (simp add: replace_byte_def)

section \<open>UTF-8\<close>

text \<open>\<open>utf8.ValidString\<close>.\<close>

definition cont_byte :: "nat \<Rightarrow> bool" where
  "cont_byte n \<longleftrightarrow> 0x80 \<le> n \<and> n \<le> 0xBF"

fun valid_utf8_codes :: "nat list \<Rightarrow> bool" where
  "valid_utf8_codes [] = True"
| "valid_utf8_codes (a # s) =
     (if a < 0x80 then valid_utf8_codes s
      else if 0xC2 \<le> a \<and> a \<le> 0xDF then
        (case s of b # s1 \<Rightarrow> cont_byte b \<and> valid_utf8_codes s1 | _ \<Rightarrow> False)
      else if 0xE0 \<le> a \<and> a \<le> 0xEF then
        (case s of b # c # s2 \<Rightarrow>
           cont_byte b \<and> (a = 0xE0 \<longrightarrow> 0xA0 \<le> b) \<and> (a = 0xED \<longrightarrow> b \<le> 0x9F) \<and>
           cont_byte c \<and> valid_utf8_codes s2
         | _ \<Rightarrow> False)
      else if 0xF0 \<le> a \<and> a \<le> 0xF4 then
        (case s of b # c # d # s3 \<Rightarrow>
           cont_byte b \<and> (a = 0xF0 \<longrightarrow> 0x90 \<le> b) \<and> (a = 0xF4 \<longrightarrow> b \<le> 0x8F) \<and>
           cont_byte c \<and> cont_byte d \<and> valid_utf8_codes s3
         | _ \<Rightarrow> False)
      else False)"

definition valid_utf8 :: "string \<Rightarrow> bool" where
  "valid_utf8 s = valid_utf8_codes (map code s)"

lemma valid_utf8_ascii: "\<forall>c \<in> set s. code c < 128 \<Longrightarrow> valid_utf8 s"
  unfolding valid_utf8_def by (induction s) auto

end
