(* ===== verification/Go_Strconv.thy ===== *)
theory Go_Strconv
  imports Go_Strings
begin

text \<open>
  Go's \<open>strconv\<close> package as the converter uses it (\<open>ParseUint\<close>, \<open>ParseInt\<close>, \<open>Atoi\<close>,
  \<open>Itoa\<close>), 64-bit wrap-around of \<open>time.Duration\<close> arithmetic, and the conversion helpers
  of \<open>ray2sing/common.go\<close> built on them. Go's \<open>int\<close> is taken at 64 bits.
\<close>

section \<open>Decimal numerals\<close>

definition dec_val :: "string \<Rightarrow> nat" where
  "dec_val s = foldl (\<lambda>a c. 10 * a + (code c - 48)) 0 s"

definition digit_char :: "nat \<Rightarrow> char" where
  "digit_char d = char_of (48 + d)"

fun itoa :: "nat \<Rightarrow> string" where
  "itoa n = (if n < 10 then [digit_char n] else itoa (n div 10) @ [digit_char (n mod 10)])"

declare itoa.simps [simp del]

definition itoa_int :: "int \<Rightarrow> string" where
  "itoa_int i = (if i < 0 then ''-'' @ itoa (nat (- i)) else itoa (nat i))"

lemma dec_val_snoc: "dec_val (s @ [c]) = 10 * dec_val s + (code c - 48)"
  by (simp add: dec_val_def)

lemma dec_val_Nil [simp]: "dec_val [] = 0"
  by (simp add: dec_val_def)

lemma code_digit_char: "d < 10 \<Longrightarrow> code (digit_char d) = 48 + d"
  by (simp add: digit_char_def code_char_of)

lemma is_digit_digit_char: "d < 10 \<Longrightarrow> is_digit (digit_char d)"
  by (simp add: is_digit_def code_digit_char)

lemma itoa_ne [simp]: "itoa n \<noteq> []"
  by (subst itoa.simps) simp

lemma itoa_digits: "list_all is_digit (itoa n)"
proof (induction n rule: itoa.induct)
  case (1 n)
  then show ?case
    by (subst itoa.simps) (simp add: is_digit_digit_char)
qed

lemma dec_val_itoa [simp]: "dec_val (itoa n) = n"
proof (induction n rule: itoa.induct)
  case (1 n)
  show ?case
  proof (cases "n < 10")
    case True
    then show ?thesis
      by (subst itoa.simps) (simp add: dec_val_def code_digit_char)
  next
    case False
    with 1 show ?thesis
      by (subst itoa.simps) (simp add: dec_val_snoc code_digit_char)
  qed
qed

lemma itoa_inj: "itoa m = itoa n \<longleftrightarrow> m = n"
  by (metis dec_val_itoa)

section \<open>ParseUint, ParseInt, Atoi\<close>

definition parse_uint :: "nat \<Rightarrow> string \<Rightarrow> nat option" where
  "parse_uint bits s =
     (if s \<noteq> [] \<and> list_all is_digit s \<and> dec_val s < 2 ^ bits then Some (dec_val s) else None)"

lemma parse_uint_bound: "parse_uint b s = Some n \<Longrightarrow> n < 2 ^ b"
  by (auto simp: parse_uint_def split: if_splits)

lemma parse_uint_digits: "parse_uint b s = Some n \<Longrightarrow> s \<noteq> [] \<and> list_all is_digit s \<and> dec_val s = n"
  by (auto simp: parse_uint_def split: if_splits)

lemma parse_uint_itoa: "parse_uint b (itoa n) = (if n < 2 ^ b then Some n else None)"
  by (simp add: parse_uint_def itoa_digits)

interpretation decimal: codec itoa "parse_uint b" "\<lambda>n. n < 2 ^ b" for b
  by unfold_locales (simp add: parse_uint_itoa)

text \<open>
  \<open>strconv.ParseInt(s, 10, bits)\<close> returns a value and an error at once: 0 for a syntax
  error, the nearest bound for a number out of range. The second component says that the
  error is nil.
\<close>

definition split_sign :: "string \<Rightarrow> bool \<times> string" where
  "split_sign s = (case s of
      c # t \<Rightarrow> if c = CHR ''+'' then (False, t) else if c = CHR ''-'' then (True, t) else (False, s)
    | [] \<Rightarrow> (False, []))"

definition parse_int :: "nat \<Rightarrow> string \<Rightarrow> int \<times> bool" where
  "parse_int bits s =
     (let (neg, d) = split_sign s; lim = 2 ^ (bits - 1) in
      if d = [] \<or> \<not> list_all is_digit d then (0, False)
      else if neg then
        (if dec_val d \<le> lim then (- int (dec_val d), True) else (- int lim, False))
      else
        (if dec_val d < lim then (int (dec_val d), True) else (int lim - 1, False)))"

definition atoi :: "string \<Rightarrow> int \<times> bool" where
  "atoi s = parse_int 64 s"

lemma parse_int_bounds:
  assumes "parse_int b s = (i, ok)"
  shows "- (2 ^ (b - 1)) \<le> i \<and> i < 2 ^ (b - 1)"
proof -
  obtain neg d where sd: "split_sign s = (neg, d)" by (cases "split_sign s") auto
  have le: "int (dec_val d) \<le> 2 ^ (b - 1)" if "dec_val d \<le> 2 ^ (b - 1)"
    using that by (metis of_nat_le_iff of_nat_numeral of_nat_power)
  have lt: "int (dec_val d) < 2 ^ (b - 1)" if "dec_val d < 2 ^ (b - 1)"
    using that by (metis of_nat_less_iff of_nat_numeral of_nat_power)
  have p: "(0::int) < 2 ^ (b - Suc 0)" by simp
  have nn: "- int n < 2 ^ (b - Suc 0)" "- (2 ^ (b - Suc 0)) \<le> int n" for n
    using p by (auto intro: le_less_trans [of _ 0] order_trans [of _ 0])
  show ?thesis
    using assms nn by (auto simp: parse_int_def sd Let_def le lt split: if_splits)
qed

lemma atoi_bounds: "- (2 ^ 63) \<le> fst (atoi s) \<and> fst (atoi s) < 2 ^ 63"
  using parse_int_bounds [of 64 s "fst (atoi s)" "snd (atoi s)"] by (simp add: atoi_def)

lemma atoi_Nil [simp]: "atoi [] = (0, False)"
  by (simp add: atoi_def parse_int_def split_sign_def Let_def)

lemma split_sign_digit: "is_digit c \<Longrightarrow> split_sign (c # s) = (False, c # s)"
  by (auto simp: split_sign_def is_digit_def code_def)

lemma atoi_itoa: "n < 2 ^ 63 \<Longrightarrow> atoi (itoa n) = (int n, True)"
proof -
  assume n: "n < 2 ^ 63"
  obtain c s where cs: "itoa n = c # s" by (cases "itoa n") auto
  then have "is_digit c" using itoa_digits [of n] by simp
  then have "split_sign (itoa n) = (False, itoa n)" using cs split_sign_digit by simp
  then show ?thesis
    using n by (simp add: atoi_def parse_int_def Let_def itoa_digits)
qed

section \<open>Durations\<close>

text \<open>
  \<open>time.Duration\<close> is an \<open>int64\<close> number of nanoseconds; multiplying by \<open>time.Second\<close>
  wraps around.
\<close>

definition wrap64 :: "int \<Rightarrow> int" where
  "wrap64 x = (x + 2 ^ 63) mod 2 ^ 64 - 2 ^ 63"

definition seconds :: "int \<Rightarrow> int" where
  "seconds n = wrap64 (n * 1000000000)"

lemma wrap64_id: "- (2 ^ 63) \<le> x \<Longrightarrow> x < 2 ^ 63 \<Longrightarrow> wrap64 x = x"
  by (simp add: wrap64_def)

lemma seconds_small: "0 < n \<Longrightarrow> n \<le> 9223372036 \<Longrightarrow> seconds n = n * 1000000000"
  unfolding seconds_def by (rule wrap64_id) simp_all

lemma seconds_pos: "0 < n \<Longrightarrow> n \<le> 9223372036 \<Longrightarrow> 0 < seconds n"
  by (simp add: seconds_small)

section \<open>The conversion helpers of common.go\<close>

definition toInt :: "string \<Rightarrow> int" where
  "toInt s = fst (atoi s)"

definition toBool :: "string \<Rightarrow> bool \<Rightarrow> bool" where
  "toBool s d =
     (let l = to_lower s in
      if l \<in> {''true'', ''1'', ''yes'', ''on''} then True
      else if l \<in> {''false'', ''0'', ''no'', ''off''} then False
      else d)"

definition toIntN :: "string \<Rightarrow> int option" where
  "toIntN s = (case atoi s of (i, ok) \<Rightarrow> if ok then Some i else None)"

definition toUInt16 :: "string \<Rightarrow> 16 word \<Rightarrow> 16 word" where
  "toUInt16 s d = (case parse_uint 16 s of None \<Rightarrow> d | Some n \<Rightarrow> of_nat n)"

definition toInt16 :: "string \<Rightarrow> 16 word \<Rightarrow> 16 word" where
  "toInt16 s d = (case parse_int 16 s of (i, ok) \<Rightarrow> if ok then of_int i else d)"

lemma toInt_itoa: "n < 2 ^ 63 \<Longrightarrow> toInt (itoa n) = int n"
  by (simp add: toInt_def atoi_itoa)

lemma toUInt16_unat:
  "unat (toUInt16 s d) = (case parse_uint 16 s of None \<Rightarrow> unat d | Some n \<Rightarrow> n)"
proof (cases "parse_uint 16 s")
  case None
  then show ?thesis by (simp add: toUInt16_def)
next
  case (Some n)
  then have "n < 2 ^ 16" by (rule parse_uint_bound)
  with Some show ?thesis by (simp add: toUInt16_def unat_of_nat)
qed

lemma toUInt16_itoa: "toUInt16 (itoa (unat p)) d = p"
proof -
  have "unat p < 2 ^ 16" using unsigned_less [of p] by simp
  then show ?thesis by (simp add: toUInt16_def parse_uint_itoa)
qed

end
