(* ===== verification/Go_Netip.thy ===== *)
theory Go_Netip
  imports Go_Strconv
begin

text \<open>
  Go's \<open>net/netip\<close> address parser (\<open>ParseAddr\<close>, \<open>ParsePrefix\<close>), \<open>net.ParseIP\<close> and
  \<open>net.SplitHostPort\<close>: what the converter calls to tell IP literals from names. Address
  bytes are natural numbers; \<open>parse_addr_wf\<close> shows that an accepted address has 4 or 16 of
  them, each below 256.
\<close>

datatype addr = Addr4 "nat list" | Addr6 "nat list" string

text \<open>A prefix: the address and its length in bits.\<close>

type_synonym prefix = "addr \<times> nat"

definition addr_bits :: "addr \<Rightarrow> nat" where
  "addr_bits a = (case a of Addr4 _ \<Rightarrow> 32 | Addr6 _ _ \<Rightarrow> 128)"

definition parse_octet :: "string \<Rightarrow> nat option" where
  "parse_octet s =
     (if s \<noteq> [] \<and> list_all is_digit s \<and> (hd s = CHR ''0'' \<longrightarrow> length s = 1) \<and> dec_val s \<le> 255
      then Some (dec_val s) else None)"

fun all_some :: "'a option list \<Rightarrow> 'a list option" where
  "all_some [] = Some []"
| "all_some (x # xs) = (case x of None \<Rightarrow> None | Some y \<Rightarrow> map_option ((#) y) (all_some xs))"

definition parse_ipv4_fields :: "string \<Rightarrow> nat list option" where
  "parse_ipv4_fields s =
     (let ps = split_byte (CHR ''.'') s in
      if length ps = 4 then all_some (map parse_octet ps) else None)"

definition hex_num :: "string \<Rightarrow> nat" where
  "hex_num s = foldl (\<lambda>a c. 16 * a + hex_val c) 0 s"

text \<open>
  The group loop of \<open>parseIPv6\<close>. Its state is the list of bytes stored so far, the position
  of the ellipsis and the rest of the text; one pass of its body either fails, leaves the
  loop (\<open>Inl\<close>) or goes round again (\<open>Inr\<close>).
\<close>

type_synonym v6_state = "nat list \<times> nat option \<times> string"

definition v6_group :: "nat list \<Rightarrow> nat option \<Rightarrow> string \<Rightarrow> (v6_state + v6_state) option" where
  "v6_group acc el s =
     (let ds = takeWhile is_hex s; r = drop (length ds) s; v = hex_num ds;
          acc' = acc @ [v div 256, v mod 256] in
      if ds = [] \<or> length ds > 4 then None
      else if has_prefix r ''.'' then
        (if el = None \<and> length acc \<noteq> 12 \<or> length acc + 4 > 16 then None
         else map_option (\<lambda>f. Inl (acc @ f, el, '''')) (parse_ipv4_fields s))
      else if r = [] then Some (Inl (acc', el, []))
      else if \<not> has_prefix r '':'' \<or> length r = 1 then None
      else if has_prefix r ''::'' then
        (if el \<noteq> None then None
         else if drop 2 r = [] then Some (Inl (acc', Some (length acc'), []))
         else Some (Inr (acc', Some (length acc'), drop 2 r)))
      else Some (Inr (acc', el, drop 1 r)))"

lemma v6_group_shorter: "v6_group acc el s = Some (Inr (a, e, t)) \<Longrightarrow> length t < length s"
  by (cases s) (auto simp: v6_group_def Let_def split: if_splits)

function v6_loop :: "nat list \<Rightarrow> nat option \<Rightarrow> string \<Rightarrow> v6_state option" where
  "v6_loop acc el s =
     (if 16 \<le> length acc then Some (acc, el, s)
      else case v6_group acc el s of
             None \<Rightarrow> None
           | Some (Inl st) \<Rightarrow> Some st
           | Some (Inr (acc', el', t)) \<Rightarrow> v6_loop acc' el' t)"
  by pat_completeness auto
termination
  by (relation "measure (\<lambda>(acc, el, s). length s)") (auto dest: v6_group_shorter)

declare v6_loop.simps [simp del]

definition parse_ipv6 :: "string \<Rightarrow> addr option" where
  "parse_ipv6 inp =
     (let (s0, zone, has_zone) = cut inp ''%'' in
      if has_zone \<and> zone = [] then None
      else
        let lead = has_prefix s0 ''::''; s1 = (if lead then drop 2 s0 else s0) in
        if lead \<and> s1 = [] then Some (Addr6 (replicate 16 0) zone)
        else case v6_loop [] (if lead then Some 0 else None) s1 of
               None \<Rightarrow> None
             | Some (acc, el, rest) \<Rightarrow>
                 if rest \<noteq> [] then None
                 else if length acc < 16 then
                   (case el of
                      None \<Rightarrow> None
                    | Some e \<Rightarrow>
                        Some (Addr6 (take e acc @ replicate (16 - length acc) 0 @ drop e acc) zone))
                 else if el \<noteq> None then None
                 else Some (Addr6 acc zone))"

text \<open>\<open>netip.ParseAddr\<close> dispatches on the first of the three significant bytes.\<close>

definition parse_addr :: "string \<Rightarrow> addr option" where
  "parse_addr s =
     (case dropWhile (\<lambda>c. c \<noteq> CHR ''.'' \<and> c \<noteq> CHR '':'' \<and> c \<noteq> CHR ''%'') s of
        [] \<Rightarrow> None
      | c # _ \<Rightarrow>
          if c = CHR ''.'' then map_option Addr4 (parse_ipv4_fields s)
          else if c = CHR '':'' then parse_ipv6 s
          else None)"

definition parse_prefix :: "string \<Rightarrow> prefix option" where
  "parse_prefix s =
     (case last_index s ''/'' of
        None \<Rightarrow> None
      | Some i \<Rightarrow>
          (case parse_addr (take i s) of
             None \<Rightarrow> None
           | Some a \<Rightarrow>
               let b = drop (Suc i) s in
               if (case a of Addr6 _ z \<Rightarrow> z \<noteq> [] | _ \<Rightarrow> False) then None
               else if length b > 1 \<and> (hd b = CHR ''0'' \<or> \<not> is_digit (hd b)) then None
               else case atoi b of
                      (n, ok) \<Rightarrow>
                        if \<not> ok \<or> n < 0 \<or> n > int (addr_bits a) then None
                        else Some (a, nat n)))"

text \<open>\<open>net.ParseIP(s) != nil\<close>: an address without a zone.\<close>

definition parse_ip_ok :: "string \<Rightarrow> bool" where
  "parse_ip_ok s = (case parse_addr s of
                      None \<Rightarrow> False
                    | Some (Addr4 _) \<Rightarrow> True
                    | Some (Addr6 _ z) \<Rightarrow> z = [])"

text \<open>\<open>net.SplitHostPort\<close>.\<close>

definition split_host_port :: "string \<Rightarrow> (string \<times> string) option" where
  "split_host_port hp =
     (case last_index hp '':'' of
        None \<Rightarrow> None
      | Some i \<Rightarrow>
          if hp \<noteq> [] \<and> hd hp = CHR ''['' then
            (case str_index hp '']'' of
               None \<Rightarrow> None
             | Some e \<Rightarrow>
                 if Suc e \<noteq> i then None
                 else
                   let host = take (e - 1) (drop 1 hp) in
                   if contains (drop 1 hp) ''['' \<or> contains (drop (Suc e) hp) '']'' then None
                   else Some (host, drop (Suc i) hp))
          else
            let host = take i hp in
            if contains host '':'' \<or> contains hp ''['' \<or> contains hp '']'' then None
            else Some (host, drop (Suc i) hp))"

section \<open>Facts\<close>

definition addr_wf :: "addr \<Rightarrow> bool" where
  "addr_wf a = (case a of
      Addr4 bs \<Rightarrow> length bs = 4 \<and> list_all (\<lambda>b. b < 256) bs
    | Addr6 bs _ \<Rightarrow> length bs = 16 \<and> list_all (\<lambda>b. b < 256) bs)"

lemma all_some_length: "all_some xs = Some ys \<Longrightarrow> length ys = length xs"
  by (induction xs arbitrary: ys) (auto split: option.splits)

lemma all_some_set: "all_some xs = Some ys \<Longrightarrow> y \<in> set ys \<Longrightarrow> Some y \<in> set xs"
  by (induction xs arbitrary: ys) (auto split: option.splits)

lemma parse_octet_bound: "parse_octet s = Some n \<Longrightarrow> n < 256"
  by (auto simp: parse_octet_def split: if_splits)

lemma all_some_all:
  "all_some xs = Some ys \<Longrightarrow> (\<And>y. Some y \<in> set xs \<Longrightarrow> P y) \<Longrightarrow> list_all P ys"
  by (auto simp: list_all_iff dest: all_some_set)

lemma parse_ipv4_fields_wf:
  assumes "parse_ipv4_fields s = Some f"
  shows "length f = 4 \<and> list_all (\<lambda>b. b < 256) f"
proof
  from assms have l: "length (split_byte (CHR ''.'') s) = 4"
    and a: "all_some (map parse_octet (split_byte (CHR ''.'') s)) = Some f"
    by (auto simp: parse_ipv4_fields_def Let_def split: if_splits)
  from all_some_length [OF a] l show "length f = 4" by simp
  show "list_all (\<lambda>b. b < 256) f"
    using a by (rule all_some_all) (auto dest: parse_octet_bound [OF sym])
qed

lemma hex_val_bound: "is_hex c \<Longrightarrow> hex_val c < 16"
  by (auto simp: is_hex_def hex_val_def is_digit_def)

lemma hex_num_snoc: "hex_num (s @ [c]) = 16 * hex_num s + hex_val c"
  by (simp add: hex_num_def)

lemma hex_num_bound: "list_all is_hex s \<Longrightarrow> hex_num s < 16 ^ length s"
proof (induction s rule: rev_induct)
  case Nil
  then show ?case by (simp add: hex_num_def)
next
  case (snoc c s)
  then have "hex_num s + 1 \<le> 16 ^ length s" "hex_val c < 16"
    by (simp_all add: hex_val_bound Suc_leI)
  then show ?case by (simp add: hex_num_snoc)
qed

lemma v6_group_bound: "length ds \<le> 4 \<Longrightarrow> list_all is_hex ds \<Longrightarrow> hex_num ds div 256 < 256"
proof -
  assume "length ds \<le> 4" "list_all is_hex ds"
  then have "hex_num ds < 16 ^ length ds" "(16::nat) ^ length ds \<le> 16 ^ 4"
    by (simp add: hex_num_bound, intro power_increasing) simp_all
  then show ?thesis by (simp add: div_less_iff_less_mult)
qed

text \<open>The invariant of the group loop.\<close>

definition v6_ok :: "nat list \<Rightarrow> nat option \<Rightarrow> bool" where
  "v6_ok acc el \<longleftrightarrow> length acc \<le> 16 \<and> even (length acc) \<and> list_all (\<lambda>b. b < 256) acc \<and>
     (case el of None \<Rightarrow> True | Some e \<Rightarrow> e \<le> length acc)"

lemma v6_ok_push:
  "v6_ok acc el \<Longrightarrow> length acc < 16 \<Longrightarrow> length ds \<le> 4 \<Longrightarrow> list_all is_hex ds \<Longrightarrow>
   v6_ok (acc @ [hex_num ds div 256, hex_num ds mod 256]) el"
  by (auto simp: v6_ok_def v6_group_bound split: option.splits elim!: evenE)

lemma v6_ok_here: "v6_ok acc el \<Longrightarrow> v6_ok acc (Some (length acc))"
  by (simp add: v6_ok_def)

lemma takeWhile_hex: "list_all is_hex (takeWhile is_hex s)"
  by (auto simp: list_all_iff dest: set_takeWhileD)

lemma v6_ok_fields:
  "v6_ok acc el \<Longrightarrow> length acc + 4 \<le> 16 \<Longrightarrow> parse_ipv4_fields s = Some f \<Longrightarrow> v6_ok (acc @ f) el"
  by (auto simp: v6_ok_def dest: parse_ipv4_fields_wf split: option.splits)

lemma v6_group_ok:
  assumes "v6_group acc el s = Some st" and ok: "v6_ok acc el" and "length acc < 16"
  shows "case st of Inl (a, e, t) \<Rightarrow> v6_ok a e | Inr (a, e, t) \<Rightarrow> v6_ok a e"
proof -
  let ?ds = "takeWhile is_hex s"
  let ?acc = "acc @ [hex_num ?ds div 256, hex_num ?ds mod 256]"
  have push: "v6_ok ?acc el" if "length ?ds \<le> 4"
    using ok \<open>length acc < 16\<close> that takeWhile_hex by (rule v6_ok_push)
  show ?thesis
    using assms(1) push v6_ok_here [OF push] v6_ok_fields [OF ok]
    by (auto simp: v6_group_def Let_def split: if_splits)
qed

lemma v6_loop_ok:
  "v6_loop acc el s = Some (acc', el', s') \<Longrightarrow> v6_ok acc el \<Longrightarrow> v6_ok acc' el'"
proof (induction acc el s rule: v6_loop.induct)
  case (1 acc el s)
  show ?case
  proof (cases "16 \<le> length acc")
    case True
    with "1.prems" show ?thesis by (simp add: v6_loop.simps [of acc el s])
  next
    case False
    with "1.prems"(1) obtain st where st: "v6_group acc el s = Some st"
      by (auto simp: v6_loop.simps [of acc el s] split: option.splits)
    from v6_group_ok [OF st "1.prems"(2)] False "1.IH" [OF False st] "1.prems"(1)
    show ?thesis
      by (auto simp: v6_loop.simps [of acc el s] st split: sum.splits)
  qed
qed

lemma v6_expand_wf:
  "v6_ok acc (Some e) \<Longrightarrow> length acc < 16 \<Longrightarrow>
   addr_wf (Addr6 (take e acc @ replicate (16 - length acc) 0 @ drop e acc) z)"
  by (auto simp: v6_ok_def addr_wf_def list_all_iff dest: in_set_takeD in_set_dropD)

lemma parse_ipv6_wf: "parse_ipv6 s = Some a \<Longrightarrow> addr_wf a"
proof -
  assume a: "parse_ipv6 s = Some a"
  have start: "v6_ok [] (if l then Some 0 else None)" for l
    by (simp add: v6_ok_def)
  have full: "v6_ok acc None \<Longrightarrow> \<not> length acc < 16 \<Longrightarrow> addr_wf (Addr6 acc z)" for acc z
    by (simp add: v6_ok_def addr_wf_def)
  have zero: "addr_wf (Addr6 (replicate 16 0) z)" for z
    by (simp add: addr_wf_def list_all_iff)
  obtain s0 z hz where c: "cut s ''%'' = (s0, z, hz)" by (cases "cut s ''%''")
  let ?lead = "has_prefix s0 ''::''"
  let ?s1 = "if ?lead then drop 2 s0 else s0"
  show ?thesis
  proof (cases "v6_loop [] (if ?lead then Some 0 else None) ?s1")
    case None
    with a zero show ?thesis
      by (auto simp: parse_ipv6_def c split: if_splits)
  next
    case (Some r)
    obtain acc el rest where r: "r = (acc, el, rest)" by (cases r)
    have "v6_ok acc el" using v6_loop_ok [OF Some [unfolded r] start] .
    with a Some r zero full v6_expand_wf show ?thesis
      by (auto simp: parse_ipv6_def c Let_def
          split: if_splits option.splits)
  qed
qed

lemma parse_addr_wf: "parse_addr s = Some a \<Longrightarrow> addr_wf a"
proof -
  have "addr_wf (Addr4 f)" if "parse_ipv4_fields s = Some f" for f
    using parse_ipv4_fields_wf [OF that] by (simp add: addr_wf_def)
  then show "parse_addr s = Some a \<Longrightarrow> addr_wf a"
    by (auto simp: parse_addr_def dest: parse_ipv6_wf split: list.splits if_splits)
qed

lemma parse_prefix_wf: "parse_prefix s = Some (a, n) \<Longrightarrow> addr_wf a \<and> n \<le> addr_bits a"
  by (auto simp: parse_prefix_def Let_def dest: parse_addr_wf split: option.splits if_splits prod.splits)

end
