(* ===== verification/Go_Url.thy ===== *)
theory Go_Url
  imports Go_Netip
begin

text \<open>
  Go's \<open>net/url\<close>: percent-encoding in its encoding modes, \<open>Parse\<close> with its helpers
  \<open>getScheme\<close>, \<open>parseAuthority\<close> and \<open>parseHost\<close>, the accessors the converter calls
  (\<open>Hostname\<close>, \<open>Port\<close>, \<open>Query\<close>, \<open>EscapedPath\<close>, \<open>String\<close>) and \<open>Values.Encode\<close>. A parsed
  query is the list of its key-value pairs in order of appearance; \<open>Query\<close> drops the pairs
  it cannot decode, as the library does. The limit of 10000 query parameters is left out.
\<close>

section \<open>Percent-encoding\<close>

datatype url_mode =
  EncPath | EncPathSegment | EncHost | EncZone | EncUserPassword | EncQuery | EncFragment

definition is_alnum :: "char \<Rightarrow> bool" where
  "is_alnum c \<longleftrightarrow> is_digit c \<or> is_upper c \<or> is_lower c"

definition should_escape :: "url_mode \<Rightarrow> char \<Rightarrow> bool" where
  "should_escape m c =
     (if is_alnum c then False
      else if m \<in> {EncHost, EncZone} \<and> c \<in> set ''!$&()*+,;=:[]<>'' \<union> {CHR 0x27, CHR 0x22} then False
      else if c \<in> set ''-_.~'' then False
      else if c \<in> set ''$&+,/:;=?@'' \<and> m = EncPath then c = CHR ''?''
      else if c \<in> set ''$&+,/:;=?@'' \<and> m = EncPathSegment then c \<in> set ''/;,?''
      else if c \<in> set ''$&+,/:;=?@'' \<and> m = EncUserPassword then c \<in> set ''@/?:''
      else if c \<in> set ''$&+,/:;=?@'' \<and> m = EncFragment then False
      else if m = EncFragment \<and> c \<in> set ''!()*'' then False
      else True)"

definition hex_digit :: "nat \<Rightarrow> char" where
  "hex_digit n = (if n < 10 then char_of (48 + n) else char_of (55 + n))"

definition percent :: "char \<Rightarrow> string" where
  "percent c = [CHR ''%'', hex_digit (code c div 16), hex_digit (code c mod 16)]"

definition escape_byte :: "url_mode \<Rightarrow> char \<Rightarrow> string" where
  "escape_byte m c =
     (if should_escape m c then (if c = CHR '' '' \<and> m = EncQuery then ''+'' else percent c)
      else [c])"

definition escape :: "url_mode \<Rightarrow> string \<Rightarrow> string" where
  "escape m s = concat (map (escape_byte m) s)"

text \<open>
  \<open>unescape\<close>: \<open>None\<close> for a malformed percent sequence or for a byte or an escape that the
  host and zone modes refuse.
\<close>

fun unescape :: "url_mode \<Rightarrow> string \<Rightarrow> string option" where
  "unescape m [] = Some []"
| "unescape m (c # s) =
     (if c = CHR ''%'' then
        (case s of
           a # b # t \<Rightarrow>
             (let v = char_of (16 * hex_val a + hex_val b); pct25 = (a = CHR ''2'' \<and> b = CHR ''5'') in
              if \<not> (is_hex a \<and> is_hex b) then None
              else if m = EncHost \<and> hex_val a < 8 \<and> \<not> pct25 then None
              else if m = EncZone \<and> \<not> pct25 \<and> v \<noteq> CHR '' '' \<and> should_escape EncHost v then None
              else map_option ((#) v) (unescape m t))
         | _ \<Rightarrow> None)
      else if c = CHR ''+'' \<and> m = EncQuery then map_option ((#) (CHR '' '')) (unescape m s)
      else if m \<in> {EncHost, EncZone} \<and> code c < 128 \<and> should_escape m c then None
      else map_option ((#) c) (unescape m s))"

definition query_unescape :: "string \<Rightarrow> string option" where
  "query_unescape s = unescape EncQuery s"

definition path_unescape :: "string \<Rightarrow> string option" where
  "path_unescape s = unescape EncPathSegment s"

definition query_escape :: "string \<Rightarrow> string" where
  "query_escape s = escape EncQuery s"

lemma hex_digit_facts:
  "n < 16 \<Longrightarrow> is_hex (hex_digit n) \<and> hex_val (hex_digit n) = n"
  by (auto simp: hex_digit_def is_hex_def hex_val_def is_digit_def code_char_of)

lemma percent_decode: "unescape m (percent c @ s) = map_option ((#) c) (unescape m s)"
  if "m \<notin> {EncHost, EncZone}"
proof -
  have "code c div 16 < 16" by (simp add: div_less_iff_less_mult)
  moreover have "code c mod 16 < 16" by simp
  moreover have "16 * (code c div 16) + code c mod 16 = code c" by simp
  ultimately show ?thesis
    using that by (simp add: percent_def Let_def hex_digit_facts code_def)
qed

lemma should_escape_percent: "should_escape m (CHR ''%'')"
  by (simp add: should_escape_def is_alnum_def is_digit_def is_upper_def is_lower_def code_def)

lemma should_escape_plus: "should_escape EncQuery (CHR ''+'')"
  by (simp add: should_escape_def is_alnum_def is_digit_def is_upper_def is_lower_def code_def)

lemma unescape_escape_byte:
  "m \<notin> {EncHost, EncZone} \<Longrightarrow> unescape m (escape_byte m c @ s) = map_option ((#) c) (unescape m s)"
  using should_escape_percent [of m] should_escape_plus
  by (auto simp: escape_byte_def percent_decode)

lemma unescape_escape: "m \<notin> {EncHost, EncZone} \<Longrightarrow> unescape m (escape m s) = Some s"
  by (induction s) (auto simp: escape_def unescape_escape_byte)

interpretation query_codec: codec query_escape query_unescape "\<lambda>_. True"
  by unfold_locales (simp add: query_escape_def query_unescape_def unescape_escape)

interpretation user_codec: codec "escape EncUserPassword" "unescape EncUserPassword" "\<lambda>_. True"
  by unfold_locales (simp add: unescape_escape)

section \<open>Parsing\<close>

record url =
  u_scheme :: string
  u_opaque :: string
  u_user :: "(string \<times> string option) option"
  u_host :: string
  u_path :: string
  u_rawpath :: string
  u_omit_host :: bool
  u_force_query :: bool
  u_rawquery :: string
  u_fragment :: string
  u_rawfragment :: string

definition empty_url :: url where
  "empty_url = \<lparr>u_scheme = '''', u_opaque = '''', u_user = None, u_host = '''', u_path = '''',
     u_rawpath = '''', u_omit_host = False, u_force_query = False, u_rawquery = '''',
     u_fragment = '''', u_rawfragment = ''''\<rparr>"

definition has_ctl_byte :: "string \<Rightarrow> bool" where
  "has_ctl_byte s \<longleftrightarrow> list_ex (\<lambda>c. code c < 32 \<or> code c = 127) s"

text \<open>\<open>getScheme\<close>, with the index of the loop as the length of the text already read.\<close>

fun get_scheme_at :: "string \<Rightarrow> string \<Rightarrow> (string \<times> string) result" where
  "get_scheme_at pre [] = Inr ([], rev pre)"
| "get_scheme_at pre (c # s) =
     (if is_upper c \<or> is_lower c then get_scheme_at (c # pre) s
      else if is_digit c \<or> c \<in> set ''+-.'' then
        (if pre = [] then Inr ([], c # s) else get_scheme_at (c # pre) s)
      else if c = CHR '':'' then
        (if pre = [] then err ''missing protocol scheme'' [] else Inr (rev pre, s))
      else Inr ([], rev pre @ c # s))"

definition get_scheme :: "string \<Rightarrow> (string \<times> string) result" where
  "get_scheme s = get_scheme_at [] s"

definition valid_optional_port :: "string \<Rightarrow> bool" where
  "valid_optional_port p =
     (case p of [] \<Rightarrow> True | c # d \<Rightarrow> c = CHR '':'' \<and> list_all is_digit d)"

definition valid_userinfo :: "string \<Rightarrow> bool" where
  "valid_userinfo s \<longleftrightarrow>
     list_all (\<lambda>c. is_alnum c \<or> c \<in> set ''-._:~!$&()*+,;=%@'' \<union> {CHR 0x27}) s"

definition opt_err :: "string \<Rightarrow> string list \<Rightarrow> 'a option \<Rightarrow> 'a result" where
  "opt_err f a x = (case x of None \<Rightarrow> err f a | Some y \<Rightarrow> Inr y)"

definition parse_bracket_host :: "string \<Rightarrow> string result" where
  "parse_bracket_host host =
     (case last_index host '']'' of
        None \<Rightarrow> err ''missing ']' in host'' []
      | Some close \<Rightarrow>
          let colonPort = drop (Suc close) host; hostname = take (close - 1) (drop 1 host) in
          if \<not> valid_optional_port colonPort then err ''invalid port %q after host'' [colonPort]
          else
            bindE (opt_err ''invalid URL escape'' [hostname]
                    (case str_index hostname ''%25'' of
                       None \<Rightarrow> unescape EncHost hostname
                     | Some z \<Rightarrow> (case (unescape EncHost (take z hostname), unescape EncZone (drop z hostname)) of
                                   (Some h, Some zn) \<Rightarrow> Some (h @ zn)
                                 | _ \<Rightarrow> None)))
              (\<lambda>h. case parse_addr h of
                     None \<Rightarrow> err ''invalid host'' [h]
                   | Some (Addr4 _) \<Rightarrow> err ''invalid IP-literal'' []
                   | Some (Addr6 _ _) \<Rightarrow> Inr (''['' @ h @ '']'' @ colonPort)))"

text \<open>
  \<open>parseHost\<close>. A bracket that is not the first byte of the host is refused, and in a host
  without brackets everything from the first colon on must be a port (Go 1.26).
\<close>

definition parse_host :: "string \<Rightarrow> string result" where
  "parse_host host =
     (case last_index host ''['' of
        Some 0 \<Rightarrow> parse_bracket_host host
      | Some _ \<Rightarrow> err ''invalid IP-literal'' []
      | None \<Rightarrow>
          (case str_index host '':'' of
             Some i \<Rightarrow>
               if \<not> valid_optional_port (drop i host)
               then err ''invalid port %q after host'' [drop i host]
               else opt_err ''invalid host'' [host] (unescape EncHost host)
           | None \<Rightarrow> opt_err ''invalid host'' [host] (unescape EncHost host)))"

definition parse_userinfo :: "string \<Rightarrow> (string \<times> string option) result" where
  "parse_userinfo ui =
     (if \<not> valid_userinfo ui then err ''net/url: invalid userinfo'' []
      else case cut ui '':'' of
             (_, _, False) \<Rightarrow>
               bindE (opt_err ''invalid URL escape'' [ui] (unescape EncUserPassword ui))
                 (\<lambda>u. Inr (u, None))
           | (a, b, True) \<Rightarrow>
               bindE (opt_err ''invalid URL escape'' [a] (unescape EncUserPassword a))
                 (\<lambda>u. bindE (opt_err ''invalid URL escape'' [b] (unescape EncUserPassword b))
                   (\<lambda>p. Inr (u, Some p))))"

definition parse_authority :: "string \<Rightarrow> ((string \<times> string option) option \<times> string) result" where
  "parse_authority a =
     (case last_index a ''@'' of
        None \<Rightarrow> bindE (parse_host a) (\<lambda>h. Inr (None, h))
      | Some i \<Rightarrow>
          bindE (parse_host (drop (Suc i) a)) (\<lambda>h.
          bindE (parse_userinfo (take i a)) (\<lambda>u. Inr (Some u, h))))"

definition set_path :: "string \<Rightarrow> url \<Rightarrow> url result" where
  "set_path p u =
     bindE (opt_err ''invalid URL escape'' [p] (unescape EncPath p)) (\<lambda>path.
       Inr (u\<lparr>u_path := path, u_rawpath := (if p = escape EncPath path then '''' else p)\<rparr>))"

definition set_fragment :: "string \<Rightarrow> url \<Rightarrow> url result" where
  "set_fragment f u =
     bindE (opt_err ''invalid URL escape'' [f] (unescape EncFragment f)) (\<lambda>frag.
       Inr (u\<lparr>u_fragment := frag, u_rawfragment := (if f = escape EncFragment frag then '''' else f)\<rparr>))"

definition split_query :: "string \<Rightarrow> string \<times> bool \<times> string" where
  "split_query rest =
     (if has_suffix rest ''?'' \<and> length (filter (\<lambda>c. c = CHR ''?'') rest) = 1
      then (butlast rest, True, '''')
      else case cut rest ''?'' of (r, q, _) \<Rightarrow> (r, False, q))"

definition parse_hier :: "string \<Rightarrow> url \<Rightarrow> url result" where
  "parse_hier rest u =
     (if has_prefix rest ''//'' \<and> (u_scheme u \<noteq> '''' \<or> \<not> has_prefix rest ''///'') then
        (let a0 = drop 2 rest;
             (auth, path) = (case str_index a0 ''/'' of
                               None \<Rightarrow> (a0, '''') | Some i \<Rightarrow> (take i a0, drop i a0))
         in bindE (parse_authority auth) (\<lambda>(user, host).
              set_path path (u\<lparr>u_user := user, u_host := host\<rparr>)))
      else if u_scheme u \<noteq> '''' \<and> has_prefix rest ''/''
      then set_path rest (u\<lparr>u_omit_host := True\<rparr>)
      else set_path rest u)"

definition parse_no_frag :: "string \<Rightarrow> url result" where
  "parse_no_frag raw =
     (if has_ctl_byte raw then err ''net/url: invalid control character in URL'' []
      else if raw = ''*'' then Inr (empty_url\<lparr>u_path := ''*''\<rparr>)
      else bindE (get_scheme raw) (\<lambda>(sch, rest0).
        let (rest, force, q) = split_query rest0;
            u = empty_url\<lparr>u_scheme := to_lower sch, u_force_query := force, u_rawquery := q\<rparr>
        in if \<not> has_prefix rest ''/'' \<and> u_scheme u \<noteq> '''' then Inr (u\<lparr>u_opaque := rest\<rparr>)
           else if \<not> has_prefix rest ''/'' \<and> contains (fst (cut rest ''/'')) '':''
           then err ''first path segment in URL cannot contain colon'' []
           else parse_hier rest u))"

definition url_Parse :: "string \<Rightarrow> url result" where
  "url_Parse raw =
     (case cut raw ''#'' of
        (u, frag, _) \<Rightarrow>
          bindE (parse_no_frag u) (\<lambda>p. if frag = '''' then Inr p else set_fragment frag p))"

section \<open>Accessors\<close>

definition url_split_host_port :: "string \<Rightarrow> string \<times> string" where
  "url_split_host_port hp =
     (let (host, port) = (case last_index hp '':'' of
                            None \<Rightarrow> (hp, '''')
                          | Some i \<Rightarrow> if valid_optional_port (drop i hp)
                                      then (take i hp, drop (Suc i) hp) else (hp, ''''))
      in if has_prefix host ''['' \<and> has_suffix host '']''
         then (take (length host - 2) (drop 1 host), port) else (host, port))"

definition url_hostname :: "url \<Rightarrow> string" where
  "url_hostname u = fst (url_split_host_port (u_host u))"

definition url_port :: "url \<Rightarrow> string" where
  "url_port u = snd (url_split_host_port (u_host u))"

definition url_username :: "url \<Rightarrow> string" where
  "url_username u = (case u_user u of None \<Rightarrow> '''' | Some (n, _) \<Rightarrow> n)"

definition parse_pair :: "string \<Rightarrow> (string \<times> string) option" where
  "parse_pair p =
     (if contains p '';'' \<or> p = [] then None
      else case cut p ''='' of
             (k, v, _) \<Rightarrow>
               (case (query_unescape k, query_unescape v) of
                  (Some k', Some v') \<Rightarrow> Some (k', v')
                | _ \<Rightarrow> None))"

definition parse_query :: "string \<Rightarrow> (string \<times> string) list" where
  "parse_query q = List.map_filter parse_pair (split_byte (CHR ''&'') q)"

text \<open>\<open>url.Values\<close>: the keys in order of appearance, each with all its values.\<close>

type_synonym url_values = "(string \<times> string list) list"

definition group_values :: "(string \<times> string) list \<Rightarrow> url_values" where
  "group_values ps =
     map (\<lambda>k. (k, map snd (filter (\<lambda>p. fst p = k) ps))) (rev (remdups (rev (map fst ps))))"

definition url_query :: "url \<Rightarrow> url_values" where
  "url_query u = group_values (parse_query (u_rawquery u))"

definition values_has :: "url_values \<Rightarrow> string \<Rightarrow> bool" where
  "values_has q k \<longleftrightarrow> k \<in> set (map fst q)"

definition values_get :: "url_values \<Rightarrow> string \<Rightarrow> string" where
  "values_get q k = (case map_of q k of Some (v # _) \<Rightarrow> v | _ \<Rightarrow> '''')"

definition values_del :: "string \<Rightarrow> url_values \<Rightarrow> url_values" where
  "values_del k q = filter (\<lambda>p. fst p \<noteq> k) q"

fun str_less :: "string \<Rightarrow> string \<Rightarrow> bool" where
  "str_less _ [] = False"
| "str_less [] (_ # _) = True"
| "str_less (a # s) (b # t) = (code a < code b \<or> (a = b \<and> str_less s t))"

fun insert_key :: "string \<Rightarrow> string list \<Rightarrow> string list" where
  "insert_key k [] = [k]"
| "insert_key k (x # xs) = (if str_less x k then x # insert_key k xs else k # x # xs)"

definition values_encode :: "url_values \<Rightarrow> string" where
  "values_encode q =
     join ''&'' (concat (map (\<lambda>k. case map_of q k of
                                     None \<Rightarrow> []
                                   | Some vs \<Rightarrow> map (\<lambda>v. query_escape k @ ''='' @ query_escape v) vs)
       (foldr insert_key (map fst q) [])))"

definition valid_encoded :: "url_mode \<Rightarrow> string \<Rightarrow> bool" where
  "valid_encoded m s \<longleftrightarrow>
     list_all (\<lambda>c. c \<in> set ''!$&()*+,;=:@[]%'' \<union> {CHR 0x27} \<or> \<not> should_escape m c) s"

definition escaped_path :: "url \<Rightarrow> string" where
  "escaped_path u =
     (if u_rawpath u \<noteq> '''' \<and> valid_encoded EncPath (u_rawpath u) \<and>
         unescape EncPath (u_rawpath u) = Some (u_path u) then u_rawpath u
      else if u_path u = ''*'' then ''*''
      else escape EncPath (u_path u))"

definition escaped_fragment :: "url \<Rightarrow> string" where
  "escaped_fragment u =
     (if u_rawfragment u \<noteq> '''' \<and> valid_encoded EncFragment (u_rawfragment u) \<and>
         unescape EncFragment (u_rawfragment u) = Some (u_fragment u) then u_rawfragment u
      else escape EncFragment (u_fragment u))"

definition userinfo_string :: "string \<times> string option \<Rightarrow> string" where
  "userinfo_string ui =
     escape EncUserPassword (fst ui) @
     (case snd ui of None \<Rightarrow> '''' | Some p \<Rightarrow> '':'' @ escape EncUserPassword p)"

definition url_authority_string :: "url \<Rightarrow> string" where
  "url_authority_string u =
     (if u_scheme u \<noteq> '''' \<or> u_host u \<noteq> '''' \<or> u_user u \<noteq> None then
        (if u_omit_host u \<and> u_host u = '''' \<and> u_user u = None then ''''
         else (if u_host u \<noteq> '''' \<or> u_path u \<noteq> '''' \<or> u_user u \<noteq> None then ''//'' else '''') @
              (case u_user u of None \<Rightarrow> '''' | Some ui \<Rightarrow> userinfo_string ui @ ''@'') @
              escape EncHost (u_host u))
      else '''')"

definition url_path_string :: "url \<Rightarrow> string \<Rightarrow> string" where
  "url_path_string u pre =
     (let path0 = escaped_path u;
          omit = u_omit_host u \<and> u_host u = '''' \<and> u_user u = None \<and> has_prefix path0 ''//'';
          path = (if omit then drop 1 path0 else path0);
          buf1 = (if omit then ''%2F'' else '''') @
                 (if path \<noteq> '''' \<and> hd path \<noteq> CHR ''/'' \<and> u_host u \<noteq> '''' then ''/'' else '''');
          dot = (if pre @ buf1 = '''' \<and> contains (fst (cut path ''/'')) '':'' then ''./'' else '''')
      in buf1 @ dot @ path)"

definition url_String :: "url \<Rightarrow> string" where
  "url_String u =
     (let s = (if u_scheme u \<noteq> '''' then u_scheme u @ '':'' else '''');
          body = (if u_opaque u \<noteq> '''' then u_opaque u
                  else let a = url_authority_string u in a @ url_path_string u (s @ a))
      in s @ body @
         (if u_force_query u \<or> u_rawquery u \<noteq> '''' then ''?'' @ u_rawquery u else '''') @
         (if u_fragment u \<noteq> '''' then ''#'' @ escaped_fragment u else ''''))"

section \<open>Facts\<close>

lemma valid_port_digits: "valid_optional_port p \<Longrightarrow> list_all is_digit (drop 1 p)"
  by (auto simp: valid_optional_port_def split: list.splits)

lemma last_index_drop: "last_index s [c] = Some i \<Longrightarrow> i < length s \<and> s ! i = c"
proof (induction s arbitrary: i)
  case Nil
  then show ?case by simp
next
  case (Cons a s)
  then show ?case by (auto split: option.splits if_splits)
qed

text \<open>The port of a parsed URL is a string of digits, possibly empty.\<close>

lemma url_port_digits: "list_all is_digit (url_port u)"
  by (auto simp: url_port_def url_split_host_port_def Let_def
      dest: valid_port_digits split: option.splits if_splits)


end
