(* ===== verification/Go_Base64.thy ===== *)
theory Go_Base64
  imports Go_Strconv
begin

text \<open>
  Go's \<open>encoding/base64\<close> (standard and URL alphabets, padded and raw, the non-strict
  decoder that skips carriage returns and newlines), and on top of it \<open>ray2sing/hb64.go\<close>
  and the decoding helper of \<open>common.go\<close>.
\<close>

section \<open>The library decoder and encoder\<close>

definition std_val :: "char \<Rightarrow> nat option" where
  "std_val c =
     (if is_upper c then Some (code c - 65)
      else if is_lower c then Some (code c - 71)
      else if is_digit c then Some (code c + 4)
      else if c = CHR ''+'' then Some 62 else if c = CHR ''/'' then Some 63 else None)"

definition url_val :: "char \<Rightarrow> nat option" where
  "url_val c =
     (if is_upper c then Some (code c - 65)
      else if is_lower c then Some (code c - 71)
      else if is_digit c then Some (code c + 4)
      else if c = CHR ''-'' then Some 62 else if c = CHR ''_'' then Some 63 else None)"

definition quad1 :: "nat \<Rightarrow> nat \<Rightarrow> string" where
  "quad1 x y = [char_of ((x * 4 + y div 16) mod 256)]"

definition quad2 :: "nat \<Rightarrow> nat \<Rightarrow> nat \<Rightarrow> string" where
  "quad2 x y z = [char_of ((x * 4 + y div 16) mod 256), char_of ((y * 16 + z div 4) mod 256)]"

definition quad3 :: "nat \<Rightarrow> nat \<Rightarrow> nat \<Rightarrow> nat \<Rightarrow> string" where
  "quad3 x y z w =
     [char_of ((x * 4 + y div 16) mod 256), char_of ((y * 16 + z div 4) mod 256),
      char_of ((z * 64 + w) mod 256)]"

text \<open>Decoding of the body without line breaks; \<open>pad\<close> tells the padded encodings apart.\<close>

fun dec_quads :: "(char \<Rightarrow> nat option) \<Rightarrow> bool \<Rightarrow> string \<Rightarrow> string option" where
  "dec_quads v pad [] = Some []"
| "dec_quads v pad [a] = None"
| "dec_quads v pad [a, b] =
     (if pad then None
      else case (v a, v b) of (Some x, Some y) \<Rightarrow> Some (quad1 x y) | _ \<Rightarrow> None)"
| "dec_quads v pad [a, b, c] =
     (if pad then None
      else case (v a, v b, v c) of (Some x, Some y, Some z) \<Rightarrow> Some (quad2 x y z) | _ \<Rightarrow> None)"
| "dec_quads v pad (a # b # c # d # s) =
     (case (v a, v b) of
        (Some x, Some y) \<Rightarrow>
          (if pad \<and> c = CHR ''='' then
             (if d = CHR ''='' \<and> s = [] then Some (quad1 x y) else None)
           else case v c of
             None \<Rightarrow> None
           | Some z \<Rightarrow>
               (if pad \<and> d = CHR ''='' then
                  (if s = [] then Some (quad2 x y z) else None)
                else case v d of
                  None \<Rightarrow> None
                | Some w \<Rightarrow> map_option (\<lambda>r. quad3 x y z w @ r) (dec_quads v pad s)))
      | _ \<Rightarrow> None)"

definition no_newlines :: "string \<Rightarrow> string" where
  "no_newlines s = filter (\<lambda>c. code c \<noteq> 10 \<and> code c \<noteq> 13) s"

definition std_decode :: "string \<Rightarrow> string option" where
  "std_decode s = dec_quads std_val True (no_newlines s)"

definition url_decode :: "string \<Rightarrow> string option" where
  "url_decode s = dec_quads url_val True (no_newlines s)"

definition raw_std_decode :: "string \<Rightarrow> string option" where
  "raw_std_decode s = dec_quads std_val False (no_newlines s)"

fun enc_bytes :: "(nat \<Rightarrow> char) \<Rightarrow> string \<Rightarrow> string" where
  "enc_bytes al [] = []"
| "enc_bytes al [a] = [al (code a div 4), al (code a mod 4 * 16), CHR ''='', CHR ''='']"
| "enc_bytes al [a, b] =
     [al (code a div 4), al (code a mod 4 * 16 + code b div 16), al (code b mod 16 * 4), CHR ''='']"
| "enc_bytes al (a # b # c # s) =
     al (code a div 4) # al (code a mod 4 * 16 + code b div 16) #
     al (code b mod 16 * 4 + code c div 64) # al (code c mod 64) # enc_bytes al s"

definition base64_char :: "char \<Rightarrow> char \<Rightarrow> nat \<Rightarrow> char" where
  "base64_char c62 c63 n =
     (if n < 26 then char_of (n + 65)
      else if n < 52 then char_of (n + 71)
      else if n < 62 then char_of (n - 4)
      else if n = 62 then c62 else c63)"

definition std_char :: "nat \<Rightarrow> char" where
  "std_char n = base64_char (CHR ''+'') (CHR ''/'') n"

definition url_char :: "nat \<Rightarrow> char" where
  "url_char n = base64_char (CHR ''-'') (CHR ''_'') n"

definition std_encode :: "string \<Rightarrow> string" where
  "std_encode s = enc_bytes std_char s"

definition url_encode :: "string \<Rightarrow> string" where
  "url_encode s = enc_bytes url_char s"

section \<open>Round trip\<close>

text \<open>Induction along the groups of three bytes.\<close>

lemma induct_list3 [case_names Nil One Two More]:
  "P [] \<Longrightarrow> (\<And>a. P [a]) \<Longrightarrow> (\<And>a b. P [a, b]) \<Longrightarrow>
   (\<And>a b c s. P s \<Longrightarrow> P (a # b # c # s)) \<Longrightarrow> P s"
  by (induction_schema, pat_completeness, lexicographic_order)

lemma sixty_three: "n < 64 \<Longrightarrow> \<not> n < 62 \<Longrightarrow> n \<noteq> 62 \<Longrightarrow> n = (63::nat)"
  by linarith

lemma code_base64_char:
  "n < 26 \<Longrightarrow> code (base64_char p q n) = n + 65"
  "\<not> n < 26 \<Longrightarrow> n < 52 \<Longrightarrow> code (base64_char p q n) = n + 71"
  "\<not> n < 52 \<Longrightarrow> n < 62 \<Longrightarrow> code (base64_char p q n) = n - 4"
  "base64_char p q 62 = p" "base64_char p q 63 = q"
  by (simp_all add: base64_char_def code_char_of)

lemma char_eq_code: "c = d \<longleftrightarrow> code c = code d"
  by (simp add: code_inj)

lemma base64_cases:
  assumes "n < (64::nat)"
  obtains "n < 26" | "\<not> n < 26" "n < 52" | "\<not> n < 52" "n < 62" | "n = 62" | "n = 63"
  using assms by linarith

lemma code_numerals [simp]:
  "code (CHR ''='') = 61" "code (CHR ''+'') = 43" "code (CHR ''/'') = 47"
  "code (CHR ''-'') = 45" "code (CHR ''_'') = 95"
  by (simp_all add: code_def)

lemma std_val_char: "n < 64 \<Longrightarrow> std_val (std_char n) = Some n"
  by (erule base64_cases)
    (simp_all add: std_val_def std_char_def is_upper_def is_lower_def is_digit_def
      code_base64_char char_eq_code, linarith)

lemma url_val_char: "n < 64 \<Longrightarrow> url_val (url_char n) = Some n"
  by (erule base64_cases)
    (simp_all add: url_val_def url_char_def is_upper_def is_lower_def is_digit_def
      code_base64_char char_eq_code, linarith)

lemma std_char_plain: "n < 64 \<Longrightarrow> std_char n \<noteq> CHR ''='' \<and> graphic (std_char n)"
  by (erule base64_cases)
    (simp_all add: std_char_def graphic_def code_base64_char char_eq_code, linarith)

lemma url_char_plain: "n < 64 \<Longrightarrow> url_char n \<noteq> CHR ''='' \<and> graphic (url_char n)"
  by (erule base64_cases)
    (simp_all add: url_char_def graphic_def code_base64_char char_eq_code, linarith)

text \<open>The bit arithmetic of one group of three bytes.\<close>

lemma div_add_small: "r < (k::nat) \<Longrightarrow> (q * k + r) div k = q"
  by simp

lemma six_a: "a < 256 \<Longrightarrow> a div 4 < (64::nat)"
  by (simp add: div_less_iff_less_mult)

lemma six_b: "b < 256 \<Longrightarrow> a mod 4 * 16 + b div 16 < (64::nat)"
proof -
  assume "b < 256"
  then have "b div 16 < 16" by (simp add: div_less_iff_less_mult)
  moreover have "a mod 4 < 4" by simp
  ultimately show ?thesis by linarith
qed

lemma six_c: "c < 256 \<Longrightarrow> b mod 16 * 4 + c div 64 < (64::nat)"
proof -
  assume "c < 256"
  then have "c div 64 < 4" by (simp add: div_less_iff_less_mult)
  moreover have "b mod 16 < 16" by simp
  ultimately show ?thesis by linarith
qed

lemma join_a: "a < 256 \<Longrightarrow> b < 256 \<Longrightarrow> (a div 4 * 4 + (a mod 4 * 16 + b div 16) div 16) mod 256 = (a::nat)"
proof -
  assume a: "a < 256" and b: "b < 256"
  from b have "b div 16 < 16" by (simp add: div_less_iff_less_mult)
  then have "(a mod 4 * 16 + b div 16) div 16 = a mod 4" by (rule div_add_small)
  with a show ?thesis by (metis div_mult_mod_eq mod_less)
qed

lemma join_b: "b < 256 \<Longrightarrow> c < 256 \<Longrightarrow>
    ((a mod 4 * 16 + b div 16) * 16 + (b mod 16 * 4 + c div 64) div 4) mod 256 = (b::nat)"
proof -
  assume b: "b < 256" and c: "c < 256"
  from c have "c div 64 < 4" by (simp add: div_less_iff_less_mult)
  then have "(b mod 16 * 4 + c div 64) div 4 = b mod 16" by (rule div_add_small)
  moreover have "b div 16 * 16 + b mod 16 = b" by simp
  ultimately have "(a mod 4 * 16 + b div 16) * 16 + (b mod 16 * 4 + c div 64) div 4 = a mod 4 * 256 + b"
    by (simp add: algebra_simps)
  with b show ?thesis by simp
qed

lemma join_c: "c < 256 \<Longrightarrow> ((b mod 16 * 4 + c div 64) * 64 + c mod 64) mod 256 = (c::nat)"
proof -
  assume c: "c < 256"
  have "c div 64 * 64 + c mod 64 = c" by simp
  then have "(b mod 16 * 4 + c div 64) * 64 + c mod 64 = b mod 16 * 256 + c"
    by (simp add: algebra_simps)
  with c show ?thesis by simp
qed

lemma char_of_code [simp]: "char_of (code a) = a"
  by (simp add: code_def)

lemma code_high [simp]: "code b div 16 div 16 = 0" "code b div 64 div 4 = 0"
  by (simp_all flip: div_mult2_eq)

text \<open>What an alphabet owes the decoder: the two tables are inverse and avoid padding.\<close>

locale base64_alphabet =
  fixes val :: "char \<Rightarrow> nat option" and al :: "nat \<Rightarrow> char"
  assumes val_al: "n < 64 \<Longrightarrow> val (al n) = Some n"
    and al_no_pad: "n < 64 \<Longrightarrow> al n \<noteq> CHR ''=''"
    and al_graphic: "n < 64 \<Longrightarrow> graphic (al n)"
begin

lemmas byte_six = six_a [OF code_bound] six_b [OF code_bound] six_c [OF code_bound]

lemmas byte_join = join_a [OF code_bound code_bound] join_b [OF code_bound code_bound]
  join_c [OF code_bound] join_a [of _ 0, OF code_bound, simplified]
  join_b [of _ 0, OF code_bound, simplified]

lemma byte_al [simp]:
  "al (code a div 4) \<noteq> CHR ''=''" "al (code a mod 4 * 16) \<noteq> CHR ''=''"
  "al (code a mod 4 * 16 + code b div 16) \<noteq> CHR ''=''"
  "al (code b mod 16 * 4) \<noteq> CHR ''=''"
  "al (code b mod 16 * 4 + code c div 64) \<noteq> CHR ''=''" "al (code c mod 64) \<noteq> CHR ''=''"
  by (rule al_no_pad, simp add: byte_six)+

lemma dec_enc_bytes: "dec_quads val True (enc_bytes al s) = Some s"
proof (induction s rule: induct_list3)
  case Nil
  then show ?case by simp
next
  case (One a)
  then show ?case
    by (simp add: val_al byte_six byte_join quad1_def al_no_pad)
next
  case (Two a b)
  then show ?case
    by (simp add: val_al byte_six byte_join quad2_def al_no_pad)
next
  case (More a b c s)
  then show ?case
    by (simp add: val_al byte_six byte_join quad3_def al_no_pad)
qed

lemma enc_graphic: "list_all graphic (enc_bytes al s)"
  by (induction s rule: induct_list3)
    (simp_all add: al_graphic byte_six, simp_all add: graphic_def code_def)

end

interpretation std64: base64_alphabet std_val std_char
  by unfold_locales (simp_all add: std_val_char std_char_plain)

interpretation url64: base64_alphabet url_val url_char
  by unfold_locales (simp_all add: url_val_char url_char_plain)

lemma no_newlines_graphic: "list_all graphic s \<Longrightarrow> no_newlines s = s"
  by (auto simp: no_newlines_def filter_id_conv list_all_iff graphic_def)

lemma std_decode_encode: "std_decode (std_encode s) = Some s"
  by (simp add: std_decode_def std_encode_def no_newlines_graphic std64.enc_graphic
      std64.dec_enc_bytes)

lemma url_decode_encode: "url_decode (url_encode s) = Some s"
  by (simp add: url_decode_def url_encode_def no_newlines_graphic url64.enc_graphic
      url64.dec_enc_bytes)

interpretation std_codec: codec std_encode std_decode "\<lambda>_. True"
  by unfold_locales (simp add: std_decode_encode)

interpretation url_codec: codec url_encode url_decode "\<lambda>_. True"
  by unfold_locales (simp add: url_decode_encode)

text \<open>The two alphabets agree where both decode.\<close>

lemma val_agree: "std_val c = Some x \<Longrightarrow> url_val c = Some y \<Longrightarrow> x = y"
  by (auto simp: std_val_def url_val_def split: if_splits)

text \<open>The value of one full group, and its decoding step.\<close>

lemma dec_quads_Some:
  "dec_quads v pad (a # b # c # d # s) = Some t \<Longrightarrow>
   \<exists>x y. v a = Some x \<and> v b = Some y \<and>
     (pad \<and> c = CHR ''='' \<and> d = CHR ''='' \<and> s = [] \<and> t = quad1 x y \<or>
      \<not> (pad \<and> c = CHR ''='') \<and> (\<exists>z. v c = Some z \<and>
        (pad \<and> d = CHR ''='' \<and> s = [] \<and> t = quad2 x y z \<or>
         \<not> (pad \<and> d = CHR ''='') \<and>
         (\<exists>w r. v d = Some w \<and> dec_quads v pad s = Some r \<and> t = quad3 x y z w @ r))))"
  by (cases "v a"; cases "v b"; cases "v c"; cases "v d"; simp split: if_splits) auto

lemma dec_quads_mono:
  "(\<And>c x. v c = Some x \<Longrightarrow> w c = Some x) \<Longrightarrow> dec_quads v p s = Some t \<Longrightarrow> dec_quads w p s = Some t"
proof (induction v p s arbitrary: t rule: dec_quads.induct)
  case (5 v pad a b c d s)
  obtain x y where xy: "v a = Some x" "v b = Some y"
    using dec_quads_Some [OF "5.prems"(2)] by blast
  have IH: "\<And>z u r. v c = Some z \<Longrightarrow> v d = Some u \<Longrightarrow> \<not> (pad \<and> c = CHR ''='') \<Longrightarrow>
      \<not> (pad \<and> d = CHR ''='') \<Longrightarrow> dec_quads v pad s = Some r \<Longrightarrow> dec_quads w pad s = Some r"
    using "5.IH" [OF _ xy(1) xy(2)] "5.prems"(1) by blast
  show ?case
    using dec_quads_Some [OF "5.prems"(2)] xy IH "5.prems"(1)
    by (elim exE conjE disjE) auto
qed (auto split: option.splits if_splits)

lemma dec_quads_agree:
  assumes agree: "\<And>c x y. v c = Some x \<Longrightarrow> w c = Some y \<Longrightarrow> x = y"
    and v: "dec_quads v p s = Some t" and w: "dec_quads w p s = Some u"
  shows "t = u"
proof -
  define m where "m c = (case v c of None \<Rightarrow> w c | Some x \<Rightarrow> Some x)" for c
  have "dec_quads m p s = Some t"
    by (rule dec_quads_mono [OF _ v]) (simp add: m_def)
  moreover have "dec_quads m p s = Some u"
    by (rule dec_quads_mono [OF _ w]) (auto simp: m_def dest: agree split: option.splits)
  ultimately show ?thesis by simp
qed

end
