(* ===== verification/Base64_Input.thy ===== *)
theory Base64_Input
  imports Go_Base64
begin

text \<open>
  \<open>ray2sing/hb64.go\<close>: the fault-tolerant base64 reader that every subscription body and
  every base64 credential goes through, and \<open>decodeBase64IfNeeded\<close> of \<open>common.go\<close>. The
  round-trip facts at the end say which texts the reader accepts: either alphabet, with or
  without padding, wrapped at any column with blanks and line breaks.
\<close>

section \<open>Definitions\<close>

text \<open>
  \<open>looksLikeBase64\<close>: the loop returns at the first foreign rune, so when it ends every
  byte was counted in \<open>valid\<close>.
\<close>

definition base64ish :: "char \<Rightarrow> bool" where
  "base64ish c \<longleftrightarrow> is_upper c \<or> is_lower c \<or> is_digit c \<or>
     c = CHR ''+'' \<or> c = CHR ''/'' \<or> c = CHR ''-'' \<or> c = CHR ''_'' \<or> c = CHR ''=''"

fun count_base64ish :: "nat \<Rightarrow> string \<Rightarrow> nat option" where
  "count_base64ish n [] = Some n"
| "count_base64ish n (c # s) = (if base64ish c then count_base64ish (Suc n) s else None)"

definition looksLikeBase64 :: "string \<Rightarrow> bool" where
  "looksLikeBase64 s =
     (if length s < 4 then False
      else case count_base64ish 0 s of
             None \<Rightarrow> False
           | Some valid \<Rightarrow> int valid \<ge> int (length s) - 1)"

definition bom :: string where
  "bom = [CHR 0xEF, CHR 0xBB, CHR 0xBF]"

definition mime_blank :: "char \<Rightarrow> bool" where
  "mime_blank c \<longleftrightarrow> code c = 32 \<or> code c = 9 \<or> code c = 13 \<or> code c = 10"

definition pad4 :: "string \<Rightarrow> string" where
  "pad4 raw = (let m = length raw mod 4 in
               if m \<noteq> 0 then raw @ replicate (4 - m) (CHR ''='') else raw)"

definition decodeBase64FaultTolerant :: "string \<Rightarrow> string result" where
  "decodeBase64FaultTolerant raw0 =
     (let raw1 = trim_space (trim_prefix raw0 bom);
          raw2 = filter (\<lambda>c. \<not> mime_blank c) raw1;
          raw = pad4 raw2
      in case std_decode raw of
           Some d \<Rightarrow> Inr d
         | None \<Rightarrow> (case url_decode raw of
                      Some d \<Rightarrow> Inr d
                    | None \<Rightarrow> err ''illegal base64 data'' [raw]))"

text \<open>The Go function returns the input text beside a non-nil error.\<close>

definition decodeBase64IfNeeded :: "string \<Rightarrow> string \<times> go_error option" where
  "decodeBase64IfNeeded b64 =
     (case decodeBase64FaultTolerant b64 of
        Inl e \<Rightarrow> (b64, Some e)
      | Inr d \<Rightarrow> (d, None))"

section \<open>The reader on encoded texts\<close>

lemma looksLikeBase64_iff:
  "looksLikeBase64 s \<longleftrightarrow> 4 \<le> length s \<and> list_all base64ish s"
proof -
  have "count_base64ish n s = (if list_all base64ish s then Some (n + length s) else None)" for n
    by (induction s arbitrary: n) auto
  then show ?thesis by (auto simp: looksLikeBase64_def)
qed

definition unpad :: "string \<Rightarrow> string" where
  "unpad s = filter (\<lambda>c. c \<noteq> CHR ''='') s"

context base64_alphabet
begin

lemma enc_shape:
  "\<exists>b k. enc_bytes al s = b @ replicate k (CHR ''='') \<and> CHR ''='' \<notin> set b \<and> k < 3 \<and>
     (length b + k) mod 4 = 0"
proof (induction s rule: induct_list3)
  case Nil
  then show ?case by (intro exI [of _ "[]"] exI [of _ 0]) simp
next
  case (One a)
  show ?case
    by (rule exI [of _ "[al (code a div 4), al (code a mod 4 * 16)]"],
        rule exI [of _ "Suc (Suc 0)"]) (simp add: byte_al [symmetric])
next
  case (Two a b)
  show ?case
    by (rule exI [of _ "[al (code a div 4), al (code a mod 4 * 16 + code b div 16),
          al (code b mod 16 * 4)]"], rule exI [of _ "Suc 0"]) (simp add: byte_al [symmetric])
next
  case (More a b c s)
  then obtain t k where t: "enc_bytes al s = t @ replicate k (CHR ''='')" "CHR ''='' \<notin> set t"
    "k < 3" "(length t + k) mod 4 = 0" by (elim exE conjE)
  define h where "h = [al (code a div 4), al (code a mod 4 * 16 + code b div 16),
    al (code b mod 16 * 4 + code c div 64), al (code c mod 64)]"
  have "enc_bytes al (a # b # c # s) = (h @ t) @ replicate k (CHR ''='')"
    using t by (simp add: h_def)
  moreover have "CHR ''='' \<notin> set (h @ t)"
    using t by (simp add: h_def byte_al [symmetric])
  moreover have "(length (h @ t) + k) mod 4 = 0"
    using t by (simp add: h_def)
  ultimately show ?case using t(3) by (intro exI conjI)
qed

lemma pad4_enc: "pad4 (enc_bytes al s) = enc_bytes al s"
proof -
  obtain b k where "enc_bytes al s = b @ replicate k (CHR ''='')" "(length b + k) mod 4 = 0"
    using enc_shape [of s] by (elim exE conjE)
  then show ?thesis by (simp add: pad4_def Let_def)
qed

lemma pad4_unpad: "pad4 (unpad (enc_bytes al s)) = enc_bytes al s"
proof -
  obtain b k where b: "enc_bytes al s = b @ replicate k (CHR ''='')" "CHR ''='' \<notin> set b"
    "k < 3" "(length b + k) mod 4 = 0"
    using enc_shape [of s] by (elim exE conjE)
  from b(2) have "filter (\<lambda>c. c \<noteq> CHR ''='') b = b" by (intro filter_True) auto
  then have u: "unpad (enc_bytes al s) = b" by (simp add: b(1) unpad_def)
  show ?thesis
  proof (cases "length b mod 4 = 0")
    case True
    with b(3,4) have "k = 0" by presburger
    with True u b(1) show ?thesis by (simp add: pad4_def)
  next
    case False
    with b(3,4) have "k = 4 - length b mod 4" by presburger
    with False u b(1) show ?thesis by (simp add: pad4_def Let_def)
  qed
qed

end

text \<open>White space of a text in ASCII.\<close>

lemma lead_space_ascii: "code a < 128 \<Longrightarrow> lead_space (a # s) = (if ascii_space a then 1 else 0)"
  by (cases s; cases "tl s") (auto simp: space3_def)

lemma trail_space_ascii:
  "code a < 128 \<Longrightarrow> trail_space (a # s) = (if ascii_space a then 1 else 0)"
  by (cases s; cases "tl s") (auto simp: space3_def)

lemma strip_by_ascii:
  assumes "\<And>a t. code a < 128 \<Longrightarrow> f (a # t) = (if ascii_space a then 1 else 0)"
  shows "list_all (\<lambda>c. code c < 128) s \<Longrightarrow> strip_by f s = dropWhile ascii_space s"
proof (induction s)
  case Nil
  then show ?case by simp
next
  case (Cons a s)
  then show ?case
    by (subst strip_by.simps) (simp add: assms)
qed

lemma trim_space_ascii:
  assumes "list_all (\<lambda>c. code c < 128) s"
  shows "trim_space s = rev (dropWhile ascii_space (rev (dropWhile ascii_space s)))"
proof -
  from assms have "list_all (\<lambda>c. code c < 128) (rev (dropWhile ascii_space s))"
    by (auto simp: list_all_iff dest: set_dropWhileD)
  then show ?thesis
    using assms
    by (simp add: trim_space_def trim_left_space_def trim_right_space_def
        strip_by_ascii [OF lead_space_ascii] strip_by_ascii [OF trail_space_ascii])
qed

lemma filter_dropWhile: "(\<And>c. Q c \<Longrightarrow> \<not> P c) \<Longrightarrow> filter P (dropWhile Q s) = filter P s"
  by (induction s) auto

lemma filter_trim_space:
  assumes "list_all (\<lambda>c. code c < 128) s" and "\<And>c. ascii_space c \<Longrightarrow> \<not> P c"
  shows "filter P (trim_space s) = filter P s"
  using assms by (simp add: trim_space_ascii rev_filter [symmetric] filter_dropWhile)

lemma graphic_not_blank: "graphic c \<Longrightarrow> \<not> mime_blank c"
  by (auto simp: graphic_def mime_blank_def)

text \<open>
  The reader sees only what is left when blanks are dropped, for a text made of printable
  ASCII and MIME blanks.
\<close>

lemma decode_ignores_blanks:
  assumes "list_all (\<lambda>c. graphic c \<or> mime_blank c) raw"
  shows "filter (\<lambda>c. \<not> mime_blank c) (trim_space (trim_prefix raw bom)) =
         filter (\<lambda>c. \<not> mime_blank c) raw"
proof -
  from assms have ascii: "list_all (\<lambda>c. code c < 128) raw"
    by (auto simp: list_all_iff graphic_def mime_blank_def)
  then have "\<not> has_prefix raw bom"
    by (cases raw) (auto simp: bom_def has_prefix_def code_def)
  then have tp: "trim_prefix raw bom = raw" by (simp add: trim_prefix_def)
  have eq: "filter (\<lambda>c. \<not> mime_blank c) s = filter (\<lambda>c. graphic c) s"
    if "set s \<subseteq> set raw" for s
    using that assms graphic_not_blank by (intro filter_cong) (auto simp: list_all_iff)
  have "filter graphic (trim_space raw) = filter graphic raw"
    using ascii by (rule filter_trim_space) (auto simp: ascii_space_def graphic_def)
  with eq [of raw] eq [of "trim_space raw"] set_trim_space [of raw] tp show ?thesis by simp
qed

definition base64_forms :: "string \<Rightarrow> string set" where
  "base64_forms s = {std_encode s, unpad (std_encode s), url_encode s, unpad (url_encode s)}"

lemma forms_graphic: "b \<in> base64_forms s \<Longrightarrow> list_all graphic b"
  using std64.enc_graphic [of s] url64.enc_graphic [of s]
  by (auto simp: base64_forms_def std_encode_def url_encode_def unpad_def list_all_iff)

lemma forms_pad4:
  "b \<in> base64_forms s \<Longrightarrow> pad4 b = std_encode s \<or> pad4 b = url_encode s"
  by (auto simp: base64_forms_def std_encode_def url_encode_def
      std64.pad4_enc std64.pad4_unpad url64.pad4_enc url64.pad4_unpad)

lemma two_decoders:
  "b = std_encode s \<or> b = url_encode s \<Longrightarrow>
   std_decode b = Some s \<or> (std_decode b = None \<and> url_decode b = Some s)"
proof (elim disjE)
  assume "b = url_encode s"
  then have u: "url_decode b = Some s" by (simp add: url_decode_encode)
  show ?thesis
  proof (cases "std_decode b")
    case (Some t)
    with u have "t = s"
      using dec_quads_agree [of std_val url_val, OF val_agree]
      by (auto simp: std_decode_def url_decode_def)
    with Some show ?thesis by simp
  qed (simp add: u)
qed (simp add: std_decode_encode)

lemma decode_blank_form:
  assumes "list_all (\<lambda>c. graphic c \<or> mime_blank c) raw"
    and "filter (\<lambda>c. \<not> mime_blank c) raw \<in> base64_forms s"
  shows "decodeBase64FaultTolerant raw = Inr s"
  using forms_pad4 [OF assms(2), THEN two_decoders] decode_ignores_blanks [OF assms(1)]
  by (auto simp: decodeBase64FaultTolerant_def Let_def)

text \<open>A text wrapped into lines by separators of MIME blanks.\<close>

lemma filter_join_blank:
  "list_all mime_blank sep \<Longrightarrow>
   filter (\<lambda>c. \<not> mime_blank c) (join sep ls) = filter (\<lambda>c. \<not> mime_blank c) (concat ls)"
  by (induction sep ls rule: join.induct) (auto simp: list_all_iff)

lemma set_join: "set (join sep ls) \<subseteq> set sep \<union> set (concat ls)"
  by (induction sep ls rule: join.induct) auto

lemma decode_wrapped:
  assumes form: "concat ls \<in> base64_forms s" and sep: "list_all mime_blank sep"
  shows "decodeBase64FaultTolerant (join sep ls) = Inr s"
proof (rule decode_blank_form)
  from forms_graphic [OF form] sep set_join [of sep ls]
  show "list_all (\<lambda>c. graphic c \<or> mime_blank c) (join sep ls)"
    by (auto simp: list_all_iff)
  from forms_graphic [OF form] have "filter (\<lambda>c. \<not> mime_blank c) (concat ls) = concat ls"
    by (intro filter_True) (auto simp: list_all_iff dest: graphic_not_blank)
  with form filter_join_blank [OF sep, of ls]
  show "filter (\<lambda>c. \<not> mime_blank c) (join sep ls) \<in> base64_forms s" by simp
qed

lemma decode_form: "b \<in> base64_forms s \<Longrightarrow> decodeBase64FaultTolerant b = Inr s"
  using decode_wrapped [of "[b]" s "[]"] by simp

lemma base64ish_chars: "n < 64 \<Longrightarrow> base64ish (std_char n) \<and> base64ish (url_char n)"
  by (erule base64_cases;
      auto simp: base64ish_def std_char_def url_char_def base64_char_def is_upper_def is_lower_def
        is_digit_def code_char_of)

lemma enc_base64ish:
  "list_all base64ish (std_encode s)" "list_all base64ish (url_encode s)"
  unfolding std_encode_def url_encode_def
  by (induction s rule: induct_list3) (simp_all add: base64ish_chars std64.byte_six, simp_all add: base64ish_def)

lemma forms_base64ish: "b \<in> base64_forms s \<Longrightarrow> list_all base64ish b"
  using enc_base64ish [of s] by (auto simp: base64_forms_def unpad_def list_all_iff)

lemma decode_Nil [simp]: "decodeBase64FaultTolerant [] = Inr []"
  by code_simp

lemma decode_needed_form: "b \<in> base64_forms s \<Longrightarrow> decodeBase64IfNeeded b = (s, None)"
  by (simp add: decodeBase64IfNeeded_def decode_form)

text \<open>The standard form of a text in the URL alphabet.\<close>

definition to_std_byte :: "char \<Rightarrow> char" where
  "to_std_byte c = (if c = CHR ''-'' then CHR ''+'' else if c = CHR ''_'' then CHR ''/'' else c)"

lemma replace_to_std:
  "replace_byte (CHR ''_'') (CHR ''/'') (replace_byte (CHR ''-'') (CHR ''+'') s) = map to_std_byte s"
  by (auto simp: replace_byte_def to_std_byte_def)

lemma to_std_chars: "n < 64 \<Longrightarrow> to_std_byte (url_char n) = std_char n"
  "n < 64 \<Longrightarrow> to_std_byte (std_char n) = std_char n"
  by (erule base64_cases;
      auto simp: to_std_byte_def std_char_def url_char_def code_base64_char char_eq_code
        base64_char_def code_char_of)+

lemma to_std_encode: "map to_std_byte (url_encode s) = std_encode s" "map to_std_byte (std_encode s) = std_encode s"
proof -
  have p: "to_std_byte (CHR ''='') = CHR ''=''" by (simp add: to_std_byte_def)
  have "map to_std_byte (enc_bytes url_char s) = enc_bytes std_char s"
    by (induction s rule: induct_list3) (simp_all add: to_std_chars std64.byte_six p)
  then show "map to_std_byte (url_encode s) = std_encode s" by (simp add: std_encode_def url_encode_def)
  have "map to_std_byte (enc_bytes std_char s) = enc_bytes std_char s"
    by (induction s rule: induct_list3) (simp_all add: to_std_chars std64.byte_six p)
  then show "map to_std_byte (std_encode s) = std_encode s" by (simp add: std_encode_def)
qed

lemma unpad_to_std: "map to_std_byte (unpad s) = unpad (map to_std_byte s)"
  by (induction s) (auto simp: unpad_def to_std_byte_def)

lemma pad4_to_std:
  assumes "b \<in> base64_forms s"
  shows "pad4 (map to_std_byte b) = std_encode s"
proof -
  have "map to_std_byte b = std_encode s \<or> map to_std_byte b = unpad (std_encode s)"
    using assms by (auto simp: base64_forms_def to_std_encode unpad_to_std)
  then show ?thesis
    using std64.pad4_enc [of s] std64.pad4_unpad [of s] by (auto simp: std_encode_def)
qed

text \<open>A form that the standard decoder accepts is the standard form itself.\<close>

lemma dec_quads_shape:
  "dec_quads v True s = Some t \<Longrightarrow> length s mod 4 = 0 \<and> (\<forall>c \<in> set s. c = CHR ''='' \<or> v c \<noteq> None)"
proof (induction v True s arbitrary: t rule: dec_quads.induct)
  case (5 v a b c d s)
  obtain x y where xy: "v a = Some x" "v b = Some y"
    using dec_quads_Some [OF "5.prems"] by blast
  have IH: "length s mod 4 = 0 \<and> (\<forall>c \<in> set s. c = CHR ''='' \<or> v c \<noteq> None)"
    if "v c = Some z" "v d = Some u" "c \<noteq> CHR ''=''" "d \<noteq> CHR ''=''" "dec_quads v True s = Some r" for z u r
    using "5.hyps" [OF refl xy _ that(1) _ that(2) that(5)] that by simp
  show ?case
    using dec_quads_Some [OF "5.prems"] xy IH
    by (elim exE conjE disjE) auto
qed auto

lemma std_decode_form:
  assumes "b \<in> base64_forms s" and "std_decode b = Some x"
  shows "b = std_encode s"
proof -
  from assms(2) have "dec_quads std_val True b = Some x"
    by (simp add: std_decode_def no_newlines_graphic forms_graphic [OF assms(1)])
  from dec_quads_shape [OF this] have len: "length b mod 4 = 0"
    and chars: "\<forall>c \<in> set b. c = CHR ''='' \<or> std_val c \<noteq> None" by auto
  have "std_val (CHR ''-'') = None" "std_val (CHR ''_'') = None" by code_simp+
  with chars have "c \<noteq> CHR ''-'' \<and> c \<noteq> CHR ''_''" if "c \<in> set b" for c
    using that by force
  then have "to_std_byte c = c" if "c \<in> set b" for c
    using that by (simp add: to_std_byte_def)
  then have "map to_std_byte b = b" by (simp add: map_idI)
  moreover have "pad4 b = b" using len by (simp add: pad4_def)
  ultimately show ?thesis using pad4_to_std [OF assms(1)] by simp
qed

section \<open>Properties\<close>

text \<open>C35: the fault-tolerant reader recovers a body from any base64 text of it: either alphabet,
  padded or not, wrapped into lines of any lengths by any separator made of blanks, tabs and
  line breaks (leading and trailing ones included).\<close>

theorem base64_body_recovered:
  assumes "concat ls \<in> base64_forms s" and "list_all mime_blank sep"
  shows "decodeBase64FaultTolerant (join sep ls) = Inr s"
  using assms by (rule decode_wrapped)

theorem base64_body_recovered_witness:
  "decodeBase64FaultTolerant (join [CHR 0x0D, CHR 0x0A]
     ['''', ''-_8'', ''_aGk'', '''']) = Inr [CHR 0xFB, CHR 0xFF, CHR 0x3F, CHR ''h'', CHR ''i'']"
proof -
  have "concat ['''', ''-_8'', ''_aGk'', ''''] \<in> base64_forms [CHR 0xFB, CHR 0xFF, CHR 0x3F, CHR ''h'', CHR ''i'']"
    unfolding base64_forms_def by code_simp
  moreover have "list_all mime_blank [CHR 0x0D, CHR 0x0A]" by code_simp
  ultimately show ?thesis by (rule base64_body_recovered)
qed

end
