(* ===== verification/Url_Schema.thy ===== *)
theory Url_Schema
  imports Go_Url Base64_Input "HOL-Library.Multiset"
begin

text \<open>
  \<open>ray2sing/url_schema.go\<close>: the reading of a share link into a \<open>UrlSchema\<close>, which every
  URI-based protocol parser starts from. Go iterates over the parsed query in an unspecified
  order; the model folds the pairs in order of appearance, and \<open>params_of_query_order\<close> shows
  that the order is immaterial when the normalised keys are distinct.
\<close>

section \<open>Definitions\<close>

record url_schema =
  us_scheme :: string
  us_username :: string
  us_password :: string
  us_hostname :: string
  us_port :: "16 word"
  us_name :: string
  us_params :: params
  us_has_params :: bool

text \<open>
  \<open>us_has_params\<close> is not a field of the Go structure: it tells whether the parameter map has
  any entry (\<open>has_params_iff\<close>), which a function space cannot be asked for by evaluation.
\<close>

record server_options =
  so_server :: string
  so_port :: "16 word"

definition GetServerOption :: "url_schema \<Rightarrow> server_options" where
  "GetServerOption u = \<lparr>so_server = us_hostname u, so_port = us_port u\<rparr>"

definition normalizeStr :: "string \<Rightarrow> string" where
  "normalizeStr ss =
     replace_byte (CHR ''-'') (CHR '' '')
       (replace_byte (CHR ''_'') (CHR '' '') (to_lower (trim_space ss)))"

definition getPassword :: "url \<Rightarrow> string" where
  "getPassword u = (case u_user u of Some (_, Some p) \<Rightarrow> p | _ \<Rightarrow> '''')"

definition isBase64CharsOnly :: "string \<Rightarrow> bool" where
  "isBase64CharsOnly s \<longleftrightarrow> s \<noteq> '''' \<and> list_all base64ish s"

definition isPrintableText :: "string \<Rightarrow> bool" where
  "isPrintableText s \<longleftrightarrow>
     valid_utf8 s \<and> list_all (\<lambda>c. \<not> (code c < 32 \<and> code c \<noteq> 9) \<and> code c \<noteq> 127) s"

definition params_of_query :: "url_values \<Rightarrow> params" where
  "params_of_query q = foldl (\<lambda>m (k, vs). m(normalizeStr k \<mapsto> join '','' vs)) Map.empty q"

definition raw_pair :: "string list \<Rightarrow> string \<Rightarrow> (string \<times> string) option" where
  "raw_pair keys pair =
     (case cut pair ''='' of
        (_, _, False) \<Rightarrow> None
      | (rk, rv, True) \<Rightarrow>
          let k = (case path_unescape rk of None \<Rightarrow> rk | Some x \<Rightarrow> x);
              v = (case path_unescape rv of None \<Rightarrow> rv | Some x \<Rightarrow> x)
          in if normalizeStr k \<in> set (map normalizeStr keys) then Some (normalizeStr k, v) else None)"

definition overrideRawQueryParams :: "params \<Rightarrow> string \<Rightarrow> string list \<Rightarrow> params" where
  "overrideRawQueryParams m rawQuery keys =
     foldl (\<lambda>m pair. case raw_pair keys pair of None \<Rightarrow> m | Some (k, v) \<Rightarrow> m(k \<mapsto> v)) m
       (split_byte (CHR ''&'') rawQuery)"

definition raw_keys :: "string list" where
  "raw_keys = [''pbk'', ''sid'', ''spx'', ''publickey'', ''peerpublickey'', ''pub'', ''peerpub'',
     ''presharedkey'', ''psk'', ''privatekey'', ''pk'']"

text \<open>The SIP002 reading of the user info of an \<open>ss://\<close> link.\<close>

definition sip002_userinfo :: "string \<Rightarrow> string \<Rightarrow> string \<times> string" where
  "sip002_userinfo user pass =
     (case decodeBase64IfNeeded user of
        (userInfo, None) \<Rightarrow>
          if contains userInfo '':'' \<and> isPrintableText userInfo then
            (case cut userInfo '':'' of (a, b, _) \<Rightarrow> (a, b))
          else (user, pass)
      | (_, Some _) \<Rightarrow> (user, pass))"

definition ParseUrl :: "string \<Rightarrow> 16 word \<Rightarrow> url_schema result" where
  "ParseUrl inputURL defaultPort =
     bindE (url_Parse inputURL) (\<lambda>u.
       let user = url_username u; pass = getPassword u;
           (user', pass') = (if u_scheme u = ''ss'' \<and> isBase64CharsOnly user
                             then sip002_userinfo user pass else (user, pass))
       in Inr \<lparr>us_scheme = u_scheme u, us_username = user', us_password = pass',
            us_hostname = url_hostname u, us_port = toUInt16 (url_port u) defaultPort,
            us_name = u_fragment u,
            us_params = overrideRawQueryParams (params_of_query (url_query u)) (u_rawquery u) raw_keys,
            us_has_params = (url_query u \<noteq> [] \<or>
              list_ex (\<lambda>p. raw_pair raw_keys p \<noteq> None) (split_byte (CHR ''&'') (u_rawquery u)))\<rparr>)"

section \<open>Facts\<close>

lemma normalizeStr_no_sep: "CHR ''_'' \<notin> set (normalizeStr s) \<and> CHR ''-'' \<notin> set (normalizeStr s)"
  by (auto simp: normalizeStr_def replace_byte_def split: if_splits)

lemma to_lower_byte_not_upper: "\<not> is_upper (to_lower_byte c)"
  by (auto simp: to_lower_byte_def is_upper_def code_char_of)

lemma normalizeStr_lower: "list_all (\<lambda>c. \<not> is_upper c) (normalizeStr s)"
  using to_lower_byte_not_upper
  by (auto simp: normalizeStr_def replace_byte_def to_lower_def list_all_iff is_upper_def code_def)

text \<open>The map built from the query, as a lookup.\<close>

lemma foldl_map_of:
  "foldl (\<lambda>m (k, v). m(f k \<mapsto> g v)) m0 ps x =
     (case map_of (rev (map (\<lambda>(k, v). (f k, g v)) ps)) x of None \<Rightarrow> m0 x | Some y \<Rightarrow> Some y)"
proof (induction ps arbitrary: m0)
  case Nil
  then show ?case by simp
next
  case (Cons p ps)
  then show ?case
    by (cases p) (auto simp: map_add_def split: option.splits)
qed

lemma params_of_query_lookup:
  "params_of_query q = map_of (rev (map (\<lambda>(k, vs). (normalizeStr k, join '','' vs)) q))"
  unfolding params_of_query_def
  by (rule ext) (simp add: foldl_map_of split: option.splits)

lemma params_of_query_order:
  assumes "distinct (map (normalizeStr \<circ> fst) q)" and "mset q = mset q'"
  shows "params_of_query q = params_of_query q'"
proof -
  let ?g = "\<lambda>(k, vs). (normalizeStr k, join '','' vs)"
  have fst_g: "map fst (map ?g r) = map (normalizeStr \<circ> fst) r" for r
    by (induction r) auto
  from assms have "distinct (map (normalizeStr \<circ> fst) q')"
    by (metis mset_eq_imp_distinct_iff mset_map)
  with assms(1) have d: "distinct (map fst (rev (map ?g q)))" "distinct (map fst (rev (map ?g q')))"
    unfolding rev_map [symmetric] fst_g distinct_rev by simp_all
  moreover have "set (rev (map ?g q)) = set (rev (map ?g q'))"
    using mset_eq_setD [OF assms(2)] by simp
  ultimately show ?thesis
    unfolding params_of_query_lookup by (simp only: map_of_inject_set)
qed

lemma overrideRaw_empty: "overrideRawQueryParams m '''' keys = m"
  by (simp add: overrideRawQueryParams_def raw_pair_def cut_def)

text \<open>Only the listed keys are touched.\<close>

lemma overrideRaw_other:
  assumes "k \<notin> set (map normalizeStr keys)"
  shows "overrideRawQueryParams m q keys k = m k"
proof -
  have "foldl (\<lambda>m pair. case raw_pair keys pair of None \<Rightarrow> m | Some (k, v) \<Rightarrow> m(k \<mapsto> v)) m ps k = m k"
    for ps m
  proof (induction ps arbitrary: m)
    case (Cons p ps)
    have "fst r \<in> set (map normalizeStr keys)" if "raw_pair keys p = Some r" for r
      using that by (auto simp: raw_pair_def Let_def split: prod.splits bool.splits if_splits)
    with assms show ?case
      by (auto simp: Cons.IH split: option.splits)
  qed simp
  then show ?thesis by (simp add: overrideRawQueryParams_def)
qed

lemma foldl_upd_empty:
  "foldl (\<lambda>m p. case g p of None \<Rightarrow> m | Some (k, v) \<Rightarrow> m(k \<mapsto> v)) m ps = Map.empty \<longleftrightarrow>
   m = Map.empty \<and> (\<forall>p \<in> set ps. g p = None)"
  by (induction ps arbitrary: m) (auto split: option.splits simp: fun_eq_iff)

lemma params_of_query_empty: "params_of_query q = Map.empty \<longleftrightarrow> q = []"
  by (auto simp: params_of_query_lookup)

lemma has_params_iff:
  assumes "ParseUrl s p = Inr u"
  shows "us_has_params u \<longleftrightarrow> us_params u \<noteq> Map.empty"
proof -
  from assms obtain x where
    "us_params u = overrideRawQueryParams (params_of_query (url_query x)) (u_rawquery x) raw_keys"
    "us_has_params u = (url_query x \<noteq> [] \<or>
       list_ex (\<lambda>p. raw_pair raw_keys p \<noteq> None) (split_byte (CHR ''&'') (u_rawquery x)))"
    unfolding ParseUrl_def Let_def bindE_eq_Inr case_prod_beta by auto
  then show ?thesis
    by (auto simp: overrideRawQueryParams_def foldl_upd_empty params_of_query_empty list_ex_iff)
qed

text \<open>Every key of the parameter map is a normalised one.\<close>

lemma raw_pair_key: "raw_pair keys p = Some (k, v) \<Longrightarrow> \<exists>s. k = normalizeStr s"
  by (auto simp: raw_pair_def Let_def split: prod.splits bool.splits if_splits)

lemma foldl_upd_keys:
  "foldl (\<lambda>m p. case raw_pair keys p of None \<Rightarrow> m | Some (k, v) \<Rightarrow> m(k \<mapsto> v)) m ps k = Some v \<Longrightarrow>
   m k = Some v \<or> (\<exists>s. k = normalizeStr s)"
proof (induction ps arbitrary: m)
  case (Cons p ps)
  show ?case
  proof (cases "raw_pair keys p")
    case None
    with Cons show ?thesis by simp
  next
    case (Some r)
    obtain a b where ab: "r = (a, b)" by (cases r)
    with Some Cons.prems have "foldl (\<lambda>m p. case raw_pair keys p of None \<Rightarrow> m | Some (k, v) \<Rightarrow> m(k \<mapsto> v))
        (m(a \<mapsto> b)) ps k = Some v" by simp
    from Cons.IH [OF this] raw_pair_key [of keys p a b] Some ab show ?thesis
      by (auto split: if_splits)
  qed
qed simp

lemma params_of_query_keys: "params_of_query q k = Some v \<Longrightarrow> \<exists>s. k = normalizeStr s"
  by (auto simp: params_of_query_lookup dest!: map_of_SomeD)

lemma ParseUrl_params:
  assumes "ParseUrl s p = Inr u"
  shows "\<exists>x. us_params u = overrideRawQueryParams (params_of_query (url_query x)) (u_rawquery x) raw_keys"
  using assms unfolding ParseUrl_def Let_def bindE_eq_Inr case_prod_beta by auto

text \<open>
  The parameters of a parsed link are keyed by normalised names only: no key holds an
  underscore, a hyphen or an upper-case letter, whatever the link spells. A parser that looks
  such a name up directly can never find it.
\<close>

theorem params_normalised:
  assumes "ParseUrl s p = Inr u" and "us_params u k = Some v"
  shows "CHR ''_'' \<notin> set k \<and> CHR ''-'' \<notin> set k \<and> list_all (\<lambda>c. \<not> is_upper c) k"
proof -
  from ParseUrl_params [OF assms(1)] obtain x where
    "us_params u = overrideRawQueryParams (params_of_query (url_query x)) (u_rawquery x) raw_keys" ..
  with assms(2) obtain t where "k = normalizeStr t"
    using foldl_upd_keys [of raw_keys "params_of_query (url_query x)" _ k v] params_of_query_keys
    unfolding overrideRawQueryParams_def by fastforce
  then show ?thesis using normalizeStr_no_sep [of t] normalizeStr_lower [of t] by simp
qed

lemma params_normalised_witness:
  "\<exists>u. ParseUrl ''vless://id@h.ex:443?Allow_Insecure=1'' 443 = Inr u \<and>
     us_params u ''Allow_Insecure'' = None \<and> us_params u ''allow insecure'' = Some ''1''"
proof -
  have "\<not> isl (ParseUrl ''vless://id@h.ex:443?Allow_Insecure=1'' 443)" by code_simp
  from run_ok [OF this] obtain u where u: "ParseUrl ''vless://id@h.ex:443?Allow_Insecure=1'' 443 = Inr u" ..
  have "us_params u ''Allow_Insecure'' = None"
  proof (cases "us_params u ''Allow_Insecure''")
    case (Some v)
    from params_normalised [OF u this] show ?thesis by simp
  qed
  moreover have "(case ParseUrl ''vless://id@h.ex:443?Allow_Insecure=1'' 443 of
      Inr u \<Rightarrow> us_params u ''allow insecure'' | Inl _ \<Rightarrow> None) = Some ''1''" by code_simp
  ultimately show ?thesis using u by simp
qed

text \<open>
  The iteration order of Go's query map does not matter: two orders of the same pairs
  give the same parameters as long as no two keys normalise to the same name.
\<close>

theorem query_order_immaterial:
  assumes "distinct (map (normalizeStr \<circ> fst) q)" and "mset q = mset q'"
  shows "overrideRawQueryParams (params_of_query q) raw ks = overrideRawQueryParams (params_of_query q') raw ks"
  using params_of_query_order [OF assms] by simp

lemma query_order_immaterial_witness:
  "params_of_query [(''a'', [''1'']), (''B'', [''2''])] = params_of_query [(''B'', [''2'']), (''a'', [''1''])]"
proof -
  have d: "distinct (map (normalizeStr \<circ> fst) [(''a'', [''1'']), (''B'', [''2''])])" by code_simp
  have "mset [(''a'', [''1'']), (''B'', [''2''])] = mset [(''B'', [''2'']), (''a'', [''1''])]" by simp
  from query_order_immaterial [OF d this, of "''''" "[]"] show ?thesis
    by (simp add: overrideRaw_empty)
qed

end
