(* ===== verification/Sing_Options.thy ===== *)
theory Sing_Options
  imports Url_Schema
begin

text \<open>
  The sing-box option structures that the converter fills in, as far as the code under
  \<open>xray2sing/ray2sing\<close> writes or reads their fields. Pointers to structures are options,
  \<open>Listable\<close> slices are lists (nil is the empty list), durations are nanoseconds, and
  header maps are finite maps. The structures themselves are declared outside the
  repository; a field no code of the repository touches has no counterpart.
\<close>

type_synonym headers = "string \<rightharpoonup> string list"

record ech_options =
  ech_enabled :: bool
  ech_config :: "string list"
  ech_query_name :: string

record utls_options =
  utls_enabled :: bool
  utls_fingerprint :: string

record reality_options =
  rl_enabled :: bool
  rl_public_key :: string
  rl_short_id :: string

record tls_tricks =
  mixed_case_sni :: bool

record tls_options =
  tls_enabled :: bool
  tls_disable_sni :: bool
  tls_server_name :: string
  tls_insecure :: bool
  tls_alpn :: "string list"
  tls_min_version :: string
  tls_max_version :: string
  tls_ech :: "ech_options option"
  tls_utls :: "utls_options option"
  tls_reality :: "reality_options option"
  tls_tricks :: "tls_tricks option"

definition tls_zero :: tls_options where
  "tls_zero = \<lparr>tls_enabled = False, tls_disable_sni = False, tls_server_name = '''',
     tls_insecure = False, tls_alpn = [], tls_min_version = '''', tls_max_version = '''',
     tls_ech = None, tls_utls = None, tls_reality = None, tls_tricks = None\<rparr>"

record brutal_options =
  br_enabled :: bool
  br_up :: int
  br_down :: int

record mux_options =
  mux_enabled :: bool
  mux_protocol :: string
  mux_max_connections :: int
  mux_min_streams :: int
  mux_max_streams :: int
  mux_padding :: bool
  mux_brutal :: "brutal_options option"

text \<open>The V2Ray transports, one constructor for each value of the \<open>Type\<close> field.\<close>

record http_transport =
  ht_host :: "string list"
  ht_path :: string
  ht_method :: string
  ht_headers :: headers

record ws_transport =
  ws_path :: string
  ws_headers :: headers
  ws_max_early_data :: "32 word"
  ws_early_header :: string
  ws_heartbeat :: int

record httpupgrade_transport =
  hu_path :: string
  hu_headers :: headers
  hu_max_early_data :: "32 word"

record grpc_transport =
  grpc_service :: string
  grpc_idle_timeout :: int
  grpc_ping_timeout :: int
  grpc_permit :: bool
  grpc_authority :: string
  grpc_user_agent :: string

text \<open>
  \<open>V2RayXHTTPBaseOptions\<close>: host, path and headers are handled by the converter, the rest is
  carried through untouched and kept as an opaque text.
\<close>

record xhttp_base =
  xb_host :: string
  xb_path :: string
  xb_headers :: "params option"
  xb_rest :: string

record xhttp_download =
  xd_base :: xhttp_base
  xd_server :: server_options
  xd_tls :: "tls_options option"

record xhttp_transport =
  xh_mode :: string
  xh_base :: xhttp_base
  xh_download :: "xhttp_download option"

datatype transport =
    THttp http_transport
  | THttpUpgrade httpupgrade_transport
  | TWs ws_transport
  | TGrpc grpc_transport
  | TQuic
  | TXhttp xhttp_transport

record dialer_options =
  do_detour :: string

definition dialer_zero :: dialer_options where
  "dialer_zero = \<lparr>do_detour = ''''\<rparr>"

record uot_options =
  uot_enabled :: bool
  uot_version :: "8 word"

section \<open>Outbounds\<close>

record vless_options =
  vl_dialer :: dialer_options
  vl_server :: server_options
  vl_uuid :: string
  vl_flow :: string
  vl_packet_encoding :: "string option"
  vl_tls :: "tls_options option"
  vl_transport :: "transport option"
  vl_mux :: "mux_options option"

record trojan_options =
  tr_dialer :: dialer_options
  tr_server :: server_options
  tr_password :: string
  tr_tls :: "tls_options option"
  tr_transport :: "transport option"
  tr_mux :: "mux_options option"

record vmess_options =
  vm_dialer :: dialer_options
  vm_server :: server_options
  vm_uuid :: string
  vm_security :: string
  vm_alter_id :: int
  vm_global_padding :: bool
  vm_auth_length :: bool
  vm_packet_encoding :: string
  vm_tls :: "tls_options option"
  vm_transport :: "transport option"
  vm_mux :: "mux_options option"

record ss_options =
  ss_dialer :: dialer_options
  ss_server :: server_options
  ss_method :: string
  ss_password :: string
  ss_plugin :: string
  ss_plugin_options :: string
  ss_uot :: "uot_options option"
  ss_mux :: "mux_options option"

record hy2_obfs =
  ob_type :: string
  ob_password :: string

record hy2_options =
  h2_dialer :: dialer_options
  h2_server :: server_options
  h2_obfs :: "hy2_obfs option"
  h2_password :: string
  h2_tls :: tls_options
  h2_up :: int
  h2_down :: int
  h2_ports :: "string list"
  h2_hop :: int

record hy1_options =
  h1_dialer :: dialer_options
  h1_server :: server_options
  h1_tls :: tls_options
  h1_auth :: string
  h1_up :: int
  h1_down :: int
  h1_obfs :: string
  h1_ports :: "string list"
  h1_hop :: int

record tuic_options =
  tu_dialer :: dialer_options
  tu_server :: server_options
  tu_uuid :: string
  tu_password :: string
  tu_congestion :: string
  tu_relay_mode :: string
  tu_over_stream :: bool
  tu_zero_rtt :: bool
  tu_heartbeat :: int
  tu_tls :: tls_options

record naive_options =
  nv_dialer :: dialer_options
  nv_server :: server_options
  nv_username :: string
  nv_password :: string
  nv_concurrency :: int
  nv_headers :: headers
  nv_quic :: bool
  nv_quic_cc :: string
  nv_tls :: "tls_options option"
  nv_uot :: uot_options

record mieru_binding =
  mb_protocol :: string
  mb_port :: "16 word"
  mb_range :: string

record mieru_options =
  mi_dialer :: dialer_options
  mi_server :: string
  mi_username :: string
  mi_password :: string
  mi_bindings :: "mieru_binding list"
  mi_multiplexing :: string
  mi_handshake :: string
  mi_mtu :: "32 word"

record utproto_options =
  up_dialer :: dialer_options
  up_server :: server_options
  up_secret :: string
  up_tls_domain :: string

record anytls_options =
  at_dialer :: dialer_options
  at_server :: server_options
  at_password :: string
  at_tls :: "tls_options option"
  at_check_interval :: int
  at_idle_timeout :: int
  at_min_idle :: int

record http_options =
  hp_dialer :: dialer_options
  hp_server :: server_options
  hp_username :: string
  hp_password :: string
  hp_path :: string
  hp_tls :: "tls_options option"

record socks_options =
  sk_dialer :: dialer_options
  sk_server :: server_options
  sk_version :: string
  sk_username :: string
  sk_password :: string
  sk_uot :: "uot_options option"

record ssh_options =
  sh_dialer :: dialer_options
  sh_server :: server_options
  sh_user :: string
  sh_password :: string
  sh_private_key :: "string list"
  sh_passphrase :: string
  sh_host_key :: "string list"
  sh_host_key_algorithms :: "string list"
  sh_client_version :: string
  sh_uot :: "uot_options option"

record shadowtls_options =
  st_dialer :: dialer_options
  st_server :: server_options
  st_version :: int
  st_password :: string
  st_tls :: "tls_options option"

record dnstt_options =
  dn_dialer :: dialer_options
  dn_domain :: string
  dn_pubkey :: string
  dn_resolver :: string

record psiphon_options =
  ps_dialer :: dialer_options
  ps_region :: string
  ps_list_url :: string
  ps_list_filename :: string
  ps_list_key :: string

datatype outbound_options =
    OVless vless_options | OTrojan trojan_options | OVmess vmess_options
  | OShadowsocks ss_options | OHysteria2 hy2_options | OHysteria hy1_options
  | OTuic tuic_options | ONaive naive_options | OMieru mieru_options
  | OUTProto utproto_options | OAnyTLS anytls_options | OHttp http_options
  | OSocks socks_options | OSsh ssh_options | OShadowTLS shadowtls_options
  | ODnstt dnstt_options | OPsiphon psiphon_options | ODirect dialer_options

record outbound =
  o_type :: string
  o_tag :: string
  o_options :: outbound_options

section \<open>Endpoints\<close>

text \<open>A number range as \<open>warpobf.Range\<close> holds it.\<close>

record num_range =
  rg_from :: int
  rg_to :: int

record noise_options =
  ns_enabled :: bool
  ns_count :: num_range
  ns_size :: num_range
  ns_delay :: num_range
  ns_mode :: string

definition range_zero :: num_range where
  "range_zero = \<lparr>rg_from = 0, rg_to = 0\<rparr>"

definition noise_zero :: noise_options where
  "noise_zero = \<lparr>ns_enabled = False, ns_count = range_zero, ns_size = range_zero,
     ns_delay = range_zero, ns_mode = ''''\<rparr>"

record warp_profile =
  wp_license :: string
  wp_id :: string
  wp_token :: string
  wp_private_key :: string
  wp_detour :: string

record warp_options =
  wo_dialer :: dialer_options
  wo_server :: server_options
  wo_identifier :: string
  wo_noise :: noise_options
  wo_profile :: warp_profile
  wo_mtu :: "32 word"

section \<open>The dialer of an outbound\<close>

text \<open>
  Every outbound option structure embeds \<open>DialerOptions\<close>: \<open>TakeDialerOptions\<close> and
  \<open>ReplaceDialerOptions\<close> of sing-box read and replace that part.
\<close>

fun take_dialer :: "outbound_options \<Rightarrow> dialer_options" where
  "take_dialer (OVless x) = vl_dialer x"
| "take_dialer (OTrojan x) = tr_dialer x"
| "take_dialer (OVmess x) = vm_dialer x"
| "take_dialer (OShadowsocks x) = ss_dialer x"
| "take_dialer (OHysteria2 x) = h2_dialer x"
| "take_dialer (OHysteria x) = h1_dialer x"
| "take_dialer (OTuic x) = tu_dialer x"
| "take_dialer (ONaive x) = nv_dialer x"
| "take_dialer (OMieru x) = mi_dialer x"
| "take_dialer (OUTProto x) = up_dialer x"
| "take_dialer (OAnyTLS x) = at_dialer x"
| "take_dialer (OHttp x) = hp_dialer x"
| "take_dialer (OSocks x) = sk_dialer x"
| "take_dialer (OSsh x) = sh_dialer x"
| "take_dialer (OShadowTLS x) = st_dialer x"
| "take_dialer (ODnstt x) = dn_dialer x"
| "take_dialer (OPsiphon x) = ps_dialer x"
| "take_dialer (ODirect d) = d"

fun replace_dialer :: "dialer_options \<Rightarrow> outbound_options \<Rightarrow> outbound_options" where
  "replace_dialer d (OVless x) = OVless (x\<lparr>vl_dialer := d\<rparr>)"
| "replace_dialer d (OTrojan x) = OTrojan (x\<lparr>tr_dialer := d\<rparr>)"
| "replace_dialer d (OVmess x) = OVmess (x\<lparr>vm_dialer := d\<rparr>)"
| "replace_dialer d (OShadowsocks x) = OShadowsocks (x\<lparr>ss_dialer := d\<rparr>)"
| "replace_dialer d (OHysteria2 x) = OHysteria2 (x\<lparr>h2_dialer := d\<rparr>)"
| "replace_dialer d (OHysteria x) = OHysteria (x\<lparr>h1_dialer := d\<rparr>)"
| "replace_dialer d (OTuic x) = OTuic (x\<lparr>tu_dialer := d\<rparr>)"
| "replace_dialer d (ONaive x) = ONaive (x\<lparr>nv_dialer := d\<rparr>)"
| "replace_dialer d (OMieru x) = OMieru (x\<lparr>mi_dialer := d\<rparr>)"
| "replace_dialer d (OUTProto x) = OUTProto (x\<lparr>up_dialer := d\<rparr>)"
| "replace_dialer d (OAnyTLS x) = OAnyTLS (x\<lparr>at_dialer := d\<rparr>)"
| "replace_dialer d (OHttp x) = OHttp (x\<lparr>hp_dialer := d\<rparr>)"
| "replace_dialer d (OSocks x) = OSocks (x\<lparr>sk_dialer := d\<rparr>)"
| "replace_dialer d (OSsh x) = OSsh (x\<lparr>sh_dialer := d\<rparr>)"
| "replace_dialer d (OShadowTLS x) = OShadowTLS (x\<lparr>st_dialer := d\<rparr>)"
| "replace_dialer d (ODnstt x) = ODnstt (x\<lparr>dn_dialer := d\<rparr>)"
| "replace_dialer d (OPsiphon x) = OPsiphon (x\<lparr>ps_dialer := d\<rparr>)"
| "replace_dialer d (ODirect _) = ODirect d"

text \<open>What the wrapper promises: reading back what was written, and nothing else moves.\<close>

locale dialer_wrapper =
  fixes rd :: "'o \<Rightarrow> dialer_options" and wr :: "dialer_options \<Rightarrow> 'o \<Rightarrow> 'o"
  assumes take_replace: "rd (wr d x) = d"
    and replace_take: "wr (rd x) x = x"
    and replace_replace: "wr d (wr d' x) = wr d x"
begin

lemma set_detour: "do_detour (rd (wr ((rd x)\<lparr>do_detour := t\<rparr>) x)) = t"
  by (simp add: take_replace)

lemma set_detour_twice:
  "wr ((rd (wr ((rd x)\<lparr>do_detour := t\<rparr>) x))\<lparr>do_detour := u\<rparr>) (wr ((rd x)\<lparr>do_detour := t\<rparr>) x) =
   wr ((rd x)\<lparr>do_detour := u\<rparr>) x"
  by (simp add: take_replace replace_replace)

lemma set_detour_same: "wr ((rd x)\<lparr>do_detour := do_detour (rd x)\<rparr>) x = x"
  by (simp add: replace_take)

end

interpretation outbound_dialer: dialer_wrapper take_dialer replace_dialer
proof
  show "take_dialer (replace_dialer d x) = d" for d x by (cases x) simp_all
  show "replace_dialer (take_dialer x) x = x" for x by (cases x) simp_all
  show "replace_dialer d (replace_dialer d' x) = replace_dialer d x" for d d' x
    by (cases x) simp_all
qed

end
