(* ===== verification/Go_Json.thy ===== *)
theory Go_Json
  imports Go_Strconv
begin

text \<open>
  Go's \<open>encoding/json\<close>: the syntax of JSON texts as \<open>Unmarshal\<close> accepts it, the decoding
  of string literals (escapes, surrogate pairs, replacement of invalid UTF-8), and the
  decoding into a \<open>map[string]string\<close>. Numbers keep their literal. The recursive parser is
  fuelled by twice the length of the text plus two: of two nested calls at least one
  consumes a byte. The library's nesting limit of 10000 is left out.
\<close>

datatype json =
  JNull | JBool bool | JNum string | JStr string | JArr "json list" | JObj "(string \<times> json) list"

section \<open>String literals\<close>

definition json_ws :: "char \<Rightarrow> bool" where
  "json_ws c \<longleftrightarrow> code c = 32 \<or> code c = 9 \<or> code c = 13 \<or> code c = 10"

definition skip_ws :: "string \<Rightarrow> string" where
  "skip_ws s = dropWhile json_ws s"

definition utf8_encode :: "nat \<Rightarrow> string" where
  "utf8_encode r =
     map char_of
       (if r < 0x80 then [r]
        else if r < 0x800 then [0xC0 + r div 64, 0x80 + r mod 64]
        else if r < 0x10000 then [0xE0 + r div 4096, 0x80 + r div 64 mod 64, 0x80 + r mod 64]
        else [0xF0 + r div 262144, 0x80 + r div 4096 mod 64, 0x80 + r div 64 mod 64, 0x80 + r mod 64])"

definition replacement :: string where
  "replacement = [CHR 0xEF, CHR 0xBF, CHR 0xBD]"

text \<open>Every byte that does not belong to a well-formed sequence becomes U+FFFD.\<close>

function utf8_fix :: "string \<Rightarrow> string" where
  "utf8_fix s =
     (case s of
        [] \<Rightarrow> []
      | c # t \<Rightarrow>
          (let n = (if code c < 0x80 then 1
                    else if valid_utf8 (take 2 s) \<and> 2 \<le> length s then 2
                    else if valid_utf8 (take 3 s) \<and> 3 \<le> length s then 3
                    else if valid_utf8 (take 4 s) \<and> 4 \<le> length s then 4 else 0)
           in if n = 0 then replacement @ utf8_fix t else take n s @ utf8_fix (drop n s)))"
  by pat_completeness auto
termination
  by (relation "measure length") (auto split: if_splits)

declare utf8_fix.simps [simp del]

definition hex4 :: "string \<Rightarrow> nat option" where
  "hex4 s = (if 4 \<le> length s \<and> list_all is_hex (take 4 s)
             then Some (foldl (\<lambda>a c. 16 * a + hex_val c) 0 (take 4 s)) else None)"

definition surrogate :: "nat \<Rightarrow> bool" where
  "surrogate r \<longleftrightarrow> 0xD800 \<le> r \<and> r < 0xE000"

definition simple_escape :: "char \<Rightarrow> string option" where
  "simple_escape e =
     (if e = CHR 0x22 \<or> e = CHR ''/'' \<or> e = CHR 0x5C then Some [e]
      else if e = CHR ''b'' then Some [CHR 0x08]
      else if e = CHR ''f'' then Some [CHR 0x0C]
      else if e = CHR ''n'' then Some [CHR 0x0A]
      else if e = CHR ''r'' then Some [CHR 0x0D]
      else if e = CHR ''t'' then Some [CHR 0x09] else None)"

text \<open>The rune of a \<open>\u\<close> escape and the number of bytes after the \<open>u\<close> that it takes.\<close>

definition u_escape :: "string \<Rightarrow> (string \<times> nat) option" where
  "u_escape s =
     (case hex4 s of
        None \<Rightarrow> None
      | Some r \<Rightarrow>
          if \<not> surrogate r then Some (utf8_encode r, 4)
          else
            (case drop 4 s of
               a # b # t \<Rightarrow>
                 (case (if a = CHR 0x5C \<and> b = CHR ''u'' then hex4 t else None) of
                    Some r2 \<Rightarrow>
                      if r < 0xDC00 \<and> 0xDC00 \<le> r2 \<and> r2 < 0xE000
                      then Some (utf8_encode (0x10000 + (r - 0xD800) * 1024 + (r2 - 0xDC00)), 10)
                      else Some (replacement, 4)
                  | None \<Rightarrow> Some (replacement, 4))
             | _ \<Rightarrow> Some (replacement, 4)))"

text \<open>The body of a literal after the opening quote: its decoded bytes and the rest.\<close>

function json_lit :: "string \<Rightarrow> (string \<times> string) option" where
  "json_lit s =
     (case s of
        [] \<Rightarrow> None
      | c # t \<Rightarrow>
          if c = CHR 0x22 then Some ([], t)
          else if code c < 32 then None
          else if c = CHR 0x5C then
            (case t of
               [] \<Rightarrow> None
             | e # u \<Rightarrow>
                 if e = CHR ''u'' then
                   (case u_escape u of
                      None \<Rightarrow> None
                    | Some (b, n) \<Rightarrow> map_option (\<lambda>(x, r). (b @ x, r)) (json_lit (drop n u)))
                 else (case simple_escape e of
                         None \<Rightarrow> None
                       | Some b \<Rightarrow> map_option (\<lambda>(x, r). (b @ x, r)) (json_lit u)))
          else map_option (\<lambda>(x, r). (c # x, r)) (json_lit t))"
  by pat_completeness auto
termination
  by (relation "measure length") auto

declare json_lit.simps [simp del]

definition json_string :: "string \<Rightarrow> (string \<times> string) option" where
  "json_string s = map_option (\<lambda>(x, r). (utf8_fix x, r)) (json_lit s)"

section \<open>Numbers\<close>

definition digits_of :: "string \<Rightarrow> string \<times> string" where
  "digits_of s = (takeWhile is_digit s, dropWhile is_digit s)"

definition json_frac :: "string \<Rightarrow> (string \<times> string) option" where
  "json_frac s =
     (case s of
        c # t \<Rightarrow> if c = CHR ''.'' then
                   (case digits_of t of (d, r) \<Rightarrow> if d = [] then None else Some (c # d, r))
                 else Some ([], s)
      | [] \<Rightarrow> Some ([], []))"

definition json_exp :: "string \<Rightarrow> (string \<times> string) option" where
  "json_exp s =
     (case s of
        c # t \<Rightarrow> if c = CHR ''e'' \<or> c = CHR ''E'' then
                   (let (sg, u) = (case t of x # y \<Rightarrow> if x = CHR ''+'' \<or> x = CHR ''-''
                                                    then ([x], y) else ([], t)
                                   | [] \<Rightarrow> ([], []));
                        (d, r) = digits_of u
                    in if d = [] then None else Some (c # sg @ d, r))
                 else Some ([], s)
      | [] \<Rightarrow> Some ([], []))"

definition json_number :: "string \<Rightarrow> (string \<times> string) option" where
  "json_number s =
     (let (sg, s1) = (case s of x # y \<Rightarrow> if x = CHR ''-'' then ([x], y) else ([], s) | [] \<Rightarrow> ([], []));
          (d0, r0) = digits_of s1;
          (d, r) = (if has_prefix d0 ''0'' then (take 1 d0, drop 1 s1) else (d0, r0))
      in if d = [] then None
         else case json_frac r of
                None \<Rightarrow> None
              | Some (f, r1) \<Rightarrow>
                  (case json_exp r1 of
                     None \<Rightarrow> None
                   | Some (e, r2) \<Rightarrow> Some (sg @ d @ f @ e, r2)))"

section \<open>Values\<close>

fun jv :: "nat \<Rightarrow> string \<Rightarrow> (json \<times> string) option"
and jelems :: "nat \<Rightarrow> string \<Rightarrow> (json list \<times> string) option"
and jmembers :: "nat \<Rightarrow> string \<Rightarrow> ((string \<times> json) list \<times> string) option" where
  "jv 0 s = None"
| "jv (Suc n) s =
     (case skip_ws s of
        [] \<Rightarrow> None
      | c # t \<Rightarrow>
          if c = CHR ''{'' then
            (if has_prefix (skip_ws t) ''}'' then Some (JObj [], drop 1 (skip_ws t))
             else map_option (\<lambda>(m, r). (JObj m, r)) (jmembers n t))
          else if c = CHR ''['' then
            (if has_prefix (skip_ws t) '']'' then Some (JArr [], drop 1 (skip_ws t))
             else map_option (\<lambda>(m, r). (JArr m, r)) (jelems n t))
          else if c = CHR 0x22 then map_option (\<lambda>(x, r). (JStr x, r)) (json_string t)
          else if has_prefix (c # t) ''true'' then Some (JBool True, drop 4 (c # t))
          else if has_prefix (c # t) ''false'' then Some (JBool False, drop 5 (c # t))
          else if has_prefix (c # t) ''null'' then Some (JNull, drop 4 (c # t))
          else map_option (\<lambda>(x, r). (JNum x, r)) (json_number (c # t)))"
| "jelems 0 s = None"
| "jelems (Suc n) s =
     (case jv n s of
        None \<Rightarrow> None
      | Some (x, r) \<Rightarrow>
          (case skip_ws r of
             [] \<Rightarrow> None
           | c # t \<Rightarrow>
               if c = CHR '','' then map_option (\<lambda>(xs, q). (x # xs, q)) (jelems n t)
               else if c = CHR '']'' then Some ([x], t) else None))"
| "jmembers 0 s = None"
| "jmembers (Suc n) s =
     (case skip_ws s of
        [] \<Rightarrow> None
      | q # t \<Rightarrow>
          if q \<noteq> CHR 0x22 then None
          else case json_string t of
            None \<Rightarrow> None
          | Some (k, r) \<Rightarrow>
              (case skip_ws r of
                 [] \<Rightarrow> None
               | c # u \<Rightarrow>
                   if c \<noteq> CHR '':'' then None
                   else case jv n u of
                     None \<Rightarrow> None
                   | Some (x, w) \<Rightarrow>
                       (case skip_ws w of
                          [] \<Rightarrow> None
                        | d # v \<Rightarrow>
                            if d = CHR '','' then map_option (\<lambda>(m, z). ((k, x) # m, z)) (jmembers n v)
                            else if d = CHR ''}'' then Some ([(k, x)], v) else None)))"

definition json_parse :: "string \<Rightarrow> json option" where
  "json_parse s =
     (case jv (2 * length s + 2) s of
        None \<Rightarrow> None
      | Some (x, r) \<Rightarrow> if skip_ws r = [] then Some x else None)"

text \<open>
  Decoding into a \<open>map[string]string\<close>: \<open>None\<close> is an error, \<open>Some None\<close> the nil map that
  \<open>null\<close> leaves, and a \<open>null\<close> member is the empty string. The members are kept in the order
  of the text; \<open>members_map\<close> is the Go map, where the last of equal keys wins.
\<close>

definition string_member :: "json \<Rightarrow> string option" where
  "string_member j = (case j of JStr s \<Rightarrow> Some s | JNull \<Rightarrow> Some '''' | _ \<Rightarrow> None)"

fun string_members :: "(string \<times> json) list \<Rightarrow> (string \<times> string) list option" where
  "string_members [] = Some []"
| "string_members ((k, j) # m) =
     (case string_member j of
        None \<Rightarrow> None
      | Some v \<Rightarrow> map_option ((#) (k, v)) (string_members m))"

definition members_map :: "(string \<times> string) list \<Rightarrow> params" where
  "members_map kvs = map_of (rev kvs)"

definition decode_string_map :: "string \<Rightarrow> (string \<times> string) list option option" where
  "decode_string_map s =
     (case json_parse s of
        Some JNull \<Rightarrow> Some None
      | Some (JObj kvs) \<Rightarrow> map_option Some (string_members kvs)
      | _ \<Rightarrow> None)"

end
