(* ===== verification/Xhttp_Extra.thy ===== *)
theory Xhttp_Extra
  imports Sing_Options Go_Json
begin

text \<open>
  \<open>ray2sing/xhttp_extra.go\<close>: the \<open>extra\<close> object of an xhttp link. Decoding a JSON value into
  \<open>option.V2RayXHTTPBaseOptions\<close> (and folding its key aliases) is code of the sing-box fork,
  not of the repository, and is the parameter \<open>dec\<close>. What the repository adds is modelled:
  the second attempt with the Xray vocabulary normalised, and the folding of the sing-box
  spelling of \<open>downloadSettings\<close> onto the Xray one.
\<close>

record dl_tls =
  dt_insecure :: bool
  dt_server_name :: string
  dt_alpn :: "string list"
  dt_fingerprint :: string

record dl_reality =
  dr_fingerprint :: string
  dr_server_name :: string
  dr_public_key :: string
  dr_short_id :: string

record sb_reality =
  sr_enabled :: bool
  sr_public_key :: string
  sr_short_id :: string

record sb_dl_tls =
  sb_enabled :: bool
  sb_server_name :: string
  sb_insecure :: bool
  sb_alpn :: "string list"
  sb_utls :: "string option"
  sb_reality_opt :: "sb_reality option"

record download_settings =
  ds_base :: xhttp_base
  ds_address :: string
  ds_port :: int
  ds_security :: string
  ds_tls :: "dl_tls option"
  ds_reality :: "dl_reality option"
  ds_sb_server :: string
  ds_sb_port :: int
  ds_sb_tls :: "sb_dl_tls option"

record xhttp_extra =
  xe_base :: xhttp_base
  xe_download :: "download_settings option"

section \<open>The vocabulary\<close>

definition looksNumericXHTTPKey :: "string \<Rightarrow> bool" where
  "looksNumericXHTTPKey k =
     (to_lower k \<in> {''scmaxeachpostbytes'', ''scminpostsintervalms'', ''scmaxbufferedposts'',
        ''scstreamupserversecs'', ''port'', ''xpaddingbytes'',
        ''hmaxrequesttimes'', ''hmaxreusablesecs'', ''cmaxreusetimes'', ''hkeepaliveperiod'',
        ''maxconcurrency'', ''maxconnections'', ''cmaxlifetimems''})"

text \<open>The pattern \<open>^\d+(-\d+)?$\<close>.\<close>

definition rangeOrInt :: "string \<Rightarrow> bool" where
  "rangeOrInt s =
     (case cut s ''-'' of
        (a, b, has) \<Rightarrow> a \<noteq> '''' \<and> list_all is_digit a \<and> (has \<longrightarrow> b \<noteq> '''' \<and> list_all is_digit b))"

text \<open>The new value of a string member; \<open>None\<close> deletes it.\<close>

definition domain_strategy :: "string \<Rightarrow> string option" where
  "domain_strategy v =
     (let s = to_lower (trim_space v) in
      if s \<in> {'''', ''asis'', ''as_is''} then Some ''as_is''
      else if s \<in> {''useip'', ''forceip''} then None
      else if s \<in> {''useipv4'', ''forceipv4'', ''ipv4_only''} then Some ''ipv4_only''
      else if s \<in> {''useipv6'', ''forceipv6'', ''ipv6_only''} then Some ''ipv6_only''
      else if s \<in> {''preferipv4'', ''prefer_ipv4''} then Some ''prefer_ipv4''
      else if s \<in> {''preferipv6'', ''prefer_ipv6''} then Some ''prefer_ipv6''
      else None)"

definition norm_string :: "string \<Rightarrow> string \<Rightarrow> json option" where
  "norm_string k v =
     (if to_lower k = ''domainstrategy'' then map_option JStr (domain_strategy v)
      else case parse_int 64 (trim_space v) of
        (n, ok) \<Rightarrow>
          if ok \<and> 0 \<le> n then
            (if looksNumericXHTTPKey k then Some (JNum (itoa (nat n))) else Some (JStr v))
          else if looksNumericXHTTPKey k \<and> \<not> rangeOrInt (trim_space v) then None
          else Some (JStr v))"

text \<open>
  \<open>normalizeXHTTPExtraMap\<close> on the members of an object; of equal keys the last one is the
  member of the Go map.
\<close>

fun normalizeXHTTPExtraMap :: "(string \<times> json) list \<Rightarrow> (string \<times> json) list" where
  "normalizeXHTTPExtraMap [] = []"
| "normalizeXHTTPExtraMap ((k, v) # m) =
     (if k \<in> set (map fst m) then normalizeXHTTPExtraMap m
      else case v of
             JObj kvs \<Rightarrow> (k, JObj (normalizeXHTTPExtraMap kvs)) # normalizeXHTTPExtraMap m
           | JStr s \<Rightarrow>
               (case norm_string k s of
                  None \<Rightarrow> normalizeXHTTPExtraMap m
                | Some j \<Rightarrow> (k, j) # normalizeXHTTPExtraMap m)
           | _ \<Rightarrow> (k, v) # normalizeXHTTPExtraMap m)"

definition normalizeXHTTPExtraJSON :: "json \<Rightarrow> json option" where
  "normalizeXHTTPExtraJSON j =
     (case j of JObj kvs \<Rightarrow> Some (JObj (normalizeXHTTPExtraMap kvs)) | JNull \<Rightarrow> Some JNull | _ \<Rightarrow> None)"

section \<open>The sing-box dialect of the download block\<close>

definition sb_to_reality :: "sb_dl_tls \<Rightarrow> sb_reality \<Rightarrow> dl_reality" where
  "sb_to_reality t r =
     \<lparr>dr_fingerprint = (case sb_utls t of None \<Rightarrow> '''' | Some f \<Rightarrow> f),
      dr_server_name = sb_server_name t, dr_public_key = sr_public_key r,
      dr_short_id = sr_short_id r\<rparr>"

definition sb_to_tls :: "sb_dl_tls \<Rightarrow> dl_tls" where
  "sb_to_tls t =
     \<lparr>dt_insecure = sb_insecure t, dt_server_name = sb_server_name t, dt_alpn = sb_alpn t,
      dt_fingerprint = (case sb_utls t of None \<Rightarrow> '''' | Some f \<Rightarrow> f)\<rparr>"

definition fold_server :: "download_settings \<Rightarrow> download_settings" where
  "fold_server d =
     d\<lparr>ds_address := (if ds_address d = '''' \<and> ds_sb_server d \<noteq> '''' then ds_sb_server d else ds_address d),
       ds_port := (if ds_port d = 0 \<and> ds_sb_port d \<noteq> 0 then ds_sb_port d else ds_port d)\<rparr>"

definition fold_tls :: "sb_dl_tls \<Rightarrow> download_settings \<Rightarrow> download_settings" where
  "fold_tls t d =
     (case sb_reality_opt t of
        Some r \<Rightarrow>
          if sr_enabled r then
            d\<lparr>ds_security := ''reality'',
              ds_reality := (case ds_reality d of None \<Rightarrow> Some (sb_to_reality t r) | Some x \<Rightarrow> Some x)\<rparr>
          else d\<lparr>ds_security := ''tls'',
                 ds_tls := (case ds_tls d of None \<Rightarrow> Some (sb_to_tls t) | Some x \<Rightarrow> Some x)\<rparr>
      | None \<Rightarrow> d\<lparr>ds_security := ''tls'',
                  ds_tls := (case ds_tls d of None \<Rightarrow> Some (sb_to_tls t) | Some x \<Rightarrow> Some x)\<rparr>)"

definition normalizeSingboxDialect :: "download_settings \<Rightarrow> download_settings" where
  "normalizeSingboxDialect d0 =
     (let d = fold_server d0 in
      case ds_sb_tls d of
        None \<Rightarrow> d
      | Some t \<Rightarrow> if \<not> sb_enabled t \<or> ds_security d \<noteq> '''' then d else fold_tls t d)"

definition UnmarshalXHTTPExtra :: "(json \<Rightarrow> xhttp_extra option) \<Rightarrow> string \<Rightarrow> xhttp_extra option" where
  "UnmarshalXHTTPExtra dec text =
     map_option (\<lambda>x. x\<lparr>xe_download := map_option normalizeSingboxDialect (xe_download x)\<rparr>)
       (case json_parse text of
          None \<Rightarrow> None
        | Some j \<Rightarrow>
            (case dec j of
               Some x \<Rightarrow> Some x
             | None \<Rightarrow> (case normalizeXHTTPExtraJSON j of None \<Rightarrow> None | Some j' \<Rightarrow> dec j')))"

section \<open>Facts\<close>

text \<open>Xray fields win over the sing-box spelling of the same field.\<close>

lemma fold_tls_fields [simp]:
  "ds_address (fold_tls t d) = ds_address d" "ds_port (fold_tls t d) = ds_port d"
  "ds_sb_server (fold_tls t d) = ds_sb_server d" "ds_sb_port (fold_tls t d) = ds_sb_port d"
  "ds_sb_tls (fold_tls t d) = ds_sb_tls d" "ds_base (fold_tls t d) = ds_base d"
  by (simp_all add: fold_tls_def split: option.splits)

lemma fold_tls_security [simp]: "ds_security (fold_tls t d) \<noteq> ''''"
  by (simp add: fold_tls_def split: option.splits)

lemma fold_tls_keeps:
  "ds_tls d = Some x \<Longrightarrow> ds_tls (fold_tls t d) = Some x"
  "ds_reality d = Some r \<Longrightarrow> ds_reality (fold_tls t d) = Some r"
  by (simp_all add: fold_tls_def split: option.splits)

lemma fold_server_idem [simp]:
  "ds_address (fold_server d) = ds_address d \<Longrightarrow> ds_port (fold_server d) = ds_port d \<Longrightarrow>
   fold_server d = d"
  by (cases d) (simp add: fold_server_def)

lemma fold_server_done:
  "ds_address d \<noteq> '''' \<or> ds_sb_server d = '''' \<Longrightarrow> ds_port d \<noteq> 0 \<or> ds_sb_port d = 0 \<Longrightarrow>
   fold_server d = d"
  by (rule fold_server_idem) (auto simp: fold_server_def)

lemma fold_server_fields [simp]:
  "ds_security (fold_server d) = ds_security d" "ds_tls (fold_server d) = ds_tls d"
  "ds_reality (fold_server d) = ds_reality d" "ds_sb_tls (fold_server d) = ds_sb_tls d"
  "ds_sb_server (fold_server d) = ds_sb_server d" "ds_sb_port (fold_server d) = ds_sb_port d"
  by (simp_all add: fold_server_def)

lemma fold_server_settled:
  "ds_address (fold_server d) \<noteq> '''' \<or> ds_sb_server d = ''''"
  "ds_port (fold_server d) \<noteq> 0 \<or> ds_sb_port d = 0"
  by (simp_all add: fold_server_def)

lemma dialect_keeps_xray:
  "ds_address d \<noteq> '''' \<Longrightarrow> ds_address (normalizeSingboxDialect d) = ds_address d"
  "ds_port d \<noteq> 0 \<Longrightarrow> ds_port (normalizeSingboxDialect d) = ds_port d"
  "ds_security d \<noteq> '''' \<Longrightarrow> ds_security (normalizeSingboxDialect d) = ds_security d"
  "ds_tls d = Some t \<Longrightarrow> ds_tls (normalizeSingboxDialect d) = Some t"
  "ds_reality d = Some r \<Longrightarrow> ds_reality (normalizeSingboxDialect d) = Some r"
  by (simp_all add: normalizeSingboxDialect_def Let_def fold_tls_keeps split: option.splits)
    (simp_all add: fold_server_def)

lemma dialect_idem: "normalizeSingboxDialect (normalizeSingboxDialect d) = normalizeSingboxDialect d"
proof -
  let ?d = "normalizeSingboxDialect d"
  have "fold_server ?d = ?d"
    using fold_server_settled [of d]
    by (intro fold_server_done)
      (simp_all add: normalizeSingboxDialect_def Let_def split: option.splits)
  moreover have "ds_sb_tls ?d = None \<or> (\<exists>t. ds_sb_tls ?d = Some t \<and> (\<not> sb_enabled t \<or> ds_security ?d \<noteq> ''''))"
    by (simp add: normalizeSingboxDialect_def Let_def split: option.splits)
  ultimately show ?thesis
    by (auto simp: normalizeSingboxDialect_def [of ?d] Let_def)
qed

lemma dialect_no_sb:
  "ds_sb_server d = '''' \<Longrightarrow> ds_sb_port d = 0 \<Longrightarrow> ds_sb_tls d = None \<Longrightarrow> normalizeSingboxDialect d = d"
  by (simp add: normalizeSingboxDialect_def fold_server_def)

text \<open>
  After normalisation no key occurs twice, and every member of a numeric key that is still
  a string is a range.
\<close>

fun xhttp_clean :: "(string \<times> json) list \<Rightarrow> bool" where
  "xhttp_clean [] = True"
| "xhttp_clean ((k, v) # m) =
     (k \<notin> set (map fst m) \<and>
      (case v of
         JObj kvs \<Rightarrow> xhttp_clean kvs
       | JStr s \<Rightarrow>
           (if to_lower k = ''domainstrategy''
            then s \<in> {''as_is'', ''ipv4_only'', ''ipv6_only'', ''prefer_ipv4'', ''prefer_ipv6''}
            else looksNumericXHTTPKey k \<longrightarrow> rangeOrInt (trim_space s))
       | _ \<Rightarrow> True) \<and> xhttp_clean m)"

lemma norm_map_keys: "set (map fst (normalizeXHTTPExtraMap m)) \<subseteq> set (map fst m)"
proof (induction m rule: normalizeXHTTPExtraMap.induct)
  case (2 k v m)
  then show ?case by (cases "k \<in> set (map fst m)"; cases v) (simp split: option.splits; blast)+
qed simp

lemma domain_strategy_range:
  "domain_strategy v = Some s \<Longrightarrow>
   s \<in> {''as_is'', ''ipv4_only'', ''ipv6_only'', ''prefer_ipv4'', ''prefer_ipv6''}"
  by (auto simp: domain_strategy_def Let_def split: if_splits)

lemma norm_string_str:
  assumes "norm_string k v = Some (JStr s)"
  shows "if to_lower k = ''domainstrategy''
         then s \<in> {''as_is'', ''ipv4_only'', ''ipv6_only'', ''prefer_ipv4'', ''prefer_ipv6''}
         else looksNumericXHTTPKey k \<longrightarrow> rangeOrInt (trim_space s)"
  using assms domain_strategy_range [of v s]
  by (auto simp: norm_string_def split: if_splits prod.splits)

lemma norm_string_not_obj: "norm_string k v \<noteq> Some (JObj m)"
  by (auto simp: norm_string_def split: if_splits prod.splits)

lemma xhttp_clean_normalize: "xhttp_clean (normalizeXHTTPExtraMap m)"
proof (induction m rule: normalizeXHTTPExtraMap.induct)
  case 1
  then show ?case by simp
next
  case (2 k v m)
  show ?case
  proof (cases "k \<in> set (map fst m)")
    case True
    with 2 show ?thesis by simp
  next
    case False
    then have k: "k \<notin> set (map fst (normalizeXHTTPExtraMap m))"
      using norm_map_keys [of m] by blast
    have str: "xhttp_clean ((k, j) # normalizeXHTTPExtraMap m)"
      if "norm_string k s = Some j" "xhttp_clean (normalizeXHTTPExtraMap m)" for s j
      using that k norm_string_str [of k s] norm_string_not_obj [of k s] by (cases j) auto
    show ?thesis
      using False k 2 str by (cases v) (auto split: option.splits)
  qed
qed

end
