(* ===== verification/Common_Options.thy ===== *)
theory Common_Options
  imports Xhttp_Extra
begin

text \<open>
  \<open>ray2sing/common.go\<close>: the helpers every protocol parser calls to turn the parameters of a
  link into TLS, multiplex and transport options. The functions are split along the code's
  own paragraphs. \<open>getTransportOptions\<close> writes its default ALPN into the parameter map that
  \<open>getTLSOptions\<close> reads afterwards, so its model returns the updated map.
\<close>

section \<open>Lookup and normalisation\<close>

fun getOneOf :: "params \<Rightarrow> string list \<Rightarrow> string option" where
  "getOneOf m [] = None"
| "getOneOf m (h # hs) = (case m h of Some v \<Rightarrow> Some v | None \<Rightarrow> getOneOf m hs)"

fun getOneOfN :: "params \<Rightarrow> string \<Rightarrow> string list \<Rightarrow> string" where
  "getOneOfN m d [] = d"
| "getOneOfN m d (h # hs) = (case m (normalizeStr h) of Some v \<Rightarrow> v | None \<Rightarrow> getOneOfN m d hs)"

definition isIPOnly :: "string \<Rightarrow> bool" where
  "isIPOnly s = parse_ip_ok s"

definition normalizePacketEncoding :: "string \<Rightarrow> string" where
  "normalizePacketEncoding v =
     (let s = to_lower (trim_space v) in
      if s = ''packetaddr'' then ''packetaddr'' else if s = ''xudp'' then ''xudp'' else '''')"

definition normalizeMuxProtocol :: "string \<Rightarrow> string" where
  "normalizeMuxProtocol raw =
     (let s = to_lower (trim_space raw) in
      if s \<in> {'''', ''none'', ''off'', ''disabled'', ''0''} then ''''
      else if s \<in> {''h2'', ''h2mux''} then ''h2mux''
      else if s = ''smux'' then ''smux''
      else if s = ''yamux'' then ''yamux''
      else '''')"

definition normalizeTLSVersion :: "string \<Rightarrow> string" where
  "normalizeTLSVersion v0 =
     (let v = trim_prefix (trim_prefix (to_lower (trim_space v0)) ''tlsv'') ''tls'' in
      if v \<in> {''1.0'', ''1.1'', ''1.2'', ''1.3''} then v else '''')"

definition normalizeRealityPublicKey :: "string \<Rightarrow> string" where
  "normalizeRealityPublicKey v =
     replace_byte (CHR ''/'') (CHR ''_'')
       (replace_byte (CHR ''+'') (CHR ''-'') (trim_right_set (trim_space v) ''=''))"

definition normalizeRealityShortID :: "string \<Rightarrow> string" where
  "normalizeRealityShortID v0 =
     (let v = trim_space v0 in
      if length v > 16 then '''' else if list_all is_hex v then v else '''')"

definition getALPNversion :: "string list \<Rightarrow> nat" where
  "getALPNversion s =
     (case s of [] \<Rightarrow> 1 | a # _ \<Rightarrow> if a = ''h3'' then 3 else if a = ''h2'' then 2 else 1)"

definition getDialerOptions :: "params \<Rightarrow> dialer_options" where
  "getDialerOptions decoded = dialer_zero"

section \<open>TLS\<close>

definition is_reality :: "params \<Rightarrow> bool" where
  "is_reality d \<longleftrightarrow> mget d ''security'' = ''reality'' \<or> mget d ''tls'' = ''reality''"

definition tls_requested :: "params \<Rightarrow> bool" where
  "tls_requested d \<longleftrightarrow> mget d ''tls'' = ''tls'' \<or> mget d ''tls'' = ''reality'' \<or>
     mget d ''security'' = ''tls'' \<or> mget d ''security'' = ''reality''"

definition tls_server_name_of :: "params \<Rightarrow> string" where
  "tls_server_name_of d =
     (let s0 = mget d ''sni'';
          s1 = (if s0 = '''' then mget d ''peer'' else s0);
          s2 = (if s1 = '''' then getOneOfN d '''' [''host''] else s1)
      in if s2 = '''' then mget d ''add'' else s2)"

definition pem_begin :: string where
  "pem_begin = ''-----BEGIN ECH CONFIGS-----''"

definition pem_end :: string where
  "pem_end = ''-----END ECH CONFIGS-----''"

definition newline :: string where
  "newline = [CHR 0x0A]"

text \<open>The \<open>ech\<close> value after the vocabulary and base64 checks; \<open>None\<close> when ECH stays off.\<close>

definition ech_value :: "params \<Rightarrow> string option" where
  "ech_value d =
     (case d ''ech'' of
        None \<Rightarrow> None
      | Some v \<Rightarrow>
          if to_lower (trim_space v) \<in> {''0'', ''false'', ''no'', ''off'', ''none''} then None
          else if length v > 5 \<and> \<not> contains v pem_begin then
            (let v' = replace_byte (CHR '' '') (CHR ''+'') (trim_space v) in
             if length v' \<ge> 16 \<and> (std_decode v' \<noteq> None \<or> raw_std_decode v' \<noteq> None)
             then Some v' else None)
          else Some v)"

definition ech_options_of :: "params \<Rightarrow> string \<Rightarrow> ech_options option" where
  "ech_options_of d serverName =
     (case ech_value d of
        None \<Rightarrow> None
      | Some v \<Rightarrow>
          let cfg = (if length v > 5
                     then [if contains v pem_begin then v
                           else pem_begin @ newline @ v @ newline @ pem_end]
                     else []);
              qsn = getOneOfN d '''' [''query_server_name'', ''echqueryservername''];
              qn = (if cfg \<noteq> [] then ''''
                    else if qsn \<noteq> '''' then qsn
                    else if toBool (getOneOfN d '''' [''echforcequery'', ''ech_force_query'']) False
                    then serverName else '''')
          in Some \<lparr>ech_enabled = True, ech_config = cfg, ech_query_name = qn\<rparr>)"

definition fingerprint_of :: "params \<Rightarrow> string" where
  "fingerprint_of d =
     (let fp0 = to_lower (trim_space (mget d ''fp''));
          fp1 = (if fp0 \<in> {''none'', ''unsafe''} then '''' else fp0)
      in if fp1 = '''' \<and> is_reality d then ''chrome'' else fp1)"

definition getTricksOptions :: "params \<Rightarrow> tls_tricks option" where
  "getTricksOptions d = (if mget d ''mc'' \<noteq> ''1'' then None else Some \<lparr>mixed_case_sni = True\<rparr>)"

definition tls_insecure_of :: "params \<Rightarrow> bool" where
  "tls_insecure_of d =
     (let v = (case getOneOf d [''insecure'', ''allowinsecure''] of None \<Rightarrow> ''false'' | Some x \<Rightarrow> x)
      in v = ''true'' \<or> v = ''1'')"

definition tls_base :: "params \<Rightarrow> tls_options" where
  "tls_base d =
     (let sn = tls_server_name_of d; fp = fingerprint_of d in
      tls_zero\<lparr>tls_enabled := True, tls_server_name := sn, tls_insecure := tls_insecure_of d,
        tls_disable_sni := toBool (getOneOfN d '''' [''nosni'']) False,
        tls_ech := ech_options_of d sn, tls_tricks := getTricksOptions d,
        tls_utls := (if fp \<noteq> '''' then Some \<lparr>utls_enabled = True, utls_fingerprint = fp\<rparr> else None),
        tls_min_version := normalizeTLSVersion (getOneOfN d '''' [''minversion'', ''min_version'']),
        tls_max_version := normalizeTLSVersion (getOneOfN d '''' [''maxversion'', ''max_version''])\<rparr>)"

text \<open>The ALPN paragraph: the clamp of HTTP/1.1 and HTTP/2 transports, the h3 guard.\<close>

definition tls_alpn_stage :: "params \<Rightarrow> tls_options \<Rightarrow> tls_options" where
  "tls_alpn_stage d t =
     (let alpn = mget d ''alpn''; net = getOneOfN d '''' [''net'', ''type''] in
      if alpn = '''' then t
      else if net \<in> {''httpupgrade'', ''ws''} then t\<lparr>tls_alpn := [''http/1.1'']\<rparr>
      else if net \<in> {''grpc'', ''h2''} then t\<lparr>tls_alpn := [''h2'']\<rparr>
      else let l = split_byte (CHR '','') alpn in
        if getALPNversion l = 3 then
          (if is_reality d then t\<lparr>tls_alpn := []\<rparr>
           else t\<lparr>tls_alpn := l, tls_utls := None\<rparr>)
        else t\<lparr>tls_alpn := l\<rparr>)"

definition tls_reality_stage :: "params \<Rightarrow> tls_options \<Rightarrow> tls_options" where
  "tls_reality_stage d t =
     (if is_reality d then
        t\<lparr>tls_reality := Some \<lparr>rl_enabled = True,
            rl_public_key = normalizeRealityPublicKey (mget d ''pbk''),
            rl_short_id = normalizeRealityShortID (mget d ''sid'')\<rparr>\<rparr>
      else t)"

definition getTLSOptions :: "params \<Rightarrow> tls_options option" where
  "getTLSOptions d =
     (if \<not> tls_requested d then None
      else Some (tls_reality_stage d (tls_alpn_stage d (tls_base d))))"

section \<open>Multiplex\<close>

definition getMuxOptions :: "params \<Rightarrow> mux_options option" where
  "getMuxOptions d =
     (let proto = normalizeMuxProtocol (mget d ''muxtype'');
          up = toInt (mget d ''muxup''); down = toInt (mget d ''muxdown'') in
      if proto = '''' then None
      else Some \<lparr>mux_enabled = True, mux_protocol = proto,
        mux_max_connections = toInt (mget d ''muxmaxc''),
        mux_min_streams = toInt (mget d ''mux''),
        mux_max_streams = toInt (mget d ''muxsmax''),
        mux_padding = (mget d ''muxpad'' = ''true''),
        mux_brutal = (if up > 0 \<and> down > 0
                      then Some \<lparr>br_enabled = True, br_up = up, br_down = down\<rparr> else None)\<rparr>)"

section \<open>Transport\<close>

definition transport_net0 :: "params \<Rightarrow> string" where
  "transport_net0 d =
     (let n = mget d ''net'' in
      if n \<noteq> '''' then n
      else let t = mget d ''type'' in
        if t \<in> {''none'', ''srtp'', ''utp'', ''wechat-video'', ''dtls'', ''wireguard'', ''dns''}
        then ''tcp'' else t)"

definition transport_net :: "params \<Rightarrow> string" where
  "transport_net d =
     (let n0 = transport_net0 d;
          n1 = (if n0 = ''raw'' \<or> n0 = '''' then ''tcp'' else n0);
          n2 = (if (mget d ''type'' = ''http'' \<or> mget d ''headertype'' = ''http'') \<and> n1 = ''tcp''
                then ''http'' else n1);
          n3 = (if n2 = ''h2'' then ''http'' else n2);
          n4 = (if n3 = ''splithttp'' then ''xhttp'' else n3)
      in if n4 = ''websocket'' then ''ws'' else n4)"

definition transport_path :: "params \<Rightarrow> string" where
  "transport_path d =
     (let p = mget d ''path'' in
      if p = '''' then getOneOfN d '''' [''servicename'', ''service-name'', ''grpc-service-name'']
      else p)"

definition default_alpn :: "string \<Rightarrow> params \<Rightarrow> params" where
  "default_alpn a d = (if mget d ''alpn'' = '''' then d(''alpn'' \<mapsto> a) else d)"

definition header_lists :: "(string \<times> string) list \<Rightarrow> headers" where
  "header_lists kvs = (\<lambda>k. map_option (\<lambda>v. [v]) (members_map kvs k))"

definition http_transport_of :: "params \<Rightarrow> http_transport" where
  "http_transport_of d =
     (let host = mget d ''host''; path = transport_path d;
          m0 = (if mget d ''security'' \<noteq> ''tls'' then ''GET'' else '''');
          m = getOneOfN d '''' [''method'', ''http_method''];
          hdrs = getOneOfN d '''' [''headers''] in
      \<lparr>ht_host = (if host = '''' then []
                  else filter (\<lambda>h. h \<noteq> '''') (map trim_space (split_byte (CHR '','') host))),
       ht_path = (if path = '''' then ''/'' else path),
       ht_method = (if m \<noteq> '''' then m else m0),
       ht_headers = (if hdrs = '''' then Map.empty
                     else case decode_string_map hdrs of
                            Some (Some kvs) \<Rightarrow> header_lists kvs
                          | _ \<Rightarrow> Map.empty)\<rparr>)"

definition host_header :: "string \<Rightarrow> headers" where
  "host_header host = (if host = '''' then Map.empty else [''Host'' \<mapsto> [host]])"

definition rooted :: "string \<Rightarrow> string" where
  "rooted p = (if has_prefix p ''/'' then p else ''/'' @ p)"

text \<open>
  The early-data paragraph that WebSocket and HTTPUpgrade share: a path that does not parse
  is taken as it is; otherwise a numeric \<open>ed\<close> query parameter moves out of the path.
\<close>

definition early_data_path :: "string \<Rightarrow> string \<times> 32 word" where
  "early_data_path p =
     (case url_Parse p of
        Inl _ \<Rightarrow> (p, 0)
      | Inr u \<Rightarrow>
          let q = url_query u; ed = values_get q ''ed'' in
          if ed = '''' then (url_String u, 0)
          else case parse_uint 32 ed of
                 None \<Rightarrow> (url_String u, 0)
               | Some n \<Rightarrow> (url_String (u\<lparr>u_rawquery := values_encode (values_del ''ed'' q)\<rparr>), of_nat n))"

definition httpupgrade_of :: "params \<Rightarrow> httpupgrade_transport" where
  "httpupgrade_of d =
     (let path = transport_path d;
          (p, n) = (if path = '''' then ('''', 0) else early_data_path (rooted path)) in
      \<lparr>hu_path = p, hu_headers = host_header (mget d ''host''), hu_max_early_data = n\<rparr>)"

text \<open>A positive number of seconds replaces the default.\<close>

definition positive_seconds :: "string \<Rightarrow> int \<Rightarrow> int" where
  "positive_seconds v dflt =
     (if v = '''' then dflt else if toInt v > 0 then seconds (toInt v) else dflt)"

definition ws_of :: "params \<Rightarrow> ws_transport" where
  "ws_of d =
     (let path = transport_path d;
          (p, n) = (if path = '''' then ('''', 0) else early_data_path (rooted path)) in
      \<lparr>ws_path = p, ws_headers = host_header (mget d ''host''), ws_max_early_data = n,
       ws_early_header = (if path = '''' then '''' else ''Sec-WebSocket-Protocol''),
       ws_heartbeat = positive_seconds
         (getOneOfN d '''' [''heartbeatperiod'', ''heartbeat_period'', ''heartbeat'']) 0\<rparr>)"

definition grpc_of :: "params \<Rightarrow> grpc_transport" where
  "grpc_of d =
     (let permit = getOneOfN d '''' [''permit_without_stream'', ''permitwithoutstream''] in
      \<lparr>grpc_service = transport_path d,
       grpc_idle_timeout = positive_seconds (getOneOfN d '''' [''idle_timeout'', ''idletimeout'']) (seconds 15),
       grpc_ping_timeout = positive_seconds
         (getOneOfN d '''' [''health_check_timeout'', ''healthchecktimeout'']) (seconds 15),
       grpc_permit = (if permit = '''' then False else toBool permit False),
       grpc_authority = getOneOfN d '''' [''authority''],
       grpc_user_agent = getOneOfN d '''' [''user_agent'', ''useragent'']\<rparr>)"

definition utls_of :: "string \<Rightarrow> utls_options option" where
  "utls_of fp = (if fp = '''' then None else Some \<lparr>utls_enabled = True, utls_fingerprint = fp\<rparr>)"

definition download_tls :: "download_settings \<Rightarrow> tls_options option" where
  "download_tls dl =
     (let a = (case (ds_security dl = ''tls'', ds_tls dl) of
                 (True, Some t) \<Rightarrow>
                   Some (tls_zero\<lparr>tls_enabled := True, tls_alpn := dt_alpn t,
                     tls_insecure := dt_insecure t, tls_server_name := dt_server_name t,
                     tls_utls := (if getALPNversion (dt_alpn t) \<noteq> 3 then utls_of (dt_fingerprint t) else None)\<rparr>)
               | _ \<Rightarrow> None)
      in case (ds_security dl = ''reality'', ds_reality dl) of
           (True, Some r) \<Rightarrow>
             Some (tls_zero\<lparr>tls_enabled := True, tls_server_name := dr_server_name r,
               tls_reality := Some \<lparr>rl_enabled = True, rl_public_key = dr_public_key r,
                 rl_short_id = dr_short_id r\<rparr>,
               tls_utls := utls_of (dr_fingerprint r)\<rparr>)
         | _ \<Rightarrow> a)"

definition xhttp_download_of :: "string \<Rightarrow> download_settings \<Rightarrow> xhttp_download" where
  "xhttp_download_of path dl =
     (let b = ds_base dl in
      \<lparr>xd_base = (if xb_path b = '''' then b\<lparr>xb_path := path\<rparr> else b),
       xd_server = \<lparr>so_server = ds_address dl, so_port = of_int (ds_port dl)\<rparr>,
       xd_tls = download_tls dl\<rparr>)"

definition xhttp_base_zero :: xhttp_base where
  "xhttp_base_zero = \<lparr>xb_host = '''', xb_path = '''', xb_headers = None, xb_rest = ''''\<rparr>"

definition xhttp_extra_zero :: xhttp_extra where
  "xhttp_extra_zero = \<lparr>xe_base = xhttp_base_zero, xe_download = None\<rparr>"

text \<open>The \<open>extra\<close> block: a non-empty top-level host or path wins over the one in the block.\<close>

definition apply_extra :: "string \<Rightarrow> string \<Rightarrow> xhttp_extra \<Rightarrow> xhttp_transport \<Rightarrow> xhttp_transport" where
  "apply_extra host path x t =
     (let b = xe_base x;
          b1 = (if host \<noteq> '''' \<or> xb_host b = '''' then b\<lparr>xb_host := host\<rparr> else b);
          b2 = (if path \<noteq> '''' \<or> xb_path b1 = '''' then b1\<lparr>xb_path := path\<rparr> else b1)
      in t\<lparr>xh_base := b2, xh_download := map_option (xhttp_download_of path) (xe_download x)\<rparr>)"

definition xhttp_headers :: "params \<Rightarrow> xhttp_transport \<Rightarrow> xhttp_transport" where
  "xhttp_headers d t =
     (let hdrs = getOneOfN d '''' [''headers''] in
      if xb_headers (xh_base t) = None \<and> hdrs \<noteq> '''' then
        (case decode_string_map hdrs of
           None \<Rightarrow> t
         | Some m \<Rightarrow> t\<lparr>xh_base := (xh_base t)\<lparr>xb_headers := map_option members_map m\<rparr>\<rparr>)
      else t)"

definition xhttp_of :: "(json \<Rightarrow> xhttp_extra option) \<Rightarrow> params \<Rightarrow> xhttp_transport" where
  "xhttp_of dec d =
     (let host = mget d ''host''; path = transport_path d;
          t0 = \<lparr>xh_mode = getOneOfN d ''auto'' [''mode''],
                xh_base = xhttp_base_zero\<lparr>xb_host := host, xb_path := path\<rparr>,
                xh_download = None\<rparr>;
          t1 = (case d ''extra'' of
                  None \<Rightarrow> t0
                | Some e \<Rightarrow>
                    apply_extra host path
                      (case UnmarshalXHTTPExtra dec e of None \<Rightarrow> xhttp_extra_zero | Some x \<Rightarrow> x) t0)
      in xhttp_headers d t1)"

text \<open>The result is the transport (\<open>None\<close> for plain TCP) with the updated parameters.\<close>

definition getTransportOptions ::
  "(json \<Rightarrow> xhttp_extra option) \<Rightarrow> params \<Rightarrow> (transport option \<times> params) result" where
  "getTransportOptions dec d =
     (let net = transport_net d in
      if net = ''tcp'' then Inr (None, d)
      else if net = ''http'' then Inr (Some (THttp (http_transport_of d)), d)
      else if net = ''httpupgrade'' then
        Inr (Some (THttpUpgrade (httpupgrade_of d)), default_alpn ''http/1.1'' d)
      else if net = ''ws'' then Inr (Some (TWs (ws_of d)), default_alpn ''http/1.1'' d)
      else if net = ''grpc'' then Inr (Some (TGrpc (grpc_of d)), default_alpn ''h2'' d)
      else if net = ''quic'' then
        (if \<not> tls_requested d
         then err ''quic transport requires TLS in sing-box; legacy v2ray QUIC-security links are not supported'' []
         else Inr (Some TQuic, default_alpn ''h3'' d))
      else if net = ''xhttp'' then Inr (Some (TXhttp (xhttp_of dec d)), default_alpn ''h2'' d)
      else if net = ''h3'' then
        err ''h3 transport not supported by InHive core (sing-box has no HTTP/3 V2Ray transport)'' []
      else if net \<in> {''kcp'', ''mkcp''} then err ''mKCP transport not supported by InHive core'' []
      else err ''unknown transport type: '' [net])"

section \<open>Facts on lookup and normalisation\<close>

lemma getOneOfN_absent: "(\<And>h. h \<in> set hs \<Longrightarrow> m (normalizeStr h) = None) \<Longrightarrow> getOneOfN m d hs = d"
  by (induction hs) auto

lemma getOneOf_in: "getOneOf m hs = Some v \<Longrightarrow> \<exists>h \<in> set hs. m h = Some v"
  by (induction hs) (auto split: option.splits)

lemma getOneOf_None: "getOneOf m hs = None \<longleftrightarrow> (\<forall>h \<in> set hs. m h = None)"
  by (induction hs) (auto split: option.splits)

lemma getOneOfN_upd:
  "k \<notin> normalizeStr ` set hs \<Longrightarrow> getOneOfN (m(k := v)) d hs = getOneOfN m d hs"
  by (induction hs) (auto split: option.splits)

lemma packetEncoding_range: "normalizePacketEncoding v \<in> {'''', ''packetaddr'', ''xudp''}"
  by (simp add: normalizePacketEncoding_def Let_def)

lemma muxProtocol_range: "normalizeMuxProtocol v \<in> {'''', ''h2mux'', ''smux'', ''yamux''}"
  by (simp add: normalizeMuxProtocol_def Let_def)

lemma tlsVersion_range: "normalizeTLSVersion v \<in> {'''', ''1.0'', ''1.1'', ''1.2'', ''1.3''}"
  by (simp add: normalizeTLSVersion_def Let_def)

lemma shortID_shape:
  "length (normalizeRealityShortID v) \<le> 16 \<and> list_all is_hex (normalizeRealityShortID v)"
  by (simp add: normalizeRealityShortID_def Let_def)

lemma hex_graphic: "is_hex c \<Longrightarrow> graphic c"
  by (auto simp: is_hex_def graphic_def is_digit_def)

lemma shortID_idem: "normalizeRealityShortID (normalizeRealityShortID v) = normalizeRealityShortID v"
proof -
  let ?n = "normalizeRealityShortID v"
  have "list_all graphic ?n"
    using shortID_shape [of v] by (auto simp: list_all_iff hex_graphic)
  then have "trim_space ?n = ?n" by (rule trim_space_graphic)
  then show ?thesis using shortID_shape [of v] by (simp add: normalizeRealityShortID_def [of ?n])
qed

text \<open>A valid short id passes through.\<close>

lemma shortID_id: "list_all is_hex v \<Longrightarrow> length v \<le> 16 \<Longrightarrow> normalizeRealityShortID v = v"
proof -
  assume v: "list_all is_hex v" "length v \<le> 16"
  then have "list_all graphic v" by (auto simp: list_all_iff hex_graphic)
  with v show ?thesis by (simp add: normalizeRealityShortID_def trim_space_graphic)
qed

text \<open>The standard alphabet maps onto the URL alphabet byte by byte.\<close>

definition to_url_byte :: "char \<Rightarrow> char" where
  "to_url_byte c = (if c = CHR ''+'' then CHR ''-'' else if c = CHR ''/'' then CHR ''_'' else c)"

lemma replace_to_url:
  "replace_byte (CHR ''/'') (CHR ''_'') (replace_byte (CHR ''+'') (CHR ''-'') s) = map to_url_byte s"
  by (auto simp: replace_byte_def to_url_byte_def)

lemma to_url_std_char: "n < 64 \<Longrightarrow> to_url_byte (std_char n) = url_char n"
  by (erule base64_cases)
    (auto simp: to_url_byte_def std_char_def url_char_def code_base64_char char_eq_code base64_char_def code_char_of)

lemma to_url_encode: "map to_url_byte (std_encode s) = url_encode s"
proof -
  have "map to_url_byte (enc_bytes std_char s) = enc_bytes url_char s"
    by (induction s rule: induct_list3)
      (simp_all add: to_url_std_char std64.byte_six, simp_all add: to_url_byte_def)
  then show ?thesis by (simp add: std_encode_def url_encode_def)
qed

lemma trim_right_replicate:
  "a \<notin> set b \<Longrightarrow> trim_right_set (b @ replicate k a) [a] = b"
proof -
  assume a: "a \<notin> set b"
  have "dropWhile (\<lambda>c. c \<in> {a}) (replicate k a @ rev b) = rev b"
    using a by (induction k) (cases "rev b"; auto)+
  then show ?thesis by (simp add: trim_right_set_def)
qed

lemma trim_pad_std: "trim_right_set (std_encode s) ''='' = unpad (std_encode s)"
proof -
  obtain b k where b: "enc_bytes std_char s = b @ replicate k (CHR ''='')" "CHR ''='' \<notin> set b"
    using std64.enc_shape [of s] by (elim exE conjE)
  have "unpad (b @ replicate k (CHR ''='')) = b"
    using b(2) by (auto simp: unpad_def filter_id_conv)
  with b show ?thesis by (simp add: std_encode_def trim_right_replicate)
qed

lemma unpad_to_url: "map to_url_byte (unpad s) = unpad (map to_url_byte s)"
  by (induction s) (auto simp: unpad_def to_url_byte_def)

text \<open>A public key in padded standard base64 becomes the raw URL-safe form of the same bytes.\<close>

lemma publicKey_std: "normalizeRealityPublicKey (std_encode s) = unpad (url_encode s)"
proof -
  have "trim_space (std_encode s) = std_encode s"
    by (rule trim_space_graphic) (simp add: std_encode_def std64.enc_graphic)
  then show ?thesis
    by (simp add: normalizeRealityPublicKey_def replace_to_url trim_pad_std unpad_to_url to_url_encode)
qed

section \<open>Facts on TLS\<close>

lemma tls_alpn_stage_fields [simp]:
  "tls_enabled (tls_alpn_stage d t) = tls_enabled t"
  "tls_server_name (tls_alpn_stage d t) = tls_server_name t"
  "tls_insecure (tls_alpn_stage d t) = tls_insecure t"
  "tls_ech (tls_alpn_stage d t) = tls_ech t"
  "tls_reality (tls_alpn_stage d t) = tls_reality t"
  "tls_min_version (tls_alpn_stage d t) = tls_min_version t"
  "tls_max_version (tls_alpn_stage d t) = tls_max_version t"
  by (simp_all add: tls_alpn_stage_def Let_def)

lemma tls_reality_stage_fields [simp]:
  "tls_enabled (tls_reality_stage d t) = tls_enabled t"
  "tls_server_name (tls_reality_stage d t) = tls_server_name t"
  "tls_insecure (tls_reality_stage d t) = tls_insecure t"
  "tls_alpn (tls_reality_stage d t) = tls_alpn t"
  "tls_utls (tls_reality_stage d t) = tls_utls t"
  "tls_ech (tls_reality_stage d t) = tls_ech t"
  "tls_min_version (tls_reality_stage d t) = tls_min_version t"
  "tls_max_version (tls_reality_stage d t) = tls_max_version t"
  by (simp_all add: tls_reality_stage_def)

lemma tls_reality_stage_reality:
  "tls_reality (tls_reality_stage d t) =
     (if is_reality d then Some \<lparr>rl_enabled = True,
        rl_public_key = normalizeRealityPublicKey (mget d ''pbk''),
        rl_short_id = normalizeRealityShortID (mget d ''sid'')\<rparr> else tls_reality t)"
  by (simp add: tls_reality_stage_def)

lemma tls_base_simps [simp]:
  "tls_enabled (tls_base d)" "tls_alpn (tls_base d) = []" "tls_reality (tls_base d) = None"
  by (simp_all add: tls_base_def Let_def tls_zero_def)

lemma reality_fingerprint: "is_reality d \<Longrightarrow> fingerprint_of d \<noteq> ''''"
  by (simp add: fingerprint_of_def Let_def)

lemma tls_base_utls:
  "tls_utls (tls_base d) =
     (if fingerprint_of d \<noteq> '''' then Some \<lparr>utls_enabled = True, utls_fingerprint = fingerprint_of d\<rparr>
      else None)"
  by (simp add: tls_base_def Let_def)

lemma alpn_stage_reality_utls: "is_reality d \<Longrightarrow> tls_utls (tls_alpn_stage d t) = tls_utls t"
  by (simp add: tls_alpn_stage_def Let_def)

lemma alpn_version_simps [simp]:
  "getALPNversion [] = 1" "getALPNversion [''http/1.1''] = 1" "getALPNversion [''h2''] = 2"
  by (simp_all add: getALPNversion_def)

lemma alpn_stage_h3:
  "getALPNversion (tls_alpn t) \<noteq> 3 \<Longrightarrow> getALPNversion (tls_alpn (tls_alpn_stage d t)) = 3 \<Longrightarrow>
   \<not> is_reality d \<and> tls_utls (tls_alpn_stage d t) = None"
  by (auto simp: tls_alpn_stage_def Let_def split: if_splits)

lemma getTLSOptions_Some:
  "getTLSOptions d = Some t \<longleftrightarrow>
     tls_requested d \<and> t = tls_reality_stage d (tls_alpn_stage d (tls_base d))"
  by (auto simp: getTLSOptions_def)

lemma reality_requested: "is_reality d \<Longrightarrow> tls_requested d"
  by (auto simp: is_reality_def tls_requested_def)

section \<open>Facts on transports\<close>

lemma default_alpn_other [simp]: "k \<noteq> ''alpn'' \<Longrightarrow> default_alpn a d k = d k"
  by (simp add: default_alpn_def)

lemma default_alpn_mget [simp]: "k \<noteq> ''alpn'' \<Longrightarrow> mget (default_alpn a d) k = mget d k"
  by (simp add: mget_def)

lemma default_alpn_alpn: "mget (default_alpn a d) ''alpn'' = (if mget d ''alpn'' = '''' then a else mget d ''alpn'')"
  by (simp add: default_alpn_def)

lemma norm_net_type: "normalizeStr ''net'' = ''net''" "normalizeStr ''type'' = ''type''"
  by code_simp+

lemma default_alpn_net [simp]:
  "getOneOfN (default_alpn a d) '''' [''net'', ''type''] = getOneOfN d '''' [''net'', ''type'']"
  by (simp add: norm_net_type split: option.splits)

lemma default_alpn_reality [simp]: "is_reality (default_alpn a d) = is_reality d"
  by (simp add: is_reality_def)

text \<open>Which transport is built, and how the parameters change.\<close>

lemma getTransportOptions_cases:
  assumes "getTransportOptions dec d = Inr (Some tr, d')"
  obtains (http) h where "tr = THttp h" "d' = d" "transport_net d = ''http''"
  | (httpupgrade) h where "tr = THttpUpgrade h" "d' = default_alpn ''http/1.1'' d" "transport_net d = ''httpupgrade''"
  | (ws) w where "tr = TWs w" "d' = default_alpn ''http/1.1'' d" "transport_net d = ''ws''"
  | (grpc) g where "tr = TGrpc g" "d' = default_alpn ''h2'' d" "transport_net d = ''grpc''"
  | (quic) "tr = TQuic" "d' = default_alpn ''h3'' d" "transport_net d = ''quic''" "tls_requested d"
  | (xhttp) x where "tr = TXhttp x" "d' = default_alpn ''h2'' d" "transport_net d = ''xhttp''"
  using assms by (auto simp: getTransportOptions_def Let_def split: if_splits)

text \<open>The key that names the transport, and the value the ALPN paragraph sees.\<close>

definition transport_key :: "params \<Rightarrow> string" where
  "transport_key d = (if mget d ''net'' \<noteq> '''' then mget d ''net'' else mget d ''type'')"

lemma transport_net_key:
  "transport_net d = ''httpupgrade'' \<Longrightarrow> transport_key d = ''httpupgrade''"
  "transport_net d = ''ws'' \<Longrightarrow> transport_key d \<in> {''ws'', ''websocket''}"
  "transport_net d = ''grpc'' \<Longrightarrow> transport_key d = ''grpc''"
  "transport_net d = ''quic'' \<Longrightarrow> transport_key d = ''quic''"
  "transport_net d = ''xhttp'' \<Longrightarrow> transport_key d \<in> {''xhttp'', ''splithttp''}"
  by (auto simp: transport_net_def transport_net0_def transport_key_def Let_def split: if_splits)

lemma getOneOfN_net: "getOneOfN d '''' [''net'', ''type''] \<in> {'''', transport_key d}"
  by (auto simp: norm_net_type mget_def transport_key_def split: option.splits)

lemma tls_alpn_of:
  "getTLSOptions d = Some t \<Longrightarrow> tls_alpn t = tls_alpn (tls_alpn_stage d (tls_base d))"
  by (auto simp: getTLSOptions_Some)

lemma split_http11: "split_byte (CHR '','') ''http/1.1'' = [''http/1.1'']"
  "split_byte (CHR '','') ''h2'' = [''h2'']" "split_byte (CHR '','') ''h3'' = [''h3'']"
  by code_simp+

lemma positive_seconds_pos: "0 \<le> a \<Longrightarrow> toInt v \<le> 9223372036 \<Longrightarrow> 0 \<le> positive_seconds v a"
  by (auto simp: positive_seconds_def seconds_small)

section \<open>Properties\<close>



text \<open>
  WebSocket and HTTPUpgrade nodes offer only \<open>http/1.1\<close> in ALPN: the handshake is an
  HTTP/1.1 upgrade and must not be negotiated onto HTTP/2. This holds whatever ALPN the link
  carries when the link names the transport \<open>ws\<close> or \<open>httpupgrade\<close>, and for every spelling
  when the link carries no ALPN.
\<close>

theorem upgrade_transport_alpn:
  assumes tr: "getTransportOptions dec d = Inr (Some tr, d')"
    and tls: "getTLSOptions d' = Some t"
    and up: "(\<exists>w. tr = TWs w) \<or> (\<exists>h. tr = THttpUpgrade h)"
    and net: "mget d ''alpn'' = '''' \<or> getOneOfN d '''' [''net'', ''type''] \<in> {''ws'', ''httpupgrade''}"
  shows "tls_alpn t = [''http/1.1'']"
proof -
  from tr up have d': "d' = default_alpn ''http/1.1'' d"
    by (cases rule: getTransportOptions_cases) auto
  from tr up have "transport_key d \<in> {''ws'', ''websocket'', ''httpupgrade''}"
    by (cases rule: getTransportOptions_cases) (auto dest: transport_net_key)
  then have "getOneOfN d '''' [''net'', ''type''] \<notin> {''grpc'', ''h2''}"
    using getOneOfN_net [of d] by auto
  with net d' show ?thesis
    by (auto simp: tls_alpn_of [OF tls] tls_alpn_stage_def Let_def default_alpn_alpn split_http11
        simp del: getOneOfN.simps)
qed

lemma upgrade_transport_alpn_witness:
  "\<exists>w d' t. getTransportOptions (\<lambda>_. None)
       [''net'' \<mapsto> ''ws'', ''security'' \<mapsto> ''tls'', ''alpn'' \<mapsto> ''h2,http/1.1''] = Inr (Some (TWs w), d') \<and>
     getTLSOptions d' = Some t \<and> tls_alpn t = [''http/1.1'']"
proof -
  let ?d = "[''net'' \<mapsto> ''ws'', ''security'' \<mapsto> ''tls'', ''alpn'' \<mapsto> ''h2,http/1.1''] :: params"
  have n: "transport_net ?d = ''ws''" and o: "getOneOfN ?d '''' [''net'', ''type''] = ''ws''"
    by code_simp+
  from n have tr: "getTransportOptions (\<lambda>_. None) ?d = Inr (Some (TWs (ws_of ?d)), ?d)"
    by (simp add: getTransportOptions_def default_alpn_def mget_def Let_def)
  obtain t where t: "getTLSOptions ?d = Some t"
    by (simp add: getTLSOptions_def tls_requested_def mget_def)
  have "tls_alpn t = [''http/1.1'']"
    by (rule upgrade_transport_alpn [OF tr t]) (use o in auto)
  with tr t show ?thesis by blast
qed

text \<open>
  Without an ALPN of its own, a non-reality TLS node offers exactly the protocol its
  transport speaks: HTTP/1.1 for WebSocket and HTTPUpgrade, HTTP/2 for gRPC and xhttp,
  HTTP/3 (and no uTLS) for QUIC, and nothing for the plain HTTP transport. The default that
  \<open>getTransportOptions\<close> stores is the one \<open>getTLSOptions\<close> reads.
\<close>

theorem default_alpn_reaches_tls:
  assumes tr: "getTransportOptions dec d = Inr (Some tr, d')"
    and tls: "getTLSOptions d' = Some t"
    and no: "mget d ''alpn'' = ''''" and nr: "\<not> is_reality d"
  shows "tls_alpn t = (case tr of
      THttp _ \<Rightarrow> [] | THttpUpgrade _ \<Rightarrow> [''http/1.1''] | TWs _ \<Rightarrow> [''http/1.1'']
    | TGrpc _ \<Rightarrow> [''h2''] | TQuic \<Rightarrow> [''h3''] | TXhttp _ \<Rightarrow> [''h2'']) \<and>
    (tr = TQuic \<longrightarrow> tls_utls t = None)"
proof -
  have u: "tls_utls t = tls_utls (tls_alpn_stage d' (tls_base d'))"
    using tls by (auto simp: getTLSOptions_Some)
  show ?thesis
    using tr getOneOfN_net [of d]
    by (cases rule: getTransportOptions_cases)
      (auto dest!: transport_net_key simp: u tls_alpn_of [OF tls] tls_alpn_stage_def Let_def
        default_alpn_alpn no nr split_http11 getALPNversion_def simp del: getOneOfN.simps)
qed

lemma default_alpn_reaches_tls_witness:
  "\<exists>d' t. getTransportOptions (\<lambda>_. None) [''type'' \<mapsto> ''quic'', ''security'' \<mapsto> ''tls''] = Inr (Some TQuic, d') \<and>
     getTLSOptions d' = Some t \<and> tls_alpn t = [''h3''] \<and> tls_utls t = None"
proof -
  let ?d = "[''type'' \<mapsto> ''quic'', ''security'' \<mapsto> ''tls''] :: params"
  have n: "transport_net ?d = ''quic''" by code_simp
  then have tr: "getTransportOptions (\<lambda>_. None) ?d = Inr (Some TQuic, default_alpn ''h3'' ?d)"
    by (simp add: getTransportOptions_def tls_requested_def mget_def Let_def)
  obtain t where t: "getTLSOptions (default_alpn ''h3'' ?d) = Some t"
    by (simp add: getTLSOptions_def tls_requested_def)
  have "mget ?d ''alpn'' = ''''" "\<not> is_reality ?d" by (simp_all add: mget_def is_reality_def)
  from default_alpn_reaches_tls [OF tr t this] tr t show ?thesis by auto
qed

text \<open>
  The long spelling \<open>websocket\<close> builds the same transport as \<open>ws\<close> but escapes the ALPN
  clamp: a link that carries \<open>alpn=h2\<close> keeps offering HTTP/2 on a WebSocket node.
\<close>

theorem websocket_alias_unclamped:
  "\<exists>w d' t. getTransportOptions dec
       [''net'' \<mapsto> ''websocket'', ''security'' \<mapsto> ''tls'', ''alpn'' \<mapsto> ''h2''] = Inr (Some (TWs w), d') \<and>
     getTLSOptions d' = Some t \<and> tls_alpn t = [''h2'']"
proof -
  let ?d = "[''net'' \<mapsto> ''websocket'', ''security'' \<mapsto> ''tls'', ''alpn'' \<mapsto> ''h2''] :: params"
  have n: "transport_net ?d = ''ws''" by code_simp
  then have "getTransportOptions dec ?d = Inr (Some (TWs (ws_of ?d)), ?d)"
    by (simp add: getTransportOptions_def default_alpn_def mget_def Let_def)
  moreover obtain t where t: "getTLSOptions ?d = Some t"
    by (simp add: getTLSOptions_def tls_requested_def mget_def)
  moreover have "tls_alpn (tls_alpn_stage ?d (tls_base ?d)) = [''h2'']" by code_simp
  ultimately show ?thesis using tls_alpn_of [OF t] by auto
qed

text \<open>
  A multiplex block is only built for the three protocols sing-mux knows, all its
  numbers are 64-bit integers, and its Brutal part never carries a speed that is not positive.
\<close>

theorem mux_accepted:
  assumes "getMuxOptions d = Some m"
  shows "mux_enabled m \<and> mux_protocol m \<in> {''h2mux'', ''smux'', ''yamux''} \<and>
    (\<forall>n \<in> {mux_max_connections m, mux_min_streams m, mux_max_streams m}. - (2 ^ 63) \<le> n \<and> n < 2 ^ 63) \<and>
    (\<forall>b. mux_brutal m = Some b \<longrightarrow> br_enabled b \<and> 0 < br_up b \<and> 0 < br_down b)"
  using assms muxProtocol_range [of "mget d ''muxtype''"] atoi_bounds
  by (auto simp: getMuxOptions_def Let_def toInt_def split: if_splits)

lemma mux_accepted_witness:
  "\<exists>m. getMuxOptions [''muxtype'' \<mapsto> ''H2'', ''muxup'' \<mapsto> ''10'', ''muxdown'' \<mapsto> ''x''] = Some m \<and>
     mux_protocol m \<in> {''h2mux'', ''smux'', ''yamux''}"
proof -
  have "normalizeMuxProtocol ''H2'' = ''h2mux''" by code_simp
  then obtain m where "getMuxOptions [''muxtype'' \<mapsto> ''H2'', ''muxup'' \<mapsto> ''10'', ''muxdown'' \<mapsto> ''x''] = Some m"
    by (simp add: getMuxOptions_def mget_def Let_def)
  with mux_accepted [OF this] show ?thesis by blast
qed

text \<open>
  An ECH block carries at most one config, always PEM-framed. A config that the link did
  not frame itself is a base64 body of at least 16 bytes between the two PEM lines, and a
  block with a config never asks for a DNS query.
\<close>

theorem ech_config_framed:
  assumes "getTLSOptions d = Some t" and "tls_ech t = Some e"
  shows "ech_enabled e \<and>
    (ech_config e \<noteq> [] \<longrightarrow> ech_query_name e = '''' \<and>
      ((\<exists>b. ech_config e = [b] \<and> contains b pem_begin) \<or>
       (\<exists>b. ech_config e = [pem_begin @ newline @ b @ newline @ pem_end] \<and> 16 \<le> length b \<and>
           CHR '' '' \<notin> set b \<and> (std_decode b \<noteq> None \<or> raw_std_decode b \<noteq> None))))"
proof -
  from assms have e: "ech_options_of d (tls_server_name_of d) = Some e"
    by (auto simp: getTLSOptions_Some tls_base_def Let_def)
  have v: "contains v pem_begin \<or> length v \<le> 5 \<or> 16 \<le> length v \<and> CHR '' '' \<notin> set v \<and>
      (std_decode v \<noteq> None \<or> raw_std_decode v \<noteq> None)" if "ech_value d = Some v" for v
    using that replace_byte_gone [of "CHR '' ''" "CHR ''+''"]
    by (auto simp: ech_value_def Let_def split: option.splits if_splits)
  show ?thesis
    using e v
    by (auto simp: ech_options_of_def Let_def simp del: getOneOfN.simps split: option.splits if_splits)
qed

lemma ech_config_framed_witness:
  "\<exists>t e. getTLSOptions [''tls'' \<mapsto> ''tls'', ''ech'' \<mapsto> ''AEX+DQBBAAA AAAAAAA=''] = Some t \<and>
     tls_ech t = Some e \<and> ech_enabled e"
proof -
  let ?d = "[''tls'' \<mapsto> ''tls'', ''ech'' \<mapsto> ''AEX+DQBBAAA AAAAAAA=''] :: params"
  have "tls_ech (tls_base ?d) \<noteq> None" by code_simp
  then obtain t e where "getTLSOptions ?d = Some t" "tls_ech t = Some e"
    by (auto simp: getTLSOptions_def tls_requested_def mget_def)
  with ech_config_framed [OF this] show ?thesis by blast
qed

text \<open>
  In an xhttp link a host or path given at the top level is the one that is dialled,
  whatever the \<open>extra\<close> block holds, and the mode is always the top-level one.
\<close>

theorem xhttp_top_level_wins:
  shows "(mget d ''host'' \<noteq> '''' \<longrightarrow> xb_host (xh_base (xhttp_of dec d)) = mget d ''host'') \<and>
    (transport_path d \<noteq> '''' \<longrightarrow> xb_path (xh_base (xhttp_of dec d)) = transport_path d) \<and>
    xh_mode (xhttp_of dec d) = getOneOfN d ''auto'' [''mode'']"
  by (auto simp: xhttp_of_def Let_def xhttp_headers_def apply_extra_def split: option.splits)

lemma xhttp_top_level_wins_witness:
  "mget [''host'' \<mapsto> ''cdn'', ''extra'' \<mapsto> ''{}''] ''host'' \<noteq> '''' \<and>
   xb_host (xh_base (xhttp_of (\<lambda>_. Some xhttp_extra_zero) [''host'' \<mapsto> ''cdn'', ''extra'' \<mapsto> ''{}''])) = ''cdn''"
  using xhttp_top_level_wins [of "[''host'' \<mapsto> ''cdn'', ''extra'' \<mapsto> ''{}'']" "\<lambda>_. Some xhttp_extra_zero"]
  by (simp add: mget_def)

text \<open>
  The periodic settings of WebSocket and gRPC are never negative as long as the link
  gives them in at most 9223372036 seconds; one second more wraps the nanosecond count
  around and the guard on the number of seconds does not notice.
\<close>

theorem keepalive_bounds:
  "(\<forall>v. toInt v \<le> 9223372036 \<longrightarrow> 0 \<le> positive_seconds v 0 \<and> 0 \<le> positive_seconds v (seconds 15)) \<and>
   ws_heartbeat (ws_of [''heartbeat'' \<mapsto> ''9223372037'']) < 0"
proof -
  have "ws_heartbeat (ws_of [''heartbeat'' \<mapsto> ''9223372037'']) < 0" by code_simp
  moreover have "0 \<le> seconds 15" by (simp add: seconds_def wrap64_def)
  ultimately show ?thesis by (simp add: positive_seconds_pos)
qed

lemma keepalive_bounds_witness:
  "toInt ''30'' \<le> 9223372036 \<and> 0 \<le> positive_seconds ''30'' (seconds 15)"
proof -
  have "toInt ''30'' \<le> 9223372036" by code_simp
  with keepalive_bounds show ?thesis by blast
qed

text \<open>
  A reality public key given in padded standard base64 reaches sing-box as the unpadded
  URL-safe encoding of the same bytes, the only form its decoder accepts; a short id that
  reaches sing-box is always at most 16 hexadecimal digits.
\<close>

theorem reality_key_form:
  "normalizeRealityPublicKey (std_encode s) = unpad (url_encode s) \<and>
   length (normalizeRealityShortID v) \<le> 16 \<and> list_all is_hex (normalizeRealityShortID v)"
  by (simp add: publicKey_std shortID_shape)

end
