(* ===== verification/Go_Time.thy ===== *)
theory Go_Time
  imports Go_Strconv
begin

text \<open>
  Go's \<open>time.ParseDuration\<close>. Durations are nanoseconds; the unsigned accumulator of the
  library never wraps, because every step checks it against \<open>2 ^ 63\<close>. The fractional part is
  computed exactly, where the library rounds through \<open>float64\<close>.
\<close>

definition duration_unit :: "string \<Rightarrow> nat option" where
  "duration_unit u =
     (if u = ''ns'' then Some 1
      else if u \<in> {''us'', [CHR 0xC2, CHR 0xB5, CHR ''s''], [CHR 0xCE, CHR 0xBC, CHR ''s'']} then Some 1000
      else if u = ''ms'' then Some 1000000
      else if u = ''s'' then Some 1000000000
      else if u = ''m'' then Some 60000000000
      else if u = ''h'' then Some 3600000000000
      else None)"

text \<open>One \<open>number unit\<close> item: its nanoseconds and the rest of the text.\<close>

definition duration_item :: "string \<Rightarrow> (nat \<times> string) option" where
  "duration_item s =
     (let a = takeWhile is_digit s; s1 = dropWhile is_digit s;
          dot = has_prefix s1 ''.'';
          f = (if dot then takeWhile is_digit (drop 1 s1) else []);
          s2 = (if dot then dropWhile is_digit (drop 1 s1) else s1);
          u = takeWhile (\<lambda>c. \<not> (c = CHR ''.'' \<or> is_digit c)) s2;
          s3 = dropWhile (\<lambda>c. \<not> (c = CHR ''.'' \<or> is_digit c)) s2 in
      if a = [] \<and> f = [] \<or> dec_val a > 2 ^ 63 then None
      else case duration_unit u of
             None \<Rightarrow> None
           | Some un \<Rightarrow>
               let v = dec_val a * un + dec_val f * un div 10 ^ length f in
               if dec_val a > 2 ^ 63 div un \<or> v > 2 ^ 63 then None else Some (v, s3))"

lemma duration_item_shorter: "duration_item s = Some (v, t) \<Longrightarrow> length t < length s"
proof -
  assume a: "duration_item s = Some (v, t)"
  let ?s1 = "dropWhile is_digit s"
  let ?s2 = "if has_prefix ?s1 ''.'' then dropWhile is_digit (drop 1 ?s1) else ?s1"
  let ?P = "\<lambda>c. \<not> (c = CHR ''.'' \<or> is_digit c)"
  from a have t: "t = dropWhile ?P ?s2" and u: "duration_unit (takeWhile ?P ?s2) \<noteq> None"
    by (auto simp: duration_item_def Let_def split: if_splits option.splits)
  from u have "takeWhile ?P ?s2 \<noteq> []" by (auto simp: duration_unit_def)
  then have "0 < length (takeWhile ?P ?s2)" by (rule length_greater_0_conv [THEN iffD2])
  moreover have "length (takeWhile ?P ?s2) + length (dropWhile ?P ?s2) = length ?s2"
    by (simp only: length_append [symmetric] takeWhile_dropWhile_id)
  ultimately have "length (dropWhile ?P ?s2) < length ?s2" by linarith
  also have "length ?s2 \<le> length s"
    using length_dropWhile_le [of is_digit s] length_dropWhile_le [of is_digit "drop 1 ?s1"] by auto
  finally show ?thesis using t by simp
qed

function duration_items :: "nat \<Rightarrow> string \<Rightarrow> nat option" where
  "duration_items d s =
     (if s = [] then Some d
      else if \<not> (hd s = CHR ''.'' \<or> is_digit (hd s)) then None
      else case duration_item s of
             None \<Rightarrow> None
           | Some (v, t) \<Rightarrow> if d + v > 2 ^ 63 then None else duration_items (d + v) t)"
  by pat_completeness auto
termination
  by (relation "measure (\<lambda>(d, s). length s)") (auto dest: duration_item_shorter)

declare duration_items.simps [simp del]

definition ParseDuration :: "string \<Rightarrow> int option" where
  "ParseDuration s0 =
     (let (neg, s) = split_sign s0 in
      if s = ''0'' then Some 0
      else if s = '''' then None
      else case duration_items 0 s of
             None \<Rightarrow> None
           | Some d \<Rightarrow> if neg then Some (- int d)
                       else if d > 2 ^ 63 - 1 then None else Some (int d))"

lemma duration_items_bound: "duration_items d s = Some n \<Longrightarrow> d \<le> 2 ^ 63 \<Longrightarrow> n \<le> 2 ^ 63"
proof (induction d s rule: duration_items.induct)
  case (1 d s)
  show ?case
  proof (cases "s = [] \<or> \<not> (hd s = CHR ''.'' \<or> is_digit (hd s)) \<or> duration_item s = None")
    case True
    with "1.prems" show ?thesis
      by (auto simp: duration_items.simps [of d s] split: if_splits option.splits)
  next
    case False
    then obtain v t where "duration_item s = Some (v, t)" by auto
    with False 1 show ?thesis
      by (auto simp: duration_items.simps [of d s] split: if_splits)
  qed
qed

lemma ParseDuration_bounds: "ParseDuration s = Some d \<Longrightarrow> - (2 ^ 63) \<le> d \<and> d < 2 ^ 63"
  using duration_items_bound [of 0 "snd (split_sign s)"]
  by (auto simp: ParseDuration_def Let_def split: prod.splits if_splits option.splits)

end
