(* ===== verification/Awg.thy ===== *)
theory Awg
  imports Common_Options
begin

text \<open>
  \<open>ray2sing/awg.go\<close>, \<open>wireguard.go\<close>, \<open>warp.go\<close>: WireGuard, AmneziaWG and WARP. A tunnel comes
  as a wg-quick text (\<open>AWGSingboxTxt\<close>) or as a link (\<open>AWGSingbox\<close>); both validate keys, magic
  headers and obfuscation specs before they build an endpoint. \<open>rng\<close> is the decoder of a
  number range of the wireguard-go fork (\<open>warpobf.Range.UnmarshalJSON\<close>).
\<close>

section \<open>Options\<close>

record awg_nums =
  an_jc :: int
  an_jmin :: int
  an_jmax :: int
  an_s1 :: int
  an_s2 :: int
  an_s3 :: int
  an_s4 :: int
  an_itime :: int

record awg_strs =
  as_h1 :: string
  as_h2 :: string
  as_h3 :: string
  as_h4 :: string
  as_i1 :: string
  as_i2 :: string
  as_i3 :: string
  as_i4 :: string
  as_i5 :: string
  as_j1 :: string
  as_j2 :: string
  as_j3 :: string

text \<open>A peer; \<open>AwgPeerOptions\<close> and \<open>WireGuardPeer\<close> have the same fields.\<close>

record awg_peer =
  ap_address :: string
  ap_port :: "16 word"
  ap_public :: string
  ap_psk :: string
  ap_allowed :: "prefix list"
  ap_keepalive :: "16 word"
  ap_reserved :: "8 word list"

record awg_options =
  ao_dialer :: dialer_options
  ao_private :: string
  ao_address :: "prefix list"
  ao_mtu :: "32 word"
  ao_nums :: awg_nums
  ao_strs :: awg_strs
  ao_peers :: "awg_peer list"

record wg_options =
  wg_dialer :: dialer_options
  wg_private :: string
  wg_address :: "prefix list"
  wg_mtu :: "32 word"
  wg_peers :: "awg_peer list"
  wg_noise :: noise_options
  wg_workers :: int

datatype endpoint_options = EWarp warp_options | EWireGuard wg_options | EAwg awg_options

record endpoint =
  e_type :: string
  e_tag :: string
  e_options :: endpoint_options

definition peer_zero :: awg_peer where
  "peer_zero = \<lparr>ap_address = '''', ap_port = 0, ap_public = '''', ap_psk = '''', ap_allowed = [],
     ap_keepalive = 0, ap_reserved = []\<rparr>"

definition nums_zero :: awg_nums where
  "nums_zero = \<lparr>an_jc = 0, an_jmin = 0, an_jmax = 0, an_s1 = 0, an_s2 = 0, an_s3 = 0, an_s4 = 0,
     an_itime = 0\<rparr>"

definition strs_zero :: awg_strs where
  "strs_zero = \<lparr>as_h1 = '''', as_h2 = '''', as_h3 = '''', as_h4 = '''', as_i1 = '''', as_i2 = '''',
     as_i3 = '''', as_i4 = '''', as_i5 = '''', as_j1 = '''', as_j2 = '''', as_j3 = ''''\<rparr>"

section \<open>Validation\<close>

definition wg_key_text :: "string \<Rightarrow> string" where
  "wg_key_text k =
     pad4 (trim_right_set
       (replace_byte (CHR ''_'') (CHR ''/'') (replace_byte (CHR ''-'') (CHR ''+'') k)) ''='')"

definition normalizeWgKey :: "string \<Rightarrow> string \<Rightarrow> string result" where
  "normalizeWgKey name val =
     (let k = trim_space val in
      if k = '''' then Inr ''''
      else case std_decode (wg_key_text k) of
             None \<Rightarrow> err ''invalid %s: not valid base64 (%d chars)'' [name, itoa (length val)]
           | Some raw \<Rightarrow>
               if length raw \<noteq> 32
               then err ''invalid %s: decodes to %d bytes, want 32'' [name, itoa (length raw)]
               else Inr (std_encode raw))"

definition validateMagicHeader :: "string \<Rightarrow> string \<Rightarrow> unit result" where
  "validateMagicHeader name spec =
     (let bad = err ''invalid %s %q: want a decimal uint32 or \"start-end\" range'' [name, spec] in
      if spec = '''' then Inr ()
      else case split_byte (CHR ''-'') spec of
        [a] \<Rightarrow> (case parse_uint 32 a of None \<Rightarrow> bad | Some _ \<Rightarrow> Inr ())
      | [a, b] \<Rightarrow>
          (case (parse_uint 32 a, parse_uint 32 b) of
             (Some x, Some y) \<Rightarrow>
               if y < x then err ''invalid %s %q: range is reversed'' [name, spec] else Inr ()
           | _ \<Rightarrow> bad)
      | _ \<Rightarrow> bad)"

text \<open>One tag of an obfuscation spec, its content split into fields.\<close>

definition obf_tag_ok :: "string list \<Rightarrow> bool" where
  "obf_tag_ok parts =
     (case parts of
        [] \<Rightarrow> False
      | key # rest \<Rightarrow>
          let val = (case rest of [] \<Rightarrow> '''' | v # _ \<Rightarrow> v) in
          if key = ''b'' then
            (let v = trim_prefix val ''0x'' in v \<noteq> '''' \<and> even (length v) \<and> list_all is_hex v)
          else if key \<in> {''t'', ''d'', ''ds''} then True
          else if key \<in> {''r'', ''rc'', ''rd'', ''dz''} then (case atoi val of (n, ok) \<Rightarrow> ok \<and> 0 \<le> n)
          else False)"

text \<open>The tags of a spec in order; \<open>None\<close> when a tag is not closed.\<close>

function obf_tags :: "string \<Rightarrow> string list list option" where
  "obf_tags remaining =
     (case str_index remaining ''<'' of
        None \<Rightarrow> Some []
      | Some start \<Rightarrow>
          (case str_index (drop start remaining) ''>'' of
             None \<Rightarrow> None
           | Some e \<Rightarrow>
               map_option ((#) (Go_Strings.fields (take (e - 1) (drop (Suc start) remaining))))
                 (obf_tags (drop (Suc (start + e)) remaining))))"
  by pat_completeness auto
termination
  by (relation "measure length") (auto dest: str_index_Some simp: str_index.simps)

declare obf_tags.simps [simp del]

text \<open>
  \<open>validateObfSpec\<close> stops at the first bad tag; a later unclosed tag only matters when every
  tag before it is good, and either way the spec is refused.
\<close>

definition validateObfSpec :: "string \<Rightarrow> string \<Rightarrow> unit result" where
  "validateObfSpec name spec =
     (if spec = '''' then Inr ()
      else case obf_tags spec of
             None \<Rightarrow> err ''invalid %s %q'' [name, spec]
           | Some ts \<Rightarrow> if list_all obf_tag_ok ts then Inr () else err ''invalid %s %q'' [name, spec])"

definition clampAwgInt :: "int \<Rightarrow> int \<Rightarrow> int" where
  "clampAwgInt v mn = (if v \<noteq> 0 \<and> v < mn then 0 else v)"

definition clamp_nums :: "awg_nums \<Rightarrow> awg_nums" where
  "clamp_nums n =
     \<lparr>an_jc = clampAwgInt (an_jc n) 1, an_jmin = clampAwgInt (an_jmin n) 1,
      an_jmax = clampAwgInt (an_jmax n) 1, an_s1 = clampAwgInt (an_s1 n) 0,
      an_s2 = clampAwgInt (an_s2 n) 0, an_s3 = clampAwgInt (an_s3 n) 0,
      an_s4 = clampAwgInt (an_s4 n) 0, an_itime = clampAwgInt (an_itime n) 0\<rparr>"

text \<open>The specs in order, under the names of the text (\<open>H1\<close>) or of the link (\<open>h1\<close>).\<close>

definition validate_strs :: "string \<Rightarrow> string \<Rightarrow> awg_strs \<Rightarrow> unit result" where
  "validate_strs h i s =
     checkE [validateMagicHeader (h @ ''1'') (as_h1 s), validateMagicHeader (h @ ''2'') (as_h2 s),
       validateMagicHeader (h @ ''3'') (as_h3 s), validateMagicHeader (h @ ''4'') (as_h4 s),
       validateObfSpec (i @ ''1'') (as_i1 s), validateObfSpec (i @ ''2'') (as_i2 s),
       validateObfSpec (i @ ''3'') (as_i3 s), validateObfSpec (i @ ''4'') (as_i4 s),
       validateObfSpec (i @ ''5'') (as_i5 s)]"

definition parse_byte :: "string \<Rightarrow> 8 word option" where
  "parse_byte s = map_option of_nat (parse_uint 8 s)"

text \<open>The trimmed non-empty parts of a comma-separated list.\<close>

definition list_parts :: "string \<Rightarrow> string list" where
  "list_parts raw = filter (\<lambda>p. p \<noteq> '''') (map trim_space (split_byte (CHR '','') raw))"

definition parse_bytes :: "string \<Rightarrow> string \<Rightarrow> 8 word list result" where
  "parse_bytes f raw = mapE (\<lambda>p. opt_err f [raw] (parse_byte p)) (list_parts raw)"

definition parseReservedList :: "string \<Rightarrow> 8 word list result" where
  "parseReservedList raw =
     bindE (parse_bytes ''invalid reserved %q: values must be bytes (0-255)'' raw) (\<lambda>out.
       if length out \<noteq> 0 \<and> length out \<noteq> 3
       then err ''invalid reserved %q: want exactly 3 comma-separated values, got %d''
              [raw, itoa (length out)]
       else Inr out)"

definition parseAddrOrPrefix :: "string \<Rightarrow> prefix result" where
  "parseAddrOrPrefix s =
     (case parse_prefix s of
        Some p \<Rightarrow> Inr p
      | None \<Rightarrow>
          (case parse_addr s of
             None \<Rightarrow> err ''netip.ParsePrefix(%q): not an IP or CIDR'' [s]
           | Some a \<Rightarrow> Inr (case a of
                               Addr6 bs z \<Rightarrow> (Addr6 bs '''', addr_bits a)
                             | Addr4 _ \<Rightarrow> (a, addr_bits a))))"

text \<open>\<open>0.0.0.0/0\<close> and \<open>::/0\<close>.\<close>

definition all_traffic :: "prefix list" where
  "all_traffic = [(Addr4 [0, 0, 0, 0], 0), (Addr6 (replicate 16 0) '''', 0)]"

definition default_allowed :: "awg_peer \<Rightarrow> awg_peer" where
  "default_allowed p = (if ap_allowed p = [] then p\<lparr>ap_allowed := all_traffic\<rparr> else p)"

definition plain_wg :: "awg_nums \<Rightarrow> awg_strs \<Rightarrow> bool" where
  "plain_wg n s \<longleftrightarrow>
     wrap64 (an_jc n + an_jmin n + an_jmax n + an_s1 n + an_s2 n + an_s3 n + an_s4 n + an_itime n) = 0 \<and>
     as_h1 s @ as_h2 s @ as_h3 s @ as_h4 s @ as_i1 s @ as_i2 s @ as_i3 s @ as_i4 s @ as_i5 s @
     as_j1 s @ as_j2 s @ as_j3 s = ''''"

section \<open>The wg-quick text\<close>

definition wg_names :: "string list" where
  "wg_names = [''PrivateKey'', ''PublicKey'', ''PresharedKey'', ''Address'', ''AllowedIPs'',
     ''Endpoint'', ''MTU'', ''DNS'', ''PersistentKeepalive'', ''Reserved'', ''Jc'', ''Jmin'', ''Jmax'',
     ''S1'', ''S2'', ''S3'', ''S4'', ''H1'', ''H2'', ''H3'', ''H4'', ''I1'', ''I2'', ''I3'', ''I4'', ''I5'', ''Itime'']"

definition canonicalWgKey :: "string \<Rightarrow> string" where
  "canonicalWgKey key =
     (case List.find (\<lambda>n. to_lower n = to_lower key) wg_names of None \<Rightarrow> key | Some n \<Rightarrow> n)"

record ini_state =
  is_section :: string
  is_private :: string
  is_address :: "prefix list"
  is_mtu :: "32 word"
  is_nums :: awg_nums
  is_strs :: awg_strs
  is_peers :: "awg_peer list"
  is_peer :: awg_peer
  is_have_peer :: bool

definition ini_start :: ini_state where
  "ini_start = \<lparr>is_section = '''', is_private = '''', is_address = [], is_mtu = 0,
     is_nums = nums_zero, is_strs = strs_zero, is_peers = [], is_peer = peer_zero,
     is_have_peer = False\<rparr>"

definition flushPeer :: "ini_state \<Rightarrow> ini_state" where
  "flushPeer st =
     (if is_have_peer st
      then st\<lparr>is_peers := is_peers st @ [is_peer st], is_peer := peer_zero, is_have_peer := False\<rparr>
      else st)"

definition set_num :: "string \<Rightarrow> int \<Rightarrow> awg_nums \<Rightarrow> awg_nums" where
  "set_num k v n =
     (if k = ''Jc'' then n\<lparr>an_jc := v\<rparr> else if k = ''Jmin'' then n\<lparr>an_jmin := v\<rparr>
      else if k = ''Jmax'' then n\<lparr>an_jmax := v\<rparr> else if k = ''S1'' then n\<lparr>an_s1 := v\<rparr>
      else if k = ''S2'' then n\<lparr>an_s2 := v\<rparr> else if k = ''S3'' then n\<lparr>an_s3 := v\<rparr>
      else if k = ''S4'' then n\<lparr>an_s4 := v\<rparr>
      else if k \<in> {''Itime'', ''ITime'', ''ITIME''} then n\<lparr>an_itime := v\<rparr> else n)"

definition set_str :: "string \<Rightarrow> string \<Rightarrow> awg_strs \<Rightarrow> awg_strs" where
  "set_str k v s =
     (if k = ''H1'' then s\<lparr>as_h1 := v\<rparr> else if k = ''H2'' then s\<lparr>as_h2 := v\<rparr>
      else if k = ''H3'' then s\<lparr>as_h3 := v\<rparr> else if k = ''H4'' then s\<lparr>as_h4 := v\<rparr>
      else if k = ''I1'' then s\<lparr>as_i1 := v\<rparr> else if k = ''I2'' then s\<lparr>as_i2 := v\<rparr>
      else if k = ''I3'' then s\<lparr>as_i3 := v\<rparr> else if k = ''I4'' then s\<lparr>as_i4 := v\<rparr>
      else if k = ''I5'' then s\<lparr>as_i5 := v\<rparr> else if k = ''J1'' then s\<lparr>as_j1 := v\<rparr>
      else if k = ''J2'' then s\<lparr>as_j2 := v\<rparr> else if k = ''J3'' then s\<lparr>as_j3 := v\<rparr> else s)"

definition interface_key :: "ini_state \<Rightarrow> string \<Rightarrow> string \<Rightarrow> ini_state result" where
  "interface_key st k val =
     (if k = ''PrivateKey'' then Inr (st\<lparr>is_private := val\<rparr>)
      else if k = ''Address'' then
        bindE (mapE (\<lambda>p. parseAddrOrPrefix (trim_space p)) (split_byte (CHR '','') val))
          (\<lambda>ps. Inr (st\<lparr>is_address := is_address st @ ps\<rparr>))
      else if k = ''MTU'' then
        Inr (case parse_uint 32 val of None \<Rightarrow> st | Some n \<Rightarrow> st\<lparr>is_mtu := of_nat n\<rparr>)
      else Inr (st\<lparr>is_nums := set_num k (fst (atoi val)) (is_nums st),
                  is_strs := set_str k val (is_strs st)\<rparr>))"

definition peer_key :: "awg_peer \<Rightarrow> string \<Rightarrow> string \<Rightarrow> awg_peer result" where
  "peer_key p k val =
     (if k = ''PublicKey'' then Inr (p\<lparr>ap_public := val\<rparr>)
      else if k = ''PresharedKey'' then Inr (p\<lparr>ap_psk := val\<rparr>)
      else if k = ''Reserved'' then
        bindE (parse_bytes ''invalid Reserved'' val) (\<lambda>bs. Inr (p\<lparr>ap_reserved := ap_reserved p @ bs\<rparr>))
      else if k = ''AllowedIPs'' then
        bindE (mapE parseAddrOrPrefix (list_parts val)) (\<lambda>ps. Inr (p\<lparr>ap_allowed := ap_allowed p @ ps\<rparr>))
      else if k = ''Endpoint'' then
        bindE (opt_err ''invalid Endpoint'' [val] (split_host_port val)) (\<lambda>(host, portStr).
          case atoi portStr of
            (port, ok) \<Rightarrow>
              if \<not> ok then err ''invalid Endpoint port'' [portStr]
              else Inr (p\<lparr>ap_address := host, ap_port := of_int port\<rparr>))
      else if k = ''PersistentKeepalive'' then Inr (p\<lparr>ap_keepalive := of_int (fst (atoi val))\<rparr>)
      else Inr p)"

definition ini_value :: "string \<Rightarrow> string" where
  "ini_value v0 =
     (let v = trim_space v0 in
      case str_index v ''#'' of None \<Rightarrow> v | Some i \<Rightarrow> trim_space (take i v))"

definition ini_line :: "ini_state \<Rightarrow> string \<Rightarrow> ini_state result" where
  "ini_line st raw =
     (let line = trim_space raw in
      if line = '''' \<or> has_prefix line ''#'' \<or> has_prefix line '';'' then Inr st
      else if has_prefix line ''['' \<and> has_suffix line '']'' then
        Inr ((flushPeer st)\<lparr>is_section := to_lower (trim_set line ''[]'')\<rparr>)
      else case cut line ''='' of
        (k0, v0, ok) \<Rightarrow>
          if \<not> ok then Inr st
          else
            let k = canonicalWgKey (trim_space k0); val = ini_value v0 in
            if is_section st = ''interface'' then interface_key st k val
            else if is_section st = ''peer'' then
              bindE (peer_key (is_peer st) k val) (\<lambda>p. Inr (st\<lparr>is_peer := p, is_have_peer := True\<rparr>))
            else Inr st)"

fun foldE :: "('s \<Rightarrow> 'a \<Rightarrow> 's result) \<Rightarrow> 's \<Rightarrow> 'a list \<Rightarrow> 's result" where
  "foldE f s [] = Inr s"
| "foldE f s (x # xs) = bindE (f s x) (\<lambda>t. foldE f t xs)"

definition ini_parse :: "string \<Rightarrow> ini_state result" where
  "ini_parse content =
     bindE (foldE ini_line ini_start (split_byte (CHR 0x0A) content)) (\<lambda>st. Inr (flushPeer st))"

definition check_peer :: "awg_peer \<Rightarrow> awg_peer result" where
  "check_peer p =
     (if ap_address p = '''' \<or> ap_port p = 0 then err ''missing peer Endpoint'' []
      else if ap_public p = '''' then err ''missing peer PublicKey'' []
      else
        bindE (normalizeWgKey ''PublicKey'' (ap_public p)) (\<lambda>pub.
        bindE (normalizeWgKey ''PresharedKey'' (ap_psk p)) (\<lambda>psk.
          if length (ap_reserved p) \<noteq> 0 \<and> length (ap_reserved p) \<noteq> 3
          then err ''invalid Reserved: want exactly 3 comma-separated values, got %d''
                 [itoa (length (ap_reserved p))]
          else Inr (default_allowed (p\<lparr>ap_public := pub, ap_psk := psk\<rparr>)))))"

definition ini_endpoint :: "ini_state \<Rightarrow> string \<Rightarrow> awg_peer list \<Rightarrow> endpoint" where
  "ini_endpoint st pk peers =
     (let n = clamp_nums (is_nums st) in
      if plain_wg n (is_strs st) then
        \<lparr>e_type = ''wireguard'', e_tag = ''wireguard'', e_options = EWireGuard
          \<lparr>wg_dialer = dialer_zero, wg_private = pk, wg_address = is_address st, wg_mtu = is_mtu st,
           wg_peers = peers, wg_noise = noise_zero, wg_workers = 0\<rparr>\<rparr>
      else
        \<lparr>e_type = ''awg'', e_tag = ''awg'', e_options = EAwg
          \<lparr>ao_dialer = dialer_zero, ao_private = pk, ao_address = is_address st, ao_mtu = is_mtu st,
           ao_nums = n, ao_strs = is_strs st, ao_peers = peers\<rparr>\<rparr>)"

definition AWGSingboxTxt :: "string \<Rightarrow> endpoint result" where
  "AWGSingboxTxt content =
     bindE (ini_parse content) (\<lambda>st.
       if is_private st = '''' then err ''missing PrivateKey'' []
       else
         bindE (normalizeWgKey ''PrivateKey'' (is_private st)) (\<lambda>pk.
           if is_peers st = [] then err ''missing peer Endpoint'' []
           else
             bindE (mapE check_peer (is_peers st)) (\<lambda>peers.
             bindE (validate_strs ''H'' ''I'' (is_strs st)) (\<lambda>_.
               Inr (ini_endpoint st pk peers)))))"

section \<open>The link\<close>

text \<open>\<open>convertRange\<close> and \<open>getWireGuardNoise\<close> of \<open>wireguard.go\<close>.\<close>

definition defaultWireguardNoiseOptions :: "(string \<Rightarrow> num_range) \<Rightarrow> noise_options" where
  "defaultWireguardNoiseOptions rng =
     \<lparr>ns_enabled = True, ns_count = rng ''2-10'', ns_size = rng ''30-50'', ns_delay = rng ''30-50'',
      ns_mode = ''m4''\<rparr>"

definition getWireGuardNoise :: "(string \<Rightarrow> num_range) \<Rightarrow> params \<Rightarrow> bool \<Rightarrow> noise_options" where
  "getWireGuardNoise rng d addDefault =
     (let count = rng (getOneOfN d '''' [''ifp'', ''wnoisecount'']);
          delay = rng (getOneOfN d '''' [''ifpd'', ''wnoisedelay'']);
          sz = rng (getOneOfN d '''' [''ifps'', ''wpayloadsize'']);
          mode = (if d ''wnoise'' = Some ''quic'' then ''m4'' else mget d ''ifpm'') in
      if rg_to count = 0 \<and> rg_to delay = 0 \<and> rg_to sz = 0 \<and> mode = '''' then
        (if addDefault then defaultWireguardNoiseOptions rng else noise_zero)
      else \<lparr>ns_enabled = True, ns_count = count, ns_size = sz, ns_delay = delay, ns_mode = mode\<rparr>)"

definition parse_mtu :: "string \<Rightarrow> 32 word" where
  "parse_mtu s = (case parse_uint 32 s of None \<Rightarrow> 0 | Some n \<Rightarrow> of_nat n)"

definition WarpSingbox :: "(string \<Rightarrow> num_range) \<Rightarrow> string \<Rightarrow> endpoint result" where
  "WarpSingbox rng url =
     bindE (ParseUrl url 0) (\<lambda>u.
     bindE (normalizeWgKey ''privatekey'' (getOneOfN (us_params u) '''' [''privatekey'', ''pk''])) (\<lambda>pk.
       Inr \<lparr>e_type = ''warp'', e_tag = (if us_name u = '''' then ''WARP'' else us_name u),
         e_options = EWarp
           \<lparr>wo_dialer = dialer_zero, wo_server = GetServerOption u, wo_identifier = us_username u,
            wo_noise = getWireGuardNoise rng (us_params u) False,
            wo_profile = \<lparr>wp_license = getOneOfN (us_params u) '''' [''license'', ''key''],
              wp_id = getOneOfN (us_params u) '''' [''id'', ''deviceid''],
              wp_token = getOneOfN (us_params u) '''' [''token'', ''authtoken''],
              wp_private_key = pk, wp_detour = ''''\<rparr>,
            wo_mtu = parse_mtu (getOneOfN (us_params u) '''' [''mtu''])\<rparr>\<rparr>))"

definition link_int :: "params \<Rightarrow> string \<Rightarrow> int" where
  "link_int d k = (case d k of None \<Rightarrow> 0 | Some v \<Rightarrow> fst (atoi v))"

definition link_uint16 :: "params \<Rightarrow> string list \<Rightarrow> 16 word" where
  "link_uint16 d ks = (case getOneOf d ks of None \<Rightarrow> 0 | Some v \<Rightarrow> of_int (fst (atoi v)))"

definition parsePrefixes :: "string \<Rightarrow> prefix list result" where
  "parsePrefixes raw =
     mapE (\<lambda>s. parseAddrOrPrefix (trim_space s)) (filter (\<lambda>s. s \<noteq> '''') (split_byte (CHR '','') raw))"

definition link_nums :: "params \<Rightarrow> awg_nums" where
  "link_nums d = clamp_nums
     \<lparr>an_jc = link_int d ''jc'', an_jmin = link_int d ''jmin'', an_jmax = link_int d ''jmax'',
      an_s1 = link_int d ''s1'', an_s2 = link_int d ''s2'', an_s3 = link_int d ''s3'',
      an_s4 = link_int d ''s4'', an_itime = link_int d ''itime''\<rparr>"

definition link_strs :: "params \<Rightarrow> awg_strs" where
  "link_strs d =
     (let g = (\<lambda>k. getOneOfN d '''' [k]) in
      \<lparr>as_h1 = g ''h1'', as_h2 = g ''h2'', as_h3 = g ''h3'', as_h4 = g ''h4'', as_i1 = g ''i1'',
       as_i2 = g ''i2'', as_i3 = g ''i3'', as_i4 = g ''i4'', as_i5 = g ''i5'', as_j1 = g ''j1'',
       as_j2 = g ''j2'', as_j3 = g ''j3''\<rparr>)"

definition link_private_key :: "url_schema \<Rightarrow> string" where
  "link_private_key u =
     (let pk0 = getOneOfN (us_params u) '''' [''privatekey'', ''pk''];
          pk = (if pk0 = '''' then us_username u else pk0) in
      case str_index pk ''@'' of None \<Rightarrow> pk | Some i \<Rightarrow> take i pk)"

definition link_reserved :: "params \<Rightarrow> 8 word list result" where
  "link_reserved d = (case d ''reserved'' of None \<Rightarrow> Inr [] | Some r \<Rightarrow> parseReservedList r)"

definition link_public_key :: "params \<Rightarrow> string" where
  "link_public_key d = getOneOfN d '''' [''peerpublickey'', ''publickey'', ''pub'', ''peerpub'']"

definition link_peer :: "url_schema \<Rightarrow> prefix list \<Rightarrow> awg_peer result" where
  "link_peer u allowed =
     (let d = us_params u in
      bindE (normalizeWgKey ''peer_public_key'' (link_public_key d)) (\<lambda>pub.
      bindE (normalizeWgKey ''preshared_key'' (getOneOfN d '''' [''presharedkey'', ''psk''])) (\<lambda>psk.
      bindE (link_reserved d) (\<lambda>reserved.
        Inr (default_allowed
          \<lparr>ap_address = us_hostname u, ap_port = us_port u, ap_public = pub, ap_psk = psk,
           ap_allowed = allowed,
           ap_keepalive = link_uint16 d [''keepalive'', ''persistentkeepalive'', ''pk_keepalive''],
           ap_reserved = reserved\<rparr>)))))"

definition link_workers :: "params \<Rightarrow> int" where
  "link_workers d =
     (case d ''workers'' of
        None \<Rightarrow> 0
      | Some w \<Rightarrow> (case atoi w of (n, ok) \<Rightarrow> if ok \<and> n > 0 then n else 0))"

definition link_endpoint ::
  "(string \<Rightarrow> num_range) \<Rightarrow> url_schema \<Rightarrow> string \<Rightarrow> prefix list \<Rightarrow> awg_peer \<Rightarrow> endpoint" where
  "link_endpoint rng u pk addrs peer =
     (let d = us_params u; n = link_nums d; s = link_strs d in
      if plain_wg n s then
        \<lparr>e_type = ''wireguard'', e_tag = (if us_name u = '''' then ''WG'' else us_name u),
         e_options = EWireGuard
          \<lparr>wg_dialer = dialer_zero, wg_private = pk, wg_address = addrs,
           wg_mtu = parse_mtu (getOneOfN d '''' [''mtu'']), wg_peers = [peer],
           wg_noise = getWireGuardNoise rng d False, wg_workers = link_workers d\<rparr>\<rparr>
      else
        \<lparr>e_type = ''awg'', e_tag = (if us_name u = '''' then ''AWG'' else us_name u),
         e_options = EAwg
          \<lparr>ao_dialer = dialer_zero, ao_private = pk, ao_address = addrs,
           ao_mtu = parse_mtu (mget d ''mtu''), ao_nums = n, ao_strs = s, ao_peers = [peer]\<rparr>\<rparr>)"

definition awg_link :: "(string \<Rightarrow> num_range) \<Rightarrow> url_schema \<Rightarrow> endpoint result" where
  "awg_link rng u =
     bindE (parsePrefixes (getOneOfN (us_params u) '''' [''ip'', ''address''])) (\<lambda>addrs.
     bindE (parsePrefixes (getOneOfN (us_params u) '''' [''localaddress'', ''allowedips''])) (\<lambda>allowed.
       if link_private_key u = '''' then err ''missing private_key'' []
       else if link_public_key (us_params u) = '''' then err ''missing peer_public_key'' []
       else if us_hostname u = '''' \<or> us_port u = 0 then err ''missing peer endpoint (host:port)'' []
       else
         bindE (normalizeWgKey ''private_key'' (link_private_key u)) (\<lambda>pk.
         bindE (link_peer u allowed) (\<lambda>peer.
         bindE (validate_strs ''h'' ''i'' (link_strs (us_params u))) (\<lambda>_.
           Inr (link_endpoint rng u pk addrs peer))))))"

definition awg_raw :: "string \<Rightarrow> string" where
  "awg_raw raw =
     (case cut raw ''://'' of
        (s, rest, ok) \<Rightarrow> if ok then s @ ''://'' @ fst (decodeBase64IfNeeded rest) else raw)"

text \<open>
  A link that does not parse, or has no parameter, is tried as a wg-quick text; when that
  fails too the function returns the error of the URL parser, which is nil (\<open>Inr None\<close>) for
  a link that parsed but had no parameter.
\<close>

definition AWGSingbox :: "(string \<Rightarrow> num_range) \<Rightarrow> string \<Rightarrow> endpoint option result" where
  "AWGSingbox rng raw0 =
     (let raw = awg_raw raw0 in
      case ParseUrl raw 0 of
        Inl e \<Rightarrow> (case AWGSingboxTxt raw of Inr ep \<Rightarrow> Inr (Some ep) | Inl _ \<Rightarrow> Inl e)
      | Inr u \<Rightarrow>
          if \<not> us_has_params u
          then (case AWGSingboxTxt raw of Inr ep \<Rightarrow> Inr (Some ep) | Inl _ \<Rightarrow> Inr None)
          else bindE (awg_link rng u) (\<lambda>ep. Inr (Some ep)))"

section \<open>Facts\<close>

text \<open>A canonical key: the standard base64 of 32 bytes.\<close>

definition wg_key :: "string \<Rightarrow> bool" where
  "wg_key k = (case std_decode k of None \<Rightarrow> False | Some raw \<Rightarrow> length raw = 32 \<and> std_encode raw = k)"

lemma wg_key_encode: "length raw = 32 \<Longrightarrow> wg_key (std_encode raw)"
  by (simp add: wg_key_def std_decode_encode)

lemma wg_key_ne: "wg_key k \<Longrightarrow> k \<noteq> ''''"
  by (auto simp: wg_key_def std_decode_def no_newlines_def)

lemma normalizeWgKey_result: "normalizeWgKey n v = Inr k \<Longrightarrow> k = '''' \<or> wg_key k"
  by (auto simp: normalizeWgKey_def Let_def wg_key_encode split: if_splits option.splits)

lemma normalizeWgKey_ne: "normalizeWgKey n v = Inr k \<Longrightarrow> trim_space v \<noteq> '''' \<Longrightarrow> wg_key k"
  by (auto simp: normalizeWgKey_def Let_def wg_key_encode split: if_splits option.splits)

lemma trim_unpadded: "CHR ''='' \<notin> set s \<Longrightarrow> trim_right_set s ''='' = s"
  using trim_right_replicate [of "CHR ''=''" s 0] by simp

lemma wg_key_text_form:
  assumes "b \<in> base64_forms raw"
  shows "wg_key_text b = std_encode raw"
proof -
  have u: "trim_right_set (unpad (std_encode raw)) ''='' = unpad (std_encode raw)"
    by (rule trim_unpadded) (simp add: unpad_def)
  have p: "pad4 (unpad (std_encode raw)) = std_encode raw"
    using std64.pad4_unpad [of raw] by (simp only: std_encode_def)
  show ?thesis
    using assms
    by (auto simp: base64_forms_def wg_key_text_def replace_to_std to_std_encode unpad_to_std
        trim_pad_std u p)
qed

text \<open>What the runtime accepts as a peer.\<close>

definition peer_ok :: "awg_peer \<Rightarrow> bool" where
  "peer_ok p \<longleftrightarrow> ap_address p \<noteq> '''' \<and> ap_port p \<noteq> 0 \<and> (ap_psk p = '''' \<or> wg_key (ap_psk p)) \<and>
     length (ap_reserved p) \<in> {0, 3} \<and> ap_allowed p \<noteq> [] \<and>
     list_all (\<lambda>(a, n). addr_wf a \<and> n \<le> addr_bits a) (ap_allowed p)"

definition nums_ok :: "awg_nums \<Rightarrow> bool" where
  "nums_ok n \<longleftrightarrow> list_all (\<lambda>v. 0 \<le> v)
     [an_jc n, an_jmin n, an_jmax n, an_s1 n, an_s2 n, an_s3 n, an_s4 n, an_itime n]"

definition strs_ok :: "awg_strs \<Rightarrow> bool" where
  "strs_ok s \<longleftrightarrow> list_all (\<lambda>h. validateMagicHeader '''' h = Inr ()) [as_h1 s, as_h2 s, as_h3 s, as_h4 s] \<and>
     list_all (\<lambda>i. validateObfSpec '''' i = Inr ()) [as_i1 s, as_i2 s, as_i3 s, as_i4 s, as_i5 s]"

lemma clamp_nums_ok: "nums_ok (clamp_nums n)"
  by (auto simp: nums_ok_def clamp_nums_def clampAwgInt_def)

lemma validateMagicHeader_name: "validateMagicHeader n s = Inr () \<longleftrightarrow> validateMagicHeader m s = Inr ()"
  by (simp add: validateMagicHeader_def Let_def split: list.splits option.splits)

lemma validateObfSpec_name: "validateObfSpec n s = Inr () \<longleftrightarrow> validateObfSpec m s = Inr ()"
  by (simp add: validateObfSpec_def split: option.splits)

lemma validate_strs_ok: "validate_strs h i s = Inr u \<Longrightarrow> strs_ok s"
  by (auto simp: validate_strs_def checkE_Inr strs_ok_def simp del: checkE.simps
      dest: validateMagicHeader_name [where m = "''''", THEN iffD1]
        validateObfSpec_name [where m = "''''", THEN iffD1])

lemma parseAddrOrPrefix_wf: "parseAddrOrPrefix s = Inr (a, n) \<Longrightarrow> addr_wf a \<and> n \<le> addr_bits a"
  using parse_prefix_wf [of s] parse_addr_wf [of s]
  by (auto simp: parseAddrOrPrefix_def addr_bits_def addr_wf_def split: option.splits addr.splits)

lemma mapE_prefixes:
  assumes "mapE (\<lambda>s. parseAddrOrPrefix (f s)) xs = Inr ps"
  shows "list_all (\<lambda>(a, n). addr_wf a \<and> n \<le> addr_bits a) ps"
  using assms by (rule mapE_all) (auto dest: parseAddrOrPrefix_wf)

lemma all_traffic_wf: "list_all (\<lambda>(a, n). addr_wf a \<and> n \<le> addr_bits a) all_traffic"
  by (simp add: all_traffic_def addr_wf_def list_all_iff)

lemma default_allowed_simps [simp]:
  "ap_address (default_allowed p) = ap_address p" "ap_port (default_allowed p) = ap_port p"
  "ap_public (default_allowed p) = ap_public p" "ap_psk (default_allowed p) = ap_psk p"
  "ap_reserved (default_allowed p) = ap_reserved p"
  "ap_allowed (default_allowed p) = (if ap_allowed p = [] then all_traffic else ap_allowed p)"
  by (simp_all add: default_allowed_def)

lemma all_traffic_ne [simp]: "all_traffic \<noteq> []"
  by (simp add: all_traffic_def)

lemma peer_ok_default:
  assumes "ap_address p \<noteq> ''''" "ap_port p \<noteq> 0" "ap_psk p = '''' \<or> wg_key (ap_psk p)"
    "length (ap_reserved p) \<in> {0, 3}" "list_all (\<lambda>(a, n). addr_wf a \<and> n \<le> addr_bits a) (ap_allowed p)"
  shows "peer_ok (default_allowed p)"
  using assms all_traffic_wf by (simp add: peer_ok_def)

lemma check_peer_ok:
  assumes "check_peer p = Inr q" and "list_all (\<lambda>(a, n). addr_wf a \<and> n \<le> addr_bits a) (ap_allowed p)"
  shows "peer_ok q \<and> (ap_public q = '''' \<or> wg_key (ap_public q))"
proof -
  from assms(1) obtain pub psk where n: "normalizeWgKey ''PublicKey'' (ap_public p) = Inr pub"
    "normalizeWgKey ''PresharedKey'' (ap_psk p) = Inr psk"
    and q: "q = default_allowed (p\<lparr>ap_public := pub, ap_psk := psk\<rparr>)"
    and "ap_address p \<noteq> ''''" "ap_port p \<noteq> 0" "length (ap_reserved p) \<in> {0, 3}"
    by (auto simp: check_peer_def result_simps split: if_splits)
  with assms(2) normalizeWgKey_result [OF n(1)] normalizeWgKey_result [OF n(2)] show ?thesis
    unfolding q by (intro conjI peer_ok_default) simp_all
qed

lemma parseReservedList_length: "parseReservedList r = Inr bs \<Longrightarrow> length bs \<in> {0, 3}"
  by (auto simp: parseReservedList_def result_simps split: if_splits)

lemma link_reserved_length: "link_reserved d = Inr bs \<Longrightarrow> length bs \<in> {0, 3}"
  by (auto simp: link_reserved_def dest: parseReservedList_length split: option.splits)

lemma link_peer_ok:
  assumes "link_peer u allowed = Inr q" and "us_hostname u \<noteq> ''''" and "us_port u \<noteq> 0"
    and "list_all (\<lambda>(a, n). addr_wf a \<and> n \<le> addr_bits a) allowed"
  shows "peer_ok q \<and> (ap_public q = '''' \<or> wg_key (ap_public q))"
proof -
  from assms(1) obtain pub psk bs ka where
    n: "normalizeWgKey ''peer_public_key'' (link_public_key (us_params u)) = Inr pub"
      "normalizeWgKey ''preshared_key'' (getOneOfN (us_params u) '''' [''presharedkey'', ''psk'']) = Inr psk"
    and r: "link_reserved (us_params u) = Inr bs"
    and q: "q = default_allowed
          \<lparr>ap_address = us_hostname u, ap_port = us_port u, ap_public = pub, ap_psk = psk,
           ap_allowed = allowed, ap_keepalive = ka, ap_reserved = bs\<rparr>"
    unfolding link_peer_def Let_def bindE_eq_Inr by blast
  from assms normalizeWgKey_result [OF n(1)] normalizeWgKey_result [OF n(2)] link_reserved_length [OF r]
  show ?thesis unfolding q by (intro conjI peer_ok_default) simp_all
qed

text \<open>The invariant of the text parser: every prefix it has stored is well-formed.\<close>

definition wf_prefixes :: "prefix list \<Rightarrow> bool" where
  "wf_prefixes ps \<longleftrightarrow> list_all (\<lambda>(a, n). addr_wf a \<and> n \<le> addr_bits a) ps"

definition ini_inv :: "ini_state \<Rightarrow> bool" where
  "ini_inv st \<longleftrightarrow> wf_prefixes (is_address st) \<and> wf_prefixes (ap_allowed (is_peer st)) \<and>
     list_all (\<lambda>p. wf_prefixes (ap_allowed p)) (is_peers st)"

lemma wf_prefixes_append [simp]: "wf_prefixes (ps @ qs) \<longleftrightarrow> wf_prefixes ps \<and> wf_prefixes qs"
  by (simp add: wf_prefixes_def)

lemma flushPeer_inv: "ini_inv st \<Longrightarrow> ini_inv (flushPeer st)"
  by (simp add: ini_inv_def flushPeer_def wf_prefixes_def peer_zero_def)

lemma interface_key_inv: "interface_key st k v = Inr t \<Longrightarrow> ini_inv st \<Longrightarrow> ini_inv t"
  using mapE_prefixes [of trim_space "split_byte (CHR '','') v"]
  by (auto simp: interface_key_def ini_inv_def wf_prefixes_def result_simps split: if_splits option.splits)

lemma peer_key_inv:
  assumes "peer_key p k v = Inr q" and "wf_prefixes (ap_allowed p)"
  shows "wf_prefixes (ap_allowed q)"
proof -
  have "wf_prefixes ps" if "mapE parseAddrOrPrefix (list_parts v) = Inr ps" for ps
    using mapE_prefixes [of "\<lambda>x. x"] that by (simp add: wf_prefixes_def)
  then show ?thesis
    using assms
    by (auto simp: peer_key_def bindE_eq_Inr case_prod_beta split: if_splits)
qed

lemma ini_line_inv: "ini_line st raw = Inr t \<Longrightarrow> ini_inv st \<Longrightarrow> ini_inv t"
  using flushPeer_inv [of st] interface_key_inv [of st] peer_key_inv [of "is_peer st"]
  by (auto simp: ini_line_def Let_def result_simps ini_inv_def case_prod_beta split: if_splits)

text \<open>A fold that succeeds is a run of the steps it makes.\<close>

lemma foldE_reach:
  "foldE f s xs = Inr t \<Longrightarrow> reach (\<lambda>a b. \<exists>x. f a x = Inr b) r s \<Longrightarrow> reach (\<lambda>a b. \<exists>x. f a x = Inr b) r t"
proof (induction xs arbitrary: s)
  case Nil
  then show ?case by simp
next
  case (Cons x xs)
  from Cons.prems(1) obtain u where u: "f s x = Inr u" "foldE f u xs = Inr t"
    by (auto simp: result_simps)
  have "reach (\<lambda>a b. \<exists>x. f a x = Inr b) r u"
    by (rule reach_step [OF Cons.prems(2)]) (use u(1) in blast)
  with u(2) show ?case by (rule Cons.IH)
qed

interpretation ini: invariant_system ini_start "\<lambda>st t. \<exists>raw. ini_line st raw = Inr t" ini_inv
proof
  show "ini_inv ini_start" by (simp add: ini_inv_def ini_start_def wf_prefixes_def peer_zero_def)
  show "ini_inv t" if "ini_inv s" "\<exists>raw. ini_line s raw = Inr t" for s t
    using that ini_line_inv by blast
qed

lemma ini_parse_inv: "ini_parse c = Inr st \<Longrightarrow> ini_inv st"
proof -
  assume "ini_parse c = Inr st"
  then obtain s where s: "foldE ini_line ini_start (split_byte (CHR 0x0A) c) = Inr s" "st = flushPeer s"
    by (auto simp: ini_parse_def result_simps)
  have "ini_inv s" by (rule ini.reachable_inv [OF foldE_reach [OF s(1) reach_refl]])
  then show ?thesis using s(2) flushPeer_inv by simp
qed

text \<open>What the runtime accepts as an endpoint of this file.\<close>

definition tunnel_ok :: "string \<Rightarrow> prefix list \<Rightarrow> awg_peer list \<Rightarrow> bool" where
  "tunnel_ok pk addrs peers \<longleftrightarrow> (pk = '''' \<or> wg_key pk) \<and> wf_prefixes addrs \<and> peers \<noteq> [] \<and>
     list_all (\<lambda>p. peer_ok p \<and> (ap_public p = '''' \<or> wg_key (ap_public p))) peers"

definition endpoint_ok :: "endpoint \<Rightarrow> bool" where
  "endpoint_ok ep \<longleftrightarrow>
     (case e_options ep of
        EWireGuard w \<Rightarrow> e_type ep = ''wireguard'' \<and> tunnel_ok (wg_private w) (wg_address w) (wg_peers w) \<and>
          0 \<le> wg_workers w
      | EAwg w \<Rightarrow> e_type ep = ''awg'' \<and> tunnel_ok (ao_private w) (ao_address w) (ao_peers w) \<and>
          nums_ok (ao_nums w) \<and> strs_ok (ao_strs w) \<and> \<not> plain_wg (ao_nums w) (ao_strs w)
      | EWarp w \<Rightarrow> e_type ep = ''warp'' \<and> (wp_private_key (wo_profile w) = '''' \<or>
          wg_key (wp_private_key (wo_profile w))))"

lemma ini_endpoint_ok:
  "tunnel_ok pk (is_address st) peers \<Longrightarrow> strs_ok (is_strs st) \<Longrightarrow> endpoint_ok (ini_endpoint st pk peers)"
  by (simp add: ini_endpoint_def Let_def endpoint_ok_def clamp_nums_ok)

lemma link_workers_pos: "0 \<le> link_workers d"
  by (auto simp: link_workers_def split: option.splits prod.splits)

lemma link_endpoint_ok:
  "tunnel_ok pk addrs [peer] \<Longrightarrow> strs_ok (link_strs (us_params u)) \<Longrightarrow>
   endpoint_ok (link_endpoint rng u pk addrs peer)"
  by (simp add: link_endpoint_def Let_def endpoint_ok_def link_workers_pos link_nums_def clamp_nums_ok
      del: getOneOfN.simps)

lemma AWGSingboxTxt_ok: "AWGSingboxTxt c = Inr ep \<Longrightarrow> endpoint_ok ep"
proof -
  assume "AWGSingboxTxt c = Inr ep"
  then obtain st pk peers u where st: "ini_parse c = Inr st" and ne: "is_peers st \<noteq> []"
    and pk: "normalizeWgKey ''PrivateKey'' (is_private st) = Inr pk"
    and peers: "mapE check_peer (is_peers st) = Inr peers"
    and v: "validate_strs ''H'' ''I'' (is_strs st) = Inr u"
    and ep: "ep = ini_endpoint st pk peers"
    by (auto simp: AWGSingboxTxt_def result_simps split: if_splits)
  have inv: "ini_inv st" using st by (rule ini_parse_inv)
  from peers have "list_all (\<lambda>p. peer_ok p \<and> (ap_public p = '''' \<or> wg_key (ap_public p))) peers"
    by (rule mapE_all)
      (use inv in \<open>auto simp: ini_inv_def wf_prefixes_def list_all_iff intro!: check_peer_ok\<close>)
  moreover have "peers \<noteq> []" using mapE_length [OF peers] ne by auto
  ultimately have "tunnel_ok pk (is_address st) peers"
    using inv normalizeWgKey_result [OF pk] by (simp add: tunnel_ok_def ini_inv_def)
  then show ?thesis unfolding ep by (rule ini_endpoint_ok [OF _ validate_strs_ok [OF v]])
qed

lemma parsePrefixes_wf: "parsePrefixes raw = Inr ps \<Longrightarrow> wf_prefixes ps"
  unfolding parsePrefixes_def wf_prefixes_def by (rule mapE_prefixes)

lemma awg_link_ok: "awg_link rng u = Inr ep \<Longrightarrow> endpoint_ok ep"
proof -
  assume "awg_link rng u = Inr ep"
  then obtain addrs allowed pk peer v where
    a: "parsePrefixes (getOneOfN (us_params u) '''' [''ip'', ''address'']) = Inr addrs"
    and b: "parsePrefixes (getOneOfN (us_params u) '''' [''localaddress'', ''allowedips'']) = Inr allowed"
    and c: "us_hostname u \<noteq> ''''" "us_port u \<noteq> 0"
    and k: "normalizeWgKey ''private_key'' (link_private_key u) = Inr pk"
    and p: "link_peer u allowed = Inr peer"
    and v: "validate_strs ''h'' ''i'' (link_strs (us_params u)) = Inr v"
    and ep: "ep = link_endpoint rng u pk addrs peer"
    by (auto simp: awg_link_def bindE_eq_Inr simp del: getOneOfN.simps split: if_splits)
  have "tunnel_ok pk addrs [peer]"
    using normalizeWgKey_result [OF k] parsePrefixes_wf [OF a]
      link_peer_ok [OF p c] parsePrefixes_wf [OF b]
    by (simp add: tunnel_ok_def wf_prefixes_def)
  then show ?thesis unfolding ep by (rule link_endpoint_ok [OF _ validate_strs_ok [OF v]])
qed

lemma WarpSingbox_ok: "WarpSingbox rng url = Inr ep \<Longrightarrow> endpoint_ok ep"
  by (auto simp: WarpSingbox_def result_simps endpoint_ok_def dest: normalizeWgKey_result
      simp del: getOneOfN.simps)

section \<open>Properties\<close>


text \<open>the same holds of every endpoint built from a \<open>wg://\<close>, \<open>awg://\<close> or \<open>warp://\<close>
  link, whether the link is read as a URL or falls back to the wg-quick text.\<close>

theorem awg_link_endpoint:
  "(\<forall>rng raw ep. AWGSingbox rng raw = Inr (Some ep) \<longrightarrow> endpoint_ok ep) \<and>
   (\<forall>rng raw ep. WarpSingbox rng raw = Inr ep \<longrightarrow> endpoint_ok ep)"
proof (intro conjI allI impI)
  fix rng raw ep
  assume "AWGSingbox rng raw = Inr (Some ep)"
  then show "endpoint_ok ep"
    by (auto simp: AWGSingbox_def Let_def bindE_eq_Inr split: sum.splits if_splits
        intro: AWGSingboxTxt_ok awg_link_ok)
next
  fix rng raw ep
  assume "WarpSingbox rng raw = Inr ep"
  then show "endpoint_ok ep" by (rule WarpSingbox_ok)
qed

text \<open>\<open>normalizeWgKey\<close> accepts a 32-byte key in every base64 form in use (either alphabet,
  padded or not) and always emits the padded standard form; what it emits is a fixed point.\<close>

theorem wg_key_normalised:
  assumes "b \<in> base64_forms raw" and "length raw = 32"
  shows "normalizeWgKey n b = Inr (std_encode raw) \<and>
    normalizeWgKey n (std_encode raw) = Inr (std_encode raw)"
proof -
  have "normalizeWgKey n c = Inr (std_encode raw)" if c: "c \<in> base64_forms raw" for c
  proof -
    have t: "wg_key_text c = std_encode raw" using c by (rule wg_key_text_form)
    have g: "trim_space c = c"
      using forms_graphic [OF c] by (simp add: trim_space_graphic)
    have "c \<noteq> ''''"
      using t wg_key_ne [OF wg_key_encode [OF assms(2)]]
      by (auto simp: wg_key_text_def replace_byte_def pad4_def trim_right_set_def)
    then show ?thesis
      by (simp add: normalizeWgKey_def Let_def g t std_decode_encode assms(2))
  qed
  moreover have "std_encode raw \<in> base64_forms raw" by (simp add: base64_forms_def)
  ultimately show ?thesis using assms(1) by blast
qed

definition ini_comment :: "string \<Rightarrow> bool" where
  "ini_comment raw \<longleftrightarrow>
     (let l = trim_space raw in l = '''' \<or> has_prefix l ''#'' \<or> has_prefix l '';'')"

lemma ini_line_comment: "ini_comment raw \<Longrightarrow> ini_line st raw = Inr st"
  by (simp add: ini_comment_def ini_line_def Let_def)

text \<open>a comment or blank line anywhere in a wg-quick text changes nothing: the text parses
  as it does without those lines.\<close>

theorem ini_comments_ignored:
  "foldE ini_line st (filter (\<lambda>l. \<not> ini_comment l) ls) = foldE ini_line st ls"
  by (induction ls arbitrary: st) (simp_all add: ini_line_comment)

text \<open>a magic header written as a number or as a range of numbers is accepted exactly when
  the numbers fit 32 bits and the range is not reversed.\<close>

theorem magic_header_accepted:
  "(validateMagicHeader n (itoa a) = Inr () \<longleftrightarrow> a < 2 ^ 32) \<and>
   (validateMagicHeader n (itoa a @ ''-'' @ itoa b) = Inr () \<longleftrightarrow> a \<le> b \<and> b < 2 ^ 32)"
proof -
  have ne: "itoa k \<noteq> ''''" and sep: "CHR ''-'' \<notin> set (itoa k)" for k
    using itoa_digits [of k] by (auto simp: list_all_iff is_digit_def code_def)
  have "split_byte (CHR ''-'') (itoa a @ ''-'' @ itoa b) = [itoa a, itoa b]"
    using split_byte_append [OF sep, of a "itoa b"] split_byte_atom [OF sep, of b] by simp
  moreover have "split_byte (CHR ''-'') (itoa a) = [itoa a]" by (rule split_byte_atom [OF sep])
  ultimately show ?thesis
    using ne by (auto simp: validateMagicHeader_def Let_def parse_uint_itoa)
qed

text \<open>the peer port of a wg-quick text is taken modulo \<open>2^16\<close>: an \<open>Endpoint\<close> with a port
  out of range is accepted with another port (\<open>65537\<close> is read as \<open>1\<close>).\<close>

theorem ini_endpoint_port_wraps:
  assumes "split_host_port v = Some (h, itoa n)" and "n < 2 ^ 63"
  shows "peer_key p ''Endpoint'' v = Inr (p\<lparr>ap_address := h, ap_port := of_nat n\<rparr>) \<and>
    unat (of_nat n :: 16 word) = n mod 2 ^ 16"
  using assms by (simp add: peer_key_def opt_err_def atoi_itoa unat_of_nat)

section \<open>Witnesses\<close>

definition sample_conf :: string where
  "sample_conf = join [CHR 0x0A]
     [''[Interface]'', ''# device'', ''PrivateKey = '' @ std_encode (replicate 32 (CHR ''k'')),
      ''Address = 10.0.0.2'', ''Jc = 4'', ''H1 = 5-9'', ''[Peer]'',
      ''publickey = '' @ unpad (url_encode (replicate 32 (CHR 0xFB))), ''Endpoint = h.ex:65537'']"


theorem awg_link_endpoint_witness:
  "\<exists>ep. AWGSingbox (\<lambda>_. \<lparr>rg_from = 0, rg_to = 0\<rparr>)
     (''wg://h.ex:51820?pk='' @ std_encode (replicate 32 (CHR ''k'')) @ ''&pub='' @
        unpad (url_encode (replicate 32 (CHR 0xFB))) @ ''&ip=10.0.0.2'') = Inr (Some ep) \<and> endpoint_ok ep"
  (is "\<exists>ep. ?r = Inr (Some ep) \<and> _")
proof -
  have "(case ?r of Inr (Some ep) \<Rightarrow> True | _ \<Rightarrow> False)" by code_simp
  then obtain ep where "?r = Inr (Some ep)"
    by (auto split: sum.splits option.splits)
  with awg_link_endpoint show ?thesis by blast
qed

theorem wg_key_normalised_witness:
  "normalizeWgKey ''k'' (unpad (url_encode (replicate 32 (CHR 0xFB)))) =
   Inr (std_encode (replicate 32 (CHR 0xFB)))"
  using wg_key_normalised [of "unpad (url_encode (replicate 32 (CHR 0xFB)))" "replicate 32 (CHR 0xFB)"]
  by (simp add: base64_forms_def)

theorem ini_endpoint_port_wraps_witness:
  "peer_key peer_zero ''Endpoint'' ''h.ex:65537'' = Inr (peer_zero\<lparr>ap_address := ''h.ex'', ap_port := 1\<rparr>)"
proof -
  have "split_host_port ''h.ex:65537'' = Some (''h.ex'', itoa 65537)" by code_simp
  from ini_endpoint_port_wraps [OF this] show ?thesis by simp
qed

end
