(* ===== verification/Shadowsocks.thy ===== *)
theory Shadowsocks
  imports Common_Options Go_Json Link_Shape
begin

text \<open>
  \<open>ray2sing/shadowsocks.go\<close> and \<open>beepass.go\<close>: Shadowsocks links in their SIP002 and legacy
  whole-base64 forms, SIP003 plugins, SS2022 keys, and dynamic access keys (\<open>ssconf://\<close>).
  \<open>fetch\<close> stands for the HTTP client of \<open>fetchSSConf\<close>: the body it reads from an address.
\<close>

section \<open>Methods and keys\<close>

definition ssSupportedMethods :: "string list" where
  "ssSupportedMethods =
     [''none'', ''aes-128-gcm'', ''aes-192-gcm'', ''aes-256-gcm'', ''chacha20-ietf-poly1305'',
      ''xchacha20-ietf-poly1305'', ''2022-blake3-aes-128-gcm'', ''2022-blake3-aes-256-gcm'',
      ''2022-blake3-chacha20-poly1305'', ''aes-128-ctr'', ''aes-192-ctr'', ''aes-256-ctr'',
      ''aes-128-cfb'', ''aes-192-cfb'', ''aes-256-cfb'', ''rc4-md5'', ''chacha20-ietf'', ''xchacha20'']"

definition rawUserinfoHasColon :: "string \<Rightarrow> bool" where
  "rawUserinfoHasColon rawURL =
     (let r1 = (case str_index rawURL ''://'' of None \<Rightarrow> rawURL | Some i \<Rightarrow> drop (i + 3) rawURL);
          r2 = (case index_any r1 ''/?#'' of None \<Rightarrow> r1 | Some i \<Rightarrow> take i r1)
      in case last_index r2 ''@'' of
           None \<Rightarrow> False
         | Some i \<Rightarrow> contains (take i r2) '':'')"

definition normalizeSSMethod :: "string \<Rightarrow> string" where
  "normalizeSSMethod v =
     (let m = to_lower (trim_space v) in
      if m \<in> {''dummy'', ''plain''} then ''none''
      else if m = ''chacha20-poly1305'' then ''chacha20-ietf-poly1305''
      else if m = ''xchacha20-poly1305'' then ''xchacha20-ietf-poly1305''
      else if m = ''aead_aes_128_gcm'' then ''aes-128-gcm''
      else if m = ''aead_aes_192_gcm'' then ''aes-192-gcm''
      else if m = ''aead_aes_256_gcm'' then ''aes-256-gcm''
      else if m = ''aead_chacha20_poly1305'' then ''chacha20-ietf-poly1305''
      else if m = ''aead_xchacha20_poly1305'' then ''xchacha20-ietf-poly1305''
      else m)"

definition ss_psk_segment :: "string \<Rightarrow> string" where
  "ss_psk_segment p =
     (case std_decode p of
        Some _ \<Rightarrow> p
      | None \<Rightarrow> pad4 (replace_byte (CHR ''_'') (CHR ''/'') (replace_byte (CHR ''-'') (CHR ''+'') p)))"

definition normalizeSS2022Password :: "string \<Rightarrow> string" where
  "normalizeSS2022Password pass = join '':'' (map ss_psk_segment (split_byte (CHR '':'') pass))"

section \<open>The link\<close>

text \<open>\<open>indexUnescaped\<close>, with the loop's counter of backslashes as an argument.\<close>

fun index_unescaped_at :: "nat \<Rightarrow> string \<Rightarrow> char \<Rightarrow> nat option" where
  "index_unescaped_at bs [] sep = None"
| "index_unescaped_at bs (c # s) sep =
     (if c = CHR 0x5C then map_option Suc (index_unescaped_at (Suc bs) s sep)
      else if c = sep \<and> even bs then Some 0
      else map_option Suc (index_unescaped_at 0 s sep))"

definition indexUnescaped :: "string \<Rightarrow> char \<Rightarrow> nat option" where
  "indexUnescaped s sep = index_unescaped_at 0 s sep"

definition normalizeLegacyShadowsocks :: "string \<Rightarrow> string \<times> bool" where
  "normalizeLegacyShadowsocks raw =
     (if \<not> has_prefix raw ''ss://'' then (raw, False)
      else
        let body0 = drop 5 raw;
            (body, tail) = (case index_any body0 ''?#'' of
                              None \<Rightarrow> (body0, '''') | Some i \<Rightarrow> (take i body0, drop i body0))
        in if contains body ''@'' then (raw, False)
           else if body = '''' \<or> \<not> isBase64CharsOnly body then (raw, False)
           else case decodeBase64IfNeeded body of
             (decodedBody, e) \<Rightarrow>
               if e \<noteq> None \<or> \<not> contains decodedBody ''@'' \<or> \<not> contains decodedBody '':''
               then (raw, False)
               else case last_index decodedBody ''@'' of
                 None \<Rightarrow> (raw, False)
               | Some i \<Rightarrow>
                   (case cut (take i decodedBody) '':'' of
                      (method, pass, _) \<Rightarrow>
                        (''ss://'' @ escape EncUserPassword method @ '':'' @ escape EncUserPassword pass @
                         ''@'' @ drop (Suc i) decodedBody @ tail, True)))"

text \<open>Method and password of the link; a user info without a colon is a password.\<close>

definition ss_credentials :: "string \<Rightarrow> url_schema \<Rightarrow> string \<times> string" where
  "ss_credentials url u =
     (if us_password u = '''' \<and> \<not> rawUserinfoHasColon url then (''none'', us_username u)
      else (us_username u, us_password u))"

definition ss_split_plugin :: "string \<Rightarrow> string \<times> string" where
  "ss_split_plugin plugin =
     (case indexUnescaped plugin (CHR '';'') of
        None \<Rightarrow> (plugin, '''')
      | Some i \<Rightarrow> (take i plugin, drop (Suc i) plugin))"

definition ss_plugin_name :: "string \<Rightarrow> string result" where
  "ss_plugin_name plugin =
     (let p = to_lower plugin in
      if p \<in> {'''', ''obfs-local'', ''v2ray-plugin''} then Inr p
      else if p \<in> {''simple-obfs'', ''obfs''} then Inr ''obfs-local''
      else if p = ''xray-plugin'' then Inr ''v2ray-plugin''
      else err ''shadowsocks plugin %q is not supported by the sing-box core'' [p])"

definition ss_link_password :: "string \<Rightarrow> string \<Rightarrow> string" where
  "ss_link_password method pass =
     (if has_prefix method ''2022-'' \<and> pass \<noteq> '''' then normalizeSS2022Password pass else pass)"

definition ss_outbound :: "url_schema \<Rightarrow> string \<Rightarrow> string \<Rightarrow> string \<Rightarrow> string \<Rightarrow> outbound" where
  "ss_outbound u method pass plugin opts =
     (let d = us_params u; uot = toBool (getOneOfN d '''' [''uot'', ''udp-over-tcp'']) False in
      \<lparr>o_type = ''shadowsocks'', o_tag = us_name u, o_options = OShadowsocks
        \<lparr>ss_dialer = dialer_zero, ss_server = GetServerOption u, ss_method = method,
         ss_password = pass, ss_plugin = plugin, ss_plugin_options = opts,
         ss_uot = (if uot then Some \<lparr>uot_enabled = True,
                     uot_version = of_int (toInt (getOneOfN d '''' [''uot-version'']))\<rparr> else None),
         ss_mux = (if uot then None else getMuxOptions d)\<rparr>\<rparr>)"

definition ShadowsocksSingbox :: "string \<Rightarrow> outbound result" where
  "ShadowsocksSingbox raw =
     (let url = (case normalizeLegacyShadowsocks raw of (r, ok) \<Rightarrow> if ok then r else raw) in
      bindE (ParseUrl url 443) (\<lambda>u.
        let (defaultMethod, pass) = ss_credentials url u;
            (plugin0, opts) = ss_split_plugin (mget (us_params u) ''plugin'');
            method = normalizeSSMethod defaultMethod
        in bindE (ss_plugin_name plugin0) (\<lambda>plugin.
             if method \<notin> set ssSupportedMethods
             then err ''shadowsocks cipher %q is not supported by the sing-box core'' [defaultMethod]
             else Inr (ss_outbound u method (ss_link_password method pass) plugin opts))))"

section \<open>Dynamic access keys\<close>

record beepassData =
  bp_server :: string
  bp_port :: string
  bp_password :: string
  bp_method :: string
  bp_prefix :: string
  bp_name :: string

definition beepass_zero :: beepassData where
  "beepass_zero = \<lparr>bp_server = '''', bp_port = '''', bp_password = '''', bp_method = '''',
     bp_prefix = '''', bp_name = ''''\<rparr>"

text \<open>
  \<open>encoding/json\<close> into the structure: keys match the field names without regard to case,
  \<open>null\<close> leaves a field alone, another type than the field's is an error, and the
  \<open>json.Number\<close> field takes a number or a string that spells one.
\<close>

definition number_field :: "json \<Rightarrow> string option" where
  "number_field j =
     (case j of
        JNum s \<Rightarrow> Some s
      | JStr s \<Rightarrow> if json_number s = Some (s, '''') then Some s else None
      | _ \<Rightarrow> None)"

definition string_field :: "json \<Rightarrow> string option" where
  "string_field j = (case j of JStr s \<Rightarrow> Some s | _ \<Rightarrow> None)"

definition beepass_member :: "string \<Rightarrow> json \<Rightarrow> beepassData \<Rightarrow> beepassData option" where
  "beepass_member k j b =
     (let f = to_lower k in
      if j = JNull then Some b
      else if f = ''server'' then map_option (\<lambda>s. b\<lparr>bp_server := s\<rparr>) (string_field j)
      else if f = ''server_port'' then map_option (\<lambda>s. b\<lparr>bp_port := s\<rparr>) (number_field j)
      else if f = ''password'' then map_option (\<lambda>s. b\<lparr>bp_password := s\<rparr>) (string_field j)
      else if f = ''method'' then map_option (\<lambda>s. b\<lparr>bp_method := s\<rparr>) (string_field j)
      else if f = ''prefix'' then map_option (\<lambda>s. b\<lparr>bp_prefix := s\<rparr>) (string_field j)
      else if f = ''name'' then map_option (\<lambda>s. b\<lparr>bp_name := s\<rparr>) (string_field j)
      else Some b)"

fun beepass_members :: "(string \<times> json) list \<Rightarrow> beepassData \<Rightarrow> beepassData option" where
  "beepass_members [] b = Some b"
| "beepass_members ((k, j) # m) b =
     (case beepass_member k j b of None \<Rightarrow> None | Some b' \<Rightarrow> beepass_members m b')"

definition parseAndFetchBeePass :: "string \<Rightarrow> beepassData option" where
  "parseAndFetchBeePass body =
     (case json_parse body of
        Some (JObj m) \<Rightarrow> beepass_members m beepass_zero
      | Some JNull \<Rightarrow> Some beepass_zero
      | _ \<Rightarrow> None)"

definition fetchSSConf :: "(string \<Rightarrow> string result) \<Rightarrow> url \<Rightarrow> string result" where
  "fetchSSConf fetch u = fetch (''https://'' @ u_host u @ u_path u)"

definition beepass_outbound :: "beepassData \<Rightarrow> string \<Rightarrow> string \<Rightarrow> outbound" where
  "beepass_outbound b method name =
     \<lparr>o_type = ''shadowsocks'', o_tag = name, o_options = OShadowsocks
       \<lparr>ss_dialer = dialer_zero,
        ss_server = \<lparr>so_server = bp_server b, so_port = toUInt16 (bp_port b) 443\<rparr>,
        ss_method = method, ss_password = bp_password b, ss_plugin = '''', ss_plugin_options = '''',
        ss_uot = None, ss_mux = None\<rparr>\<rparr>"

definition BeepassSingbox :: "(string \<Rightarrow> string result) \<Rightarrow> string \<Rightarrow> outbound result" where
  "BeepassSingbox fetch url =
     bindE (url_Parse url) (\<lambda>u.
     bindE (fetchSSConf fetch u) (\<lambda>body.
       case parseAndFetchBeePass body of
         None \<Rightarrow> ShadowsocksSingbox (trim_space body)
       | Some b \<Rightarrow>
           if bp_server b = '''' \<or> bp_method b = ''''
           then err ''ssconf: body is not a single-server Outline config (server/method missing; SIP008 lists are not supported via ssconf://)'' []
           else
             let method = normalizeSSMethod (bp_method b) in
             if method \<notin> set ssSupportedMethods
             then err ''ssconf: shadowsocks cipher %q is not supported by the sing-box core'' [bp_method b]
             else Inr (beepass_outbound b method (if bp_name b = '''' then u_fragment u else bp_name b))))"

section \<open>Facts\<close>

lemma forms_base64_only:
  assumes "b \<in> base64_forms s" and "s \<noteq> []"
  shows "isBase64CharsOnly b"
  using forms_base64ish [OF assms(1)] decode_form [OF assms(1)] assms(2)
  by (auto simp: isBase64CharsOnly_def)

lemma sip002_form:
  assumes "b \<in> base64_forms (m @ '':'' @ p)" and "CHR '':'' \<notin> set m" and "isPrintableText (m @ '':'' @ p)"
  shows "sip002_userinfo b q = (m, p)"
  using assms
  by (simp add: sip002_userinfo_def decode_needed_form contains_byte cut_byte)

text \<open>The user info of a link, base64 or percent-encoded, as \<open>ParseUrl\<close> reads it.\<close>

lemma ParseUrl_sip002:
  assumes "host_ok h" and "n < 2 ^ 16" and "plain_params kvs"
    and "b \<in> base64_forms (m @ '':'' @ p)" and "CHR '':'' \<notin> set m" and "isPrintableText (m @ '':'' @ p)"
  shows "\<exists>u. ParseUrl (share_link ''ss'' (escape EncUserPassword b) h n (link_query kvs) name) d = Inr u \<and>
    us_username u = m \<and> us_password u = p \<and>
    us_hostname u = h \<and> us_port u = of_nat n \<and> us_name u = name \<and> us_params u = param_map kvs"
proof -
  have ok: "scheme_ok ''ss''" by code_simp
  let ?x = "link_url ''ss'' (b, None) h n (link_query kvs) name"
  have x: "u_scheme ?x = ''ss''" "url_username ?x = b" "u_fragment ?x = name"
    "u_rawquery ?x = link_query kvs"
    by (simp_all add: link_url_def url_username_def)
  have q: "url_query ?x = group_values kvs"
    by (simp add: url_query_def link_url_def parse_link_query)
  have port: "toUInt16 (itoa n) d = of_nat n"
    using assms(2) by (simp add: toUInt16_def parse_uint_itoa)
  have c: "isBase64CharsOnly b"
    using forms_base64_only [OF assms(4)] by simp
  show ?thesis
    by (simp only: ParseUrl_def url_Parse_link [OF ok assms(1) ui_text_escape parse_userinfo_name link_query_chars]
        bindE_Inr Let_def x c simp_thms if_True prod.case q port link_url_host [OF assms(1)] params_of_link [OF assms(3)]
        sip002_form [OF assms(4-6)]) simp
qed

lemma ss_segment_form:
  assumes "b \<in> base64_forms raw"
  shows "ss_psk_segment b = std_encode raw"
  using std_decode_form [OF assms] pad4_to_std [OF assms]
  by (auto simp: ss_psk_segment_def replace_to_std split: option.splits)

lemma ShadowsocksSingbox_cases:
  assumes "ShadowsocksSingbox url = Inr ob"
  shows "\<exists>u method pass plugin opts. ob = ss_outbound u method pass plugin opts \<and>
    method \<in> set ssSupportedMethods \<and> plugin \<in> {'''', ''obfs-local'', ''v2ray-plugin''}"
proof -
  from assms obtain u plugin0 plugin dm pass opts where
    n: "ss_plugin_name plugin0 = Inr plugin" and m: "normalizeSSMethod dm \<in> set ssSupportedMethods"
    and ob: "ob = ss_outbound u (normalizeSSMethod dm) (ss_link_password (normalizeSSMethod dm) pass) plugin opts"
    by (auto simp: ShadowsocksSingbox_def Let_def bindE_eq_Inr case_prod_beta split: if_splits)
  from n have "plugin \<in> {'''', ''obfs-local'', ''v2ray-plugin''}"
    by (auto simp: ss_plugin_name_def Let_def split: if_splits)
  with m ob show ?thesis by blast
qed

text \<open>What the core accepts as a Shadowsocks outbound.\<close>

definition ss_ok :: "outbound \<Rightarrow> bool" where
  "ss_ok ob \<longleftrightarrow> o_type ob = ''shadowsocks'' \<and>
     (case o_options ob of
        OShadowsocks s \<Rightarrow> ss_method s \<in> set ssSupportedMethods \<and>
          ss_plugin s \<in> {'''', ''obfs-local'', ''v2ray-plugin''} \<and> (ss_uot s = None \<or> ss_mux s = None)
      | _ \<Rightarrow> False)"

lemma ShadowsocksSingbox_ok: "ShadowsocksSingbox url = Inr ob \<Longrightarrow> ss_ok ob"
  using ShadowsocksSingbox_cases [of url ob]
  by (elim meta_impE exE conjE) (simp_all add: ss_ok_def ss_outbound_def Let_def del: getOneOfN.simps)

lemma BeepassSingbox_ok: "BeepassSingbox fetch url = Inr ob \<Longrightarrow> ss_ok ob"
  by (auto simp: BeepassSingbox_def bindE_eq_Inr Let_def ss_ok_def beepass_outbound_def
      split: option.splits if_splits dest: ShadowsocksSingbox_ok [unfolded ss_ok_def])

lemma base64ish_free: "list_all base64ish b \<Longrightarrow> c \<in> set ''?#@:'' \<Longrightarrow> c \<notin> set b"
  by (auto simp: list_all_iff base64ish_def is_upper_def is_lower_def is_digit_def code_def)

definition ss_tail :: "string \<Rightarrow> bool" where
  "ss_tail t \<longleftrightarrow> t = '''' \<or> hd t \<in> set ''?#''"

lemma index_any_tail:
  assumes "set a \<inter> set ''?#'' = {}" and "ss_tail t"
  shows "(case index_any (a @ t) ''?#'' of None \<Rightarrow> (a @ t, '''') | Some i \<Rightarrow> (take i (a @ t), drop i (a @ t))) = (a, t)"
  using assms by (cases t) (simp_all add: ss_tail_def byte_search)

lemma legacy_rebuilt:
  assumes b: "b \<in> base64_forms (m @ '':'' @ p @ ''@'' @ hp)" and "CHR '':'' \<notin> set m"
    and "CHR ''@'' \<notin> set hp" and "ss_tail t"
  shows "normalizeLegacyShadowsocks (''ss://'' @ b @ t) = (''ss://'' @ credentials m p @ ''@'' @ hp @ t, True)"
proof -
  let ?d = "m @ '':'' @ p @ ''@'' @ hp"
  have ish: "list_all base64ish b" using b by (rule forms_base64ish)
  have free: "set b \<inter> set ''?#'' = {}" "CHR ''@'' \<notin> set b"
    using base64ish_free [OF ish, of "CHR ''?''"] base64ish_free [OF ish, of "CHR ''#''"]
      base64ish_free [OF ish, of "CHR ''@''"] by auto
  have only: "isBase64CharsOnly b" "b \<noteq> []"
    using forms_base64_only [OF b] by (auto simp: isBase64CharsOnly_def)
  have at: "last_index ?d ''@'' = Some (length (m @ '':'' @ p))"
    using last_index_byte [OF assms(3), of "m @ '':'' @ p"] by simp
  have colon: "cut (m @ '':'' @ p) '':'' = (m, p, True)" using assms(2) by (simp add: cut_byte)
  have take: "take (length (m @ '':'' @ p)) ?d = m @ '':'' @ p" "drop (Suc (length (m @ '':'' @ p))) ?d = hp"
    by simp_all
  show ?thesis
    using only free(2) at colon
    by (simp add: normalizeLegacyShadowsocks_def Let_def index_any_tail [OF free(1) assms(4), simplified]
        contains_byte decode_needed_form [OF b, simplified] credentials_def)
qed

lemma legacy_plain:
  assumes "CHR ''@'' \<in> set a" and "set a \<inter> set ''?#'' = {}" and "ss_tail t"
  shows "normalizeLegacyShadowsocks (''ss://'' @ a @ t) = (''ss://'' @ a @ t, False)"
  using assms(1)
  by (simp add: normalizeLegacyShadowsocks_def Let_def index_any_tail [OF assms(2,3), simplified] contains_byte)

section \<open>Properties\<close>

text \<open>every Shadowsocks outbound the converter emits, from a link in either form or from a
  dynamic access key, uses a cipher of the core's registry and one of its two plugins (or none),
  and never both UDP-over-TCP and multiplexing; anything else is an error.\<close>

theorem shadowsocks_accepted:
  "(\<forall>url ob. ShadowsocksSingbox url = Inr ob \<longrightarrow> ss_ok ob) \<and>
   (\<forall>fetch url ob. BeepassSingbox fetch url = Inr ob \<longrightarrow> ss_ok ob)"
  using ShadowsocksSingbox_ok BeepassSingbox_ok by blast

text \<open>the key list of an SS2022 link, each key in any base64 form, is rewritten to the same
  keys in padded standard base64.\<close>

theorem ss2022_keys_canonical:
  assumes "ps \<noteq> []" and "list_all2 (\<lambda>b raw. b \<in> base64_forms raw) ps raws"
  shows "normalizeSS2022Password (join '':'' ps) = join '':'' (map std_encode raws)"
proof -
  have "CHR '':'' \<notin> set b" if "b \<in> set ps" for b
  proof -
    from assms(2) that obtain raw where "b \<in> base64_forms raw" by (auto simp: list_all2_conv_all_nth in_set_conv_nth)
    from base64ish_free [OF forms_base64ish [OF this], of "CHR '':''"] show ?thesis by simp
  qed
  with assms(1) have "split_byte (CHR '':'') (join '':'' ps) = ps" by (intro split_byte_join) auto
  moreover have "map ss_psk_segment ps = map std_encode raws"
    using assms(2) by (induction rule: list_all2_induct) (simp_all add: ss_segment_form)
  ultimately show ?thesis by (simp add: normalizeSS2022Password_def)
qed

text \<open>C2: the legacy form is the SIP002 form: the base64 of \<open>method:password@host:port\<close>, in any
  base64 form and whatever bytes the password holds, converts exactly as the link with the
  percent-encoded user info.\<close>

theorem ss_legacy_equals_sip002:
  assumes "b \<in> base64_forms (m @ '':'' @ p @ ''@'' @ hp)" and "CHR '':'' \<notin> set m"
    and "set hp \<inter> set ''@?#'' = {}" and "ss_tail t"
  shows "ShadowsocksSingbox (''ss://'' @ b @ t) =
    ShadowsocksSingbox (''ss://'' @ credentials m p @ ''@'' @ hp @ t)"
proof -
  have hp: "CHR ''@'' \<notin> set hp" using assms(3) by auto
  have free: "set (credentials m p @ ''@'' @ hp) \<inter> set ''?#'' = {}"
    using assms(3) ui_text_facts(1) [OF ui_text_credentials, of "CHR ''?''" m p]
      ui_text_facts(1) [OF ui_text_credentials, of "CHR ''#''" m p] by auto
  have "normalizeLegacyShadowsocks (''ss://'' @ credentials m p @ ''@'' @ hp @ t) =
      (''ss://'' @ credentials m p @ ''@'' @ hp @ t, False)"
    using legacy_plain [OF _ free assms(4)] by simp
  then show ?thesis
    using legacy_rebuilt [OF assms(1,2) hp assms(4)] by (simp add: ShadowsocksSingbox_def)
qed

lemma userinfo_colon:
  "us_password u \<noteq> '''' \<Longrightarrow> ss_credentials url u = (us_username u, us_password u)"
  by (simp add: ss_credentials_def)

text \<open>the SIP002 round trip: a link whose user info is the base64 of \<open>method:password\<close>
  becomes an outbound with that server, port, name and password and the normalised method.\<close>

theorem ss_sip002_outbound:
  assumes link: "host_ok h" "n < 2 ^ 16" "plain_params kvs" "param_map kvs ''plugin'' = None"
    and b: "b \<in> base64_forms (m @ '':'' @ p)" "CHR '':'' \<notin> set m" "isPrintableText (m @ '':'' @ p)"
    and ok: "p \<noteq> ''''" "normalizeSSMethod m \<in> set ssSupportedMethods"
  shows "\<exists>s ob. ShadowsocksSingbox (share_link ''ss'' (escape EncUserPassword b) h n (link_query kvs) name) = Inr ob \<and>
    o_tag ob = name \<and> o_options ob = OShadowsocks s \<and>
    ss_server s = \<lparr>so_server = h, so_port = of_nat n\<rparr> \<and> ss_method s = normalizeSSMethod m \<and>
    ss_password s = ss_link_password (normalizeSSMethod m) p \<and> ss_plugin s = ''''"
proof -
  let ?l = "share_link ''ss'' (escape EncUserPassword b) h n (link_query kvs) name"
  obtain u where u: "ParseUrl ?l 443 = Inr u" "us_username u = m" "us_password u = p"
      "us_hostname u = h" "us_port u = of_nat n" "us_name u = name" "us_params u = param_map kvs"
    using ParseUrl_sip002 [OF link(1,2,3) b] by blast
  let ?t = "(if link_query kvs = '''' then '''' else ''?'' @ link_query kvs) @
    (if name = '''' then '''' else ''#'' @ escape EncFragment name)"
  have free: "set (escape EncUserPassword b @ ''@'' @ host_port h n) \<inter> set ''?#'' = {}"
    using ui_text_facts(1) [OF ui_text_escape, of "CHR ''?''" b] ui_text_facts(1) [OF ui_text_escape, of "CHR ''#''" b]
      host_port_free(1) [OF link(1), of "CHR ''?''" n] host_port_free(1) [OF link(1), of "CHR ''#''" n] by auto
  have l: "?l = ''ss://'' @ (escape EncUserPassword b @ ''@'' @ host_port h n) @ ?t"
    by (simp add: share_link_def host_port_def)
  have "ss_tail ?t" by (simp add: ss_tail_def)
  from legacy_plain [OF _ free this] have leg: "normalizeLegacyShadowsocks ?l = (?l, False)"
    unfolding l by simp
  have plug: "ss_split_plugin (mget (us_params u) ''plugin'') = ('''', '''')"
    using link(4) u(7) by (simp add: mget_def ss_split_plugin_def indexUnescaped_def)
  have name: "ss_plugin_name '''' = Inr ''''" by (simp add: ss_plugin_name_def to_lower_def)
  have "ShadowsocksSingbox ?l =
      Inr (ss_outbound u (normalizeSSMethod m) (ss_link_password (normalizeSSMethod m) p) '''' '''')"
    using ok u(2,3) by (simp add: ShadowsocksSingbox_def Let_def leg u(1) plug name userinfo_colon)
  then show ?thesis
    by (simp add: ss_outbound_def Let_def GetServerOption_def u del: getOneOfN.simps)
qed

text \<open>The run of backslashes that ends a text.\<close>

definition esc_run :: "string \<Rightarrow> nat" where
  "esc_run pre = length (takeWhile (\<lambda>c. c = CHR 0x5C) (rev pre))"

definition unescaped_at :: "string \<Rightarrow> char \<Rightarrow> string \<Rightarrow> nat \<Rightarrow> bool" where
  "unescaped_at pre sep s j \<longleftrightarrow> j < length s \<and> s ! j = sep \<and> even (esc_run (pre @ take j s))"

lemma esc_run_snoc: "esc_run (pre @ [c]) = (if c = CHR 0x5C then Suc (esc_run pre) else 0)"
  by (simp add: esc_run_def)

lemma unescaped_at_Cons:
  "unescaped_at pre sep (c # s) j \<longleftrightarrow>
   (case j of 0 \<Rightarrow> c = sep \<and> even (esc_run pre) | Suc k \<Rightarrow> unescaped_at (pre @ [c]) sep s k)"
  by (auto simp: unescaped_at_def split: nat.splits)

lemma index_unescaped_at_first:
  assumes "sep \<noteq> CHR 0x5C"
  shows "(case index_unescaped_at (esc_run pre) s sep of
      None \<Rightarrow> \<forall>j. \<not> unescaped_at pre sep s j
    | Some i \<Rightarrow> unescaped_at pre sep s i \<and> (\<forall>j<i. \<not> unescaped_at pre sep s j))"
proof (induction s arbitrary: pre)
  case Nil
  then show ?case by (simp add: unescaped_at_def)
next
  case (Cons c s)
  show ?case
    using Cons.IH [of "pre @ [c]"] assms
    by (auto simp: unescaped_at_Cons esc_run_snoc less_Suc_eq_0_disj split: option.splits nat.splits if_splits)
qed

text \<open>\<open>indexUnescaped\<close> finds the first separator that is not backslash-escaped: the one
  before which the run of backslashes has even length; it finds none only if there is none.\<close>

theorem index_unescaped_first:
  assumes "sep \<noteq> CHR 0x5C"
  shows "(indexUnescaped s sep = Some i \<longleftrightarrow>
      unescaped_at '''' sep s i \<and> (\<forall>j<i. \<not> unescaped_at '''' sep s j)) \<and>
    (indexUnescaped s sep = None \<longleftrightarrow> (\<forall>j. \<not> unescaped_at '''' sep s j))"
proof -
  have "esc_run '''' = 0" by (simp add: esc_run_def)
  with index_unescaped_at_first [OF assms, of "''''" s] show ?thesis
    by (auto simp: indexUnescaped_def split: option.splits) (metis linorder_neqE_nat)
qed

section \<open>Witnesses\<close>

theorem ss2022_keys_canonical_witness:
  "normalizeSS2022Password ''-_8:aGk='' = ''+/8=:aGk=''"
proof -
  have "list_all2 (\<lambda>b raw. b \<in> base64_forms raw) [''-_8'', ''aGk=''] [[CHR 0xFB, CHR 0xFF], ''hi'']"
    unfolding base64_forms_def by code_simp
  from ss2022_keys_canonical [OF _ this]
  have "normalizeSS2022Password (join '':'' [''-_8'', ''aGk='']) =
    join '':'' (map std_encode [[CHR 0xFB, CHR 0xFF], ''hi''])" by simp
  moreover have "join '':'' (map std_encode [[CHR 0xFB, CHR 0xFF], ''hi'']) = ''+/8=:aGk=''" by code_simp
  ultimately show ?thesis by simp
qed

theorem ss_legacy_equals_sip002_witness:
  "ShadowsocksSingbox (''ss://'' @ unpad (url_encode ''aes-128-gcm:p/w@h.ex:8388'') @ ''#n'') =
   ShadowsocksSingbox (''ss://'' @ credentials ''aes-128-gcm'' ''p/w'' @ ''@'' @ ''h.ex:8388'' @ ''#n'')"
proof -
  have "unpad (url_encode ''aes-128-gcm:p/w@h.ex:8388'') \<in>
      base64_forms (''aes-128-gcm'' @ '':'' @ ''p/w'' @ ''@'' @ ''h.ex:8388'')"
    by (simp add: base64_forms_def)
  from ss_legacy_equals_sip002 [OF this, of "''#n''"] show ?thesis by (simp add: ss_tail_def)
qed

theorem ss_sip002_outbound_witness:
  "\<exists>s ob. ShadowsocksSingbox (share_link ''ss''
       (escape EncUserPassword (unpad (std_encode ''AEAD_AES_128_GCM:pw''))) ''h.ex'' 8388 (link_query []) ''n'') = Inr ob \<and>
     o_options ob = OShadowsocks s \<and> ss_method s = ''aes-128-gcm'' \<and> ss_password s = ''pw''"
proof -
  have a: "host_ok ''h.ex''" "(8388::nat) < 2 ^ 16" "plain_params []" "isPrintableText (''AEAD_AES_128_GCM'' @ '':'' @ ''pw'')"
    "normalizeSSMethod ''AEAD_AES_128_GCM'' = ''aes-128-gcm''" "''aes-128-gcm'' \<in> set ssSupportedMethods"
    "ss_link_password ''aes-128-gcm'' ''pw'' = ''pw''"
    by code_simp+
  have f: "unpad (std_encode ''AEAD_AES_128_GCM:pw'') \<in> base64_forms (''AEAD_AES_128_GCM'' @ '':'' @ ''pw'')"
    by (simp add: base64_forms_def)
  have "param_map [] ''plugin'' = None" by (simp add: param_map_def)
  from ss_sip002_outbound [OF a(1-3) this f _ a(4)] a(5-7) show ?thesis by fastforce
qed

theorem index_unescaped_first_witness:
  "unescaped_at '''' (CHR '';'') [CHR ''a'', CHR 0x5C, CHR '';'', CHR ''b'', CHR '';'', CHR ''c''] 4"
proof -
  let ?s = "[CHR ''a'', CHR 0x5C, CHR '';'', CHR ''b'', CHR '';'', CHR ''c'']"
  have "indexUnescaped ?s (CHR '';'') = Some 4" by code_simp
  then show ?thesis using index_unescaped_first [of "CHR '';''" ?s 4] by simp
qed

theorem shadowsocks_accepted_witness:
  "\<exists>ob. BeepassSingbox (\<lambda>_. Inr ''ss://cGxhaW46cHc@h.ex:8388#n'') ''ssconf://key.ex/k'' = Inr ob \<and> ss_ok ob"
proof -
  have "\<not> isl (BeepassSingbox (\<lambda>_. Inr ''ss://cGxhaW46cHc@h.ex:8388#n'') ''ssconf://key.ex/k'')" by code_simp
  from run_ok [OF this] obtain ob where
    "BeepassSingbox (\<lambda>_. Inr ''ss://cGxhaW46cHc@h.ex:8388#n'') ''ssconf://key.ex/k'' = Inr ob" ..
  with shadowsocks_accepted show ?thesis by blast
qed

end
