(* ===== verification/Go_Float.thy ===== *)
theory Go_Float
  imports Go_Json
begin

text \<open>
  Go's \<open>float64\<close> as \<open>encoding/json\<close> uses it for a number held in an \<open>interface{}\<close>: the literal
  is rounded to the nearest binary64 (ties to even), a literal beyond the largest one is an
  error. Only the conversion \<open>int(v)\<close> is needed; outside the range of \<open>int\<close> it gives the
  smallest one, as on amd64 (the language leaves that case to the implementation).
\<close>

section \<open>Definitions\<close>

text \<open>A literal as a sign, a digit string read as a natural number and a decimal exponent.\<close>

definition decimal_parts :: "string \<Rightarrow> bool \<times> nat \<times> int" where
  "decimal_parts s =
     (let neg = has_prefix s ''-''; t = (if neg then drop 1 s else s);
          ip = takeWhile is_digit t; r = dropWhile is_digit t;
          fp = (if has_prefix r ''.'' then takeWhile is_digit (drop 1 r) else '''');
          x = (if has_prefix r ''.'' then dropWhile is_digit (drop 1 r) else r);
          e = (if x = '''' then 0 else fst (atoi (drop 1 x)))
      in (neg, dec_val (ip @ fp), e - int (length fp)))"

fun bit_length :: "nat \<Rightarrow> nat" where
  "bit_length n = (if n = 0 then 0 else Suc (bit_length (n div 2)))"

declare bit_length.simps [simp del]

definition div_even :: "nat \<Rightarrow> nat \<Rightarrow> nat" where
  "div_even a b =
     (let q = a div b; m = a mod b in
      if 2 * m < b \<or> (2 * m = b \<and> even q) then q else Suc q)"

text \<open>\<open>n / d\<close> as \<open>r * 2 ^ e\<close> with a 53-bit significand.\<close>

definition scaled :: "nat \<Rightarrow> nat \<Rightarrow> int \<Rightarrow> nat \<times> nat" where
  "scaled n d e = (if 0 \<le> e then (n, d * 2 ^ nat e) else (n * 2 ^ nat (- e), d))"

definition float_exp :: "nat \<Rightarrow> nat \<Rightarrow> int" where
  "float_exp n d =
     (let e0 = int (bit_length n) - int (bit_length d) - 53; (a, b) = scaled n d e0 in
      max (if a < b * 2 ^ 53 then e0 else e0 + 1) (- 1074))"

definition float_round :: "nat \<Rightarrow> nat \<Rightarrow> nat \<times> int" where
  "float_round n d = (let e = float_exp n d; (a, b) = scaled n d e in (div_even a b, e))"

text \<open>The integer part of the float of a literal.\<close>

definition float_trunc :: "string \<Rightarrow> int option" where
  "float_trunc s =
     (case decimal_parts s of
        (neg, m, x) \<Rightarrow>
          if m = 0 then Some 0
          else
            let n = m * 10 ^ nat x; d = 10 ^ nat (- x); (r, e) = float_round n d;
                i = (if 0 \<le> e then r * 2 ^ nat e else r div 2 ^ nat (- e))
            in if 1024 < bit_length i then None else Some (if neg then - int i else int i))"

definition int_of_float :: "int \<Rightarrow> int" where
  "int_of_float i = (if - (2 ^ 63) \<le> i \<and> i < 2 ^ 63 then i else - (2 ^ 63))"

section \<open>Small integers are exact\<close>

lemma bit_length_bound: "n < 2 ^ k \<Longrightarrow> bit_length n \<le> k"
proof (induction k arbitrary: n)
  case 0
  then show ?case by (simp add: bit_length.simps)
next
  case (Suc k)
  then have "n div 2 < 2 ^ k" by simp
  with Suc.IH [of "n div 2"] show ?case by (subst bit_length.simps) simp
qed

lemma bit_length_1: "bit_length (Suc 0) = Suc 0"
  by (simp add: bit_length.simps)

lemma float_round_int:
  assumes "n < 2 ^ 53"
  shows "\<exists>e. e \<le> 0 \<and> float_round n 1 = (n * 2 ^ nat (- e), e)"
proof -
  have "bit_length n \<le> 53" using assms by (rule bit_length_bound)
  then have e: "float_exp n 1 \<le> 0"
    by (auto simp: float_exp_def Let_def bit_length_1 split: prod.splits)
  then have "scaled n 1 (float_exp n 1) = (n * 2 ^ nat (- float_exp n 1), 1)"
    by (cases "float_exp n 1 = 0") (simp_all add: scaled_def)
  with e show ?thesis
    by (intro exI [of _ "float_exp n 1"]) (simp add: float_round_def Let_def div_even_def)
qed

lemma float_trunc_itoa:
  assumes "n < 2 ^ 53"
  shows "float_trunc (itoa n) = Some (int n)"
proof -
  have d: "list_all is_digit (itoa n)" "dec_val (itoa n) = n" using itoa_digits [of n] by auto
  have m: "\<not> has_prefix (itoa n) ''-''"
    using d(1) by (cases "itoa n") (auto simp: is_digit_def code_def)
  have t: "takeWhile is_digit (itoa n) = itoa n" "dropWhile is_digit (itoa n) = ''''"
    using d(1) by (simp_all add: list_all_iff)
  have p: "decimal_parts (itoa n) = (False, n, 0)"
    by (simp add: decimal_parts_def Let_def m t d(2))
  obtain e where e: "e \<le> 0" "float_round n 1 = (n * 2 ^ nat (- e), e)"
    using float_round_int [OF assms] by blast
  have "bit_length n \<le> 1024" using bit_length_bound [OF assms] by simp
  with e show ?thesis
    by (cases "e = 0") (simp_all add: float_trunc_def p)
qed

end
