(* ===== verification/Vmess.thy ===== *)
theory Vmess
  imports Common_Options Go_Float Link_Shape
begin

text \<open>
  \<open>ray2sing/vmess.go\<close>: VMess links as base64 JSON (\<open>decodeVmess\<close>) and in the two URI forms
  (\<open>decodeVmessURIForm\<close>), and the outbound built from either. Go ranges over the JSON map in an
  unspecified order; the model takes the members in the order of the text. \<open>fmt_num\<close> is the
  text \<open>fmt.Sprintf("%v")\<close> gives a float held in an array or an object.
\<close>

section \<open>The JSON body\<close>

text \<open>\<open>trailingCommaRe.ReplaceAllString(s, "$1")\<close>.\<close>

definition re_space :: "char \<Rightarrow> bool" where
  "re_space c \<longleftrightarrow> code c = 32 \<or> code c = 9 \<or> code c = 10 \<or> code c = 12 \<or> code c = 13"

function drop_trailing_commas :: "string \<Rightarrow> string" where
  "drop_trailing_commas [] = []"
| "drop_trailing_commas (c # s) =
     (if c = CHR '','' \<and> (case dropWhile re_space s of
                              [] \<Rightarrow> False | d # _ \<Rightarrow> d = CHR ''}'' \<or> d = CHR '']'')
      then drop_trailing_commas (dropWhile re_space s)
      else c # drop_trailing_commas s)"
  by pat_completeness auto
termination
  by (relation "measure length") (auto intro: le_imp_less_Suc length_dropWhile_le)

text \<open>\<open>%v\<close> of a decoded JSON value; maps print in the order of their keys.\<close>

fun fmt_v :: "(string \<Rightarrow> string) \<Rightarrow> json \<Rightarrow> string" where
  "fmt_v fmt_num JNull = ''<nil>''"
| "fmt_v fmt_num (JBool b) = (if b then ''true'' else ''false'')"
| "fmt_v fmt_num (JNum s) = fmt_num s"
| "fmt_v fmt_num (JStr s) = s"
| "fmt_v fmt_num (JArr xs) = ''['' @ join '' '' (map (fmt_v fmt_num) xs) @ '']''"
| "fmt_v fmt_num (JObj kvs) =
     (let vs = map (\<lambda>p. (fst p, fmt_v fmt_num (snd p))) kvs in
      ''map['' @ join '' '' (map (\<lambda>k. k @ '':'' @ mget (members_map vs) k)
                              (foldr insert_key (remdups (map fst vs)) [])) @ '']'')"

definition string_of_json :: "(string \<Rightarrow> string) \<Rightarrow> json \<Rightarrow> string" where
  "string_of_json fmt_num j =
     (case j of
        JStr s \<Rightarrow> s
      | JNum s \<Rightarrow> (case float_trunc s of None \<Rightarrow> '''' | Some i \<Rightarrow> itoa_int (int_of_float i))
      | JBool b \<Rightarrow> (if b then ''true'' else ''false'')
      | JArr xs \<Rightarrow> join '','' (map (fmt_v fmt_num) xs)
      | _ \<Rightarrow> fmt_v fmt_num j)"

definition convertToStrings :: "(string \<Rightarrow> string) \<Rightarrow> (string \<times> json) list \<Rightarrow> (string \<times> string) list" where
  "convertToStrings fmt_num kvs = map (\<lambda>(k, j). (k, string_of_json fmt_num j)) kvs"

text \<open>
  Decoding into \<open>map[string]interface{}\<close>; a number beyond \<open>float64\<close> is an error. The library's
  own error values are reduced to one tag in \<open>decodeVmess\<close>.
\<close>

fun numbers_ok :: "json \<Rightarrow> bool" where
  "numbers_ok (JNum s) \<longleftrightarrow> float_trunc s \<noteq> None"
| "numbers_ok (JArr xs) \<longleftrightarrow> list_all numbers_ok xs"
| "numbers_ok (JObj kvs) \<longleftrightarrow> list_all (\<lambda>p. numbers_ok (snd p)) kvs"
| "numbers_ok _ \<longleftrightarrow> True"

definition decode_any_map :: "string \<Rightarrow> (string \<times> json) list option" where
  "decode_any_map s =
     (case json_parse s of
        Some (JObj kvs) \<Rightarrow> if numbers_ok (JObj kvs) then Some kvs else None
      | _ \<Rightarrow> None)"

definition decode_vmess_json :: "string \<Rightarrow> (string \<times> json) list option" where
  "decode_vmess_json s =
     (case decode_any_map s of
        Some kvs \<Rightarrow> Some kvs
      | None \<Rightarrow> decode_any_map (drop_trailing_commas s))"

definition lower_alias :: "params \<Rightarrow> string \<Rightarrow> params" where
  "lower_alias d k =
     (let lk = to_lower k in
      if lk \<noteq> k \<and> d lk = None then d(lk \<mapsto> mget d k) else d)"

definition normalizeVmessJSONFields :: "string list \<Rightarrow> params \<Rightarrow> params" where
  "normalizeVmessJSONFields ks d0 =
     (let d1 = foldl lower_alias d0 ks;
          d2 = (if to_lower (trim_space (mget d1 ''tls'')) \<in> {''true'', ''1''}
                then d1(''tls'' \<mapsto> ''tls'') else d1)
      in d2(''id'' \<mapsto> trim_space (mget d2 ''id'')))"

section \<open>The URI forms\<close>

definition vmess_identity :: "url_schema \<Rightarrow> params \<Rightarrow> params" where
  "vmess_identity u d =
     (if us_password u \<noteq> '''' then
        (if mget d ''scy'' = '''' then d(''scy'' \<mapsto> us_username u) else d)
          (''id'' \<mapsto> trim_space (us_password u))
      else d(''id'' \<mapsto> trim_space (us_username u)))"

definition vmess_address :: "url_schema \<Rightarrow> params \<Rightarrow> params" where
  "vmess_address u d0 =
     (let d = d0(''add'' \<mapsto> us_hostname u, ''port'' \<mapsto> itoa (unat (us_port u))) in
      if us_name u \<noteq> '''' then d(''ps'' \<mapsto> us_name u)
      else if mget d ''remarks'' \<noteq> '''' then d(''ps'' \<mapsto> mget d ''remarks'') else d)"

text \<open>\<open>if v := d[from]; v != "" && d[to] == ""\<close>.\<close>

definition fill_from :: "string \<Rightarrow> string \<Rightarrow> params \<Rightarrow> params" where
  "fill_from k to d =
     (if mget d k \<noteq> '''' \<and> mget d to = '''' then d(to \<mapsto> mget d k) else d)"

definition vmess_tls_words :: "params \<Rightarrow> params" where
  "vmess_tls_words d0 =
     (let d = (if mget d0 ''security'' \<in> {''tls'', ''reality''}
               then d0(''tls'' \<mapsto> mget d0 ''security'') else d0)
      in if to_lower (mget d ''tls'') \<in> {''1'', ''true''} then d(''tls'' \<mapsto> ''tls'') else d)"

definition vmess_obfs_words :: "params \<Rightarrow> params" where
  "vmess_obfs_words d =
     (let o1 = to_lower (mget d ''obfs'') in
      if o1 \<in> {''websocket'', ''ws''} then d(''net'' \<mapsto> ''ws'')
      else if o1 = ''http'' then d(''net'' \<mapsto> ''tcp'', ''type'' \<mapsto> ''http'')
      else if o1 = ''none'' \<and> mget d ''net'' = '''' then d(''net'' \<mapsto> ''tcp'')
      else d)"

definition decodeVmessURIForm :: "string \<Rightarrow> params result" where
  "decodeVmessURIForm rebuilt =
     bindE (ParseUrl rebuilt 443) (\<lambda>u.
       let d1 = vmess_address u (vmess_identity u (us_params u));
           d2 = vmess_obfs_words (vmess_tls_words (fill_from ''encryption'' ''scy'' d1))
       in Inr (fill_from ''allowinsecure'' ''insecure''
                (fill_from ''alterid'' ''aid'' (fill_from ''obfsparam'' ''host'' d2))))"

section \<open>The link\<close>

definition vmess_json_params :: "(string \<Rightarrow> string) \<Rightarrow> (string \<times> json) list \<Rightarrow> params" where
  "vmess_json_params fmt_num kvs =
     normalizeVmessJSONFields (map fst kvs) (members_map (convertToStrings fmt_num kvs))"

definition vmess_body :: "string \<Rightarrow> string" where
  "vmess_body link = (case str_index link ''://'' of None \<Rightarrow> link | Some i \<Rightarrow> drop (i + 3) link)"

definition vmess_uri_text :: "string \<Rightarrow> string result \<Rightarrow> string \<Rightarrow> string result" where
  "vmess_uri_text body dec b64 =
     (case dec of
        Inr d \<Rightarrow>
          if contains d ''@'' then Inr (''vmess://'' @ d @ drop (length b64) body)
          else if contains body ''@'' then Inr (''vmess://'' @ body)
          else err ''vmess body is neither base64 JSON nor a URI form'' []
      | Inl e \<Rightarrow> if contains body ''@'' then Inr (''vmess://'' @ body) else Inl e)"

definition decodeVmess :: "(string \<Rightarrow> string) \<Rightarrow> string \<Rightarrow> params result" where
  "decodeVmess fmt_num vmessConfig =
     (case cut (vmess_body vmessConfig) ''#'' of
        (body, frag, hasFrag) \<Rightarrow>
          let b64 = fst (cut body ''?''); dec = decodeBase64FaultTolerant b64 in
          case dec of
            Inr d \<Rightarrow>
              if has_prefix (trim_space d) ''{'' then
                (case decode_vmess_json d of
                   None \<Rightarrow> err ''vmess body is not valid JSON'' []
                 | Some kvs \<Rightarrow>
                     let m = vmess_json_params fmt_num kvs in
                     Inr (case (hasFrag, query_unescape frag) of
                            (True, Some name) \<Rightarrow> if name \<noteq> '''' then m(''ps'' \<mapsto> name) else m
                          | _ \<Rightarrow> m))
              else bindE (vmess_uri_text body dec b64) (\<lambda>t.
                     decodeVmessURIForm (t @ (if hasFrag then ''#'' @ frag else '''')))
          | Inl _ \<Rightarrow> bindE (vmess_uri_text body dec b64) (\<lambda>t.
                     decodeVmessURIForm (t @ (if hasFrag then ''#'' @ frag else ''''))))"

definition normalizeVmessSecurity :: "string \<Rightarrow> string" where
  "normalizeVmessSecurity scy =
     (let s0 = to_lower (trim_space scy);
          s = (if s0 = ''chacha20-ietf-poly1305'' then ''chacha20-poly1305'' else s0)
      in if s \<in> {''auto'', ''none'', ''zero'', ''aes-128-cfb'', ''aes-128-gcm'', ''chacha20-poly1305''}
         then s else ''auto'')"

definition vmess_outbound :: "params \<Rightarrow> params \<Rightarrow> transport option \<Rightarrow> outbound" where
  "vmess_outbound d0 d1 tr =
     (let d = (if mget d1 ''tls'' = ''tls'' \<and> mget d1 ''fp'' = '''' then d1(''fp'' \<mapsto> ''chrome'') else d1) in
      \<lparr>o_type = ''vmess'', o_tag = mget d ''ps'', o_options = OVmess
        \<lparr>vm_dialer = getDialerOptions d,
         vm_server = \<lparr>so_server = mget d ''add'', so_port = toUInt16 (mget d0 ''port'') 443\<rparr>,
         vm_uuid = mget d ''id'', vm_security = normalizeVmessSecurity (mget d1 ''scy''),
         vm_alter_id = toInt (mget d ''aid''), vm_global_padding = False,
         vm_auth_length = (mget d ''authenticatedLength'' = ''true''),
         vm_packet_encoding = normalizePacketEncoding (mget d1 ''packetEncoding''),
         vm_tls = getTLSOptions d, vm_transport = tr, vm_mux = getMuxOptions d\<rparr>\<rparr>)"

definition VmessSingbox ::
  "(string \<Rightarrow> string) \<Rightarrow> (json \<Rightarrow> xhttp_extra option) \<Rightarrow> string \<Rightarrow> outbound result" where
  "VmessSingbox fmt_num dec vmessURL =
     bindE (decodeVmess fmt_num vmessURL) (\<lambda>d0.
     bindE (getTransportOptions dec d0) (\<lambda>(tr, d1). Inr (vmess_outbound d0 d1 tr)))"

section \<open>Facts\<close>

lemma vmessSecurity_range:
  "normalizeVmessSecurity v \<in> {''auto'', ''none'', ''zero'', ''aes-128-cfb'', ''aes-128-gcm'', ''chacha20-poly1305''}"
  by (simp add: normalizeVmessSecurity_def Let_def)

lemma trailing_head:
  "drop_trailing_commas (d # s) = d # drop_trailing_commas s" if "d \<noteq> CHR '',''"
  using that by simp

text \<open>A text without a trailing comma is left alone, and none is left in the result.\<close>

fun no_trailing_comma :: "string \<Rightarrow> bool" where
  "no_trailing_comma [] \<longleftrightarrow> True"
| "no_trailing_comma (c # s) \<longleftrightarrow>
     \<not> (c = CHR '','' \<and> (case dropWhile re_space s of
                              [] \<Rightarrow> False | d # _ \<Rightarrow> d = CHR ''}'' \<or> d = CHR '']'')) \<and>
     no_trailing_comma s"

lemma drop_trailing_commas_id: "no_trailing_comma s \<Longrightarrow> drop_trailing_commas s = s"
  by (induction s) auto

text \<open>A body with an \<open>@\<close> is no base64.\<close>

lemma dec_quads_foreign:
  assumes "c \<in> set s" and "c \<noteq> CHR ''=''" and "v c = None"
  shows "dec_quads v True s = None"
proof (cases "dec_quads v True s")
  case (Some t)
  from dec_quads_shape [OF Some] assms show ?thesis by blast
qed simp

lemma decode_at_fails:
  assumes "CHR ''@'' \<in> set s" and "list_all (\<lambda>c. graphic c \<or> mime_blank c) s"
  shows "\<exists>e. decodeBase64FaultTolerant s = Inl e"
proof -
  let ?r = "pad4 (filter (\<lambda>c. \<not> mime_blank c) s)"
  have "CHR ''@'' \<in> set (filter (\<lambda>c. \<not> mime_blank c) s)"
    using assms(1) by (simp add: mime_blank_def code_def)
  then have "CHR ''@'' \<in> set (no_newlines ?r)"
    by (auto simp: pad4_def Let_def no_newlines_def code_def)
  moreover have "std_val (CHR ''@'') = None" "url_val (CHR ''@'') = None" by code_simp+
  ultimately have "std_decode ?r = None" "url_decode ?r = None"
    by (simp_all add: std_decode_def url_decode_def dec_quads_foreign)
  then show ?thesis
    using decode_ignores_blanks [OF assms(2)] by (simp add: decodeBase64FaultTolerant_def Let_def err_def)
qed

lemma link_char_graphic: "link_char c \<Longrightarrow> graphic c"
  by (auto simp: link_char_def graphic_def is_alnum_def is_digit_def is_upper_def is_lower_def code_def)

text \<open>The words of the URI forms leave the identity of the node alone.\<close>

lemma fill_from_other [simp]: "k \<noteq> to \<Longrightarrow> fill_from f to d k = d k"
  by (simp add: fill_from_def)

lemma vmess_tls_words_other [simp]: "k \<noteq> ''tls'' \<Longrightarrow> vmess_tls_words d k = d k"
  by (simp add: vmess_tls_words_def Let_def)

lemma vmess_obfs_words_other [simp]: "k \<noteq> ''net'' \<Longrightarrow> k \<noteq> ''type'' \<Longrightarrow> vmess_obfs_words d k = d k"
  by (simp add: vmess_obfs_words_def Let_def)

lemma vmess_address_facts:
  "vmess_address u d ''add'' = Some (us_hostname u)"
  "vmess_address u d ''port'' = Some (itoa (unat (us_port u)))"
  "vmess_address u d ''id'' = d ''id''"
  "us_name u \<noteq> '''' \<Longrightarrow> vmess_address u d ''ps'' = Some (us_name u)"
  by (simp_all add: vmess_address_def Let_def)

lemma vmess_identity_id:
  "vmess_identity u d ''id'' =
   Some (trim_space (if us_password u \<noteq> '''' then us_password u else us_username u))"
  by (simp add: vmess_identity_def)

lemma decodeVmessURIForm_identity:
  assumes "ParseUrl t 443 = Inr u"
  shows "\<exists>d. decodeVmessURIForm t = Inr d \<and> d ''add'' = Some (us_hostname u) \<and>
    d ''port'' = Some (itoa (unat (us_port u))) \<and>
    d ''id'' = Some (trim_space (if us_password u \<noteq> '''' then us_password u else us_username u)) \<and>
    (us_name u \<noteq> '''' \<longrightarrow> d ''ps'' = Some (us_name u))"
  by (simp add: decodeVmessURIForm_def assms Let_def vmess_address_facts vmess_identity_id)

text \<open>The default ALPN leaves it alone too.\<close>

lemma getTransportOptions_params:
  assumes "getTransportOptions dec d = Inr (tr, d')" and "k \<noteq> ''alpn''"
  shows "d' k = d k"
  using assms by (auto simp: getTransportOptions_def Let_def default_alpn_def split: if_splits)

section \<open>Properties\<close>

text \<open>every VMess outbound, from a JSON body or from a URI form, names a cipher and a packet
  encoding that sing-vmess accepts and a multiplex protocol that sing-mux knows, and a reality
  node always carries a uTLS fingerprint.\<close>

theorem vmess_outbound_accepted:
  assumes "VmessSingbox fmt_num dec url = Inr ob"
  shows "o_type ob = ''vmess'' \<and> (\<exists>v. o_options ob = OVmess v \<and>
    vm_security v \<in> {''auto'', ''none'', ''zero'', ''aes-128-cfb'', ''aes-128-gcm'', ''chacha20-poly1305''} \<and>
    vm_packet_encoding v \<in> {'''', ''packetaddr'', ''xudp''} \<and>
    (\<forall>m. vm_mux v = Some m \<longrightarrow> mux_protocol m \<in> {''h2mux'', ''smux'', ''yamux''}) \<and>
    (\<forall>t. vm_tls v = Some t \<and> tls_reality t \<noteq> None \<longrightarrow> tls_utls t \<noteq> None))"
proof -
  from assms obtain d0 d1 tr where ob: "ob = vmess_outbound d0 d1 tr"
    by (auto simp: VmessSingbox_def bindE_eq_Inr)
  have mux: "mux_protocol m \<in> {''h2mux'', ''smux'', ''yamux''}" if "getMuxOptions d = Some m" for d m
    using that muxProtocol_range [of "mget d ''muxtype''"]
    by (auto simp: getMuxOptions_def Let_def split: if_splits)
  have tls: "tls_utls t \<noteq> None" if "getTLSOptions d = Some t \<and> tls_reality t \<noteq> None" for d t
    using that reality_fingerprint [of d] alpn_stage_reality_utls [of d "tls_base d"]
    by (auto simp: getTLSOptions_Some tls_reality_stage_reality tls_base_utls split: if_splits)
  obtain d v where v: "o_type ob = ''vmess''" "o_options ob = OVmess v" "vm_mux v = getMuxOptions d"
      "vm_tls v = getTLSOptions d" "vm_security v = normalizeVmessSecurity (mget d1 ''scy'')"
      "vm_packet_encoding v = normalizePacketEncoding (mget d1 ''packetEncoding'')"
    by (simp add: ob vmess_outbound_def Let_def)
  show ?thesis
    using mux [of d] tls [of d] vmessSecurity_range [of "mget d1 ''scy''"]
      packetEncoding_range [of "mget d1 ''packetEncoding''"]
    by (intro conjI exI [of _ v]) (simp_all only: v, simp_all)
qed

text \<open>the VMessAEAD form: a percent-encoded link \<open>vmess://id@host:port?query#name\<close> is never
  taken for base64 and gives a node with that server, port, id and name.\<close>

theorem vmess_aead_roundtrip:
  assumes "host_ok h" and "n < 2 ^ 16" and "plain_params kvs" and "name \<noteq> ''''"
  shows "\<exists>d. decodeVmess fmt_num (share_link ''vmess'' (escape EncUserPassword uuid) h n (link_query kvs) name) = Inr d \<and>
    d ''add'' = Some h \<and> d ''port'' = Some (itoa n) \<and> d ''id'' = Some (trim_space uuid) \<and> d ''ps'' = Some name"
proof -
  let ?a = "escape EncUserPassword uuid @ CHR ''@'' # host_port h n"
  let ?q = "if link_query kvs = '''' then '''' else ''?'' @ link_query kvs"
  let ?l = "share_link ''vmess'' (escape EncUserPassword uuid) h n (link_query kvs) name"
  have ok: "scheme_ok ''vmess''" by code_simp
  obtain u where u: "ParseUrl ?l 443 = Inr u" "us_username u = uuid" "us_password u = ''''"
      "us_hostname u = h" "us_port u = of_nat n" "us_name u = name"
    using ParseUrl_link [OF ok assms(1) ui_text_escape parse_userinfo_name assms(2,3)] by fastforce
  have port: "unat (of_nat n :: 16 word) = n" using assms(2) by (simp add: unat_of_nat)
  have free: "c \<notin> set (?a @ ?q)" if "c = CHR ''#''" for c
    using ui_text_facts(1) [OF ui_text_escape, of c uuid] host_port_free(1) [OF assms(1), of c n]
      link_chars_free [OF link_query_chars, of c kvs] that by auto
  have free2: "CHR ''?'' \<notin> set ?a"
    using ui_text_facts(1) [OF ui_text_escape, of "CHR ''?''" uuid] host_port_free(1) [OF assms(1), of "CHR ''?''" n]
    by auto
  have l: "?l = ''vmess://'' @ (?a @ ?q) @ CHR ''#'' # escape EncFragment name"
    using assms(4) by (simp add: share_link_def host_port_def)
  have body: "vmess_body ?l = (?a @ ?q) @ CHR ''#'' # escape EncFragment name"
    unfolding l by (simp add: vmess_body_def)
  have cut1: "cut (vmess_body ?l) ''#'' = (?a @ ?q, escape EncFragment name, True)"
    unfolding body using free by (intro cut_byte) blast
  have cut2: "fst (cut (?a @ ?q) ''?'') = ?a"
    using cut_byte [OF free2] cut_byte_none [OF free2] by simp
  have "list_all (\<lambda>c. graphic c \<or> mime_blank c) ?a"
  proof -
    have c: "graphic (CHR '':'')" "graphic (CHR ''@'')" by code_simp+
    have "list_all graphic (escape EncUserPassword uuid)" "list_all graphic (host_port h n)"
      using escape_chars [of EncUserPassword uuid] host_link_chars [OF assms(1)] itoa_link_chars [of n]
      using c by (auto simp: list_all_iff host_port_def intro: link_char_graphic)
    then show ?thesis using c by (auto simp: list_all_iff)
  qed
  from decode_at_fails [OF _ this] obtain e where e: "decodeBase64FaultTolerant ?a = Inl e" by auto
  have at: "contains (?a @ ?q) ''@''" by (simp add: contains_byte)
  have ut: "vmess_uri_text (?a @ ?q) (Inl e) ?a = Inr (''vmess://'' @ ?a @ ?q)"
    using at by (simp only: vmess_uri_text_def sum.case if_True)
  have "decodeVmess fmt_num ?l = decodeVmessURIForm ((''vmess://'' @ ?a @ ?q) @ ''#'' @ escape EncFragment name)"
    by (simp only: decodeVmess_def cut1 prod.case Let_def cut2 e sum.case ut bindE_Inr if_True)
  also have "\<dots> = decodeVmessURIForm ?l" unfolding l by simp
  finally have "decodeVmess fmt_num ?l = decodeVmessURIForm ?l" .
  with decodeVmessURIForm_identity [OF u(1)] u port assms(4) show ?thesis by simp
qed

section \<open>Witnesses\<close>

definition sample_vmess :: string where
  "sample_vmess = ''vmess://'' @ unpad (url_encode
     [CHR ''{'', CHR 0x22, CHR ''A'', CHR ''d'', CHR ''d'', CHR 0x22, CHR '':'', CHR 0x22, CHR ''h'', CHR 0x22, CHR '','',
      CHR 0x22, CHR ''p'', CHR ''o'', CHR ''r'', CHR ''t'', CHR 0x22, CHR '':'', CHR ''8'', CHR ''0'', CHR ''.'', CHR ''9'', CHR '','',
      CHR 0x22, CHR ''t'', CHR ''l'', CHR ''s'', CHR 0x22, CHR '':'', CHR ''t'', CHR ''r'', CHR ''u'', CHR ''e'',
      CHR '','', CHR '' '', CHR ''}'']) @ ''#my+node''"

theorem vmess_outbound_accepted_witness:
  "\<exists>ob v. VmessSingbox (\<lambda>s. s) (\<lambda>_. None) sample_vmess = Inr ob \<and> o_options ob = OVmess v \<and>
     o_tag ob = ''my node'' \<and> vm_server v = \<lparr>so_server = ''h'', so_port = 80\<rparr> \<and> vm_tls v \<noteq> None \<and>
     vm_packet_encoding v \<in> {'''', ''packetaddr'', ''xudp''}"
proof -
  let ?r = "VmessSingbox (\<lambda>s. s) (\<lambda>_. None) sample_vmess"
  have "(case ?r of Inr ob \<Rightarrow> o_tag ob = ''my node'' \<and> (case o_options ob of OVmess v \<Rightarrow>
      so_server (vm_server v) = ''h'' \<and> so_port (vm_server v) = 80 \<and> vm_tls v \<noteq> None | _ \<Rightarrow> False) | _ \<Rightarrow> False)"
    by code_simp
  then obtain ob v where "?r = Inr ob" "o_options ob = OVmess v" "o_tag ob = ''my node''"
      "vm_server v = \<lparr>so_server = ''h'', so_port = 80\<rparr>" "vm_tls v \<noteq> None"
    by (auto split: sum.splits outbound_options.splits)
  with vmess_outbound_accepted show ?thesis by fastforce
qed

theorem vmess_aead_roundtrip_witness:
  "\<exists>d. decodeVmess (\<lambda>s. s) (share_link ''vmess'' (escape EncUserPassword ''0-1'') ''h.ex'' 443
     (link_query [(''type'', ''ws'')]) ''n'') = Inr d \<and> d ''add'' = Some ''h.ex'' \<and> d ''id'' = Some ''0-1''"
proof -
  have a: "host_ok ''h.ex''" "(443::nat) < 2 ^ 16" "plain_params [(''type'', ''ws'')]" "''n'' \<noteq> ''''"
    "trim_space ''0-1'' = ''0-1''"
    by code_simp+
  from vmess_aead_roundtrip [OF a(1-4), of "\<lambda>s. s" "''0-1''"] a(5) show ?thesis by auto
qed

end
