(* ===== verification/Dispatch.thy ===== *)
theory Dispatch
  imports Link_Parsers Awg Shadowsocks Vmess
begin

text \<open>
  The dispatch of \<open>ray2sing/convert.go\<close>: the tables that map the prefix of a line to its parser
  and \<open>processSingleConfig\<close>. What the parsers take from outside the repository is one record
  of the environment: the decoder of the fork's xhttp options, \<open>fmt\<close>'s text of a float, the
  range decoder of the WireGuard fork and the HTTP client of \<open>ssconf://\<close>. A Go map is ranged
  over in an unspecified order; the model takes the entries as the source lists them, and
  \<open>dispatch_unique\<close> shows that at most one applies.
\<close>

section \<open>Definitions\<close>

record env =
  ev_xhttp :: "json \<Rightarrow> xhttp_extra option"
  ev_fmt :: "string \<Rightarrow> string"
  ev_range :: "string \<Rightarrow> num_range"
  ev_fetch :: "string \<Rightarrow> string result"

definition configTypes :: "env \<Rightarrow> (string \<times> (string \<Rightarrow> outbound result)) list" where
  "configTypes ev =
     (let vmess = VmessSingbox (ev_fmt ev) (ev_xhttp ev); vless = VlessSingbox (ev_xhttp ev);
          trojan = TrojanSingbox (ev_xhttp ev) in
      [(''vmess://'', vmess), (''vless://'', vless), (''trojan://'', trojan),
       (''svmess://'', vmess), (''svless://'', vless), (''strojan://'', trojan),
       (''ss://'', ShadowsocksSingbox), (''tuic://'', TuicSingbox),
       (''hysteria://'', HysteriaSingbox), (''hysteria2://'', Hysteria2Singbox),
       (''hy2://'', Hysteria2Singbox), (''ssh://'', SSHSingbox),
       (''naive://'', NaiveSingbox), (''naive+https://'', NaiveSingbox), (''naive+quic://'', NaiveSingbox),
       (''ssconf://'', BeepassSingbox (ev_fetch ev)), (''direct://'', DirectSingbox),
       (''anytls://'', AnyTLSSingbox), (''shadowtls://'', ShadowTLSSingbox),
       (''socks://'', SocksSingbox), (''socks4://'', SocksSingbox), (''socks4a://'', SocksSingbox),
       (''socks5://'', SocksSingbox), (''socks5h://'', SocksSingbox),
       (''phttp://'', HttpSingbox), (''phttps://'', HttpsSingbox),
       (''http://'', HttpSingbox), (''https://'', HttpsSingbox),
       (''xvmess://'', vmess), (''xvless://'', vless), (''xtrojan://'', trojan),
       (''xdirect://'', DirectSingbox), (''mieru://'', MieruSingbox), (''mierus://'', MieruSingbox),
       (''psiphon://'', PsiphonSingbox), (''dnstt://'', DnsttSingbox)])"

text \<open>A parser of endpoints may return neither an endpoint nor an error (\<open>AWGSingbox\<close>).\<close>

definition some_endpoint :: "endpoint result \<Rightarrow> endpoint option result" where
  "some_endpoint r = bindE r (\<lambda>e. Inr (Some e))"

definition endpointParsers :: "env \<Rightarrow> (string \<times> (string \<Rightarrow> endpoint option result)) list" where
  "endpointParsers ev =
     [(''wg://'', AWGSingbox (ev_range ev)), (''wireguard://'', AWGSingbox (ev_range ev)),
      (''warp://'', \<lambda>s. some_endpoint (WarpSingbox (ev_range ev) s)),
      (''awg://'', AWGSingbox (ev_range ev)),
      (''[Interface]'', \<lambda>s. some_endpoint (AWGSingboxTxt s))]"

definition pairParsers :: "(string \<times> (string \<Rightarrow> (outbound \<times> outbound) result)) list" where
  "pairParsers = [(''utproto://'', UTProtoSingbox)]"

text \<open>\<open>for k, v := range table { if HasPrefix(config, k) { ... v(config); break } }\<close>.\<close>

fun dispatch :: "(string \<times> (string \<Rightarrow> 'a)) list \<Rightarrow> string \<Rightarrow> 'a option" where
  "dispatch [] config = None"
| "dispatch ((k, v) # t) config = (if has_prefix config k then Some (v config) else dispatch t config)"

record out_end =
  oe_outbound :: "outbound option"
  oe_endpoint :: "endpoint option"
  oe_helper :: "outbound option"

definition lower_scheme :: "string \<Rightarrow> string" where
  "lower_scheme config =
     (case str_index config ''://'' of
        Some i \<Rightarrow> if 0 < i \<and> i \<le> 16 then to_lower (take i config) @ drop i config else config
      | None \<Rightarrow> config)"

definition canonical_header :: "string \<Rightarrow> string" where
  "canonical_header config =
     (if config \<noteq> '''' \<and> hd config = CHR ''['' \<and> has_prefix (to_lower config) ''[interface]''
      then ''[Interface]'' @ drop 11 config else config)"

definition default_out_tag :: "outbound \<Rightarrow> outbound" where
  "default_out_tag b = (if o_tag b = '''' then b\<lparr>o_tag := o_type b\<rparr> else b)"

definition default_end_tag :: "endpoint \<Rightarrow> endpoint" where
  "default_end_tag e = (if e_tag e = '''' then e\<lparr>e_tag := e_type e\<rparr> else e)"

text \<open>
  The parsers that match, in the order of the code: \<open>err\<close> is the error of the last table that
  matched, and a table of pairs is only tried when nothing has been built so far.
\<close>

definition run_parsers :: "env \<Rightarrow> string \<Rightarrow> out_end \<times> go_error option" where
  "run_parsers ev config =
     (let (ob, e1) = (case dispatch (configTypes ev) config of
                        None \<Rightarrow> (None, None)
                      | Some (Inr b) \<Rightarrow> (Some b, None)
                      | Some (Inl e) \<Rightarrow> (None, Some e));
          (ep, e2) = (case dispatch (endpointParsers ev) config of
                        None \<Rightarrow> (None, e1)
                      | Some (Inr x) \<Rightarrow> (x, None)
                      | Some (Inl e) \<Rightarrow> (None, Some e)) in
      if ob = None \<and> ep = None then
        (case dispatch pairParsers config of
           None \<Rightarrow> (\<lparr>oe_outbound = None, oe_endpoint = None, oe_helper = None\<rparr>, e2)
         | Some (Inr (m, h)) \<Rightarrow> (\<lparr>oe_outbound = Some m, oe_endpoint = None, oe_helper = Some h\<rparr>, None)
         | Some (Inl e) \<Rightarrow> (\<lparr>oe_outbound = None, oe_endpoint = None, oe_helper = None\<rparr>, Some e))
      else (\<lparr>oe_outbound = ob, oe_endpoint = ep, oe_helper = None\<rparr>, e2))"

definition processSingleConfig :: "env \<Rightarrow> string \<Rightarrow> out_end result" where
  "processSingleConfig ev config0 =
     (case run_parsers ev (canonical_header (lower_scheme config0)) of
        (oe, Some e) \<Rightarrow> Inl e
      | (oe, None) \<Rightarrow>
          if oe_endpoint oe = None \<and> oe_outbound oe = None then err ''Not supported config type'' []
          else Inr (oe\<lparr>oe_outbound := map_option default_out_tag (oe_outbound oe),
                       oe_endpoint := map_option default_end_tag (oe_endpoint oe)\<rparr>))"

section \<open>Facts\<close>

definition scheme_prefix :: "string \<Rightarrow> bool" where
  "scheme_prefix k \<longleftrightarrow> (\<exists>s. k = s @ ''://'' \<and> CHR '':'' \<notin> set s)"

text \<open>Two scheme prefixes of one text are the same.\<close>

lemma scheme_prefix_unique:
  assumes "has_prefix c k" "has_prefix c l" "scheme_prefix k" "scheme_prefix l"
  shows "k = l"
proof -
  from assms(3,4) obtain s t where st: "k = s @ ''://''" "CHR '':'' \<notin> set s" "l = t @ ''://''" "CHR '':'' \<notin> set t"
    unfolding scheme_prefix_def by blast
  from assms(1) st obtain x where cx: "c = s @ CHR '':'' # x" by (auto simp: has_prefix_iff)
  from assms(2) st obtain y where cy: "c = t @ CHR '':'' # y" by (auto simp: has_prefix_iff)
  have "Some (length s) = Some (length t)"
    unfolding str_index_byte [OF st(2), of x, symmetric] str_index_byte [OF st(4), of y, symmetric]
    using cx cy by simp
  with cx cy have "s = t" by simp
  with st show ?thesis by simp
qed

text \<open>The keys of the tables, for the splitter.\<close>

definition configSchemes :: "string list" where
  "configSchemes =
     [''vmess://'', ''vless://'', ''trojan://'', ''svmess://'', ''svless://'', ''strojan://'', ''ss://'',
      ''tuic://'', ''hysteria://'', ''hysteria2://'', ''hy2://'', ''ssh://'', ''naive://'', ''naive+https://'',
      ''naive+quic://'', ''ssconf://'', ''direct://'', ''anytls://'', ''shadowtls://'', ''socks://'',
      ''socks4://'', ''socks4a://'', ''socks5://'', ''socks5h://'', ''phttp://'', ''phttps://'', ''http://'',
      ''https://'', ''xvmess://'', ''xvless://'', ''xtrojan://'', ''xdirect://'', ''mieru://'', ''mierus://'',
      ''psiphon://'', ''dnstt://'']"

definition endpointSchemes :: "string list" where
  "endpointSchemes = [''wg://'', ''wireguard://'', ''warp://'', ''awg://'', ''[Interface]'']"

lemma table_keys:
  "map fst (configTypes ev) = configSchemes"
  "map fst (endpointParsers ev) = endpointSchemes"
  "map fst pairParsers = [''utproto://'']"
  by (simp_all add: configTypes_def endpointParsers_def pairParsers_def configSchemes_def
      endpointSchemes_def Let_def)

definition scheme_text :: "string \<Rightarrow> bool" where
  "scheme_text k \<longleftrightarrow> 3 \<le> length k \<and> drop (length k - 3) k = ''://'' \<and> CHR '':'' \<notin> set (take (length k - 3) k)"

lemma scheme_text_prefix: "scheme_text k \<Longrightarrow> scheme_prefix k"
  unfolding scheme_prefix_def scheme_text_def by (metis append_take_drop_id)

lemma schemes_ok:
  "k \<in> set (configSchemes @ endpointSchemes @ [''utproto://'']) \<Longrightarrow> scheme_prefix k \<or> k = ''[Interface]''"
proof -
  have "list_all (\<lambda>k. scheme_text k \<or> k = ''[Interface]'') (configSchemes @ endpointSchemes @ [''utproto://''])"
    by code_simp
  then show "k \<in> set (configSchemes @ endpointSchemes @ [''utproto://'']) \<Longrightarrow> ?thesis"
    by (auto simp: list_all_iff dest: scheme_text_prefix)
qed

definition all_keys :: "string list" where
  "all_keys = configSchemes @ endpointSchemes @ [''utproto://'']"

lemma key_unique:
  assumes "k \<in> set all_keys" "l \<in> set all_keys" "has_prefix c k" "has_prefix c l"
  shows "k = l"
proof -
  have "list_all (\<lambda>k. k \<noteq> '''' \<and> (hd k = CHR ''['' \<longrightarrow> k = ''[Interface]'')) all_keys" by code_simp
  then have hd: "m \<noteq> '''' \<and> (hd m = CHR ''['' \<longrightarrow> m = ''[Interface]'')" if "m \<in> set all_keys" for m
    using that by (auto simp: list_all_iff)
  have "hd m = hd c" if "m \<in> set all_keys" "has_prefix c m" for m
    using hd [OF that(1)] that(2) by (cases m) (auto simp: has_prefix_iff)
  then have heads: "hd k = hd l" using assms by metis
  show ?thesis
  proof (cases "hd k = CHR ''[''")
    case True
    with heads hd [OF assms(1)] hd [OF assms(2)] show ?thesis by simp
  next
    case False
    then have "k \<noteq> ''[Interface]''" "l \<noteq> ''[Interface]''" using heads by auto
    then show ?thesis
      using schemes_ok [of k] schemes_ok [of l] assms scheme_prefix_unique [of c k l]
      by (simp add: all_keys_def)
  qed
qed

lemma dispatch_Some: "dispatch t c = Some x \<Longrightarrow> \<exists>k v. (k, v) \<in> set t \<and> has_prefix c k \<and> x = v c"
  by (induction t c rule: dispatch.induct) (auto split: if_splits)

lemma dispatch_None: "dispatch t c = None \<longleftrightarrow> (\<forall>k \<in> fst ` set t. \<not> has_prefix c k)"
  by (induction t c rule: dispatch.induct) auto

lemma key_sets: "fst ` set (configTypes ev) \<union> fst ` set (endpointParsers ev) \<union> fst ` set pairParsers = set all_keys"
  using table_keys(1) [of ev, THEN arg_cong [where f = set]] table_keys(2) [of ev, THEN arg_cong [where f = set]]
    table_keys(3) [THEN arg_cong [where f = set]]
  by (simp add: all_keys_def)

lemma dispatch_perm:
  assumes "set t = set t'" "distinct (map fst t')" "fst ` set t' \<subseteq> set all_keys"
  shows "dispatch t c = dispatch t' c"
proof (cases "dispatch t' c")
  case None
  then have "\<forall>k \<in> fst ` set t. \<not> has_prefix c k" using assms(1) by (simp add: dispatch_None)
  then have "dispatch t c = None" by (simp only: dispatch_None)
  with None show ?thesis by simp
next
  case (Some x)
  then obtain k v where kv: "(k, v) \<in> set t'" "has_prefix c k" "x = v c" by (meson dispatch_Some)
  have "dispatch t c \<noteq> None"
    unfolding dispatch_None using kv(1,2) assms(1) by force
  then obtain y where y: "dispatch t c = Some y" by blast
  then obtain l w where lw: "(l, w) \<in> set t'" "has_prefix c l" "y = w c" using assms(1) by (metis dispatch_Some)
  have "k = l" using key_unique [of k l c] kv lw assms(3) by force
  with kv(1) lw(1) assms(2) have "v = w" by (metis eq_key_imp_eq_value)
  with Some y kv lw show ?thesis by simp
qed

lemma tables_distinct: "distinct (map fst (configTypes ev))" "distinct (map fst (endpointParsers ev))"
  unfolding table_keys by code_simp+

text \<open>An environment for evaluation: nothing outside answers.\<close>

definition offline_env :: env where
  "offline_env = \<lparr>ev_xhttp = (\<lambda>_. None), ev_fmt = (\<lambda>s. s), ev_range = (\<lambda>_. range_zero),
     ev_fetch = (\<lambda>_. err ''offline'' [])\<rparr>"

section \<open>Properties\<close>

text \<open>the order in which Go ranges over the dispatch maps does not matter: whatever order the
  entries come in, the same parser (or none) gets the line.\<close>

theorem dispatch_order_immaterial:
  assumes "set t = set (configTypes ev)" and "set e = set (endpointParsers ev)"
  shows "dispatch t c = dispatch (configTypes ev) c \<and> dispatch e c = dispatch (endpointParsers ev) c"
  using dispatch_perm [OF assms(1) tables_distinct(1)] dispatch_perm [OF assms(2) tables_distinct(2)]
    key_sets [of ev] by blast

theorem dispatch_order_immaterial_witness:
  "dispatch (rev (configTypes offline_env)) ''hy2://h.ex'' = Some (Hysteria2Singbox ''hy2://h.ex'')"
proof -
  have "dispatch (configTypes offline_env) ''hy2://h.ex'' = Some (Hysteria2Singbox ''hy2://h.ex'')"
    by (simp add: configTypes_def Let_def)
  with dispatch_order_immaterial [of "rev (configTypes offline_env)" offline_env "rev (endpointParsers offline_env)"] show ?thesis by simp
qed

lemma lower_scheme_text:
  assumes "CHR '':'' \<notin> set s" and "0 < length s" and "length s \<le> 16"
  shows "lower_scheme (s @ ''://'' @ r) = to_lower s @ ''://'' @ r"
proof -
  have "str_index (s @ ''://'' @ r) ''://'' = Some (length s)"
    using assms(1) by (induction s) (auto split: if_splits)
  with assms show ?thesis by (simp add: lower_scheme_def)
qed

lemma colon_to_lower:
  assumes "CHR '':'' \<notin> set s"
  shows "CHR '':'' \<notin> set (to_lower s)"
proof -
  have "to_lower_byte c \<noteq> CHR '':''" if "c \<noteq> CHR '':''" for c
  proof
    assume a: "to_lower_byte c = CHR '':''"
    with that have u: "is_upper c" by (auto simp: to_lower_byte_def split: if_splits)
    then have r: "65 \<le> code c" "code c \<le> 90" by (simp_all add: is_upper_def)
    from a u have "char_of (code c + 32) = CHR '':''" by (simp only: to_lower_byte_def if_True)
    then have "code (char_of (code c + 32)) = code (CHR '':'')" by (rule arg_cong)
    moreover have "code (CHR '':'') = 58" by (simp add: code_def)
    moreover have "code (char_of (code c + 32)) = code c + 32" using r by (intro code_char_of) linarith
    ultimately have "code c + 32 = 58" by (simp only:)
    with r(1) show False by linarith
  qed
  with assms show ?thesis unfolding to_lower_def set_map by (metis imageE)
qed

text \<open>the scheme of a line is read without regard to case, and what a line gives is one
  outbound or one endpoint, never both; a helper only comes with the outbound that dials
  through it.\<close>

theorem single_config_shape:
  "(CHR '':'' \<notin> set s \<and> 0 < length s \<and> length s \<le> 16 \<longrightarrow>
      processSingleConfig ev (s @ ''://'' @ r) = processSingleConfig ev (to_lower s @ ''://'' @ r)) \<and>
   (\<forall>oe. processSingleConfig ev c = Inr oe \<longrightarrow>
      (oe_outbound oe = None \<longleftrightarrow> oe_endpoint oe \<noteq> None) \<and> (oe_helper oe \<noteq> None \<longrightarrow> oe_outbound oe \<noteq> None))"
proof (intro conjI impI allI)
  assume s: "CHR '':'' \<notin> set s \<and> 0 < length s \<and> length s \<le> 16"
  then have "lower_scheme (s @ ''://'' @ r) = lower_scheme (to_lower s @ ''://'' @ r)"
    using lower_scheme_text [of s r] lower_scheme_text [of "to_lower s" r] colon_to_lower by simp
  then show "processSingleConfig ev (s @ ''://'' @ r) = processSingleConfig ev (to_lower s @ ''://'' @ r)"
    by (simp add: processSingleConfig_def)
next
  fix oe
  let ?c = "canonical_header (lower_scheme c)"
  assume oe: "processSingleConfig ev c = Inr oe"
  have excl: "dispatch (configTypes ev) ?c = None \<or> dispatch (endpointParsers ev) ?c = None"
  proof (rule ccontr)
    assume "\<not> ?thesis"
    then obtain k l where "k \<in> fst ` set (configTypes ev)" "l \<in> fst ` set (endpointParsers ev)"
      "has_prefix ?c k" "has_prefix ?c l"
      unfolding dispatch_None by blast
    moreover have "set configSchemes \<inter> set endpointSchemes = {}" by code_simp
    ultimately show False
      using key_unique [of k l ?c] key_sets [of ev] table_keys(1,2) [of ev, THEN arg_cong [where f = set]]
      by auto
  qed
  then show "oe_outbound oe = None \<longleftrightarrow> oe_endpoint oe \<noteq> None"
    using oe by (auto simp: processSingleConfig_def run_parsers_def split: option.splits sum.splits if_splits prod.splits)
  show "oe_outbound oe \<noteq> None" if "oe_helper oe \<noteq> None"
    using oe that by (auto simp: processSingleConfig_def run_parsers_def split: option.splits sum.splits if_splits prod.splits)
qed

theorem single_config_shape_witness:
  "processSingleConfig offline_env ''HY2://pw@h.ex:8443/?downmbps=50&upmbps=10'' =
     processSingleConfig offline_env ''hy2://pw@h.ex:8443/?downmbps=50&upmbps=10''"
proof -
  have "to_lower ''HY2'' = ''hy2''" by code_simp
  with single_config_shape [of "''HY2''" offline_env "''pw@h.ex:8443/?downmbps=50&upmbps=10''"] show ?thesis by simp
qed

end
