(* ===== verification/Splitter.thy ===== *)
theory Splitter
  imports Dispatch
begin

text \<open>
  \<open>ray2sing/spliter.go\<close>: a subscription body is cut into entries. Every line is decoded when it
  is base64, its tabs and carriage returns become line breaks and its lines are trimmed; the
  whole is then cut where a line starts with one of the known prefixes, a \<open>#\<close> or a \<open>//\<close>. The
  lemmas show that the matching positions of the regular expression are the starts of lines, so
  that the cut is a grouping of lines.
\<close>

section \<open>Definitions\<close>

definition nl :: char where
  "nl = CHR 0x0A"

text \<open>\<open>regexp.QuoteMeta\<close>.\<close>

definition quote_meta :: "string \<Rightarrow> string" where
  "quote_meta s = concat (map (\<lambda>c. if c \<in> set (CHR 0x5C # ''.+*?()|[]{}^$'') then [CHR 0x5C, c] else [c]) s)"

text \<open>The alternatives of the pattern, longest first (\<open>xrayConfigTypes\<close> adds no key of its own).\<close>

definition split_prefixes :: "string list" where
  "split_prefixes =
     sort_key (\<lambda>k. - int (length (quote_meta k)))
       (remdups (''#'' # ''//'' # configSchemes @ endpointSchemes @
          [''vmess://'', ''vless://'', ''trojan://'', ''direct://''] @ map fst pairParsers))"

text \<open>
  A literal under \<open>(?i)\<close>: ASCII letters match in both cases, and by Unicode simple folding the
  letters s and k also match U+017F and U+212A. The result is the number of bytes matched.
\<close>

fun fold_match :: "string \<Rightarrow> string \<Rightarrow> nat option" where
  "fold_match [] s = Some 0"
| "fold_match (p # ps) [] = None"
| "fold_match (p # ps) (c # s) =
     (if to_lower_byte c = to_lower_byte p then map_option Suc (fold_match ps s)
      else if to_lower_byte p = CHR ''s'' \<and> has_prefix (c # s) [CHR 0xC5, CHR 0xBF]
        then map_option (\<lambda>n. n + 2) (fold_match ps (drop 1 s))
      else if to_lower_byte p = CHR ''k'' \<and> has_prefix (c # s) [CHR 0xE2, CHR 0x84, CHR 0xAA]
        then map_option (\<lambda>n. n + 3) (fold_match ps (drop 2 s))
      else None)"

fun first_match :: "string list \<Rightarrow> string \<Rightarrow> nat option" where
  "first_match [] s = None"
| "first_match (p # ps) s = (case fold_match p s of Some n \<Rightarrow> Some n | None \<Rightarrow> first_match ps s)"

text \<open>
  \<open>FindAllStringIndex\<close> of \<open>(?mi)^(?:...)\<close>: the matches from left to right, each search starting
  where the last match ended; \<open>k\<close> counts the bytes of a match still to pass, \<open>bol\<close> says that the
  position is the start of a line.
\<close>

fun find_all :: "string list \<Rightarrow> nat \<Rightarrow> nat \<Rightarrow> bool \<Rightarrow> string \<Rightarrow> (nat \<times> nat) list" where
  "find_all ps i k bol [] = []"
| "find_all ps i k bol (c # s) =
     (case k of
        Suc k' \<Rightarrow> find_all ps (Suc i) k' (c = nl) s
      | 0 \<Rightarrow> (case if bol then first_match ps (c # s) else None of
                Some n \<Rightarrow> (i, i + n) # find_all ps (Suc i) (n - 1) (c = nl) s
              | None \<Rightarrow> find_all ps (Suc i) 0 (c = nl) s))"

fun slices :: "string \<Rightarrow> nat list \<Rightarrow> string list" where
  "slices body [] = []"
| "slices body [s] = [drop s body]"
| "slices body (s # e # r) = drop s (take e body) # slices body (e # r)"

definition splitByPrefix :: "string \<Rightarrow> string list" where
  "splitByPrefix body =
     (let indexes = find_all split_prefixes 0 0 True body in
      if indexes = [] then [body] else slices body (map fst indexes))"

text \<open>The first loop of \<open>expandDecodedConfig\<close>: the lines of one line of the input.\<close>

definition decoded_lines :: "string \<Rightarrow> string list" where
  "decoded_lines config0 =
     (let config = trim_prefix config0 bom;
          (d, e) = decodeBase64IfNeeded config;
          configDecoded = (if e \<noteq> None then config else d)
      in map (\<lambda>line. trim_space (trim_prefix line bom))
           (split_byte nl (replace_byte (CHR 0x09) nl (replace_byte (CHR 0x0D) nl configDecoded))))"

definition kept_entries :: "string list \<Rightarrow> string list" where
  "kept_entries cs = filter (\<lambda>tc. \<not> (tc = '''' \<or> hd tc = CHR ''#'' \<or> hd tc = CHR ''/'')) (map trim_space cs)"

definition expandDecodedConfig :: "string \<Rightarrow> string list" where
  "expandDecodedConfig configs =
     kept_entries (splitByPrefix (join [nl] (concat (map decoded_lines (split_byte nl configs)))))"

section \<open>The cut is a grouping of lines\<close>

text \<open>The lines of a text, each with its line break.\<close>

fun line_list :: "string \<Rightarrow> string list" where
  "line_list [] = []"
| "line_list (c # s) =
     (if c = nl then [c] # line_list s
      else case line_list s of [] \<Rightarrow> [[c]] | l # ls \<Rightarrow> (c # l) # ls)"

definition starts_entry :: "string \<Rightarrow> bool" where
  "starts_entry l \<longleftrightarrow> first_match split_prefixes l \<noteq> None"

fun line_groups :: "string list \<Rightarrow> string list list" where
  "line_groups [] = []"
| "line_groups (l # ls) =
     (if starts_entry l then (l # takeWhile (\<lambda>x. \<not> starts_entry x) ls) # line_groups ls else line_groups ls)"

lemma line_list_line: "nl \<notin> set l \<Longrightarrow> line_list (l @ nl # t) = (l @ [nl]) # line_list t"
  by (induction l) auto

lemma line_list_last: "nl \<notin> set l \<Longrightarrow> l \<noteq> [] \<Longrightarrow> line_list l = [l]"
proof (induction l)
  case (Cons c l)
  then show ?case by (cases l) auto
qed simp

lemma line_cases:
  obtains "nl \<notin> set s" | l t where "s = l @ nl # t" "nl \<notin> set l"
  by (meson split_list_first)

lemma concat_line_list: "concat (line_list s) = s"
  by (induction s) (auto split: list.splits)

lemma fold_match_line:
  assumes "nl \<notin> set p"
  shows "fold_match p (l @ nl # t) = fold_match p l \<and> (\<forall>n. fold_match p l = Some n \<longrightarrow> n \<le> length l)"
  using assms
proof (induction p arbitrary: l)
  case Nil
  then show ?case by simp
next
  case (Cons p ps)
  have nlp: "to_lower_byte nl \<noteq> to_lower_byte p"
  proof
    assume a: "to_lower_byte nl = to_lower_byte p"
    have "to_lower_byte nl = nl" "code nl = 10" by code_simp+
    with a have "p = nl \<or> (is_upper p \<and> char_of (code p + 32) = nl)"
      by (auto simp: to_lower_byte_def split: if_splits)
    moreover have "code (char_of (code p + 32)) = code p + 32" if "is_upper p"
      using that by (intro code_char_of) (simp add: is_upper_def)
    ultimately show False using Cons.prems \<open>code nl = 10\<close> by (auto simp: is_upper_def)
  qed
  have IH: "fold_match ps (s @ nl # t) = fold_match ps s \<and> (\<forall>n. fold_match ps s = Some n \<longrightarrow> n \<le> length s)" for s
    using Cons.IH [of s] Cons.prems by simp
  show ?case
  proof (cases l)
    case Nil
    with nlp show ?thesis by (simp add: nl_def)
  next
    case (Cons c s)
    have two: "has_prefix (c # s @ nl # t) [CHR 0xC5, CHR 0xBF] = has_prefix (c # s) [CHR 0xC5, CHR 0xBF]"
      by (cases s) (auto simp: nl_def)
    have three: "has_prefix (c # s @ nl # t) [CHR 0xE2, CHR 0x84, CHR 0xAA] = has_prefix (c # s) [CHR 0xE2, CHR 0x84, CHR 0xAA]"
      by (cases s; cases "tl s") (auto simp: nl_def)
    have d: "has_prefix (c # s) [CHR 0xC5, CHR 0xBF] \<Longrightarrow> drop 1 (s @ nl # t) = drop 1 s @ nl # t \<and> 1 \<le> length s"
      "has_prefix (c # s) [CHR 0xE2, CHR 0x84, CHR 0xAA] \<Longrightarrow> drop 2 (s @ nl # t) = drop 2 s @ nl # t \<and> 2 \<le> length s"
      by (auto simp: has_prefix_iff)
    consider (eq) "to_lower_byte c = to_lower_byte p"
      | (s) "to_lower_byte c \<noteq> to_lower_byte p" "to_lower_byte p = CHR ''s''" "has_prefix (c # s) [CHR 0xC5, CHR 0xBF]"
      | (k) "to_lower_byte c \<noteq> to_lower_byte p" "\<not> (to_lower_byte p = CHR ''s'' \<and> has_prefix (c # s) [CHR 0xC5, CHR 0xBF])"
          "to_lower_byte p = CHR ''k''" "has_prefix (c # s) [CHR 0xE2, CHR 0x84, CHR 0xAA]"
      | (no) "to_lower_byte c \<noteq> to_lower_byte p" "\<not> (to_lower_byte p = CHR ''s'' \<and> has_prefix (c # s) [CHR 0xC5, CHR 0xBF])"
          "\<not> (to_lower_byte p = CHR ''k'' \<and> has_prefix (c # s) [CHR 0xE2, CHR 0x84, CHR 0xAA])"
      by blast
    then show ?thesis
    proof cases
      case eq
      with IH [of s] show ?thesis by (auto simp: Cons)
    next
      case s
      with IH [of "drop 1 s"] d(1) two show ?thesis by (auto simp: Cons simp del: has_prefix_Cons)
    next
      case k
      with IH [of "drop 2 s"] d(2) two three show ?thesis by (auto simp: Cons simp del: has_prefix_Cons)
    next
      case no
      with two three show ?thesis by (auto simp: Cons simp del: has_prefix_Cons)
    qed
  qed
qed

lemma split_prefixes_lines: "list_all (\<lambda>p. nl \<notin> set p \<and> p \<noteq> []) split_prefixes"
  by code_simp

lemma first_match_line:
  assumes "list_all (\<lambda>p. nl \<notin> set p \<and> p \<noteq> []) ps"
  shows "first_match ps (l @ nl # t) = first_match ps l \<and> (\<forall>n. first_match ps l = Some n \<longrightarrow> n \<le> length l)"
  using assms
proof (induction ps)
  case (Cons p ps)
  then show ?case using fold_match_line [of p l t] by (auto split: option.splits)
qed simp

lemma first_match_Nil: "list_all (\<lambda>p. nl \<notin> set p \<and> p \<noteq> []) ps \<Longrightarrow> first_match ps [] = None"
proof (induction ps)
  case (Cons p ps)
  then show ?case by (cases p) auto
qed simp

lemma find_all_rest:
  "nl \<notin> set l \<Longrightarrow> k \<le> length l \<Longrightarrow>
   find_all ps i k False (l @ nl # t) = find_all ps (i + length l + 1) 0 True t \<and> find_all ps i k False l = []"
proof (induction l arbitrary: i k)
  case (Cons c l)
  then show ?case by (cases k) auto
qed simp

lemma find_all_line:
  assumes ps: "list_all (\<lambda>p. nl \<notin> set p \<and> p \<noteq> []) ps" and l: "nl \<notin> set l"
  shows "map fst (find_all ps i 0 True (l @ nl # t)) =
      (if first_match ps l \<noteq> None then [i] else []) @ map fst (find_all ps (i + length l + 1) 0 True t)"
    and "map fst (find_all ps i 0 True l) = (if first_match ps l \<noteq> None then [i] else [])"
proof -
  note fm = first_match_line [OF ps]
  show "map fst (find_all ps i 0 True (l @ nl # t)) =
      (if first_match ps l \<noteq> None then [i] else []) @ map fst (find_all ps (i + length l + 1) 0 True t)"
  proof (cases l)
    case Nil
    then show ?thesis using fm [of "[]" t] first_match_Nil [OF ps] by simp
  next
    case (Cons c l')
    with fm [of l t] l find_all_rest [of l' _ ps "Suc i" t] show ?thesis
      by (auto split: option.splits)
  qed
  show "map fst (find_all ps i 0 True l) = (if first_match ps l \<noteq> None then [i] else [])"
  proof (cases l)
    case Nil
    then show ?thesis using first_match_Nil [OF ps] by simp
  next
    case (Cons c l')
    with fm [of l t] l find_all_rest [of l' _ ps "Suc i" t] show ?thesis
      by (auto split: option.splits)
  qed
qed

fun line_starts :: "nat \<Rightarrow> string list \<Rightarrow> nat list" where
  "line_starts i [] = []"
| "line_starts i (l # ls) = (if starts_entry l then [i] else []) @ line_starts (i + length l) ls"

lemma starts_entry_nl: "starts_entry (l @ [nl]) = starts_entry l"
  using first_match_line [OF split_prefixes_lines, of l "[]"] by (simp add: starts_entry_def)

lemma find_all_starts: "map fst (find_all split_prefixes i 0 True s) = line_starts i (line_list s)"
proof (induction s arbitrary: i rule: length_induct)
  case (1 s)
  note fl = find_all_line [OF split_prefixes_lines]
  show ?case
  proof (cases s rule: line_cases)
    case 1
    show ?thesis
    proof (cases "s = []")
      case False
      then show ?thesis using fl(2) [OF 1, of i] line_list_last [OF 1] by (simp add: starts_entry_def)
    qed simp
  next
    case (2 l t)
    with "1.IH" have "map fst (find_all split_prefixes j 0 True t) = line_starts j (line_list t)" for j by simp
    with 2 show ?thesis
      using fl(1) [OF 2(2), of i t] starts_entry_nl [of l] by (simp add: line_list_line starts_entry_def)
  qed
qed

lemma line_starts_hd:
  "line_starts i ls = (case dropWhile (\<lambda>x. \<not> starts_entry x) ls of
      [] \<Rightarrow> []
    | l # r \<Rightarrow> (let j = i + length (concat (takeWhile (\<lambda>x. \<not> starts_entry x) ls)) in j # line_starts (j + length l) r))"
  by (induction ls arbitrary: i) (auto simp: Let_def add.assoc simp del: dropWhile_eq_Nil_conv split: list.splits)

lemma line_groups_drop: "line_groups (dropWhile (\<lambda>x. \<not> starts_entry x) ls) = line_groups ls"
  by (induction ls) auto

lemma slices_groups: "slices (pre @ concat ls) (line_starts (length pre) ls) = map concat (line_groups ls)"
proof (induction ls arbitrary: pre)
  case (Cons l ls)
  have IH: "slices (pre @ l @ concat ls) (line_starts (length pre + length l) ls) = map concat (line_groups ls)"
    using Cons.IH [of "pre @ l"] by simp
  show ?case
  proof (cases "starts_entry l")
    case False
    with IH show ?thesis by simp
  next
    case True
    let ?tw = "takeWhile (\<lambda>x. \<not> starts_entry x) ls" and ?dw = "dropWhile (\<lambda>x. \<not> starts_entry x) ls"
    have ls: "concat ls = concat ?tw @ concat ?dw" by (metis concat_append takeWhile_dropWhile_id)
    show ?thesis
    proof (cases ?dw)
      case Nil
      then have "line_starts (length pre + length l) ls = []" "line_groups ls = []"
        using line_groups_drop [of ls] line_starts_hd [of _ ls]
        by (simp_all del: dropWhile_eq_Nil_conv)
      with True ls Nil show ?thesis by simp
    next
      case (Cons d r)
      then have "line_starts (length pre + length l) ls =
          (length pre + length l + length (concat ?tw)) #
            line_starts (length pre + length l + length (concat ?tw) + length d) r"
        by (subst line_starts_hd) (simp add: Let_def)
      with True IH ls show ?thesis by simp
    qed
  qed
qed simp

lemma splitByPrefix_lines:
  "splitByPrefix s = (if list_ex starts_entry (line_list s) then map concat (line_groups (line_list s)) else [s])"
proof -
  have none: "line_groups ls = [] \<longleftrightarrow> \<not> list_ex starts_entry ls" "line_starts i ls = [] \<longleftrightarrow> \<not> list_ex starts_entry ls"
    for ls i by (induction ls arbitrary: i) auto
  have "map fst (find_all split_prefixes 0 0 True s) = line_starts 0 (line_list s)" by (rule find_all_starts)
  moreover have "slices s (line_starts 0 (line_list s)) = map concat (line_groups (line_list s))"
    using slices_groups [of "[]" "line_list s"] by (simp add: concat_line_list)
  ultimately show ?thesis
    using none(2) [of 0 "line_list s"] by (auto simp: splitByPrefix_def Let_def)
qed

text \<open>cutting at the matches of the regular expression is grouping whole lines: a line that
  starts with a known prefix opens an entry, the lines up to the next such line belong to it, and
  what precedes the first is dropped; a text without such a line is one entry.\<close>

theorem splitByPrefix_groups:
  "splitByPrefix s = (if list_ex starts_entry (line_list s) then map concat (line_groups (line_list s)) else [s])"
  by (rule splitByPrefix_lines)

section \<open>Expanding a body of plain lines\<close>

lemma trim_space_ends:
  assumes "s \<noteq> []" "graphic (hd s)" "graphic (last s)" "list_all ascii_space ws"
  shows "trim_space (s @ ws) = s"
proof -
  from assms(1,2) have "trim_left_space (s @ ws) = s @ ws"
    by (cases s) (auto simp: trim_left_space_def strip_by_stop lead_space_graphic)
  moreover have "strip_by trail_space (us @ rev s) = rev s" if "list_all ascii_space us" for us
    using that
  proof (induction us)
    case Nil
    from assms(1,3) show ?case
      by (cases s rule: rev_cases) (auto simp: strip_by_stop trail_space_graphic')
  next
    case (Cons u us)
    then have "trail_space (u # us @ rev s) = 1" by (cases "us @ rev s"; cases "tl (us @ rev s)") auto
    with Cons show ?case by (subst strip_by.simps) simp
  qed
  from this [of "rev ws"] assms(4) have "strip_by trail_space (rev (s @ ws)) = rev s" by simp
  ultimately show ?thesis by (simp add: trim_space_def trim_right_space_def)
qed

text \<open>A line of printable ASCII without outer blanks that is no base64.\<close>

definition plain_line :: "string \<Rightarrow> bool" where
  "plain_line l \<longleftrightarrow> l \<noteq> [] \<and> graphic (hd l) \<and> graphic (last l) \<and>
     list_all (\<lambda>c. graphic c \<or> c = CHR '' '') l \<and> isl (decodeBase64FaultTolerant l)"

lemma plain_line_free: "plain_line l \<Longrightarrow> code c < 32 \<Longrightarrow> c \<notin> set l"
  by (auto simp: plain_line_def list_all_iff graphic_def code_def)

lemma plain_line_nl: "plain_line l \<Longrightarrow> nl \<notin> set l"
  by (rule plain_line_free) (simp_all add: nl_def code_def)

lemma bom_not_graphic: "graphic (hd l) \<Longrightarrow> l \<noteq> [] \<Longrightarrow> trim_prefix l bom = l"
  by (cases l) (auto simp: trim_prefix_def bom_def graphic_def code_def)

lemma replace_byte_id: "a \<notin> set s \<Longrightarrow> replace_byte a b s = s"
  unfolding replace_byte_def by (induction s) auto

lemma decoded_lines_plain:
  assumes "plain_line l"
  shows "decoded_lines l = [l]"
proof -
  from assms obtain e where e: "decodeBase64FaultTolerant l = Inl e" by (auto simp: plain_line_def isl_def)
  have b: "trim_prefix l bom = l" using assms by (auto simp: plain_line_def intro: bom_not_graphic)
  have "CHR 0x0D \<notin> set l" "CHR 0x09 \<notin> set l" using plain_line_free [OF assms] by (simp_all add: code_def)
  then have "replace_byte (CHR 0x09) nl (replace_byte (CHR 0x0D) nl l) = l" by (simp only: replace_byte_id not_False_eq_True)
  moreover have "trim_space l = l" using trim_space_ends [of l "[]"] assms by (simp add: plain_line_def)
  ultimately show ?thesis
    using e b split_byte_atom [OF plain_line_nl [OF assms]]
    by (simp add: decoded_lines_def Let_def decodeBase64IfNeeded_def)
qed

lemma plain_line_ne: "plain_line l \<Longrightarrow> l \<noteq> []"
  by (simp add: plain_line_def)

fun terminated :: "string list \<Rightarrow> string list" where
  "terminated [] = []"
| "terminated [l] = [l]"
| "terminated (l # m # r) = (l @ [nl]) # terminated (m # r)"

lemma line_list_join: "list_all plain_line ls \<Longrightarrow> line_list (join [nl] ls) = terminated ls"
  by (induction ls rule: terminated.induct)
    (auto simp: plain_line_ne line_list_last line_list_line plain_line_nl)

lemma concat_terminated: "concat (terminated g) = join [nl] g"
  by (induction g rule: terminated.induct) auto

lemma concat_ended: "g \<noteq> [] \<Longrightarrow> concat (map (\<lambda>l. l @ [nl]) g) = join [nl] g @ [nl]"
proof (induction g)
  case (Cons l g)
  then show ?case by (cases g) auto
qed simp

lemma take_terminated:
  "takeWhile (\<lambda>x. \<not> starts_entry x) (terminated ls) =
     (if list_ex starts_entry ls then map (\<lambda>l. l @ [nl]) (takeWhile (\<lambda>x. \<not> starts_entry x) ls) else terminated ls)"
  by (induction ls rule: terminated.induct) (auto simp: starts_entry_nl)

lemma join_ends:
  assumes "g \<noteq> []" "list_all plain_line g"
  shows "join [nl] g \<noteq> [] \<and> graphic (hd (join [nl] g)) \<and> graphic (last (join [nl] g))"
  using assms by (induction "[nl]" g rule: join.induct) (auto simp: plain_line_def)

lemma trim_join: "g \<noteq> [] \<Longrightarrow> list_all plain_line g \<Longrightarrow> trim_space (join [nl] g) = join [nl] g"
  and trim_join_nl: "g \<noteq> [] \<Longrightarrow> list_all plain_line g \<Longrightarrow> trim_space (join [nl] g @ [nl]) = join [nl] g"
  using join_ends [of g] trim_space_ends [of "join [nl] g" "[]"] trim_space_ends [of "join [nl] g" "[nl]"]
  by (simp_all add: ascii_space_def nl_def code_def)

lemma groups_terminated:
  "list_all plain_line ls \<Longrightarrow>
   map trim_space (map concat (line_groups (terminated ls))) = map (join [nl]) (line_groups ls)"
proof (induction ls rule: terminated.induct)
  case (2 l)
  then show ?case using trim_join [of "[l]"] by simp
next
  case (3 l m r)
  let ?ls = "m # r" and ?tw = "takeWhile (\<lambda>x. \<not> starts_entry x)"
  have IH: "map trim_space (map concat (line_groups (terminated ?ls))) = map (join [nl]) (line_groups ?ls)"
    using "3" by simp
  show ?case
  proof (cases "starts_entry l")
    case True
    have "trim_space (concat ((l @ [nl]) # ?tw (terminated ?ls))) = join [nl] (l # ?tw ?ls)"
    proof (cases "list_ex starts_entry ?ls")
      case ex: True
      have "list_all plain_line (l # ?tw ?ls)" using "3.prems" by (auto simp: list_all_iff dest: set_takeWhileD)
      moreover have "concat ((l @ [nl]) # ?tw (terminated ?ls)) = join [nl] (l # ?tw ?ls) @ [nl]"
        using ex concat_ended [of "l # ?tw ?ls"] by (simp only: take_terminated if_True list.map) simp
      ultimately show ?thesis using trim_join_nl by simp
    next
      case False
      then have "?tw ?ls = ?ls" by (intro takeWhile_eq_all_conv [THEN iffD2]) (auto simp: list_ex_iff)
      moreover have "concat ((l @ [nl]) # ?tw (terminated ?ls)) = join [nl] (l # ?ls)"
        using False by (simp only: take_terminated if_False concat.simps concat_terminated) simp
      ultimately show ?thesis using "3.prems" trim_join [of "l # ?ls"] by simp
    qed
    moreover have "starts_entry (l @ [nl])" using True by (simp add: starts_entry_nl)
    ultimately show ?thesis using True IH by simp
  next
    case False
    with IH show ?thesis by (simp add: starts_entry_nl)
  qed
qed simp

lemma group_lines: "g \<in> set (line_groups ls) \<Longrightarrow> g \<noteq> [] \<and> set g \<subseteq> set ls"
proof (induction ls)
  case (Cons l ls)
  then show ?case using set_takeWhileD [of _ "\<lambda>x. \<not> starts_entry x" ls] by (auto split: if_splits)
qed simp

lemma expand_plain_lines:
  assumes ls: "list_all plain_line ls" and ne: "ls \<noteq> []" and ex: "list_ex starts_entry ls"
  shows "expandDecodedConfig (join [nl] ls) =
    filter (\<lambda>tc. hd tc \<noteq> CHR ''#'' \<and> hd tc \<noteq> CHR ''/'') (map (join [nl]) (line_groups ls))"
proof -
  have "split_byte nl (join [nl] ls) = ls"
    using ne ls plain_line_nl by (intro split_byte_join) (auto simp: list_all_iff)
  moreover have "concat (map decoded_lines ls) = ls"
    using ls by (induction ls) (auto simp: decoded_lines_plain)
  moreover have "list_ex starts_entry (terminated ls)"
    using ex by (induction ls rule: terminated.induct) (auto simp: starts_entry_nl)
  ultimately have e: "expandDecodedConfig (join [nl] ls) = kept_entries (map concat (line_groups (terminated ls)))"
    using ls by (simp add: expandDecodedConfig_def splitByPrefix_lines line_list_join)
  have nonempty: "(join [nl] g = []) = False" if "g \<in> set (line_groups ls)" for g
  proof -
    from group_lines [OF that] ls have "g \<noteq> []" "list_all plain_line g" by (auto simp: list_all_iff)
    then show ?thesis using join_ends [of g] by auto
  qed
  have "filter (\<lambda>tc. \<not> (tc = '''' \<or> hd tc = CHR ''#'' \<or> hd tc = CHR ''/'')) (map (join [nl]) (line_groups ls)) =
      filter (\<lambda>tc. hd tc \<noteq> CHR ''#'' \<and> hd tc \<noteq> CHR ''/'') (map (join [nl]) (line_groups ls))"
    by (intro filter_cong) (auto simp: nonempty)
  with e show ?thesis
    unfolding kept_entries_def groups_terminated [OF ls] by (simp only:)
qed

text \<open>Which lines are plain: one byte outside both alphabets is enough.\<close>

lemma decode_foreign_fails:
  assumes "c \<in> set s" "c \<noteq> CHR ''=''" "std_val c = None" "url_val c = None" "\<not> mime_blank c"
    and "list_all (\<lambda>c. graphic c \<or> mime_blank c) s"
  shows "isl (decodeBase64FaultTolerant s)"
proof -
  let ?r = "pad4 (filter (\<lambda>c. \<not> mime_blank c) s)"
  have "c \<in> set (filter (\<lambda>c. \<not> mime_blank c) s)" using assms(1,5) by simp
  then have "c \<in> set (no_newlines ?r)"
    using assms(5) by (auto simp: pad4_def Let_def no_newlines_def mime_blank_def code_def)
  then have "std_decode ?r = None" "url_decode ?r = None"
    using assms(2,3,4) by (simp_all add: std_decode_def url_decode_def dec_quads_foreign)
  then show ?thesis
    using decode_ignores_blanks [OF assms(6)] by (simp add: decodeBase64FaultTolerant_def Let_def err_def)
qed

lemma colon_line:
  assumes "CHR '':'' \<in> set l \<or> CHR ''#'' \<in> set l" "l \<noteq> []" "graphic (hd l)" "graphic (last l)"
    "list_all (\<lambda>c. graphic c \<or> c = CHR '' '') l"
  shows "plain_line l"
proof -
  have v: "std_val (CHR '':'') = None" "url_val (CHR '':'') = None" "std_val (CHR ''#'') = None" "url_val (CHR ''#'') = None"
    by code_simp+
  have "list_all (\<lambda>c. graphic c \<or> mime_blank c) l"
  proof -
    have "mime_blank (CHR '' '')" by code_simp
    with assms(5) show ?thesis unfolding list_all_iff by blast
  qed
  moreover have "\<not> mime_blank (CHR '':'')" "\<not> mime_blank (CHR ''#'')" by code_simp+
  ultimately have "isl (decodeBase64FaultTolerant l)"
    using assms(1) decode_foreign_fails [of "CHR '':''" l] decode_foreign_fails [of "CHR ''#''" l] v by blast
  then show ?thesis unfolding plain_line_def using assms(2-5) by blast
qed

lemma line_groups_each: "list_all starts_entry ls \<Longrightarrow> line_groups ls = map (\<lambda>l. [l]) ls"
proof (induction ls)
  case (Cons l ls)
  then have "takeWhile (\<lambda>x. \<not> starts_entry x) ls = []" by (cases ls) auto
  with Cons show ?case by simp
qed simp

text \<open>a subscription of one link per line, with comment lines in between, expands to exactly its
  links, in order and unchanged.\<close>

theorem links_expand_to_themselves:
  assumes "list_all (\<lambda>l. starts_entry l \<and> (CHR '':'' \<in> set l \<or> CHR ''#'' \<in> set l) \<and> l \<noteq> [] \<and> graphic (hd l) \<and>
      graphic (last l) \<and> list_all (\<lambda>c. graphic c \<or> c = CHR '' '') l) ls"
    and "ls \<noteq> []"
  shows "expandDecodedConfig (join [nl] ls) = filter (\<lambda>l. hd l \<noteq> CHR ''#'' \<and> hd l \<noteq> CHR ''/'') ls"
proof -
  have "list_all plain_line ls" using assms(1) colon_line unfolding list_all_iff by blast
  moreover have st: "list_all starts_entry ls" using assms(1) by (auto simp: list_all_iff)
  then have "line_groups ls = map (\<lambda>l. [l]) ls" by (rule line_groups_each)
  moreover have "list_ex starts_entry ls" using st assms(2) by (cases ls) auto
  ultimately show ?thesis using expand_plain_lines [of ls] assms(2) by (simp add: comp_def)
qed

theorem links_expand_to_themselves_witness:
  "expandDecodedConfig (join [nl] [''# my list'', ''ss://YTpi@h.ex:1#a'', ''HY2://p@h.ex:8443'']) =
     [''ss://YTpi@h.ex:1#a'', ''HY2://p@h.ex:8443'']"
proof -
  have "list_all (\<lambda>l. starts_entry l \<and> (CHR '':'' \<in> set l \<or> CHR ''#'' \<in> set l) \<and> l \<noteq> [] \<and> graphic (hd l) \<and>
      graphic (last l) \<and> list_all (\<lambda>c. graphic c \<or> c = CHR '' '') l)
      [''# my list'', ''ss://YTpi@h.ex:1#a'', ''HY2://p@h.ex:8443'']"
    by code_simp
  from links_expand_to_themselves [OF this] show ?thesis by simp
qed

text \<open>a comment line inside a wg-quick text ends its entry: the lines after the comment are
  dropped with it, although \<open>AWGSingboxTxt\<close> would skip such lines.\<close>

theorem conf_cut_at_comment:
  assumes "list_all plain_line ((h # a) @ c # b)" and "starts_entry h" and "hd h = CHR ''[''"
    and "hd c = CHR ''#''" and "\<not> list_ex starts_entry (a @ b)"
  shows "expandDecodedConfig (join [nl] ((h # a) @ c # b)) = [join [nl] (h # a)]"
proof -
  have c: "starts_entry c"
  proof -
    obtain r where "c = CHR ''#'' # r" using assms(1,4) by (cases c) (auto simp: plain_line_def)
    moreover have "''#'' \<in> set split_prefixes" by code_simp
    moreover have "''#'' \<in> set ps \<Longrightarrow> first_match ps (CHR ''#'' # r) \<noteq> None" for ps
      by (induction ps) (auto split: option.splits)
    ultimately show ?thesis by (auto simp: starts_entry_def)
  qed
  have tw: "takeWhile (\<lambda>x. \<not> starts_entry x) (a @ c # b) = a" "takeWhile (\<lambda>x. \<not> starts_entry x) b = b"
    using assms(5) c by (auto simp: list_ex_iff takeWhile_append2)
  have none: "\<not> list_ex starts_entry x \<Longrightarrow> line_groups (x @ y) = line_groups y" for x y
    by (induction x) auto
  from assms(5) none [of a "c # b"] none [of b "[]"]
  have "line_groups ((h # a) @ c # b) = [h # a, c # b]" using c tw assms(2) by simp
  moreover have "hd (join [nl] (h # a)) = CHR ''[''" "hd (join [nl] (c # b)) = CHR ''#''"
    using assms(1,3,4) by (cases a; cases b; auto simp: plain_line_def)+
  ultimately show ?thesis using expand_plain_lines [OF assms(1)] assms(2) by simp
qed

theorem conf_cut_at_comment_witness:
  "expandDecodedConfig (join [nl] [''[Interface]'', ''# phone'', ''PrivateKey = k='']) = [''[Interface]'']"
proof -
  have "list_all plain_line [''[Interface]'', ''# phone'', ''PrivateKey = k='']" by code_simp
  moreover have "starts_entry ''[Interface]''" "\<not> starts_entry ''PrivateKey = k=''" by code_simp+
  ultimately show ?thesis
    using conf_cut_at_comment [of "''[Interface]''" "[]" "''# phone''" "[''PrivateKey = k='']"] by simp
qed

end
