(* ===== verification/Convert.thy ===== *)
theory Convert
  imports Splitter
begin

text \<open>
  \<open>GenerateConfigLite\<close> of \<open>ray2sing/convert.go\<close> for a body of share links: every entry is a chain
  of hops written \<open>front -> ... -> exit\<close>, read from its end; every hop that parses becomes an
  outbound (or an endpoint, or a pair of outbounds) whose tag gets a running number and whose
  dialer detours through the hop read before it. The lemmas are an invariant of the loop's state.
\<close>

section \<open>Definitions\<close>

fun take_end_dialer :: "endpoint_options \<Rightarrow> dialer_options" where
  "take_end_dialer (EWarp x) = wo_dialer x"
| "take_end_dialer (EWireGuard x) = wg_dialer x"
| "take_end_dialer (EAwg x) = ao_dialer x"

fun replace_end_dialer :: "dialer_options \<Rightarrow> endpoint_options \<Rightarrow> endpoint_options" where
  "replace_end_dialer d (EWarp x) = EWarp (x\<lparr>wo_dialer := d\<rparr>)"
| "replace_end_dialer d (EWireGuard x) = EWireGuard (x\<lparr>wg_dialer := d\<rparr>)"
| "replace_end_dialer d (EAwg x) = EAwg (x\<lparr>ao_dialer := d\<rparr>)"

interpretation endpoint_dialer: dialer_wrapper take_end_dialer replace_end_dialer
proof
  show "take_end_dialer (replace_end_dialer d x) = d" for d x by (cases x) simp_all
  show "replace_end_dialer (take_end_dialer x) x = x" for x by (cases x) simp_all
  show "replace_end_dialer d (replace_end_dialer d' x) = replace_end_dialer d x" for d d' x by (cases x) simp_all
qed

text \<open>\<open>TakeDialerOptions\<close>, \<open>Detour = t\<close>, \<open>ReplaceDialerOptions\<close>, on an outbound and on an endpoint.\<close>

definition detour_out :: "string \<Rightarrow> outbound \<Rightarrow> outbound" where
  "detour_out t b = b\<lparr>o_options := replace_dialer ((take_dialer (o_options b))\<lparr>do_detour := t\<rparr>) (o_options b)\<rparr>"

definition detour_end :: "string \<Rightarrow> endpoint \<Rightarrow> endpoint" where
  "detour_end t e = e\<lparr>e_options := replace_end_dialer ((take_end_dialer (e_options e))\<lparr>do_detour := t\<rparr>) (e_options e)\<rparr>"

definition section_sign :: string where
  "section_sign = [CHR '' '', CHR 0xC2, CHR 0xA7, CHR '' '']"

definition numbered :: "string \<Rightarrow> nat \<Rightarrow> string" where
  "numbered tag n = tag @ section_sign @ itoa n"

record conv_state =
  cs_outs :: "outbound list"
  cs_ends :: "endpoint list"
  cs_counter :: nat
  cs_detour :: string

definition conv_init :: conv_state where
  "conv_init = \<lparr>cs_outs = [], cs_ends = [], cs_counter = 0, cs_detour = ''''\<rparr>"

definition add_pair :: "outbound \<Rightarrow> outbound \<Rightarrow> conv_state \<Rightarrow> conv_state" where
  "add_pair main helper st =
     (let n = cs_counter st; mt = numbered (o_tag main) n; ht = numbered (o_tag helper) (n + 1) in
      st\<lparr>cs_outs := cs_outs st @ [detour_out ht (main\<lparr>o_tag := mt\<rparr>),
            detour_out (cs_detour st) (helper\<lparr>o_tag := ht\<rparr>)],
         cs_counter := n + 2, cs_detour := mt\<rparr>)"

definition add_outbound :: "outbound \<Rightarrow> conv_state \<Rightarrow> conv_state" where
  "add_outbound b st =
     (let n = cs_counter st; t = numbered (o_tag b) n in
      st\<lparr>cs_outs := cs_outs st @ [detour_out (cs_detour st) (b\<lparr>o_tag := t\<rparr>)],
         cs_counter := n + 1, cs_detour := t\<rparr>)"

definition add_endpoint :: "endpoint \<Rightarrow> conv_state \<Rightarrow> conv_state" where
  "add_endpoint e st =
     (let n = cs_counter st; t = numbered (e_tag e) n in
      st\<lparr>cs_ends := cs_ends st @ [detour_end (cs_detour st) (e\<lparr>e_tag := t\<rparr>)],
         cs_counter := n + 1, cs_detour := t\<rparr>)"

definition add_out_end :: "out_end \<Rightarrow> conv_state \<Rightarrow> conv_state" where
  "add_out_end oe st =
     (case (oe_outbound oe, oe_helper oe, oe_endpoint oe) of
        (Some m, Some h, _) \<Rightarrow> add_pair m h st
      | (Some b, None, _) \<Rightarrow> add_outbound b st
      | (None, _, Some e) \<Rightarrow> add_endpoint e st
      | (None, _, None) \<Rightarrow> st\<lparr>cs_counter := cs_counter st + 1\<rparr>)"

definition convert_hop :: "env \<Rightarrow> string \<Rightarrow> conv_state \<Rightarrow> conv_state" where
  "convert_hop ev chain1 st =
     (let (chain, _) = decodeBase64IfNeeded chain1 in
      case processSingleConfig ev chain of
        Inl e \<Rightarrow> st
      | Inr oe \<Rightarrow> add_out_end oe st)"

definition convert_entry :: "env \<Rightarrow> string \<Rightarrow> conv_state \<Rightarrow> conv_state" where
  "convert_entry ev config st =
     (if length config < 5 \<or> hd config = CHR ''#'' \<or> hd config = CHR ''/'' then st
      else fold (convert_hop ev) (rev (split_str config '' -> '')) (st\<lparr>cs_detour := ''''\<rparr>))"

record sb_options =
  sb_outbounds :: "outbound list"
  sb_endpoints :: "endpoint list"

text \<open>\<open>GenerateConfigLite\<close> from the call of \<open>expandDecodedConfig\<close> on.\<close>

definition generate_links :: "env \<Rightarrow> string \<Rightarrow> sb_options result" where
  "generate_links ev input =
     (let st = fold (convert_entry ev) (expandDecodedConfig input) conv_init in
      if cs_outs st = [] \<and> cs_ends st = [] then err ''No outbounds found'' []
      else Inr \<lparr>sb_outbounds = cs_outs st, sb_endpoints = cs_ends st\<rparr>)"

section \<open>Facts about numbered tags\<close>

lemma numbered_digits: "takeWhile is_digit (rev (numbered b n)) = rev (itoa n)"
proof -
  have r: "rev (numbered b n) = rev (itoa n) @ CHR '' '' # rev (b @ [CHR '' '', CHR 0xC2, CHR 0xA7])"
    by (simp add: numbered_def section_sign_def)
  have "\<not> is_digit (CHR '' '')" by code_simp
  moreover have "\<forall>c \<in> set (rev (itoa n)). is_digit c" using itoa_digits [of n] by (simp add: list_all_iff)
  ultimately show ?thesis
    unfolding r by (subst takeWhile_append2) (simp_all)
qed

lemma numbered_inj: "numbered a m = numbered b n \<longleftrightarrow> a = b \<and> m = n"
proof
  assume eq: "numbered a m = numbered b n"
  then have "rev (itoa m) = rev (itoa n)" by (metis numbered_digits)
  then have "m = n" by (simp add: itoa_inj)
  with eq show "a = b \<and> m = n" by (simp add: numbered_def)
qed simp

lemma numbered_ne [simp]: "numbered a n \<noteq> ''''"
  by (simp add: numbered_def section_sign_def)

lemma detour_out_simps [simp]:
  "o_tag (detour_out t b) = o_tag b" "o_type (detour_out t b) = o_type b"
  "do_detour (take_dialer (o_options (detour_out t b))) = t"
  by (simp_all add: detour_out_def outbound_dialer.set_detour)

lemma detour_end_simps [simp]:
  "e_tag (detour_end t e) = e_tag e" "e_type (detour_end t e) = e_type e"
  "do_detour (take_end_dialer (e_options (detour_end t e))) = t"
  by (simp_all add: detour_end_def endpoint_dialer.set_detour)

section \<open>The invariant\<close>

text \<open>What has been emitted, as pairs of a tag and the tag it dials through.\<close>

definition out_hop :: "outbound \<Rightarrow> string \<times> string" where
  "out_hop b = (o_tag b, do_detour (take_dialer (o_options b)))"

definition end_hop :: "endpoint \<Rightarrow> string \<times> string" where
  "end_hop e = (e_tag e, do_detour (take_end_dialer (e_options e)))"

definition hops :: "outbound list \<Rightarrow> endpoint list \<Rightarrow> (string \<times> string) list" where
  "hops os es = map out_hop os @ map end_hop es"

definition dials :: "(string \<times> string) list \<Rightarrow> (string \<times> string) set" where
  "dials hs = {(t, d). (t, d) \<in> set hs \<and> d \<noteq> ''''}"

definition hops_ok :: "nat \<Rightarrow> (string \<times> string) list \<Rightarrow> bool" where
  "hops_ok n hs \<longleftrightarrow> distinct (map fst hs) \<and> (\<forall>t \<in> fst ` set hs. \<exists>b k. t = numbered b k \<and> k < n) \<and>
     snd ` dials hs \<subseteq> fst ` set hs \<and> acyclic (dials hs)"

definition conv_inv :: "conv_state \<Rightarrow> bool" where
  "conv_inv st \<longleftrightarrow> hops_ok (cs_counter st) (hops (cs_outs st) (cs_ends st)) \<and>
     (cs_detour st = '''' \<or> cs_detour st \<in> fst ` set (hops (cs_outs st) (cs_ends st)))"

lemma hops_ok_mset: "mset hs = mset hs' \<Longrightarrow> hops_ok n hs = hops_ok n hs'"
proof -
  assume m: "mset hs = mset hs'"
  then have "set hs = set hs'" by (rule mset_eq_setD)
  moreover from m have "mset (map fst hs) = mset (map fst hs')" by simp
  then have "distinct (map fst hs) = distinct (map fst hs')" by (rule mset_eq_imp_distinct_iff)
  ultimately show ?thesis by (simp add: hops_ok_def dials_def)
qed

lemma hops_ok_mono: "hops_ok n hs \<Longrightarrow> n \<le> m \<Longrightarrow> hops_ok m hs"
  unfolding hops_ok_def by (meson order_less_le_trans)

text \<open>A new hop with a fresh number, dialling directly or through an emitted tag.\<close>

lemma hops_ok_add:
  assumes ok: "hops_ok n hs" and d: "d = '''' \<or> d \<in> fst ` set hs" and n: "n \<le> m" "k < m"
    and fresh: "numbered b k \<notin> fst ` set hs"
  shows "hops_ok m ((numbered b k, d) # hs)"
proof -
  let ?t = "numbered b k"
  have dials: "dials ((?t, d) # hs) = (if d = '''' then dials hs else insert (?t, d) (dials hs))"
    by (auto simp: dials_def)
  have "snd ` dials hs \<subseteq> fst ` set hs" using ok by (simp add: hops_ok_def)
  with fresh have "?t \<notin> Range (dials hs)" by force
  then have "(d, ?t) \<notin> (dials hs)\<^sup>*" if "d \<noteq> ''''"
    using d that fresh by (metis Range.intros rtranclE)
  then have "acyclic (dials ((?t, d) # hs))"
    using ok by (auto simp: dials hops_ok_def acyclic_insert)
  moreover have "\<exists>b' k'. t = numbered b' k' \<and> k' < m" if "t \<in> fst ` set hs" for t
  proof -
    from ok that obtain c j where "t = numbered c j" "j < n" unfolding hops_ok_def by blast
    with n show ?thesis by (metis order_less_le_trans)
  qed
  moreover have "\<exists>b' k'. ?t = numbered b' k' \<and> k' < m" using n by blast
  ultimately show ?thesis
    using ok d fresh by (auto simp: hops_ok_def dials)
qed

lemma hops_ok_fresh: "hops_ok n hs \<Longrightarrow> n \<le> k \<Longrightarrow> numbered b k \<notin> fst ` set hs"
  unfolding hops_ok_def by (metis leD numbered_inj)

lemma hops_snoc: "mset (hops (os @ [b]) es) = mset (out_hop b # hops os es)"
  "mset (hops os (es @ [e])) = mset (end_hop e # hops os es)"
  by (simp_all add: hops_def)

text \<open>The state after a step, when what has been emitted is known up to order.\<close>

lemma conv_invI:
  assumes "hops_ok n hs" and "mset (hops (cs_outs st) (cs_ends st)) = mset hs" and "cs_counter st = n"
    and "cs_detour st \<in> fst ` set hs"
  shows "conv_inv st"
  using assms hops_ok_mset [OF assms(2)] mset_eq_setD [OF assms(2)] by (simp add: conv_inv_def)

lemma add_outbound_inv:
  assumes "conv_inv st"
  shows "conv_inv (add_outbound b st)"
proof -
  let ?hs = "hops (cs_outs st) (cs_ends st)"
  let ?t = "numbered (o_tag b) (cs_counter st)"
  from assms have hs: "hops_ok (cs_counter st) ?hs" "cs_detour st = '''' \<or> cs_detour st \<in> fst ` set ?hs"
    by (auto simp: conv_inv_def)
  have "hops_ok (Suc (cs_counter st)) ((?t, cs_detour st) # ?hs)"
    by (rule hops_ok_add [OF hs _ _ hops_ok_fresh [OF hs(1)]]) simp_all
  then show ?thesis
    by (rule conv_invI) (simp_all add: add_outbound_def Let_def hops_snoc out_hop_def)
qed

lemma add_endpoint_inv:
  assumes "conv_inv st"
  shows "conv_inv (add_endpoint e st)"
proof -
  let ?hs = "hops (cs_outs st) (cs_ends st)"
  let ?t = "numbered (e_tag e) (cs_counter st)"
  from assms have hs: "hops_ok (cs_counter st) ?hs" "cs_detour st = '''' \<or> cs_detour st \<in> fst ` set ?hs"
    by (auto simp: conv_inv_def)
  have "hops_ok (Suc (cs_counter st)) ((?t, cs_detour st) # ?hs)"
    by (rule hops_ok_add [OF hs _ _ hops_ok_fresh [OF hs(1)]]) simp_all
  then show ?thesis
    by (rule conv_invI) (simp_all add: add_endpoint_def Let_def hops_snoc end_hop_def)
qed

lemma add_pair_inv:
  assumes "conv_inv st"
  shows "conv_inv (add_pair m h st)"
proof -
  let ?hs = "hops (cs_outs st) (cs_ends st)" and ?n = "cs_counter st"
  let ?mt = "numbered (o_tag m) ?n" and ?ht = "numbered (o_tag h) (Suc ?n)"
  from assms have hs: "hops_ok ?n ?hs" "cs_detour st = '''' \<or> cs_detour st \<in> fst ` set ?hs"
    by (auto simp: conv_inv_def)
  have h: "hops_ok (Suc (Suc ?n)) ((?ht, cs_detour st) # ?hs)"
    by (rule hops_ok_add [OF hs _ _ hops_ok_fresh [OF hs(1)]]) simp_all
  moreover have "?mt \<notin> fst ` set ((?ht, cs_detour st) # ?hs)"
    using hops_ok_fresh [OF hs(1), of ?n] by (auto simp: numbered_inj)
  ultimately have "hops_ok (Suc (Suc ?n)) ((?mt, ?ht) # (?ht, cs_detour st) # ?hs)"
    using hops_ok_add [OF h, of ?ht "Suc (Suc ?n)" ?n "o_tag m"] by simp
  moreover have "mset (hops (cs_outs (add_pair m h st)) (cs_ends (add_pair m h st))) =
      mset ((?mt, ?ht) # (?ht, cs_detour st) # ?hs)"
    by (simp add: add_pair_def Let_def hops_def out_hop_def)
  ultimately show ?thesis
    by (rule conv_invI) (simp_all add: add_pair_def Let_def)
qed

text \<open>A hop whose parser fails leaves the state alone; the tag of the next hop to the left detours
  through whatever was read before.\<close>

lemma add_out_end_inv: "conv_inv st \<Longrightarrow> conv_inv (add_out_end oe st)"
proof -
  assume inv: "conv_inv st"
  then have "conv_inv (st\<lparr>cs_counter := cs_counter st + 1\<rparr>)"
    by (auto simp: conv_inv_def intro: hops_ok_mono)
  with inv show ?thesis
    by (auto simp: add_out_end_def add_outbound_inv add_endpoint_inv add_pair_inv split: option.splits)
qed

inductive conv_step :: "env \<Rightarrow> conv_state \<Rightarrow> conv_state \<Rightarrow> bool" for ev where
  new_entry: "conv_step ev st (st\<lparr>cs_detour := ''''\<rparr>)"
| next_hop: "conv_step ev st (convert_hop ev c st)"

interpretation links: invariant_system conv_init "conv_step ev" conv_inv for ev
proof
  show "conv_inv conv_init"
    by (simp add: conv_inv_def conv_init_def hops_def hops_ok_def dials_def acyclic_def)
  show "conv_inv t" if "conv_inv s" "conv_step ev s t" for s t
    using that(2)
  proof (cases rule: conv_step.cases)
    case new_entry
    with that(1) show ?thesis by (simp add: conv_inv_def)
  next
    case (next_hop c)
    with that(1) show ?thesis
      by (auto simp: convert_hop_def add_out_end_inv split: prod.splits sum.splits)
  qed
qed

lemma reach_hops: "reach (conv_step ev) a st \<Longrightarrow> reach (conv_step ev) a (fold (convert_hop ev) cs st)"
  by (induction cs arbitrary: st) (auto intro: reach_step next_hop)

lemma reach_entry: "reach (conv_step ev) a st \<Longrightarrow> reach (conv_step ev) a (convert_entry ev c st)"
  unfolding convert_entry_def by (auto intro!: reach_hops intro: reach_step new_entry)

lemma reach_entries: "reach (conv_step ev) a st \<Longrightarrow> reach (conv_step ev) a (fold (convert_entry ev) cs st)"
  by (induction cs arbitrary: st) (auto intro: reach_entry)

lemma generate_links_Inr:
  assumes "generate_links ev input = Inr opts"
  obtains st where "st = fold (convert_entry ev) (expandDecodedConfig input) conv_init" "conv_inv st"
    "opts = \<lparr>sb_outbounds = cs_outs st, sb_endpoints = cs_ends st\<rparr>" "cs_outs st \<noteq> [] \<or> cs_ends st \<noteq> []"
proof -
  let ?st = "fold (convert_entry ev) (expandDecodedConfig input) conv_init"
  have "conv_inv ?st" by (rule links.reachable_inv [OF reach_entries [OF reach_refl]])
  with that assms show ?thesis by (auto simp: generate_links_def Let_def split: if_splits)
qed

section \<open>Properties\<close>

text \<open>C36: in what a subscription gives, no two tags of outbounds and endpoints are the same, every
  detour names an emitted outbound or endpoint, and following the detours never comes back to
  where it started.\<close>

theorem detours_resolve:
  assumes "generate_links ev input = Inr opts"
  shows "distinct (map o_tag (sb_outbounds opts) @ map e_tag (sb_endpoints opts)) \<and>
    snd ` dials (hops (sb_outbounds opts) (sb_endpoints opts)) \<subseteq>
      set (map o_tag (sb_outbounds opts) @ map e_tag (sb_endpoints opts)) \<and>
    acyclic (dials (hops (sb_outbounds opts) (sb_endpoints opts)))"
proof -
  from assms obtain st where st: "conv_inv st" "opts = \<lparr>sb_outbounds = cs_outs st, sb_endpoints = cs_ends st\<rparr>"
    by (rule generate_links_Inr)
  have tags: "map fst (hops os es) = map o_tag os @ map e_tag es" for os es
    by (simp add: hops_def out_hop_def end_hop_def comp_def)
  from st(1) have ok: "hops_ok (cs_counter st) (hops (cs_outs st) (cs_ends st))" by (simp add: conv_inv_def)
  have "set (map fst (hops os es)) = fst ` set (hops os es)" for os es by simp
  with ok st(2) show ?thesis unfolding hops_ok_def tags [symmetric] by (simp only: sb_options.select_convs)
qed

text \<open>a hop of a chain that does not parse is passed over: the chain gives what it would give
  without that hop, so the hop to its left dials through the next one to its right, or directly
  when there is none.\<close>

theorem broken_hop_skipped:
  assumes "split_str c '' -> '' = xs @ y # zs" and "split_str c' '' -> '' = xs @ zs"
    and "5 \<le> length c" "5 \<le> length c'" "hd c \<notin> {CHR ''#'', CHR ''/''}" "hd c' \<notin> {CHR ''#'', CHR ''/''}"
    and "processSingleConfig ev (fst (decodeBase64IfNeeded y)) = Inl e"
  shows "convert_entry ev c st = convert_entry ev c' st"
proof -
  have "convert_hop ev y s = s" for s using assms(7) by (cases "decodeBase64IfNeeded y") (simp add: convert_hop_def)
  with assms(1-6) show ?thesis by (simp add: convert_entry_def)
qed

definition nth_outbound :: "nat \<Rightarrow> outbound \<Rightarrow> outbound" where
  "nth_outbound n b = detour_out '''' (b\<lparr>o_tag := numbered (o_tag b) n\<rparr>)"

fun nth_outbounds :: "nat \<Rightarrow> outbound list \<Rightarrow> outbound list" where
  "nth_outbounds n [] = []"
| "nth_outbounds n (b # bs) = nth_outbound n b # nth_outbounds (Suc n) bs"

definition link_line :: "string \<Rightarrow> bool" where
  "link_line l \<longleftrightarrow> starts_entry l \<and> CHR '':'' \<in> set l \<and> 5 \<le> length l \<and> graphic (hd l) \<and> graphic (last l) \<and>
     hd l \<noteq> CHR ''#'' \<and> hd l \<noteq> CHR ''/'' \<and> list_all (\<lambda>c. graphic c \<or> c = CHR '' '') l \<and> split_str l '' -> '' = [l]"

definition single_outbound :: "outbound \<Rightarrow> out_end" where
  "single_outbound b = \<lparr>oe_outbound = Some b, oe_endpoint = None, oe_helper = None\<rparr>"

lemma convert_link:
  assumes "link_line l" and "processSingleConfig ev l = Inr (single_outbound b)"
  shows "convert_entry ev l st =
    st\<lparr>cs_outs := cs_outs st @ [nth_outbound (cs_counter st) b], cs_counter := Suc (cs_counter st),
       cs_detour := numbered (o_tag b) (cs_counter st)\<rparr>"
proof -
  from assms(1) have "plain_line l" by (intro colon_line) (auto simp: link_line_def)
  then obtain e where "decodeBase64FaultTolerant l = Inl e" by (auto simp: plain_line_def isl_def)
  with assms show ?thesis
    by (auto simp: link_line_def convert_entry_def convert_hop_def decodeBase64IfNeeded_def
        single_outbound_def add_out_end_def add_outbound_def nth_outbound_def Let_def)
qed

lemma convert_links:
  assumes "list_all link_line ls" and "list_all2 (\<lambda>l b. processSingleConfig ev l = Inr (single_outbound b)) ls bs"
  shows "cs_outs (fold (convert_entry ev) ls st) = cs_outs st @ nth_outbounds (cs_counter st) bs \<and>
    cs_ends (fold (convert_entry ev) ls st) = cs_ends st"
  using assms(2,1)
  by (induction ls bs arbitrary: st rule: list_all2_induct) (simp_all add: convert_link)

lemma links_line_outbounds:
  assumes "list_all link_line ls" and "ls \<noteq> []"
    and "list_all2 (\<lambda>l b. processSingleConfig ev l = Inr (single_outbound b)) ls bs"
  shows "generate_links ev (join [nl] ls) = Inr \<lparr>sb_outbounds = nth_outbounds 0 bs, sb_endpoints = []\<rparr>"
proof -
  have "expandDecodedConfig (join [nl] ls) = ls"
  proof -
    have "list_all plain_line ls" using assms(1) colon_line by (fastforce simp: list_all_iff link_line_def)
    moreover have st: "list_all starts_entry ls" using assms(1) by (auto simp: list_all_iff link_line_def)
    then have "line_groups ls = map (\<lambda>l. [l]) ls" by (rule line_groups_each)
    moreover have "list_ex starts_entry ls" using st assms(2) by (cases ls) auto
    moreover have "filter (\<lambda>l. hd l \<noteq> CHR ''#'' \<and> hd l \<noteq> CHR ''/'') ls = ls"
      using assms(1) by (intro filter_True) (auto simp: list_all_iff link_line_def)
    ultimately show ?thesis using expand_plain_lines [of ls] assms(2) by (simp add: comp_def)
  qed
  moreover have "bs \<noteq> []" using assms(2,3) by auto
  then have "nth_outbounds 0 bs \<noteq> []" by (cases bs) auto
  ultimately show ?thesis
    using convert_links [OF assms(1,3), of conv_init] by (simp add: generate_links_def Let_def conv_init_def)
qed

text \<open>C37: a subscription of links that parse, one per line, gives their outbounds in order; each has
  the tag its parser chose followed by its number, and dials directly.\<close>

theorem links_to_outbounds:
  assumes "list_all link_line ls" and "ls \<noteq> []"
    and "list_all2 (\<lambda>l b. processSingleConfig ev l = Inr (single_outbound b)) ls bs"
  shows "generate_links ev (join [nl] ls) = Inr \<lparr>sb_outbounds = nth_outbounds 0 bs, sb_endpoints = []\<rparr>"
  using assms by (rule links_line_outbounds)

definition sample_direct :: outbound where
  "sample_direct = \<lparr>o_type = ''direct'', o_tag = ''home'', o_options = ODirect dialer_zero\<rparr>"

lemma sample_direct_run:
  "processSingleConfig offline_env ''direct://#home'' = Inr (single_outbound sample_direct)"
proof -
  let ?r = "processSingleConfig offline_env ''direct://#home''"
  have "case ?r of Inl e \<Rightarrow> False | Inr oe \<Rightarrow> oe_endpoint oe = None \<and> oe_helper oe = None \<and>
      (case oe_outbound oe of None \<Rightarrow> False
       | Some b \<Rightarrow> o_type b = ''direct'' \<and> o_tag b = ''home'' \<and>
           (case o_options b of ODirect d \<Rightarrow> d = dialer_zero | _ \<Rightarrow> False))"
    by code_simp
  then show ?thesis
    by (cases ?r) (auto simp: single_outbound_def sample_direct_def split: option.splits outbound_options.splits)
qed

theorem links_to_outbounds_witness:
  "generate_links offline_env (join [nl] [''direct://#home'', ''direct://#home'']) =
     Inr \<lparr>sb_outbounds = [nth_outbound 0 sample_direct, nth_outbound 1 sample_direct], sb_endpoints = []\<rparr>"
proof -
  have "list_all link_line [''direct://#home'', ''direct://#home'']" by code_simp
  from links_to_outbounds [OF this, of offline_env "[sample_direct, sample_direct]"] show ?thesis
    by (simp add: sample_direct_run)
qed

theorem detours_resolve_witness:
  "\<exists>opts. generate_links offline_env ''direct://#home'' = Inr opts \<and>
     acyclic (dials (hops (sb_outbounds opts) (sb_endpoints opts)))"
proof -
  have "\<not> isl (generate_links offline_env ''direct://#home'')" by code_simp
  then obtain opts where "generate_links offline_env ''direct://#home'' = Inr opts" using run_ok by blast
  with detours_resolve [OF this] show ?thesis by blast
qed

theorem broken_hop_skipped_witness:
  "convert_entry offline_env ''direct://#home -> nonsense'' conv_init = convert_entry offline_env ''direct://#home'' conv_init"
proof -
  have "isl (processSingleConfig offline_env (fst (decodeBase64IfNeeded ''nonsense'')))" by code_simp
  then obtain e where "processSingleConfig offline_env (fst (decodeBase64IfNeeded ''nonsense'')) = Inl e"
    using run_fails by blast
  moreover have "split_str ''direct://#home -> nonsense'' '' -> '' = [''direct://#home''] @ ''nonsense'' # []"
    "split_str ''direct://#home'' '' -> '' = [''direct://#home''] @ []" by code_simp+
  ultimately show ?thesis
    using broken_hop_skipped [of "''direct://#home -> nonsense''" "[''direct://#home'']" "''nonsense''" "[]"
        "''direct://#home''" offline_env e conv_init] by simp
qed

end
