(* ===== verification/Core_Lifecycle.thy ===== *)
theory Core_Lifecycle
  imports Prelude
begin

text \<open>
  The life of the core: \<open>hcore/start.go\<close>, \<open>stop.go\<close>, \<open>custom.go\<close>, \<open>coreinfo.go\<close>, \<open>pause.go\<close>
  and the \<open>InhiveInstance\<close> of \<open>static_data.go\<close>, with the settings rows of \<open>db\<close> that a start
  reads and writes. Start and stop run under one lock, so each is one step of the state; what the
  engine and the store do inside a step (they are not code of the repository) is an argument of
  the step, and the invariant holds whatever they do. The engine is known by a number, new with
  every start. Where two threads do interleave (\<open>Pause\<close> takes another lock than \<open>Stop\<close>), the
  last section splits the operations into their atomic parts.
\<close>

section \<open>State\<close>

datatype core_state = STOPPED | STARTING | STARTED | STOPPING

datatype message_type =
    MT_EMPTY | MT_EMPTY_CONFIGURATION | MT_START_COMMAND_SERVER | MT_CREATE_SERVICE | MT_START_SERVICE
  | MT_UNEXPECTED_ERROR | MT_ALREADY_STARTED | MT_ALREADY_STOPPED | MT_INSTANCE_NOT_FOUND
  | MT_INSTANCE_NOT_STOPPED | MT_INSTANCE_NOT_STARTED | MT_ERROR_BUILDING_CONFIG
  | MT_ERROR_PARSING_CONFIG | MT_ERROR_READING_CONFIG | MT_ERROR_EXTENSION

record core_info =
  ci_state :: core_state
  ci_type :: message_type
  ci_message :: string

record start_request =
  sr_path :: string
  sr_content :: string
  sr_name :: string
  sr_raw :: bool
  sr_ping_only :: bool

text \<open>A reading of the clock: wall time and the monotonic time, which stands still in a deep sleep.\<close>

record instant =
  at_wall :: int
  at_mono :: int

record inhive =
  in_service :: "nat option"
  in_state :: core_state
  in_published :: "core_info list"
  in_prev :: "start_request option"
  in_name :: "string option"
  in_db :: params
  in_debug :: bool
  in_listen_port :: nat
  in_watcher :: "nat option"
  in_sampler :: "nat option"
  in_paused_at :: "instant option"
  in_timer :: "(nat \<times> bool) option"
  in_device_paused :: "nat set"
  in_closed :: "nat set"
  in_next :: nat

text \<open>A call into the engine or the store returns, returns an error or panics.\<close>

datatype 'a outcome = Done 'a | Fails string | Panics string

type_synonym response = "core_info \<times> string option"

section \<open>Status and the emergency stop\<close>

definition SetCoreStatus :: "core_state \<Rightarrow> message_type \<Rightarrow> string \<Rightarrow> inhive \<Rightarrow> core_info \<times> inhive" where
  "SetCoreStatus s t m i =
     (let info = \<lparr>ci_state = s, ci_type = t, ci_message = m\<rparr> in
      (info, i\<lparr>in_state := s, in_published := in_published i @ [info]\<rparr>))"

definition resetPauseState :: "inhive \<Rightarrow> inhive" where
  "resetPauseState i = i\<lparr>in_paused_at := None, in_timer := None\<rparr>"

text \<open>\<open>ss.CloseService(); ss.Close(); static.StartedService = nil\<close>.\<close>

definition drop_service :: "inhive \<Rightarrow> inhive" where
  "drop_service i =
     (case in_service i of
        None \<Rightarrow> i
      | Some s \<Rightarrow> i\<lparr>in_service := None, in_closed := insert s (in_closed i)\<rparr>)"

definition StopAndAlert :: "message_type \<Rightarrow> string \<Rightarrow> inhive \<Rightarrow> inhive" where
  "StopAndAlert t m i = drop_service (resetPauseState (snd (SetCoreStatus STOPPED t m i)))"

definition errorWrapper :: "message_type \<Rightarrow> string \<Rightarrow> inhive \<Rightarrow> response \<times> inhive" where
  "errorWrapper t e i =
     (let (info, i1) = SetCoreStatus STOPPED t e (StopAndAlert MT_UNEXPECTED_ERROR e i) in ((info, Some e), i1))"

section \<open>The stored last start\<close>

definition stored :: "string option \<Rightarrow> params \<Rightarrow> string \<Rightarrow> string outcome" where
  "stored open_err db k =
     (case open_err of
        Some e \<Rightarrow> Fails e
      | None \<Rightarrow> (case db k of None \<Rightarrow> Fails ''EOF'' | Some v \<Rightarrow> Done v))"

definition and_then :: "'a outcome \<Rightarrow> ('a \<Rightarrow> 'b outcome) \<Rightarrow> 'b outcome" where
  "and_then r f = (case r of Done x \<Rightarrow> f x | Fails e \<Rightarrow> Fails e | Panics m \<Rightarrow> Panics m)"

lemma and_then_Done: "and_then r f = Done y \<longleftrightarrow> (\<exists>x. r = Done x \<and> f x = Done y)"
  by (cases r) (auto simp: and_then_def)

lemma and_then_DoneE: "and_then r f = Done y \<Longrightarrow> (\<And>x. r = Done x \<Longrightarrow> f x = Done y \<Longrightarrow> P) \<Longrightarrow> P"
  by (cases r) (auto simp: and_then_def)

definition last_start_rows :: "start_request \<Rightarrow> (string \<times> string) list" where
  "last_start_rows r =
     [(''lastStartRequestPath'', sr_path r), (''lastStartRequestContent'', sr_content r),
      (''lastStartRequestName'', sr_name r)]"

text \<open>\<open>UpdateInsert\<close> writes row by row and stops at the first error: \<open>n\<close> is the number of rows the
  store accepts (0 when it cannot be opened).\<close>

definition update_insert :: "nat \<Rightarrow> (string \<times> string) list \<Rightarrow> params \<Rightarrow> params" where
  "update_insert n rows db = foldl (\<lambda>d (k, v). d(k \<mapsto> v)) db (take n rows)"

definition saveLastStartRequest :: "nat \<Rightarrow> start_request \<Rightarrow> params \<Rightarrow> params" where
  "saveLastStartRequest n r db =
     (if sr_ping_only r then db
      else if sr_content r = '''' \<and> sr_path r = '''' then db
      else update_insert n (last_start_rows r) db)"

definition load_last :: "string option \<Rightarrow> params \<Rightarrow> start_request outcome" where
  "load_last open_err db =
     and_then (stored open_err db ''lastStartRequestPath'') (\<lambda>p.
     and_then (stored open_err db ''lastStartRequestContent'') (\<lambda>c.
     and_then (stored open_err db ''lastStartRequestName'') (\<lambda>n.
       Done \<lparr>sr_path = p, sr_content = c, sr_name = n, sr_raw = True, sr_ping_only = False\<rparr>)))"

definition loadLastStartRequestIfNeeded :: "string option \<Rightarrow> params \<Rightarrow> start_request option \<Rightarrow> start_request outcome" where
  "loadLastStartRequestIfNeeded open_err db r0 =
     (case r0 of
        Some r \<Rightarrow> if sr_content r \<noteq> '''' \<or> sr_path r \<noteq> '''' then Done r else load_last open_err db
      | None \<Rightarrow> load_last open_err db)"

text \<open>The name shown for the profile, read from the store at most once.\<close>

definition cachedLastStartRequestName :: "inhive \<Rightarrow> string \<times> inhive" where
  "cachedLastStartRequestName i =
     (case in_name i of
        Some v \<Rightarrow> (v, i)
      | None \<Rightarrow> let v = mget (in_db i) ''lastStartRequestName'' in (v, i\<lparr>in_name := Some v\<rparr>))"

section \<open>Start\<close>

text \<open>
  What the engine and the store do during a start: why the settings cannot be read, how many rows
  they accept, the result of \<open>BuildConfig\<close> (the ports of the SOCKS inbounds of the options it
  returns), of the debug dump and of \<open>NewService\<close>, and whether the engine has a context.
\<close>

record start_env =
  se_ios :: bool
  se_open_err :: "string option"
  se_rows :: nat
  se_build :: "start_request \<Rightarrow> nat list outcome"
  se_dump :: "unit outcome"
  se_new :: "unit outcome"
  se_context :: bool

definition startmobile_panic :: "string \<Rightarrow> string" where
  "startmobile_panic m = ''startmobile panic: '' @ m"

text \<open>From the moment the engine runs: \<open>static.StartedService = instance\<close> up to the return.\<close>

definition engine_started :: "start_env \<Rightarrow> nat list \<Rightarrow> inhive \<Rightarrow> response \<times> inhive" where
  "engine_started env ports i =
     (let s = in_next i;
          (info, i1) = SetCoreStatus STARTED MT_EMPTY ''''
            (i\<lparr>in_service := Some s, in_next := Suc s,
               in_listen_port := (if ports = [] then in_listen_port i else last ports),
               in_watcher := (if se_context env \<and> \<not> se_ios env then Some s else in_watcher i),
               in_sampler := (if se_context env then Some s else in_sampler i)\<rparr>)
      in ((info, None), i1))"

definition launch :: "start_env \<Rightarrow> nat list \<Rightarrow> inhive \<Rightarrow> response \<times> inhive" where
  "launch env ports i =
     (case (if in_debug i then se_dump env else Done ()) of
        Panics m \<Rightarrow> errorWrapper MT_UNEXPECTED_ERROR (startmobile_panic m) i
      | Fails e \<Rightarrow> errorWrapper MT_ERROR_BUILDING_CONFIG e i
      | Done _ \<Rightarrow>
          (case se_new env of
             Panics m \<Rightarrow> errorWrapper MT_UNEXPECTED_ERROR (startmobile_panic m) i
           | Fails e \<Rightarrow> errorWrapper MT_START_SERVICE e i
           | Done _ \<Rightarrow> engine_started env ports i))"

definition StartService :: "start_env \<Rightarrow> start_request option \<Rightarrow> inhive \<Rightarrow> response \<times> inhive" where
  "StartService env r0 i =
     (if in_state i \<noteq> STOPPED then
        ((\<lparr>ci_state = in_state i, ci_type = MT_ALREADY_STARTED, ci_message = ''instance already started''\<rparr>, None), i)
      else
        let i1 = snd (SetCoreStatus STARTING MT_EMPTY '''' i) in
        case loadLastStartRequestIfNeeded (se_open_err env) (in_db i1) r0 of
          Panics m \<Rightarrow> errorWrapper MT_UNEXPECTED_ERROR (startmobile_panic m) i1
        | Fails e \<Rightarrow> errorWrapper MT_ERROR_BUILDING_CONFIG e i1
        | Done r \<Rightarrow>
            let i2 = i1\<lparr>in_prev := Some r, in_name := Some (sr_name r)\<rparr> in
            (case se_build env r of
               Panics m \<Rightarrow> errorWrapper MT_UNEXPECTED_ERROR (startmobile_panic m) i2
             | Fails e \<Rightarrow> errorWrapper MT_ERROR_BUILDING_CONFIG e i2
             | Done ports \<Rightarrow>
                 launch env ports (i2\<lparr>in_db := saveLastStartRequest (se_rows env) r (in_db i2)\<rparr>)))"

section \<open>Stop\<close>

definition stop_helpers :: "inhive \<Rightarrow> inhive" where
  "stop_helpers i = resetPauseState (i\<lparr>in_watcher := None, in_sampler := None\<rparr>)"

definition Stop :: "unit outcome \<Rightarrow> inhive \<Rightarrow> response \<times> inhive" where
  "Stop close i =
     (let i1 = stop_helpers (snd (SetCoreStatus STOPPING MT_EMPTY '''' i)) in
      case in_service i1 of
        None \<Rightarrow> let (info, i2) = SetCoreStatus STOPPED MT_ALREADY_STOPPED '''' i1 in ((info, None), i2)
      | Some s \<Rightarrow>
          (case close of
             Panics m \<Rightarrow> errorWrapper MT_UNEXPECTED_ERROR (''stop panic: '' @ m) i1
           | Fails e \<Rightarrow> errorWrapper MT_UNEXPECTED_ERROR e (drop_service i1)
           | Done _ \<Rightarrow> let (info, i2) = SetCoreStatus STOPPED MT_EMPTY '''' (drop_service i1) in ((info, None), i2)))"

text \<open>\<open>Close\<close>, when the app goes: a stop, then the servers, which may panic.\<close>

definition Close :: "unit outcome \<Rightarrow> string option \<Rightarrow> inhive \<Rightarrow> string option \<times> inhive" where
  "Close close servers i =
     (let (r, i1) = Stop close i in
      case servers of
        None \<Rightarrow> (snd r, i1)
      | Some m \<Rightarrow> (None, StopAndAlert MT_UNEXPECTED_ERROR (''close panic: '' @ m) i1))"

section \<open>Pause and wake\<close>

definition wakeProbeMinFrozen :: int where
  "wakeProbeMinFrozen = 120 * 10 ^ 9"

definition wakeLogMinFrozen :: int where
  "wakeLogMinFrozen = 30 * 10 ^ 9"

text \<open>\<open>time.Time.Sub\<close> saturates.\<close>

definition time_sub :: "int \<Rightarrow> int \<Rightarrow> int" where
  "time_sub a b = max (- (2 ^ 63)) (min (2 ^ 63 - 1) (a - b))"

definition wrap_duration :: "int \<Rightarrow> int" where
  "wrap_duration d = (d + 2 ^ 63) mod 2 ^ 64 - 2 ^ 63"

definition frozenSinceParts :: "instant \<Rightarrow> instant \<Rightarrow> instant \<Rightarrow> int \<times> int" where
  "frozenSinceParts p nowWall nowMono =
     (let wall = time_sub (at_wall nowWall) (at_wall p);
          awake = time_sub (at_mono nowMono) (at_mono p);
          frozen = wrap_duration (wall - awake)
      in (if wall < 0 then 0 else wall, if frozen < 0 then 0 else frozen))"

definition frozenSince :: "instant \<Rightarrow> instant \<Rightarrow> int \<times> int" where
  "frozenSince p now = frozenSinceParts p now now"

definition shouldProbeAfterSleep :: "int \<Rightarrow> bool" where
  "shouldProbeAfterSleep frozen \<longleftrightarrow> wakeProbeMinFrozen \<le> frozen"

definition Pause :: "bool \<Rightarrow> instant \<Rightarrow> inhive \<Rightarrow> inhive" where
  "Pause ios now i =
     (case in_service i of
        None \<Rightarrow> i
      | Some s \<Rightarrow>
          let i1 = i\<lparr>in_device_paused := insert s (in_device_paused i), in_paused_at := Some now\<rparr> in
          if ios then i1\<lparr>in_timer := Some (s, True)\<rparr> else i1)"

text \<open>The minute timer of a pause calls \<open>DeviceWake\<close> on the manager it was made for.\<close>

definition timer_fires :: "inhive \<Rightarrow> inhive" where
  "timer_fires i =
     (case in_timer i of
        Some (s, True) \<Rightarrow> i\<lparr>in_device_paused := in_device_paused i - {s}, in_timer := Some (s, False)\<rparr>
      | _ \<Rightarrow> i)"

datatype wake_action = WakeNothing | WakeLogged int int | WakeProbe nat int int

definition maybeProbeAfterFrozenSleep :: "instant \<Rightarrow> inhive \<Rightarrow> wake_action \<times> inhive" where
  "maybeProbeAfterFrozenSleep now i =
     (case in_paused_at i of
        None \<Rightarrow> (WakeNothing, i)
      | Some p \<Rightarrow>
          let i1 = i\<lparr>in_paused_at := None\<rparr>; (wall, frozen) = frozenSince p now in
          if \<not> shouldProbeAfterSleep frozen then
            (if wakeLogMinFrozen \<le> frozen then WakeLogged wall frozen else WakeNothing, i1)
          else case in_service i of
                 None \<Rightarrow> (WakeNothing, i1)
               | Some s \<Rightarrow> (WakeProbe s wall frozen, i1))"

definition Wake :: "instant \<Rightarrow> inhive \<Rightarrow> wake_action \<times> inhive" where
  "Wake now i =
     maybeProbeAfterFrozenSleep now
       (case in_service i of
          None \<Rightarrow> i
        | Some s \<Rightarrow> i\<lparr>in_device_paused := in_device_paused i - {s}\<rparr>)"

section \<open>Facts\<close>

lemmas status_defs = SetCoreStatus_def Let_def

lemma SetCoreStatus_simps [simp]:
  "in_state (snd (SetCoreStatus s t m i)) = s"
  "in_service (snd (SetCoreStatus s t m i)) = in_service i"
  "in_watcher (snd (SetCoreStatus s t m i)) = in_watcher i"
  "in_sampler (snd (SetCoreStatus s t m i)) = in_sampler i"
  "in_paused_at (snd (SetCoreStatus s t m i)) = in_paused_at i"
  "in_timer (snd (SetCoreStatus s t m i)) = in_timer i"
  "in_db (snd (SetCoreStatus s t m i)) = in_db i"
  "in_closed (snd (SetCoreStatus s t m i)) = in_closed i"
  "in_next (snd (SetCoreStatus s t m i)) = in_next i"
  "in_debug (snd (SetCoreStatus s t m i)) = in_debug i"
  "in_device_paused (snd (SetCoreStatus s t m i)) = in_device_paused i"
  by (simp_all add: status_defs)

text \<open>
  The invariant of the instance between operations: the core is either stopped without an engine,
  or started with one; the mode watcher, the memory sampler and the pause timer belong to that
  engine, and a pause is only remembered while there is one.
\<close>

definition core_inv :: "inhive \<Rightarrow> bool" where
  "core_inv i \<longleftrightarrow>
     (in_state i = STOPPED \<and> in_service i = None \<or> in_state i = STARTED \<and> in_service i \<noteq> None) \<and>
     in_watcher i \<in> {None, in_service i} \<and> in_sampler i \<in> {None, in_service i} \<and>
     (\<forall>s b. in_timer i = Some (s, b) \<longrightarrow> in_service i = Some s) \<and>
     (in_paused_at i \<noteq> None \<longrightarrow> in_service i \<noteq> None) \<and>
     (\<forall>s. in_service i = Some s \<longrightarrow> s < in_next i \<and> s \<notin> in_closed i) \<and> (\<forall>s \<in> in_closed i. s < in_next i)"

lemma drop_service_simps [simp]:
  "in_service (drop_service i) = None" "in_state (drop_service i) = in_state i"
  "in_watcher (drop_service i) = in_watcher i" "in_sampler (drop_service i) = in_sampler i"
  "in_paused_at (drop_service i) = in_paused_at i" "in_timer (drop_service i) = in_timer i"
  "in_next (drop_service i) = in_next i" "in_db (drop_service i) = in_db i"
  "in_closed (drop_service i) = in_closed i \<union> set_option (in_service i)"
  by (auto simp: drop_service_def split: option.splits)

lemma errorWrapper_facts:
  assumes "errorWrapper t e i = (r, i')"
  shows "in_state i' = STOPPED" "in_service i' = None" "in_paused_at i' = None" "in_timer i' = None"
    "in_watcher i' = in_watcher i" "in_sampler i' = in_sampler i" "in_next i' = in_next i" "in_db i' = in_db i"
    "in_closed i' = in_closed i \<union> set_option (in_service i)"
    "ci_state (fst r) = STOPPED" "ci_type (fst r) = t" "snd r = Some e"
  using assms by (auto simp: errorWrapper_def StopAndAlert_def resetPauseState_def status_defs)

text \<open>An error return of a start or a stop whose helpers are gone keeps the invariant.\<close>

lemma errorWrapper_inv:
  assumes "errorWrapper t e i = (r, i')" and "in_watcher i = None" "in_sampler i = None"
    and "\<forall>s \<in> in_closed i \<union> set_option (in_service i). s < in_next i"
  shows "core_inv i'"
  using errorWrapper_facts [OF assms(1)] assms(2-4) by (simp add: core_inv_def)

lemma set_status_inv_parts:
  "SetCoreStatus s t m i = (info, i') \<Longrightarrow> i' = i\<lparr>in_state := s, in_published := in_published i @ [info]\<rparr>"
  by (auto simp: status_defs)

lemma launch_inv:
  assumes "launch env ports i = (r, i')" and "in_service i = None" "in_watcher i = None" "in_sampler i = None"
    and "in_paused_at i = None" "in_timer i = None" and "\<forall>s \<in> in_closed i. s < in_next i"
  shows "core_inv i'"
proof -
  have "core_inv i'" if "errorWrapper t e i = (r, i')" for t e
    using errorWrapper_inv [OF that] assms(2-7) by simp
  moreover have "core_inv i'" if "engine_started env ports i = (r, i')"
    using that assms(2-7) by (auto simp: engine_started_def status_defs core_inv_def less_SucI split: if_splits)
  ultimately show ?thesis
    using assms(1) by (auto simp: launch_def split: outcome.splits if_splits)
qed

lemma core_inv_stopped:
  assumes "core_inv i" "in_state i = STOPPED"
  shows "in_service i = None" "in_watcher i = None" "in_sampler i = None" "in_paused_at i = None" "in_timer i = None"
    "\<forall>s \<in> in_closed i. s < in_next i"
  using assms by (auto simp: core_inv_def)

lemma StartService_inv:
  assumes "core_inv i" "StartService env r0 i = (r, i')"
  shows "core_inv i'"
proof (cases "in_state i = STOPPED")
  case False
  with assms show ?thesis by (simp add: StartService_def)
next
  case True
  note stopped = core_inv_stopped [OF assms(1) True]
  let ?i1 = "snd (SetCoreStatus STARTING MT_EMPTY '''' i)"
  have e1: "core_inv i'" if "errorWrapper t e ?i1 = (r, i')" for t e
    using errorWrapper_inv [OF that] stopped by simp
  have e2: "core_inv i'" if "errorWrapper t e (?i1\<lparr>in_prev := a, in_name := b\<rparr>) = (r, i')" for t e a b
    using errorWrapper_inv [OF that] stopped by simp
  have l: "core_inv i'" if "launch env ports (?i1\<lparr>in_prev := a, in_name := b, in_db := d\<rparr>) = (r, i')" for ports a b d
    using launch_inv [OF that] stopped by simp
  from assms(2) True e1 e2 l show ?thesis
    by (auto simp: StartService_def Let_def split: outcome.splits)
qed

lemma Stop_facts:
  assumes "Stop close i = (r, i')"
  shows "in_state i' = STOPPED" "in_service i' = None" "in_watcher i' = None" "in_sampler i' = None"
    "in_paused_at i' = None" "in_timer i' = None" "in_next i' = in_next i" "in_db i' = in_db i"
    "in_closed i' = in_closed i \<union> set_option (in_service i)"
  using assms
  by (auto simp: Stop_def stop_helpers_def resetPauseState_def Let_def SetCoreStatus_def drop_service_def
      errorWrapper_def StopAndAlert_def split: option.splits outcome.splits)

lemma Stop_inv: "core_inv i \<Longrightarrow> Stop close i = (r, i') \<Longrightarrow> core_inv i'"
  using Stop_facts [of close i r i'] by (auto simp: core_inv_def)

lemma Close_inv:
  assumes "core_inv i" and "Close close servers i = (e, i')"
  shows "core_inv i'"
proof (cases "Stop close i")
  case (Pair r i1)
  with Stop_inv [OF assms(1)] Stop_facts [OF Pair] have "core_inv i1" "in_watcher i1 = None" "in_sampler i1 = None"
    by auto
  with assms(2) Pair show ?thesis
    by (auto simp: Close_def StopAndAlert_def resetPauseState_def core_inv_def split: option.splits)
qed

lemma Pause_inv: "core_inv i \<Longrightarrow> core_inv (Pause ios now i)"
  by (auto simp: Pause_def Let_def core_inv_def split: option.splits)

lemma timer_inv: "core_inv i \<Longrightarrow> core_inv (timer_fires i)"
  by (auto simp: timer_fires_def core_inv_def split: option.splits prod.splits bool.splits)

lemma Wake_inv: "core_inv i \<Longrightarrow> core_inv (snd (Wake now i))"
  by (auto simp: Wake_def maybeProbeAfterFrozenSleep_def Let_def core_inv_def split: option.splits prod.splits)

text \<open>What the threads of the app and the timers of the core may do, one operation at a time.\<close>

inductive core_step :: "inhive \<Rightarrow> inhive \<Rightarrow> bool" where
  do_start: "StartService env r0 i = (r, i') \<Longrightarrow> core_step i i'"
| do_stop: "Stop close i = (r, i') \<Longrightarrow> core_step i i'"
| do_close: "Close close servers i = (e, i') \<Longrightarrow> core_step i i'"
| do_pause: "core_step i (Pause ios now i)"
| do_wake: "Wake now i = (a, i') \<Longrightarrow> core_step i i'"
| do_timer: "core_step i (timer_fires i)"
| do_status: "cachedLastStartRequestName i = (n, i') \<Longrightarrow> core_step i i'"

definition core_init :: "params \<Rightarrow> inhive" where
  "core_init db =
     \<lparr>in_service = None, in_state = STOPPED, in_published = [], in_prev = None, in_name = None, in_db = db,
      in_debug = False, in_listen_port = 0, in_watcher = None, in_sampler = None, in_paused_at = None,
      in_timer = None, in_device_paused = {}, in_closed = {}, in_next = 0\<rparr>"

interpretation core: invariant_system "core_init db" core_step core_inv for db
proof
  show "core_inv (core_init db)" by (simp add: core_init_def core_inv_def)
  show "core_inv t" if inv: "core_inv s" and step: "core_step s t" for s t
    using step
  proof cases
    case (do_start env r0 r)
    with inv show ?thesis using StartService_inv by blast
  next
    case (do_stop close r)
    with inv show ?thesis using Stop_inv by blast
  next
    case (do_close close servers e)
    with inv show ?thesis using Close_inv by blast
  next
    case (do_pause ios now)
    with inv show ?thesis by (simp add: Pause_inv)
  next
    case (do_wake now a)
    with inv show ?thesis using Wake_inv [OF inv, of now] by simp
  next
    case do_timer
    with inv show ?thesis by (simp add: timer_inv)
  next
    case (do_status n)
    with inv show ?thesis
      by (auto simp: cachedLastStartRequestName_def Let_def core_inv_def split: option.splits)
  qed
qed

section \<open>Pause and stop on two threads\<close>

text \<open>
  \<open>Stop\<close> holds the lock of the core, \<open>Pause\<close> comes from the platform's thread and only takes the
  lock of the pause fields, so their parts interleave. The parts of a stop whose engine closes
  cleanly, and of a pause, in the order of the code.
\<close>

datatype stop_pc = Stop_Begin | Stop_Stopping | Stop_NoWatcher | Stop_NoSampler | Stop_Reset | Stop_End

datatype pause_pc = Pause_Begin | Pause_Box nat | Pause_End

record race =
  rc_core :: inhive
  rc_stop :: stop_pc
  rc_pause :: pause_pc

fun stop_part :: "stop_pc \<Rightarrow> inhive \<Rightarrow> stop_pc \<times> inhive" where
  "stop_part Stop_Begin i = (Stop_Stopping, snd (SetCoreStatus STOPPING MT_EMPTY '''' i))"
| "stop_part Stop_Stopping i = (Stop_NoWatcher, i\<lparr>in_watcher := None\<rparr>)"
| "stop_part Stop_NoWatcher i = (Stop_NoSampler, i\<lparr>in_sampler := None\<rparr>)"
| "stop_part Stop_NoSampler i = (Stop_Reset, resetPauseState i)"
| "stop_part Stop_Reset i =
     (Stop_End, snd (SetCoreStatus STOPPED (if in_service i = None then MT_ALREADY_STOPPED else MT_EMPTY) ''''
                       (drop_service i)))"
| "stop_part Stop_End i = (Stop_End, i)"

fun pause_part :: "bool \<Rightarrow> instant \<Rightarrow> pause_pc \<Rightarrow> inhive \<Rightarrow> pause_pc \<times> inhive" where
  "pause_part ios now Pause_Begin i =
     (case in_service i of
        None \<Rightarrow> (Pause_End, i)
      | Some s \<Rightarrow> (Pause_Box s, i\<lparr>in_device_paused := insert s (in_device_paused i)\<rparr>))"
| "pause_part ios now (Pause_Box s) i =
     (Pause_End, i\<lparr>in_paused_at := Some now, in_timer := (if ios then Some (s, True) else in_timer i)\<rparr>)"
| "pause_part ios now Pause_End i = (Pause_End, i)"

inductive race_step :: "bool \<Rightarrow> instant \<Rightarrow> race \<Rightarrow> race \<Rightarrow> bool" for ios now where
  stop_moves: "stop_part (rc_stop x) (rc_core x) = (pc, i) \<Longrightarrow> race_step ios now x (x\<lparr>rc_core := i, rc_stop := pc\<rparr>)"
| pause_moves: "pause_part ios now (rc_pause x) (rc_core x) = (pc, i) \<Longrightarrow>
     race_step ios now x (x\<lparr>rc_core := i, rc_pause := pc\<rparr>)"

text \<open>The parts, run without interruption, are the operations.\<close>

lemma stop_parts:
  "snd (stop_part Stop_Reset (snd (stop_part Stop_NoSampler (snd (stop_part Stop_NoWatcher
     (snd (stop_part Stop_Stopping (snd (stop_part Stop_Begin i))))))))) = snd (Stop (Done ()) i)"
  by (simp add: Stop_def stop_helpers_def resetPauseState_def drop_service_def SetCoreStatus_def Let_def
      split: option.splits)

lemma pause_parts:
  "in_service i = Some s \<Longrightarrow>
   snd (pause_part ios now (Pause_Box s) (snd (pause_part ios now Pause_Begin i))) = Pause ios now i"
  by (simp add: Pause_def Let_def)

section \<open>Properties\<close>


text \<open>C6: the core is never wedged: from any reachable state a stop ends stopped, whether or not the
  engine closes cleanly, and the next start on a working engine ends started; a start that fails
  at any stage ends stopped with its error, never in between.\<close>

theorem core_restartable:
  assumes "reach core_step (core_init db) i" and "Stop close i = (r1, i1)"
    and "StartService env r0 i1 = (r2, i2)"
  shows "in_state i1 = STOPPED \<and> in_service i1 = None \<and>
    (in_state i2 = STARTED \<longleftrightarrow> snd r2 = None) \<and> (in_state i2 = STOPPED \<longleftrightarrow> snd r2 \<noteq> None) \<and>
    (\<forall>r ports. loadLastStartRequestIfNeeded (se_open_err env) (in_db i1) r0 = Done r \<and> se_build env r = Done ports \<and>
       se_dump env = Done () \<and> se_new env = Done () \<longrightarrow> in_state i2 = STARTED \<and> in_service i2 = Some (in_next i1))"
proof -
  have stopped: "in_state i1 = STOPPED" "in_service i1 = None" using Stop_facts [OF assms(2)] by auto
  have ew: "in_state i2 = STOPPED \<and> snd r2 \<noteq> None" if "errorWrapper t e x = (r2, i2)" for t e x
    using errorWrapper_facts [OF that] by simp
  have es: "in_state i2 = STARTED \<and> snd r2 = None \<and> in_service i2 = Some (in_next x)"
    if "engine_started env ports x = (r2, i2)" for ports x
    using that by (auto simp: engine_started_def status_defs)
  have la: "(in_state i2 = STOPPED \<and> snd r2 \<noteq> None \<or> in_state i2 = STARTED \<and> snd r2 = None) \<and>
      (se_dump env = Done () \<and> se_new env = Done () \<longrightarrow> in_state i2 = STARTED \<and> in_service i2 = Some (in_next x))"
    if "launch env ports x = (r2, i2)" for ports x
    using that ew es by (auto simp: launch_def split: outcome.splits if_splits)
  have "(in_state i2 = STOPPED \<and> snd r2 \<noteq> None \<or> in_state i2 = STARTED \<and> snd r2 = None)"
    using assms(3) stopped ew la by (auto simp: StartService_def Let_def split: outcome.splits)
  moreover have "in_state i2 = STARTED \<and> in_service i2 = Some (in_next i1)"
    if "loadLastStartRequestIfNeeded (se_open_err env) (in_db i1) r0 = Done r" "se_build env r = Done ports"
      "se_dump env = Done ()" "se_new env = Done ()" for r ports
    using assms(3) stopped la that by (fastforce simp: StartService_def Let_def)
  ultimately show ?thesis using stopped by auto
qed

text \<open>a start made only for pings leaves the stored last start alone, so a start without a request
  repeats the last start that meant to connect, in raw mode.\<close>

theorem last_start_survives_pings:
  assumes "\<not> sr_ping_only r" and "sr_content r \<noteq> '''' \<or> sr_path r \<noteq> ''''" and "3 \<le> n"
    and "list_all (\<lambda>(m, q). sr_ping_only q) pings"
  shows "loadLastStartRequestIfNeeded None
      (foldl (\<lambda>db (m, q). saveLastStartRequest m q db) (saveLastStartRequest n r db) pings) None =
    Done (r\<lparr>sr_raw := True\<rparr>)"
proof -
  have "foldl (\<lambda>db (m, q). saveLastStartRequest m q db) d pings = d" for d
    using assms(4) by (induction pings) (auto simp: saveLastStartRequest_def)
  moreover have "saveLastStartRequest n r db = update_insert n (last_start_rows r) db"
    using assms(1,2) by (auto simp: saveLastStartRequest_def)
  moreover have "take n (last_start_rows r) = last_start_rows r" using assms(3) by (simp add: last_start_rows_def)
  ultimately show ?thesis
    using assms(1)
    by (simp add: loadLastStartRequestIfNeeded_def load_last_def and_then_def stored_def
        update_insert_def last_start_rows_def)
qed

text \<open>a wake only probes the connections when the process really stood still: the wall clock went
  on at least two minutes further than the monotonic clock since the pause.\<close>

theorem probe_needs_freeze:
  assumes "Wake now i = (WakeProbe s wall frozen, i')" and "in_paused_at i = Some p"
    and "\<bar>at_wall now - at_wall p\<bar> < 2 ^ 62" and "\<bar>at_mono now - at_mono p\<bar> < 2 ^ 62"
  shows "120 * 10 ^ 9 \<le> (at_wall now - at_wall p) - (at_mono now - at_mono p) \<and> in_service i = Some s \<and>
    in_paused_at i' = None"
proof -
  have sat: "time_sub (at_wall now) (at_wall p) = at_wall now - at_wall p"
    "time_sub (at_mono now) (at_mono p) = at_mono now - at_mono p"
    using assms(3,4) by (simp_all add: time_sub_def)
  have "wrap_duration ((at_wall now - at_wall p) - (at_mono now - at_mono p)) =
      (at_wall now - at_wall p) - (at_mono now - at_mono p)"
    using assms(3,4) unfolding wrap_duration_def by (subst mod_pos_pos_trivial) auto
  then show ?thesis
    using assms(1,2) sat
    by (auto simp: Wake_def maybeProbeAfterFrozenSleep_def Let_def frozenSince_def frozenSinceParts_def
        shouldProbeAfterSleep_def wakeProbeMinFrozen_def split: option.splits if_splits)
qed

text \<open>A schedule of the two threads: \<open>True\<close> lets the stop take its next part.\<close>

fun race_run :: "bool \<Rightarrow> instant \<Rightarrow> bool list \<Rightarrow> race \<Rightarrow> race" where
  "race_run ios now [] x = x"
| "race_run ios now (b # bs) x =
     race_run ios now bs
       (if b then (case stop_part (rc_stop x) (rc_core x) of (pc, i) \<Rightarrow> x\<lparr>rc_core := i, rc_stop := pc\<rparr>)
        else (case pause_part ios now (rc_pause x) (rc_core x) of (pc, i) \<Rightarrow> x\<lparr>rc_core := i, rc_pause := pc\<rparr>))"

lemma race_run_reach: "reach (race_step ios now) a x \<Longrightarrow> reach (race_step ios now) a (race_run ios now bs x)"
proof (induction bs arbitrary: x)
  case (Cons b bs)
  obtain p i where s: "stop_part (rc_stop x) (rc_core x) = (p, i)" by (cases "stop_part (rc_stop x) (rc_core x)")
  obtain q j where u: "pause_part ios now (rc_pause x) (rc_core x) = (q, j)"
    by (cases "pause_part ios now (rc_pause x) (rc_core x)")
  show ?case
    using Cons.IH reach_step [OF Cons.prems stop_moves [OF s]] reach_step [OF Cons.prems pause_moves [OF u]] s u
    by simp
qed simp

text \<open>C14: a pause that arrives while a stop is closing the engine, after the pause fields were reset,
  leaves its mark behind: the core is stopped, yet it remembers a pause and, on iOS, holds a timer
  for the closed engine, and the next start keeps the mark, so the new engine answers for it.\<close>

theorem pause_outlives_stop:
  assumes "in_service i = Some s"
  shows "\<exists>x. reach (race_step ios now) \<lparr>rc_core = i, rc_stop = Stop_Begin, rc_pause = Pause_Begin\<rparr> x \<and>
    rc_stop x = Stop_End \<and> rc_pause x = Pause_End \<and> in_state (rc_core x) = STOPPED \<and> in_service (rc_core x) = None \<and>
    in_paused_at (rc_core x) = Some now \<and> (ios \<longrightarrow> in_timer (rc_core x) = Some (s, True)) \<and>
    (\<forall>env r0 r i'. StartService env r0 (rc_core x) = (r, i') \<and> in_state i' = STARTED \<longrightarrow> in_paused_at i' = Some now)"
proof -
  let ?a = "\<lparr>rc_core = i, rc_stop = Stop_Begin, rc_pause = Pause_Begin\<rparr>"
  let ?x = "race_run ios now [True, True, True, True, False, False, True] ?a"
  have "reach (race_step ios now) ?a ?x" by (rule race_run_reach [OF reach_refl])
  moreover have x: "rc_stop ?x = Stop_End" "rc_pause ?x = Pause_End" "in_state (rc_core ?x) = STOPPED"
    "in_service (rc_core ?x) = None" "in_paused_at (rc_core ?x) = Some now"
    "ios \<longrightarrow> in_timer (rc_core ?x) = Some (s, True)"
    using assms by (simp_all add: resetPauseState_def)
  moreover have "in_paused_at i' = Some now"
    if "StartService env r0 (rc_core ?x) = (r, i')" "in_state i' = STARTED" for env r0 r i'
  proof -
    have no: "errorWrapper t e y \<noteq> (r, i')" for t e y
      using errorWrapper_facts(1) [of t e y r i'] that(2) by auto
    have "in_paused_at i' = in_paused_at (rc_core ?x)"
      using that(1) x(3) no
      by (auto simp: StartService_def launch_def engine_started_def Let_def SetCoreStatus_def
          simp del: race_run.simps split: outcome.splits if_splits)
    with x(5) show ?thesis by simp
  qed
  ultimately show ?thesis by blast
qed

section \<open>Witnesses\<close>

definition sample_start_env :: start_env where
  "sample_start_env = \<lparr>se_ios = False, se_open_err = None, se_rows = 3, se_build = (\<lambda>_. Done [12334]),
     se_dump = Done (), se_new = Done (), se_context = True\<rparr>"

definition sample_start :: start_request where
  "sample_start = \<lparr>sr_path = '''', sr_content = ''{}'', sr_name = ''home'', sr_raw = False, sr_ping_only = False\<rparr>"

definition sample_core :: inhive where
  "sample_core = snd (StartService sample_start_env (Some sample_start) (core_init Map.empty))"

lemma sample_core_reach: "reach core_step (core_init Map.empty) sample_core"
  unfolding sample_core_def
  by (rule reach_step [OF reach_refl], rule do_start [of sample_start_env "Some sample_start" _
        "fst (StartService sample_start_env (Some sample_start) (core_init Map.empty))"]) simp

lemma sample_core_started: "in_state sample_core = STARTED" "in_service sample_core = Some 0"
  by code_simp+


theorem core_restartable_witness:
  "in_state (snd (StartService sample_start_env None (snd (Stop (Fails ''device busy'') sample_core)))) = STARTED"
proof -
  let ?s = "Stop (Fails ''device busy'') sample_core"
  have db: "in_db (snd ?s) = in_db sample_core" using Stop_facts(8) [of "Fails ''device busy''" sample_core "fst ?s"] by simp
  have "loadLastStartRequestIfNeeded None (in_db sample_core) None = Done (sample_start\<lparr>sr_raw := True\<rparr>)"
    by code_simp
  with core_restartable [OF sample_core_reach, of "Fails ''device busy''" "fst ?s" "snd ?s" sample_start_env None] db
  show ?thesis by (metis (no_types, lifting) prod.collapse start_env.select_convs sample_start_env_def)
qed

theorem last_start_survives_pings_witness:
  "loadLastStartRequestIfNeeded None (saveLastStartRequest 3 (sample_start\<lparr>sr_content := ''ping'', sr_ping_only := True\<rparr>)
     (saveLastStartRequest 3 sample_start Map.empty)) None = Done (sample_start\<lparr>sr_raw := True\<rparr>)"
  using last_start_survives_pings [of sample_start 3 "[(3, sample_start\<lparr>sr_content := ''ping'', sr_ping_only := True\<rparr>)]"
      Map.empty]
  by (simp add: sample_start_def)

theorem probe_needs_freeze_witness:
  "fst (Wake \<lparr>at_wall = 300 * 10 ^ 9, at_mono = 10 * 10 ^ 9\<rparr> (Pause True \<lparr>at_wall = 0, at_mono = 0\<rparr> sample_core)) =
     WakeProbe 0 (300 * 10 ^ 9) (290 * 10 ^ 9) \<and> (120 * 10 ^ 9 :: int) \<le> 300 * 10 ^ 9 - 10 * 10 ^ 9"
proof -
  let ?now = "\<lparr>at_wall = 300 * 10 ^ 9, at_mono = 10 * 10 ^ 9\<rparr>" and ?p = "\<lparr>at_wall = 0, at_mono = 0\<rparr>"
  let ?i = "Pause True ?p sample_core"
  have p: "in_paused_at ?i = Some ?p" "in_service ?i = Some 0"
    using sample_core_started by (simp_all add: Pause_def)
  have "frozenSince ?p ?now = (300 * 10 ^ 9, 290 * 10 ^ 9)" by code_simp
  with p have w: "fst (Wake ?now ?i) = WakeProbe 0 (300 * 10 ^ 9) (290 * 10 ^ 9)"
    by (simp add: Wake_def maybeProbeAfterFrozenSleep_def shouldProbeAfterSleep_def wakeProbeMinFrozen_def)
  then have "Wake ?now ?i = (WakeProbe 0 (300 * 10 ^ 9) (290 * 10 ^ 9), snd (Wake ?now ?i))" by (metis prod.collapse)
  from probe_needs_freeze [OF this p(1)] w show ?thesis by simp
qed

theorem pause_outlives_stop_witness:
  "\<exists>x. reach (race_step True \<lparr>at_wall = 0, at_mono = 0\<rparr>)
      \<lparr>rc_core = sample_core, rc_stop = Stop_Begin, rc_pause = Pause_Begin\<rparr> x \<and>
    in_state (rc_core x) = STOPPED \<and> in_paused_at (rc_core x) \<noteq> None"
  using pause_outlives_stop [OF sample_core_started(2), of True "\<lparr>at_wall = 0, at_mono = 0\<rparr>"] by force

end
