(* ===== verification/Mode_Watcher.thy ===== *)
theory Mode_Watcher
  imports Core_Lifecycle
begin

text \<open>
  The health watcher of \<open>hcore/urltest_watcher.go\<close> (a sliding window over the verdicts of the test
  cycles and the recommendation to switch modes), \<open>SwitchMode\<close> and the published mode events, and
  the resolution of a selector to the outbound behind it (\<open>commands.go\<close>). A window holds one
  boolean per cycle, \<open>True\<close> for a failed one. The failure rate is compared exactly: the quotient of
  two small integers is at least 0.70 in \<open>float64\<close> exactly when it is at least seven tenths.
\<close>

section \<open>Verdicts and the window\<close>

record url_history =
  uh_from_cache :: bool
  uh_delay :: nat

fun no_usable_delay :: "url_history option list \<Rightarrow> bool" where
  "no_usable_delay [] = True"
| "no_usable_delay (None # hs) = no_usable_delay hs"
| "no_usable_delay (Some h # hs) =
     (if uh_from_cache h then no_usable_delay hs
      else if 0 < uh_delay h \<and> uh_delay h < 65535 then False else no_usable_delay hs)"

definition isCycleFailed :: "(string \<times> url_history option) list \<Rightarrow> bool" where
  "isCycleFailed hist = (if hist = [] then False else no_usable_delay (map snd hist))"

definition modeWatcherWindow :: nat where "modeWatcherWindow = 10"

definition modeWatcherConsecFailures :: nat where "modeWatcherConsecFailures = 7"

definition modeWatcherDebounce :: int where "modeWatcherDebounce = 30 * 10 ^ 9"

definition appendBounded :: "bool list \<Rightarrow> bool \<Rightarrow> nat \<Rightarrow> bool list" where
  "appendBounded window v mx =
     (let w = window @ [v] in if length w > mx then drop (length w - mx) w else w)"

definition failed_tail :: "bool list \<Rightarrow> nat" where
  "failed_tail window = length (takeWhile (\<lambda>f. f) (rev window))"

definition failed_count :: "bool list \<Rightarrow> nat" where
  "failed_count window = length (filter (\<lambda>f. f) window)"

definition shouldRecommendModeTwo :: "bool list \<Rightarrow> bool" where
  "shouldRecommendModeTwo window =
     (if window = [] then False
      else if modeWatcherConsecFailures \<le> failed_tail window then True
      else if length window < modeWatcherWindow then False
      else 7 * length window \<le> 10 * failed_count window)"

section \<open>Modes and their events\<close>

record mode_event =
  me_mode :: int
  me_success :: bool
  me_error :: string
  me_transport :: string

record modes =
  md_current :: int
  md_events :: "mode_event list"

text \<open>\<open>transport\<close> is what \<open>currentActiveTransport\<close> reads from the running engine.\<close>

definition emitModeState :: "string \<Rightarrow> int \<Rightarrow> string \<Rightarrow> string \<Rightarrow> modes \<Rightarrow> modes" where
  "emitModeState transport modeOverride errMsg transportHint m =
     m\<lparr>md_events := md_events m @
        [\<lparr>me_mode = (if modeOverride = 0 then md_current m else modeOverride), me_success = (errMsg = ''''),
          me_error = errMsg, me_transport = (if transportHint = '''' then transport else transportHint)\<rparr>]\<rparr>"

definition SwitchMode :: "string \<Rightarrow> (int \<Rightarrow> string) \<Rightarrow> int option \<Rightarrow> modes \<Rightarrow> string option \<times> modes" where
  "SwitchMode transport show_mode req m =
     (case req of
        None \<Rightarrow> let e = ''SwitchMode: nil request'' in (Some e, emitModeState transport 0 e '''' m)
      | Some k \<Rightarrow>
          if k = 1 \<or> k = 2 then (None, emitModeState transport k '''' '''' (m\<lparr>md_current := k\<rparr>))
          else let e = ''SwitchMode: invalid mode '' @ show_mode k @ '' (allowed: 1, 2)'' in
               (Some e, emitModeState transport 0 e '''' m))"

section \<open>The watcher\<close>

record watcher =
  wa_window :: "bool list"
  wa_last_emit :: "int option"
  wa_recovery :: nat

definition watcher_init :: watcher where
  "watcher_init = \<lparr>wa_window = [], wa_last_emit = None, wa_recovery = 0\<rparr>"

record cycle =
  cy_history :: "(string \<times> url_history option) list"
  cy_now :: int
  cy_transport :: string

text \<open>One event of the monitoring stream. The zero time is further back than any debounce.\<close>

definition debounced :: "int \<Rightarrow> int option \<Rightarrow> bool" where
  "debounced now lastEmit = (case lastEmit of None \<Rightarrow> False | Some t \<Rightarrow> now - t < modeWatcherDebounce)"

definition watch_cycle :: "cycle \<Rightarrow> watcher \<times> modes \<Rightarrow> watcher \<times> modes" where
  "watch_cycle c wm =
     (case wm of (w, m) \<Rightarrow>
       let failed = isCycleFailed (cy_history c);
           window = appendBounded (wa_window w) failed modeWatcherWindow;
           recovery = (if md_current m = 1 \<and> \<not> failed then Suc (wa_recovery w)
                       else if failed then 0 else wa_recovery w);
           w1 = w\<lparr>wa_window := window, wa_recovery := recovery\<rparr> in
       if \<not> shouldRecommendModeTwo window then (w1, m)
       else if debounced (cy_now c) (wa_last_emit w) then (w1, m)
       else if md_current m \<noteq> 1 then (w1, m)
       else (w1\<lparr>wa_last_emit := Some (cy_now c)\<rparr>, emitModeState (cy_transport c) 2 '''' '''' m))"

section \<open>Resolving a selector\<close>

text \<open>What the engine knows under a tag: nothing, an outbound, or a group with its current member.\<close>

datatype outbound_kind = Plain | Group string

type_synonym lookup = "string \<Rightarrow> outbound_kind option"

fun resolve_hops :: "nat \<Rightarrow> lookup \<Rightarrow> string \<Rightarrow> string" where
  "resolve_hops 0 om tag = tag"
| "resolve_hops (Suc n) om tag =
     (case om tag of
        Some (Group now) \<Rightarrow> if now = '''' \<or> now = tag then tag else resolve_hops n om now
      | _ \<Rightarrow> tag)"

definition resolveRealOutboundTag :: "lookup option \<Rightarrow> string \<Rightarrow> string" where
  "resolveRealOutboundTag om tag =
     (case om of
        None \<Rightarrow> ''''
      | Some f \<Rightarrow> if f tag = None then '''' else resolve_hops 8 f tag)"

section \<open>Facts\<close>

text \<open>The abstract window: the last cycles, at most as many as the bound.\<close>

definition last_n :: "nat \<Rightarrow> 'a list \<Rightarrow> 'a list" where
  "last_n n xs = drop (length xs - n) xs"

lemma last_n_append: "last_n n (last_n n xs @ [x]) = last_n n (xs @ [x])" if "0 < n"
  using that by (cases "length xs \<le> n") (auto simp: last_n_def Suc_diff_le)

lemma appendBounded_last_n: "0 < n \<Longrightarrow> appendBounded (last_n n xs) x n = last_n n (xs @ [x])"
  using last_n_append [of n xs x] by (auto simp: appendBounded_def last_n_def Let_def)

lemma failed_tail_count: "failed_tail w \<le> failed_count w"
proof -
  have "length (takeWhile (\<lambda>f. f) xs) \<le> length (filter (\<lambda>f. f) xs)" for xs :: "bool list"
    by (induction xs) auto
  from this [of "rev w"] show ?thesis by (simp add: failed_tail_def failed_count_def rev_filter [symmetric])
qed

lemma recommend_failed: "shouldRecommendModeTwo w \<Longrightarrow> 7 \<le> failed_count w"
  using failed_tail_count [of w]
  by (auto simp: shouldRecommendModeTwo_def modeWatcherConsecFailures_def modeWatcherWindow_def split: if_splits)

fun watch_cycles :: "cycle list \<Rightarrow> watcher \<times> modes \<Rightarrow> watcher \<times> modes" where
  "watch_cycles [] wm = wm"
| "watch_cycles (c # cs) wm = watch_cycles cs (watch_cycle c wm)"

lemma watch_cycles_append: "watch_cycles (cs @ ds) wm = watch_cycles ds (watch_cycles cs wm)"
  by (induction cs arbitrary: wm) auto

lemma watch_cycle_window:
  "wa_window (fst (watch_cycle c wm)) =
     appendBounded (wa_window (fst wm)) (isCycleFailed (cy_history c)) modeWatcherWindow"
  by (cases wm) (simp add: watch_cycle_def Let_def)

lemma watch_cycle_current [simp]: "md_current (snd (watch_cycle c wm)) = md_current (snd wm)"
  by (cases wm) (simp add: watch_cycle_def Let_def emitModeState_def)

lemma window_is_last_ten_aux:
  "wa_window (fst (watch_cycles cs (watcher_init, m))) = last_n 10 (map (\<lambda>c. isCycleFailed (cy_history c)) cs)"
proof (induction cs rule: rev_induct)
  case Nil
  show ?case by (simp add: watcher_init_def last_n_def)
next
  case (snoc c cs)
  then show ?case
    by (simp add: watch_cycles_append watch_cycle_window modeWatcherWindow_def appendBounded_last_n)
qed

section \<open>Properties\<close>

text \<open>C30: the ring buffer refines its specification: after any sequence of cycles the window is the
  list of the last ten verdicts.\<close>

theorem window_is_last_ten:
  "wa_window (fst (watch_cycles cs (watcher_init, m))) = last_n 10 (map (\<lambda>c. isCycleFailed (cy_history c)) cs)"
  by (rule window_is_last_ten_aux)

lemma watch_cycle_emits:
  assumes "md_events (snd (watch_cycle c (w, m))) \<noteq> md_events m"
  shows "shouldRecommendModeTwo (wa_window (fst (watch_cycle c (w, m)))) \<and> md_current m = 1 \<and>
    \<not> debounced (cy_now c) (wa_last_emit w) \<and> wa_last_emit (fst (watch_cycle c (w, m))) = Some (cy_now c)"
  using assms by (auto simp: watch_cycle_def Let_def split: if_splits)

text \<open>C38: mode 2 is recommended only while the core is in mode 1 and at least seven of the last ten
  cycles had no usable answer.\<close>

theorem recommendation_is_deserved:
  assumes "watch_cycles cs (watcher_init, m) = (w, m1)"
    and "md_events (snd (watch_cycle c (w, m1))) \<noteq> md_events m1"
  shows "md_current m1 = 1 \<and> 7 \<le> length (filter (\<lambda>f. f) (last_n 10 (map (\<lambda>c. isCycleFailed (cy_history c)) (cs @ [c]))))"
proof -
  have "watch_cycles (cs @ [c]) (watcher_init, m) = watch_cycle c (w, m1)"
    using assms(1) by (simp add: watch_cycles_append)
  then have "wa_window (fst (watch_cycle c (w, m1))) = last_n 10 (map (\<lambda>c. isCycleFailed (cy_history c)) (cs @ [c]))"
    using window_is_last_ten_aux [of "cs @ [c]" m] by simp
  with watch_cycle_emits [OF assms(2)] recommend_failed show ?thesis by (simp add: failed_count_def)
qed

fun emission_times :: "cycle list \<Rightarrow> watcher \<times> modes \<Rightarrow> int list" where
  "emission_times [] wm = []"
| "emission_times (c # cs) wm =
     (if md_events (snd (watch_cycle c wm)) \<noteq> md_events (snd wm) then [cy_now c] else []) @
     emission_times cs (watch_cycle c wm)"

lemma watch_cycle_silent:
  "md_events (snd (watch_cycle c (w, m))) = md_events m \<Longrightarrow> wa_last_emit (fst (watch_cycle c (w, m))) = wa_last_emit w"
  by (auto simp: watch_cycle_def Let_def emitModeState_def split: if_splits)

lemma emission_gaps:
  "sorted_wrt (\<lambda>s t. s + modeWatcherDebounce \<le> t) (emission_times cs wm) \<and>
   (\<forall>t0. wa_last_emit (fst wm) = Some t0 \<longrightarrow> (\<forall>t \<in> set (emission_times cs wm). t0 + modeWatcherDebounce \<le> t))"
proof (induction cs arbitrary: wm)
  case (Cons c cs)
  obtain w m where wm: "wm = (w, m)" by (cases wm)
  note IH = Cons.IH [of "watch_cycle c wm"]
  show ?case
  proof (cases "md_events (snd (watch_cycle c wm)) = md_events m")
    case True
    with IH show ?thesis using watch_cycle_silent [of c w m] wm by simp
  next
    case False
    then have e: "\<not> debounced (cy_now c) (wa_last_emit w)" "wa_last_emit (fst (watch_cycle c wm)) = Some (cy_now c)"
      using watch_cycle_emits [of c w m] wm by auto
    have "t0 + modeWatcherDebounce \<le> cy_now c" if "wa_last_emit w = Some t0" for t0
      using e(1) that by (simp add: debounced_def)
    moreover have "0 \<le> modeWatcherDebounce" by (simp add: modeWatcherDebounce_def)
    ultimately show ?thesis using IH e(2) wm False by fastforce
  qed
qed simp

text \<open>two recommendations are at least thirty seconds apart, however the cycles come in.\<close>

theorem recommendations_debounced:
  "sorted_wrt (\<lambda>s t. s + 30 * 10 ^ 9 \<le> t) (emission_times cs (watcher_init, m))"
  using emission_gaps [of cs "(watcher_init, m)"] by (simp add: modeWatcherDebounce_def)

text \<open>a request to switch either stores mode 1 or 2 or fails and keeps the mode, and in both cases
  listeners get one event, which carries the mode now in force and the failure.\<close>

theorem switch_mode_event:
  assumes "md_current m = 1 \<or> md_current m = 2" and "SwitchMode tr sh req m = (e, m')"
  shows "(md_current m' = 1 \<or> md_current m' = 2) \<and> (e = None \<longleftrightarrow> req = Some 1 \<or> req = Some 2) \<and>
    (e \<noteq> None \<longrightarrow> md_current m' = md_current m) \<and>
    (\<exists>ev. md_events m' = md_events m @ [ev] \<and> me_mode ev = md_current m' \<and> me_success ev = (e = None))"
  using assms by (auto simp: SwitchMode_def emitModeState_def Let_def split: option.splits if_splits)

lemma resolve_hops_range: "resolve_hops n om tag = tag \<or> (\<exists>t. om t = Some (Group (resolve_hops n om tag)))"
  by (induction n om tag rule: resolve_hops.induct) (auto split: option.splits outbound_kind.splits)

text \<open>The outbound behind a tag, by any number of groups.\<close>

inductive behind :: "lookup \<Rightarrow> nat \<Rightarrow> string \<Rightarrow> string \<Rightarrow> bool" for om where
  plain: "om tag = Some Plain \<Longrightarrow> behind om 0 tag tag"
| member: "om tag = Some (Group now) \<Longrightarrow> now \<noteq> '''' \<Longrightarrow> now \<noteq> tag \<Longrightarrow> behind om n now r \<Longrightarrow> behind om (Suc n) tag r"

lemma behind_hops: "behind om n tag r \<Longrightarrow> n \<le> k \<Longrightarrow> resolve_hops k om tag = r"
proof (induction arbitrary: k rule: behind.induct)
  case (plain tag)
  then show ?case by (cases k) auto
next
  case (member tag now n r)
  then show ?case by (cases k) auto
qed

text \<open>resolving a selector up to eight groups deep gives the outbound that really dials.\<close>

theorem resolve_real_outbound:
  assumes "behind om n tag r" and "n \<le> 8"
  shows "resolveRealOutboundTag (Some om) tag = r \<and> om r = Some Plain"
proof -
  have "om tag \<noteq> None" using assms(1) by (cases rule: behind.cases) auto
  moreover have "om r = Some Plain" using assms(1) by (induction rule: behind.induct) auto
  ultimately show ?thesis using behind_hops [OF assms(1), of 8] assms(2) by (auto simp: resolveRealOutboundTag_def)
qed

section \<open>Witnesses\<close>

definition dead_cycle :: "int \<Rightarrow> cycle" where
  "dead_cycle t = \<lparr>cy_history = [(''a'', Some \<lparr>uh_from_cache = False, uh_delay = 65535\<rparr>)], cy_now = t, cy_transport = ''vless''\<rparr>"

definition mode_one :: modes where
  "mode_one = \<lparr>md_current = 1, md_events = []\<rparr>"

theorem recommendation_is_deserved_witness:
  "7 \<le> length (filter (\<lambda>f. f) (last_n 10 (map (\<lambda>c. isCycleFailed (cy_history c)) (map dead_cycle [0, 1, 2, 3, 4, 5, 6]))))"
proof -
  let ?cs = "map dead_cycle [0, 1, 2, 3, 4, 5]"
  obtain w m1 where wm: "watch_cycles ?cs (watcher_init, mode_one) = (w, m1)" by (cases "watch_cycles ?cs (watcher_init, mode_one)")
  have "length (md_events (snd (watch_cycle (dead_cycle 6) (watch_cycles ?cs (watcher_init, mode_one))))) = 1"
    "length (md_events (snd (watch_cycles ?cs (watcher_init, mode_one)))) = 0" by code_simp+
  with wm have "md_events (snd (watch_cycle (dead_cycle 6) (w, m1))) \<noteq> md_events m1" by auto
  from recommendation_is_deserved [OF wm this] show ?thesis by simp
qed

theorem switch_mode_event_witness:
  "md_current (snd (SwitchMode ''vless'' (\<lambda>_. ''3'') (Some 3) mode_one)) = 1"
  using switch_mode_event [of mode_one "''vless''" "\<lambda>_. ''3''" "Some 3"
      "fst (SwitchMode ''vless'' (\<lambda>_. ''3'') (Some 3) mode_one)" "snd (SwitchMode ''vless'' (\<lambda>_. ''3'') (Some 3) mode_one)"]
  by (simp add: mode_one_def)

theorem resolve_real_outbound_witness:
  "resolveRealOutboundTag (Some [''select'' \<mapsto> Group ''auto'', ''auto'' \<mapsto> Group ''nl'', ''nl'' \<mapsto> Plain]) ''select'' = ''nl''"
proof -
  have "behind [''select'' \<mapsto> Group ''auto'', ''auto'' \<mapsto> Group ''nl'', ''nl'' \<mapsto> Plain] (Suc (Suc 0)) ''select'' ''nl''"
    by (rule member, simp, simp, simp, rule member, simp, simp, simp, rule plain, simp)
  from resolve_real_outbound [OF this] show ?thesis by simp
qed

end
