(* ===== verification/Core_Log.thy ===== *)
theory Core_Log
  imports Prelude
begin

text \<open>
  The log of the core: the level gate and the level conversion (\<open>hcore/logproto.go\<close>,
  \<open>log_interface.go\<close>), the rotating file \<open>core.log\<close> (\<open>log_file.go\<close>), and what a change of the
  settings does to the levels and to the stored settings (\<open>ChangeInhiveSettings\<close> of
  \<open>buildconfighelper.go\<close>, \<open>log_level.go\<close>). The file system is a map from paths to contents; which
  of its calls succeed is an argument of every operation.
\<close>

section \<open>Levels\<close>

datatype log_level = TRACE | DEBUG | INFO | WARNING | ERROR | FATAL

fun level_num :: "log_level \<Rightarrow> nat" where
  "level_num TRACE = 0" | "level_num DEBUG = 1" | "level_num INFO = 2"
| "level_num WARNING = 3" | "level_num ERROR = 4" | "level_num FATAL = 5"

text \<open>The levels of sing-box count the other way: 0 is a panic, 6 a trace.\<close>

definition convertLogLevel :: "nat \<Rightarrow> log_level" where
  "convertLogLevel n =
     (if n = 6 then TRACE else if n = 5 then DEBUG else if n = 4 then INFO else if n = 3 then WARNING
      else if n = 2 then ERROR else if n = 1 \<or> n = 0 then FATAL else INFO)"

section \<open>The file\<close>

definition coreLogBacklogCap :: nat where
  "coreLogBacklogCap = 200"

record os_calls =
  os_mkdir :: bool
  os_rename :: bool
  os_open :: bool
  os_stat :: bool
  os_write :: bool

record core_log =
  cl_open :: bool
  cl_size :: nat
  cl_path :: string
  cl_backlog :: "string list"
  cl_disk :: "string \<rightharpoonup> string"

definition backup :: "string \<Rightarrow> string" where
  "backup path = path @ ''.1''"

definition on_disk :: "core_log \<Rightarrow> string \<Rightarrow> string" where
  "on_disk w path = (case cl_disk w path of None \<Rightarrow> '''' | Some c \<Rightarrow> c)"

definition rename_to_backup :: "os_calls \<Rightarrow> string \<Rightarrow> core_log \<Rightarrow> core_log" where
  "rename_to_backup os path w =
     (if os_rename os \<and> cl_disk w path \<noteq> None
      then w\<lparr>cl_disk := (cl_disk w)(backup path := cl_disk w path, path := None)\<rparr> else w)"

text \<open>\<open>OpenFile\<close> with append and create.\<close>

definition open_append :: "string \<Rightarrow> core_log \<Rightarrow> core_log" where
  "open_append path w = w\<lparr>cl_open := True, cl_disk := (cl_disk w)(path \<mapsto> on_disk w path)\<rparr>"

definition writeLocked :: "nat \<Rightarrow> os_calls \<Rightarrow> string \<Rightarrow> core_log \<Rightarrow> core_log" where
  "writeLocked mx os line w =
     (if \<not> os_write os then w
      else
        let w1 = w\<lparr>cl_disk := (cl_disk w)(cl_path w \<mapsto> on_disk w (cl_path w) @ line), cl_size := cl_size w + length line\<rparr> in
        if cl_size w1 \<le> mx then w1
        else
          let w2 = rename_to_backup os (cl_path w1) (w1\<lparr>cl_open := False\<rparr>) in
          if os_open os then (open_append (cl_path w2) w2)\<lparr>cl_size := 0\<rparr> else w2)"

text \<open>The backlog is written with the file open; once a rotation could not reopen it, writing to a nil
  file returns an error and does nothing.\<close>

definition write_open :: "nat \<Rightarrow> os_calls \<Rightarrow> string \<Rightarrow> core_log \<Rightarrow> core_log" where
  "write_open mx os line w = (if cl_open w then writeLocked mx os line w else w)"

definition initCoreLog :: "nat \<Rightarrow> os_calls \<Rightarrow> string \<Rightarrow> core_log \<Rightarrow> core_log" where
  "initCoreLog mx os dir w0 =
     (let path = dir @ ''/core.log'' in
      if cl_open w0 \<and> cl_path w0 = path then w0
      else
        let w = w0\<lparr>cl_open := False\<rparr> in
        if \<not> os_mkdir os then w
        else
          let w1 = (if os_stat os \<and> length (on_disk w path) > mx then rename_to_backup os path w else w) in
          if \<not> os_open os then w1
          else
            let w2 = open_append path w1;
                w3 = w2\<lparr>cl_path := path, cl_size := (if os_stat os then length (on_disk w2 path) else 0)\<rparr>
            in (fold (write_open mx os) (cl_backlog w3) w3)\<lparr>cl_backlog := []\<rparr>)"

definition coreLogAppend :: "nat \<Rightarrow> os_calls \<Rightarrow> string \<Rightarrow> core_log \<Rightarrow> core_log" where
  "coreLogAppend mx os line w =
     (if \<not> cl_open w then
        (if length (cl_backlog w) < coreLogBacklogCap then w\<lparr>cl_backlog := cl_backlog w @ [line]\<rparr> else w)
      else writeLocked mx os line w)"

text \<open>\<open>Log\<close>: below the level of the core nothing is written and nothing is published; \<open>render\<close> is the
  time-stamped line.\<close>

record log_state =
  lg_level :: log_level
  lg_file :: core_log
  lg_published :: "(log_level \<times> string) list"

definition Log :: "nat \<Rightarrow> os_calls \<Rightarrow> (log_level \<Rightarrow> string \<Rightarrow> string) \<Rightarrow> log_level \<Rightarrow> string \<Rightarrow> log_state \<Rightarrow> log_state" where
  "Log mx os render level msg st =
     (if level_num level < level_num (lg_level st) then st
      else st\<lparr>lg_file := coreLogAppend mx os (render level msg) (lg_file st),
              lg_published := lg_published st @ [(level, msg)]\<rparr>)"

section \<open>Settings\<close>

record 'r core_options =
  op_level :: string
  op_rest :: 'r

record 'r core_settings =
  cs_options :: "'r core_options option"
  cs_level :: log_level
  cs_debug :: bool
  cs_box_level :: "string option"
  cs_persisted :: string
  cs_stored :: "'r core_options option"

definition level_of_name :: "string \<Rightarrow> log_level" where
  "level_of_name s =
     (if s = ''debug'' then DEBUG else if s = ''info'' then INFO else if s = ''warn'' then WARNING
      else if s = ''error'' then ERROR else if s = ''fatal'' then FATAL else if s = ''trace'' then TRACE else INFO)"

text \<open>\<open>known\<close> is whether \<open>log.ParseLevel\<close> of the engine accepts the name.\<close>

definition applyLogLevelToLiveBox :: "(string \<Rightarrow> bool) \<Rightarrow> string \<Rightarrow> 'r core_settings \<Rightarrow> 'r core_settings" where
  "applyLogLevelToLiveBox known level s =
     (if \<not> known level then s else if cs_box_level s = None then s else s\<lparr>cs_box_level := Some level\<rparr>)"

text \<open>
  What \<open>encoding/json\<close> does with the request: \<open>sj_keys\<close> gives the keys of a text that is an object,
  \<open>sj_merge\<close> decodes the text over the given options.
\<close>

record 'r settings_json =
  sj_default :: "'r core_options"
  sj_keys :: "string \<Rightarrow> string set option"
  sj_merge :: "string \<Rightarrow> 'r core_options \<Rightarrow> 'r core_options result"
  sj_known :: "string \<Rightarrow> bool"

definition level_in_request :: "'r settings_json \<Rightarrow> string \<Rightarrow> bool" where
  "level_in_request js req =
     (req \<noteq> '''' \<and> (case sj_keys js req of None \<Rightarrow> False | Some ks \<Rightarrow> ''log-level'' \<in> ks))"

definition log_level_only :: "'r settings_json \<Rightarrow> string \<Rightarrow> bool" where
  "log_level_only js req =
     (level_in_request js req \<and> (case sj_keys js req of None \<Rightarrow> False | Some ks \<Rightarrow> card ks = 1))"

definition take_options :: "'r settings_json \<Rightarrow> 'r core_options \<Rightarrow> 'r core_settings \<Rightarrow> 'r core_settings" where
  "take_options js opts s =
     applyLogLevelToLiveBox (sj_known js) (op_level opts)
       (s\<lparr>cs_options := Some opts, cs_level := level_of_name (op_level opts),
          cs_debug := (cs_debug s \<or> level_num (level_of_name (op_level opts)) \<le> level_num DEBUG)\<rparr>)"

definition store_options :: "'r settings_json \<Rightarrow> string \<Rightarrow> bool \<Rightarrow> 'r core_options \<Rightarrow> 'r core_settings \<Rightarrow> 'r core_settings" where
  "store_options js req writable opts s =
     (let verbose = (log_level_only js req \<and> (op_level opts = ''debug'' \<or> op_level opts = ''trace'')) in
      if req \<noteq> '''' \<and> \<not> verbose then
        let s1 = (if level_in_request js req then s\<lparr>cs_persisted := op_level opts\<rparr> else s) in
        if writable then s1\<lparr>cs_stored := Some (opts\<lparr>op_level := cs_persisted s1\<rparr>)\<rparr> else s1
      else s)"

definition ChangeInhiveSettings ::
  "'r settings_json \<Rightarrow> string \<Rightarrow> bool \<Rightarrow> bool \<Rightarrow> 'r core_settings \<Rightarrow> go_error option \<times> 'r core_settings" where
  "ChangeInhiveSettings js req persist writable s0 =
     (let opts0 = (case cs_options s0 of None \<Rightarrow> sj_default js | Some x \<Rightarrow> x);
          s = (if cs_persisted s0 = '''' then s0\<lparr>cs_persisted := op_level opts0\<rparr> else s0) in
      case (if req = '''' then Inr opts0 else sj_merge js req opts0) of
        Inl e \<Rightarrow> (Some e, s)
      | Inr opts \<Rightarrow>
          let s1 = take_options js opts s in
          (None, if persist then store_options js req writable opts s1
                 else s1\<lparr>cs_persisted := op_level opts\<rparr>))"

text \<open>The line at the start of a tunnel.\<close>

definition logLevelsLine :: "(log_level \<Rightarrow> string) \<Rightarrow> 'r core_settings \<Rightarrow> string" where
  "logLevelsLine show_level s =
     ''log levels: static='' @ show_level (cs_level s) @ '' box='' @
     (case cs_box_level s of None \<Rightarrow> ''none'' | Some l \<Rightarrow> l) @ '' persisted='' @
     (if cs_persisted s = '''' then ''unset'' else cs_persisted s)"

section \<open>Facts about the file\<close>

lemma backup_ne [simp]: "backup p \<noteq> p" "p \<noteq> backup p"
  by (auto simp: backup_def)

text \<open>
  The size of the log on disk: while the file is open its size is known and within the limit, and
  the backup exceeds the limit by at most one line.
\<close>

definition log_bounded :: "nat \<Rightarrow> nat \<Rightarrow> core_log \<Rightarrow> bool" where
  "log_bounded mx k w \<longleftrightarrow>
     (cl_open w \<longrightarrow> cl_size w = length (on_disk w (cl_path w))) \<and>
     length (on_disk w (cl_path w)) \<le> mx \<and> length (on_disk w (backup (cl_path w))) \<le> mx + k"

lemma on_disk_simps [simp]:
  "on_disk (w\<lparr>cl_open := b\<rparr>) p = on_disk w p" "on_disk (w\<lparr>cl_size := n\<rparr>) p = on_disk w p"
  "on_disk (w\<lparr>cl_backlog := l\<rparr>) p = on_disk w p"
  "on_disk (w\<lparr>cl_path := q\<rparr>) p = on_disk w p"
  by (simp_all add: on_disk_def)

lemma rename_on_disk:
  "os_rename os \<Longrightarrow> cl_disk w path \<noteq> None \<Longrightarrow>
     on_disk (rename_to_backup os path w) path = '''' \<and>
     on_disk (rename_to_backup os path w) (backup path) = on_disk w path"
  by (auto simp: rename_to_backup_def on_disk_def)

lemma open_append_simps [simp]: "on_disk (open_append path w) p = on_disk w p" "cl_backlog (open_append path w) = cl_backlog w"
  by (simp_all add: open_append_def on_disk_def)

lemma write_bounded:
  assumes b: "log_bounded mx k w" and o: "cl_open w" and r: "os_rename os" and l: "length line \<le> k"
  shows "log_bounded mx k (writeLocked mx os line w)"
proof (cases "os_write os")
  case False
  with b show ?thesis by (simp add: writeLocked_def)
next
  case wr: True
  let ?c = "on_disk w (cl_path w) @ line"
  let ?w1 = "w\<lparr>cl_disk := (cl_disk w)(cl_path w \<mapsto> ?c), cl_size := cl_size w + length line\<rparr>"
  have w1: "on_disk ?w1 (cl_path w) = ?c" "on_disk ?w1 (backup (cl_path w)) = on_disk w (backup (cl_path w))"
    by (simp_all add: on_disk_def)
  have sz: "cl_size ?w1 = length ?c" using b o by (simp add: log_bounded_def)
  show ?thesis
  proof (cases "cl_size ?w1 \<le> mx")
    case True
    then have "writeLocked mx os line w = ?w1" using wr by (simp add: writeLocked_def Let_def)
    with True b o sz w1 show ?thesis by (simp add: log_bounded_def)
  next
    case False
    let ?w2 = "rename_to_backup os (cl_path w) (?w1\<lparr>cl_open := False\<rparr>)"
    have w2: "on_disk ?w2 (cl_path w) = ''''" "on_disk ?w2 (backup (cl_path w)) = ?c"
      using rename_on_disk [OF r, of "?w1\<lparr>cl_open := False\<rparr>" "cl_path w"] w1 by simp_all
    have p: "cl_path ?w2 = cl_path w" "\<not> cl_open ?w2" by (simp_all add: rename_to_backup_def)
    have len: "length ?c \<le> mx + k" using b l by (simp add: log_bounded_def)
    have "writeLocked mx os line w =
        (if os_open os then (open_append (cl_path w) ?w2)\<lparr>cl_size := 0\<rparr> else ?w2)"
      using wr False by (simp add: writeLocked_def Let_def rename_to_backup_def)
    with w2 p len show ?thesis
      by (simp add: log_bounded_def open_append_def on_disk_def)
  qed
qed

lemma append_bounded:
  assumes "log_bounded mx k w" "os_rename os" "length line \<le> k"
  shows "log_bounded mx k (coreLogAppend mx os line w)"
proof (cases "cl_open w")
  case True
  with assms write_bounded show ?thesis by (simp add: coreLogAppend_def)
next
  case False
  with assms(1) show ?thesis by (simp add: coreLogAppend_def log_bounded_def)
qed

lemma writeLocked_fits:
  "os_write os \<Longrightarrow> cl_size w + length line \<le> mx \<Longrightarrow>
   writeLocked mx os line w = w\<lparr>cl_disk := (cl_disk w)(cl_path w \<mapsto> on_disk w (cl_path w) @ line), cl_size := cl_size w + length line\<rparr>"
  by (simp add: writeLocked_def Let_def)

lemma fold_write_fits:
  "os_write os \<Longrightarrow> cl_open w \<Longrightarrow> cl_size w + length (concat ls) \<le> mx \<Longrightarrow>
   cl_open (fold (write_open mx os) ls w) \<and> cl_path (fold (write_open mx os) ls w) = cl_path w \<and>
   on_disk (fold (write_open mx os) ls w) (cl_path w) = on_disk w (cl_path w) @ concat ls"
proof (induction ls arbitrary: w)
  case (Cons l ls)
  let ?w = "w\<lparr>cl_disk := (cl_disk w)(cl_path w \<mapsto> on_disk w (cl_path w) @ l), cl_size := cl_size w + length l\<rparr>"
  have "write_open mx os l w = ?w" using Cons.prems writeLocked_fits [of os w l mx] by (simp add: write_open_def)
  moreover have "on_disk ?w (cl_path w) = on_disk w (cl_path w) @ l" by (simp add: on_disk_def)
  ultimately show ?case using Cons.IH [of ?w] Cons.prems by simp
qed simp

section \<open>Properties\<close>


text \<open>what is logged before the directory is known is not lost: the first two hundred lines are
  kept in order and the initialisation appends exactly them to the file.\<close>

theorem early_lines_kept:
  assumes "\<not> cl_open w" "cl_backlog w = []" "os_mkdir os" "os_open os" "os_stat os" "os_write os"
    and "length (on_disk w (dir @ ''/core.log'')) + length (concat (take 200 lines)) \<le> mx"
  shows "on_disk (initCoreLog mx os dir (foldl (\<lambda>v l. coreLogAppend mx os l v) w lines)) (dir @ ''/core.log'') =
    on_disk w (dir @ ''/core.log'') @ concat (take 200 lines)"
proof -
  let ?p = "dir @ ''/core.log''" and ?v = "foldl (\<lambda>v l. coreLogAppend mx os l v) w lines"
  have log: "foldl (\<lambda>v l. coreLogAppend mx os l v) u ls = u\<lparr>cl_backlog := take (max 200 (length (cl_backlog u))) (cl_backlog u @ ls)\<rparr>"
    if "\<not> cl_open u" for u ls
    using that
  proof (induction ls arbitrary: u)
    case (Cons l ls)
    show ?case
      using Cons.IH [of "coreLogAppend mx os l u"] Cons.prems
      by (auto simp: coreLogAppend_def coreLogBacklogCap_def max_def take_Cons')
  qed (simp add: max_def)
  have v: "?v = w\<lparr>cl_backlog := take 200 lines\<rparr>" using log [OF assms(1), of lines] assms(2) by simp
  have small: "\<not> length (on_disk w ?p) > mx" using assms(7) by linarith
  define w3 where "w3 = (open_append ?p (w\<lparr>cl_backlog := take 200 lines, cl_open := False\<rparr>))
      \<lparr>cl_path := ?p, cl_size := length (on_disk w ?p)\<rparr>"
  have "initCoreLog mx os dir ?v = (fold (write_open mx os) (take 200 lines) w3)\<lparr>cl_backlog := []\<rparr>"
    unfolding v w3_def using assms(1,3,4,5) small
    by (simp add: initCoreLog_def Let_def)
  moreover have "cl_open w3" "cl_path w3 = ?p" "cl_size w3 = length (on_disk w ?p)" "on_disk w3 ?p = on_disk w ?p"
    by (simp_all add: w3_def open_append_def on_disk_def)
  ultimately show ?thesis
    using fold_write_fits [of os w3 "take 200 lines" mx] assms(6,7) by simp
qed

text \<open>a verbose level that comes alone (the filter of the log view) acts on the running core and is
  not stored: neither it nor a later change of other settings puts it into the store.\<close>

theorem verbose_filter_not_stored:
  assumes "sj_keys js filter_req = Some {''log-level''}" and "filter_req \<noteq> ''''"
    and "sj_merge js filter_req opts = Inr opts1" and "op_level opts1 \<in> {''debug'', ''trace''}"
    and "sj_keys js other_req = Some ks" and "''log-level'' \<notin> ks" and "other_req \<noteq> ''''"
    and "sj_merge js other_req opts1 = Inr opts2"
    and "cs_options s = Some opts" and "cs_persisted s = level" and "level \<noteq> ''''"
  shows "(let s1 = snd (ChangeInhiveSettings js filter_req True wr1 s);
              s2 = snd (ChangeInhiveSettings js other_req True True s1)
          in level_num (cs_level s1) \<le> level_num DEBUG \<and> cs_stored s1 = cs_stored s \<and>
             cs_stored s2 = Some (opts2\<lparr>op_level := level\<rparr>))"
proof -
  define s1 where "s1 = take_options js opts1 s"
  have s1: "cs_options s1 = Some opts1" "cs_persisted s1 = level" "cs_stored s1 = cs_stored s"
    "cs_level s1 = level_of_name (op_level opts1)"
    using assms(10) by (simp_all add: s1_def take_options_def applyLogLevelToLiveBox_def)
  have "log_level_only js filter_req" using assms(1,2) by (simp add: log_level_only_def level_in_request_def)
  then have r1: "snd (ChangeInhiveSettings js filter_req True wr1 s) = s1"
    using assms(2,3,4,9,10,11) by (simp add: ChangeInhiveSettings_def Let_def store_options_def s1_def)
  have "\<not> level_in_request js other_req" "\<not> log_level_only js other_req"
    using assms(5,6) by (simp_all add: log_level_only_def level_in_request_def)
  then have "cs_stored (snd (ChangeInhiveSettings js other_req True True s1)) = Some (opts2\<lparr>op_level := level\<rparr>)"
    using s1 assms(7,8,11)
    by (simp add: ChangeInhiveSettings_def Let_def store_options_def take_options_def applyLogLevelToLiveBox_def)
  moreover have "level_num (level_of_name (op_level opts1)) \<le> level_num DEBUG"
    using assms(4) by (auto simp: level_of_name_def)
  ultimately show ?thesis unfolding r1 Let_def using s1 by simp
qed

section \<open>Witnesses\<close>

definition calm_os :: os_calls where
  "calm_os = \<lparr>os_mkdir = True, os_rename = True, os_open = True, os_stat = True, os_write = True\<rparr>"

definition fresh_log :: core_log where
  "fresh_log = \<lparr>cl_open = True, cl_size = 0, cl_path = ''core.log'', cl_backlog = [], cl_disk = [''core.log'' \<mapsto> '''']\<rparr>"

definition fresh_state :: log_state where
  "fresh_state = \<lparr>lg_level = INFO, lg_file = fresh_log, lg_published = []\<rparr>"


theorem early_lines_kept_witness:
  "on_disk (initCoreLog 100 calm_os ''d'' (foldl (\<lambda>v l. coreLogAppend 100 calm_os l v)
     (fresh_log\<lparr>cl_open := False, cl_path := '''', cl_disk := Map.empty\<rparr>) [''a'', ''b''])) ''d/core.log'' = ''ab''"
  using early_lines_kept [of "fresh_log\<lparr>cl_open := False, cl_path := '''', cl_disk := Map.empty\<rparr>" calm_os "''d''" "[''a'', ''b'']" 100]
  by (simp add: fresh_log_def calm_os_def on_disk_def)

definition toy_json :: "bool settings_json" where
  "toy_json = \<lparr>sj_default = \<lparr>op_level = ''warn'', op_rest = False\<rparr>,
     sj_keys = (\<lambda>r. Some (if r = ''L'' then {''log-level''} else {''daita-enabled''})),
     sj_merge = (\<lambda>r x. Inr (if r = ''L'' then x\<lparr>op_level := ''debug''\<rparr> else x\<lparr>op_rest := True\<rparr>)), sj_known = (\<lambda>_. True)\<rparr>"

definition toy_settings :: "bool core_settings" where
  "toy_settings = \<lparr>cs_options = Some \<lparr>op_level = ''warn'', op_rest = False\<rparr>, cs_level = WARNING, cs_debug = False,
     cs_box_level = Some ''warn'', cs_persisted = ''warn'', cs_stored = None\<rparr>"

theorem verbose_filter_not_stored_witness:
  "cs_stored (snd (ChangeInhiveSettings toy_json ''O'' True True
      (snd (ChangeInhiveSettings toy_json ''L'' True True toy_settings)))) = Some \<lparr>op_level = ''warn'', op_rest = True\<rparr>"
  using verbose_filter_not_stored [of toy_json "''L''" "\<lparr>op_level = ''warn'', op_rest = False\<rparr>"
      "\<lparr>op_level = ''debug'', op_rest = False\<rparr>" "''O''" "{''daita-enabled''}" "\<lparr>op_level = ''debug'', op_rest = True\<rparr>"
      toy_settings "''warn''" True]
  by (simp add: toy_json_def toy_settings_def Let_def)

end
