(* ===== verification/Hot_Add.thy ===== *)
theory Hot_Add
  imports Convert Mode_Watcher "HOL-Library.AList"
begin

text \<open>
  Changing a running engine without a restart, \<open>AddOutbound\<close>, \<open>RemoveOutbound\<close>, \<open>SelectOutbound\<close> and
  \<open>UrlTestActive\<close> of \<open>hcore/commands.go\<close>, and what the status shows of it (\<open>readStatus\<close>,
  \<open>TrimTagName\<close>, \<open>currentActiveTransport\<close>). What is added is what the converter gives for a link. The
  managers of the engine are a parameter, the record \<open>engine_ops\<close>; what is known of them is
  \<open>engine_laws\<close>.
\<close>

section \<open>The engine\<close>

text \<open>An outbound or endpoint of the running engine: the tags it depends on and whether it is a
  selector or another group, with the tag it currently uses.\<close>

datatype live_kind = Server | Selector string | Other_Group string

record live =
  lv_deps :: "string list"
  lv_kind :: live_kind

datatype removal = Removed | Unknown_Tag | Remove_Failed string

record 'b engine_ops =
  en_find :: "'b \<Rightarrow> string \<Rightarrow> live option"
  en_outs :: "'b \<Rightarrow> (string \<times> live) list"
  en_ends :: "'b \<Rightarrow> (string \<times> live) list"
  en_members :: "'b \<Rightarrow> string \<Rightarrow> string set"
  en_create :: "outbound \<Rightarrow> 'b \<Rightarrow> string option \<times> 'b"
  en_create_end :: "endpoint \<Rightarrow> 'b \<Rightarrow> string option \<times> 'b"
  en_remove :: "string \<Rightarrow> 'b \<Rightarrow> removal \<times> 'b"
  en_remove_end :: "string \<Rightarrow> 'b \<Rightarrow> removal \<times> 'b"
  en_add_member :: "string \<Rightarrow> string \<Rightarrow> 'b \<Rightarrow> 'b"
  en_remove_member :: "string \<Rightarrow> string \<Rightarrow> 'b \<Rightarrow> 'b"
  en_select :: "string \<Rightarrow> string \<Rightarrow> 'b \<Rightarrow> bool \<times> 'b"

definition is_selector :: "live \<Rightarrow> bool" where
  "is_selector l = (case lv_kind l of Selector _ \<Rightarrow> True | _ \<Rightarrow> False)"

definition group_now :: "live \<Rightarrow> string option" where
  "group_now l = (case lv_kind l of Server \<Rightarrow> None | Selector now \<Rightarrow> Some now | Other_Group now \<Rightarrow> Some now)"

section \<open>What is added\<close>

definition systemTypes :: "string list" where
  "systemTypes = [''selector'', ''urltest'', ''direct'', ''block'', ''dns'']"

definition middle_dot :: string where
  "middle_dot = [CHR '' '', CHR 0xC2, CHR 0xB7, CHR '' '']"

definition helper_tag :: "string \<Rightarrow> string \<Rightarrow> string" where
  "helper_tag mainTag ty = mainTag @ middle_dot @ ty"

record hot_plan =
  hp_main :: string
  hp_outbounds :: "outbound list"
  hp_endpoints :: "endpoint list"

text \<open>The helper of the main outbound gets a tag of its own: the first of the others whose tag is the
  detour of the main one.\<close>

fun rename_helper :: "string \<Rightarrow> outbound \<Rightarrow> outbound list \<Rightarrow> outbound \<times> outbound list" where
  "rename_helper d main [] = (main, [])"
| "rename_helper d main (h # hs) =
     (if o_tag h = d then
        let ht = helper_tag (o_tag main) (o_type h) in (detour_out ht main, h\<lparr>o_tag := ht\<rparr> # hs)
      else let (m, hs') = rename_helper d main hs in (m, h # hs'))"

definition override_tag :: "string \<Rightarrow> string \<Rightarrow> string" where
  "override_tag override t = (if override = '''' then t else override)"

definition hot_add_plan :: "string \<Rightarrow> sb_options \<Rightarrow> hot_plan result" where
  "hot_add_plan override opts =
     (case filter (\<lambda>b. o_type b \<notin> set systemTypes) (sb_outbounds opts) of
        [] \<Rightarrow>
          (case sb_endpoints opts of
             [] \<Rightarrow> err ''add outbound: no usable outbound in content'' []
           | e # es \<Rightarrow>
               let t = override_tag override (e_tag e) in
               Inr \<lparr>hp_main = t, hp_outbounds = [], hp_endpoints = e\<lparr>e_tag := t\<rparr> # es\<rparr>)
      | b # bs \<Rightarrow>
          let t = override_tag override (o_tag b); d = do_detour (take_dialer (o_options b));
              (m, hs) = (if d = '''' then (b\<lparr>o_tag := t\<rparr>, bs) else rename_helper d (b\<lparr>o_tag := t\<rparr>) bs) in
          Inr \<lparr>hp_main = t, hp_outbounds = m # hs, hp_endpoints = sb_endpoints opts\<rparr>)"

section \<open>Adding\<close>

fun create_all :: "('a \<Rightarrow> 'b \<Rightarrow> string option \<times> 'b) \<Rightarrow> ('a \<Rightarrow> string) \<Rightarrow> string \<Rightarrow> 'a list \<Rightarrow> 'b \<Rightarrow> unit result \<times> 'b" where
  "create_all create tag what [] x = (Inr (), x)"
| "create_all create tag what (b # bs) x =
     (case create b x of
        (Some e, y) \<Rightarrow> (err what [tag b, e], y)
      | (None, y) \<Rightarrow> create_all create tag what bs y)"

fun join_selectors :: "'b engine_ops \<Rightarrow> string \<Rightarrow> string list \<Rightarrow> 'b \<Rightarrow> unit result \<times> 'b" where
  "join_selectors en t [] x = (Inr (), x)"
| "join_selectors en t (s # ss) x =
     (case en_find en x s of
        None \<Rightarrow> (err ''add outbound: selector not found: '' [s], x)
      | Some l \<Rightarrow>
          if \<not> is_selector l then (err ''add outbound: not a selector: '' [s], x)
          else join_selectors en t ss (en_add_member en s t x))"

definition run_plan :: "'b engine_ops \<Rightarrow> hot_plan \<Rightarrow> string list \<Rightarrow> 'b \<Rightarrow> string result \<times> 'b" where
  "run_plan en p selectors x =
     (case create_all (en_create en) o_tag ''add outbound: create '' (hp_outbounds p) x of
        (Inl e, x1) \<Rightarrow> (Inl e, x1)
      | (Inr _, x1) \<Rightarrow>
          (case create_all (en_create_end en) e_tag ''add outbound: create endpoint '' (hp_endpoints p) x1 of
             (Inl e, x2) \<Rightarrow> (Inl e, x2)
           | (Inr _, x2) \<Rightarrow>
               if en_find en x2 (hp_main p) = None
               then (err ''add outbound: created outbound vanished: '' [hp_main p], x2)
               else (case join_selectors en (hp_main p) selectors x2 of
                       (Inl e, x3) \<Rightarrow> (Inl e, x3)
                     | (Inr _, x3) \<Rightarrow> (Inr (hp_main p), x3))))"

text \<open>\<open>parsed\<close> is the result of \<open>ParseConfig\<close> for the content.\<close>

definition AddOutbound ::
  "'b engine_ops \<Rightarrow> sb_options result \<Rightarrow> string \<Rightarrow> string list \<Rightarrow> 'b option \<Rightarrow> string result \<times> 'b option" where
  "AddOutbound en parsed override selectors box =
     (case box of
        None \<Rightarrow> (err ''add outbound: core not started'' [], None)
      | Some x \<Rightarrow>
          (case bindE parsed (hot_add_plan override) of
             Inl e \<Rightarrow> (Inl e, Some x)
           | Inr p \<Rightarrow> (case run_plan en p selectors x of (r, y) \<Rightarrow> (r, Some y))))"

section \<open>Removing\<close>

definition outboundTagReferenced :: "(string \<times> live) list \<Rightarrow> (string \<times> live) list \<Rightarrow> string \<Rightarrow> bool" where
  "outboundTagReferenced outs ends tag = list_ex (\<lambda>(t, l). t \<noteq> tag \<and> tag \<in> set (lv_deps l)) (outs @ ends)"

definition helpers_of :: "'b engine_ops \<Rightarrow> string \<Rightarrow> 'b \<Rightarrow> string list" where
  "helpers_of en tag x =
     (case en_find en x tag of
        None \<Rightarrow> [] | Some l \<Rightarrow> filter (\<lambda>d. has_prefix d (tag @ middle_dot)) (lv_deps l))"

definition leave_selectors :: "'b engine_ops \<Rightarrow> string \<Rightarrow> 'b \<Rightarrow> 'b" where
  "leave_selectors en tag x =
     fold (\<lambda>(s, l) y. if is_selector l then en_remove_member en s tag y else y) (en_outs en x) x"

definition remove_one :: "'b engine_ops \<Rightarrow> string \<Rightarrow> 'b \<Rightarrow> removal \<times> 'b" where
  "remove_one en tag x =
     (case en_remove en tag x of (Unknown_Tag, y) \<Rightarrow> en_remove_end en tag y | ry \<Rightarrow> ry)"

definition remove_helper :: "'b engine_ops \<Rightarrow> string \<Rightarrow> 'b \<Rightarrow> 'b" where
  "remove_helper en h x =
     (if outboundTagReferenced (en_outs en x) (en_ends en x) h then x else snd (en_remove en h x))"

definition RemoveOutbound :: "'b engine_ops \<Rightarrow> string \<Rightarrow> 'b option \<Rightarrow> string option \<times> 'b option" where
  "RemoveOutbound en tag box =
     (case box of
        None \<Rightarrow> (Some ''remove outbound: core not started'', None)
      | Some x \<Rightarrow>
          (case remove_one en tag (leave_selectors en tag x) of
             (Unknown_Tag, y) \<Rightarrow> (Some ''invalid argument'', Some y)
           | (Remove_Failed m, y) \<Rightarrow> (Some m, Some y)
           | (Removed, y) \<Rightarrow> (None, Some (fold (remove_helper en) (helpers_of en tag x) y))))"

section \<open>Selecting and testing\<close>

definition SelectOutbound :: "'b engine_ops \<Rightarrow> string \<Rightarrow> string \<Rightarrow> 'b option \<Rightarrow> string option \<times> 'b option" where
  "SelectOutbound en gtag otag box =
     (case box of
        None \<Rightarrow> (None, None)
      | Some x \<Rightarrow>
          (case en_find en x gtag of
             None \<Rightarrow> (Some (''selector not found: '' @ gtag), Some x)
           | Some l \<Rightarrow>
               if \<not> is_selector l then (Some (''outbound is not a selector: '' @ gtag), Some x)
               else (case en_select en gtag otag x of
                       (True, y) \<Rightarrow> (None, Some y)
                     | (False, y) \<Rightarrow> (Some (''outbound not found in selector: '' @ gtag), Some y))))"

definition OutboundSelectTag :: string where
  "OutboundSelectTag = ''select''"

text \<open>The member a group tests or dials through, one group further when the member is a group.\<close>

definition through :: "'b engine_ops \<Rightarrow> 'b \<Rightarrow> string \<Rightarrow> string" where
  "through en x now =
     (case en_find en x now of
        None \<Rightarrow> now
      | Some l \<Rightarrow> (case group_now l of None \<Rightarrow> now | Some n2 \<Rightarrow> if n2 = '''' then now else n2))"

text \<open>The tag whose test \<open>UrlTestActive\<close> starts; none when the core is not running.\<close>

definition UrlTestActive :: "'b engine_ops \<Rightarrow> 'b option \<Rightarrow> string option result" where
  "UrlTestActive en box =
     (case box of
        None \<Rightarrow> Inr None
      | Some x \<Rightarrow>
          (case en_find en x OutboundSelectTag of
             None \<Rightarrow> err ''selector not found: '' [OutboundSelectTag]
           | Some l \<Rightarrow>
               (case group_now l of
                  None \<Rightarrow> err ''outbound is not a selector: '' [OutboundSelectTag]
                | Some now \<Rightarrow>
                    if now = '''' then err ''outbound not found in selector: '' [OutboundSelectTag]
                    else Inr (Some (through en x now)))))"

definition UrlTest :: "'b engine_ops \<Rightarrow> string \<Rightarrow> 'b option \<Rightarrow> string option result" where
  "UrlTest en tag box =
     (if tag = '''' then UrlTestActive en box
      else case box of None \<Rightarrow> err ''service not ready'' [] | Some x \<Rightarrow> Inr (Some tag))"


section \<open>What the status shows\<close>

definition section_mark :: string where
  "section_mark = [CHR 0xC2, CHR 0xA7]"

text \<open>The name of a tag without the number the converter gave it.\<close>

definition TrimTagName :: "string \<Rightarrow> string" where
  "TrimTagName tag = trim_set (hd (split_str tag section_mark)) '' ''"

definition currentActiveTransport :: "'b engine_ops \<Rightarrow> 'b option \<Rightarrow> string" where
  "currentActiveTransport en box =
     (case box of
        None \<Rightarrow> ''''
      | Some x \<Rightarrow>
          (case en_find en x OutboundSelectTag of
             None \<Rightarrow> ''''
           | Some l \<Rightarrow> (case group_now l of None \<Rightarrow> '''' | Some now \<Rightarrow> TrimTagName (through en x now))))"

definition arrow :: string where
  "arrow = [CHR 0xE2, CHR 0x86, CHR 0x92]"

definition current_outbound :: "'b engine_ops \<Rightarrow> 'b \<Rightarrow> string" where
  "current_outbound en x =
     (let current = (case en_find en x OutboundSelectTag of
                       None \<Rightarrow> None
                     | Some l \<Rightarrow> (case lv_kind l of Selector now \<Rightarrow> Some now | _ \<Rightarrow> None));
          shown = (case current of None \<Rightarrow> '''' | Some c \<Rightarrow> TrimTagName c) in
      case en_find en x (case current of None \<Rightarrow> '''' | Some c \<Rightarrow> c) of
        None \<Rightarrow> shown
      | Some l \<Rightarrow>
          (case group_now l of
             None \<Rightarrow> shown
           | Some now \<Rightarrow> if now = '''' then shown else shown @ arrow @ TrimTagName now))"

record system_info =
  si_downlink_total :: int
  si_uplink_total :: int
  si_downlink :: int
  si_uplink :: int
  si_outbound :: string
  si_outbound_down :: bool
  si_profile :: string

definition system_info_zero :: system_info where
  "system_info_zero = \<lparr>si_downlink_total = 0, si_uplink_total = 0, si_downlink = 0, si_uplink = 0,
     si_outbound = '''', si_outbound_down = False, si_profile = ''''\<rparr>"

definition live_lookup :: "'b engine_ops \<Rightarrow> 'b \<Rightarrow> lookup" where
  "live_lookup en x t =
     map_option (\<lambda>l. case group_now l of None \<Rightarrow> Plain | Some now \<Rightarrow> Group now) (en_find en x t)"

text \<open>\<open>traffic\<close> are the byte counts of the running service (none when it is not running), \<open>degraded\<close> the
  health of an outbound as the connection manager, if there is one, sees it.\<close>

definition readStatus ::
  "'b engine_ops \<Rightarrow> (string \<Rightarrow> bool) option \<Rightarrow> (int \<times> int) option \<Rightarrow> 'b option \<Rightarrow> system_info option \<Rightarrow> inhive \<Rightarrow>
     system_info \<times> inhive" where
  "readStatus en degraded traffic box prev i =
     (case traffic of
        None \<Rightarrow> (system_info_zero, i)
      | Some (down, up) \<Rightarrow>
          let real = (case box of None \<Rightarrow> '''' | Some x \<Rightarrow> resolveRealOutboundTag (Some (live_lookup en x)) OutboundSelectTag);
              m = system_info_zero\<lparr>si_downlink_total := down, si_uplink_total := up,
                    si_downlink := (case prev of None \<Rightarrow> 0 | Some p \<Rightarrow> wrap_duration (down - si_downlink_total p)),
                    si_uplink := (case prev of None \<Rightarrow> 0 | Some p \<Rightarrow> wrap_duration (up - si_uplink_total p)),
                    si_outbound := (case box of None \<Rightarrow> '''' | Some x \<Rightarrow> current_outbound en x),
                    si_outbound_down := (case degraded of None \<Rightarrow> False | Some f \<Rightarrow> real \<noteq> '''' \<and> f real)\<rparr>
          in case prev of
               Some p \<Rightarrow>
                 if si_profile p = '''' \<or> up < 1000000
                 then let (v, i1) = cachedLastStartRequestName i in (m\<lparr>si_profile := v\<rparr>, i1)
                 else (m\<lparr>si_profile := si_profile p\<rparr>, i)
             | None \<Rightarrow> let (v, i1) = cachedLastStartRequestName i in (m\<lparr>si_profile := v\<rparr>, i1))"

section \<open>What the engine promises\<close>

text \<open>A selector as \<open>Some None\<close>, anything else with its dependencies; which member a selector currently
  uses is left out.\<close>

definition en_view :: "'b engine_ops \<Rightarrow> 'b \<Rightarrow> string \<Rightarrow> string list option option" where
  "en_view en x t = map_option (\<lambda>l. if is_selector l then None else Some (lv_deps l)) (en_find en x t)"

definition end_tags :: "'b engine_ops \<Rightarrow> 'b \<Rightarrow> string set" where
  "end_tags en x = fst ` set (en_ends en x)"

definition detours :: "outbound \<Rightarrow> string list" where
  "detours b = (let d = do_detour (take_dialer (o_options b)) in if d = '''' then [] else [d])"

definition depended :: "'b engine_ops \<Rightarrow> 'b \<Rightarrow> string \<Rightarrow> bool" where
  "depended en x t \<longleftrightarrow> (\<exists>s l. en_find en x s = Some l \<and> t \<in> set (lv_deps l))"

text \<open>
  The managers: what is found is what is listed; a selector is an outbound and depends on nothing but
  its members; creating registers the outbound under its tag with its detour; membership changes
  nothing else; an outbound nothing depends on can be removed.
\<close>

definition list_law :: "'b engine_ops \<Rightarrow> bool" where
  "list_law en \<longleftrightarrow>
     (\<forall>x t l. en_find en x t = Some l \<longleftrightarrow> (t, l) \<in> set (en_outs en x) \<union> set (en_ends en x)) \<and>
     (\<forall>x t l. en_find en x t = Some l \<longrightarrow> is_selector l \<longrightarrow>
        (t, l) \<in> set (en_outs en x) \<and> set (lv_deps l) \<subseteq> en_members en x t)"

definition create_law :: "'b engine_ops \<Rightarrow> bool" where
  "create_law en \<longleftrightarrow>
     (\<forall>x b y. en_create en b x = (None, y) \<longrightarrow>
        en_view en y = (en_view en x)(o_tag b \<mapsto> Some (detours b)) \<and> en_members en y = en_members en x \<and>
        end_tags en y = end_tags en x)"

definition member_law :: "'b engine_ops \<Rightarrow> bool" where
  "member_law en \<longleftrightarrow>
     (\<forall>x s t. en_view en x s = Some None \<longrightarrow>
        en_view en (en_add_member en s t x) = en_view en x \<and> end_tags en (en_add_member en s t x) = end_tags en x \<and>
        en_members en (en_add_member en s t x) = (en_members en x)(s := insert t (en_members en x s)) \<and>
        en_view en (en_remove_member en s t x) = en_view en x \<and> end_tags en (en_remove_member en s t x) = end_tags en x \<and>
        en_members en (en_remove_member en s t x) = (en_members en x)(s := en_members en x s - {t}))"

definition remove_law :: "'b engine_ops \<Rightarrow> bool" where
  "remove_law en \<longleftrightarrow>
     (\<forall>x t. en_find en x t \<noteq> None \<longrightarrow> t \<notin> end_tags en x \<longrightarrow> \<not> depended en x t \<longrightarrow>
        (\<exists>y. en_remove en t x = (Removed, y) \<and> en_view en y = (en_view en x)(t := None) \<and>
             en_members en y = en_members en x \<and> end_tags en y = end_tags en x))"

definition engine_laws :: "'b engine_ops \<Rightarrow> bool" where
  "engine_laws en \<longleftrightarrow> list_law en \<and> create_law en \<and> member_law en \<and> remove_law en"

section \<open>Facts\<close>

lemma en_view_find:
  "en_view en x t = None \<longleftrightarrow> en_find en x t = None"
  "en_view en x t = Some None \<longleftrightarrow> (\<exists>l. en_find en x t = Some l \<and> is_selector l)"
  "en_view en x t = Some (Some ds) \<longleftrightarrow> (\<exists>l. en_find en x t = Some l \<and> \<not> is_selector l \<and> lv_deps l = ds)"
  by (auto simp: en_view_def)

lemma create_all_view:
  assumes "create_law en" and "create_all (en_create en) o_tag w bs x = (Inr u, y)"
  shows "en_view en y = fold (\<lambda>b v. v(o_tag b \<mapsto> Some (detours b))) bs (en_view en x) \<and>
    en_members en y = en_members en x \<and> end_tags en y = end_tags en x"
  using assms(2)
proof (induction bs arbitrary: x)
  case (Cons b bs)
  then obtain z where z: "en_create en b x = (None, z)" "create_all (en_create en) o_tag w bs z = (Inr u, y)"
    by (auto split: prod.splits option.splits)
  with assms(1) have "en_view en z = (en_view en x)(o_tag b \<mapsto> Some (detours b))"
    "en_members en z = en_members en x" "end_tags en z = end_tags en x"
    unfolding create_law_def by blast+
  with Cons.IH [OF z(2)] show ?case by simp
qed simp

lemma join_selectors_view:
  assumes "member_law en" and "join_selectors en t ss x = (r, y)"
  shows "en_view en y = en_view en x \<and> end_tags en y = end_tags en x \<and>
    (\<forall>s. en_members en x s \<subseteq> en_members en y s \<and> en_members en y s \<subseteq> insert t (en_members en x s)) \<and>
    (\<forall>s. en_members en y s \<noteq> en_members en x s \<longrightarrow> en_view en x s = Some None)"
  using assms(2)
proof (induction ss arbitrary: x)
  case (Cons s ss)
  show ?case
  proof (cases "\<exists>l. en_find en x s = Some l \<and> is_selector l")
    case True
    then have v: "en_view en x s = Some None" by (simp add: en_view_find)
    let ?z = "en_add_member en s t x"
    from v assms(1) have z: "en_view en ?z = en_view en x" "end_tags en ?z = end_tags en x"
      "en_members en ?z = (en_members en x)(s := insert t (en_members en x s))"
      unfolding member_law_def by blast+
    from True Cons.prems have "join_selectors en t ss ?z = (r, y)" by auto
    from Cons.IH [OF this] v show ?thesis unfolding z by (auto split: if_splits)
  next
    case False
    with Cons.prems have "y = x" by (auto split: option.splits if_splits)
    then show ?thesis by blast
  qed
qed auto

lemma leave_view:
  assumes "member_law en" and "\<forall>(s, l) \<in> set ls. is_selector l \<longrightarrow> en_view en x s = Some None"
    and "y = fold (\<lambda>(s, l) y. if is_selector l then en_remove_member en s t y else y) ls x"
  shows "en_view en y = en_view en x \<and> end_tags en y = end_tags en x \<and>
    (\<forall>s. en_members en y s = (if \<exists>l. (s, l) \<in> set ls \<and> is_selector l then en_members en x s - {t} else en_members en x s))"
  using assms(2,3)
proof (induction ls arbitrary: x)
  case (Cons p ls)
  obtain s l where p: "p = (s, l)" by (cases p)
  show ?case
  proof (cases "is_selector l")
    case True
    let ?z = "en_remove_member en s t x"
    from True Cons.prems(1) p have v: "en_view en x s = Some None" by simp
    with assms(1) have z: "en_view en ?z = en_view en x" "end_tags en ?z = end_tags en x"
      "en_members en ?z = (en_members en x)(s := en_members en x s - {t})"
      unfolding member_law_def by blast+
    have "\<forall>(s, l) \<in> set ls. is_selector l \<longrightarrow> en_view en ?z s = Some None" using Cons.prems(1) z(1) by auto
    from Cons.IH [OF this] Cons.prems(2) p True show ?thesis unfolding z by auto
  next
    case False
    with Cons.IH [of x] Cons.prems p show ?thesis by auto
  qed
qed simp


lemma not_depended:
  assumes "list_law en" and "\<forall>s ds. en_view en x s = Some (Some ds) \<longrightarrow> t \<notin> set ds"
    and "\<forall>s. t \<notin> en_members en x s"
  shows "\<not> depended en x t" and "\<not> outboundTagReferenced (en_outs en x) (en_ends en x) t"
proof -
  have no: "t \<notin> set (lv_deps l)" if l: "en_find en x s = Some l" for s l
  proof (cases "is_selector l")
    case True
    with assms(1) l have "set (lv_deps l) \<subseteq> en_members en x s" unfolding list_law_def by blast
    with assms(3) show ?thesis by blast
  next
    case False
    with l have "en_view en x s = Some (Some (lv_deps l))" by (simp add: en_view_find)
    with assms(2) show ?thesis by blast
  qed
  then show "\<not> depended en x t" by (auto simp: depended_def)
  have "en_find en x s = Some l" if "(s, l) \<in> set (en_outs en x) \<union> set (en_ends en x)" for s l
    using assms(1) that unfolding list_law_def by blast
  with no show "\<not> outboundTagReferenced (en_outs en x) (en_ends en x) t"
    by (fastforce simp: outboundTagReferenced_def list_ex_iff)
qed

text \<open>Removing a tag nothing depends on.\<close>

lemma remove_free:
  assumes "engine_laws en" and "en_view en x t \<noteq> None" "t \<notin> end_tags en x"
    and "\<forall>s ds. en_view en x s = Some (Some ds) \<longrightarrow> t \<notin> set ds" and "\<forall>s. t \<notin> en_members en x s"
  obtains y where "en_remove en t x = (Removed, y)" "en_view en y = (en_view en x)(t := None)"
    "en_members en y = en_members en x" "end_tags en y = end_tags en x"
proof -
  from assms(1) have l: "list_law en" "remove_law en" by (simp_all add: engine_laws_def)
  have "\<not> depended en x t" by (rule not_depended [OF l(1) assms(4,5)])
  moreover have "en_find en x t \<noteq> None" using assms(2) by (simp add: en_view_find)
  ultimately show ?thesis using that l(2) assms(3) unfolding remove_law_def by blast
qed

text \<open>What the converter gives for a link of one hop: an outbound that dials directly, or a main
  outbound with the helper it dials through.\<close>

definition one_hop :: "sb_options \<Rightarrow> bool" where
  "one_hop opts \<longleftrightarrow>
     sb_endpoints opts = [] \<and> (\<forall>b \<in> set (sb_outbounds opts). o_type b \<notin> set systemTypes) \<and>
     ((\<exists>m. sb_outbounds opts = [m] \<and> detours m = []) \<or>
      (\<exists>m h. sb_outbounds opts = [m, h] \<and> detours m = [o_tag h] \<and> detours h = []))"

lemma one_hop_single:
  "o_type b \<notin> set systemTypes \<Longrightarrow> cs_outs st = cs_outs (add_outbound b conv_init) \<Longrightarrow>
     one_hop \<lparr>sb_outbounds = cs_outs st, sb_endpoints = []\<rparr>"
  by (simp add: one_hop_def add_outbound_def conv_init_def Let_def detours_def)

lemma one_hop_pair:
  "o_type b \<notin> set systemTypes \<Longrightarrow> o_type h \<notin> set systemTypes \<Longrightarrow> cs_outs st = cs_outs (add_pair b h conv_init) \<Longrightarrow>
     one_hop \<lparr>sb_outbounds = cs_outs st, sb_endpoints = []\<rparr>"
  by (simp add: one_hop_def add_pair_def conv_init_def Let_def detours_def)

lemma detour_out_detours [simp]: "detours (detour_out t b) = (if t = '''' then [] else [t])"
  by (simp add: detours_def)

lemma detours_tag [simp]: "detours (b\<lparr>o_tag := t\<rparr>) = detours b"
  by (simp add: detours_def)

lemma helper_tag_ne [simp]: "helper_tag t ty \<noteq> ''''" "helper_tag t ty \<noteq> t" "t \<noteq> helper_tag t ty"
  by (auto simp: helper_tag_def middle_dot_def)

lemma helper_tag_prefix [simp]: "has_prefix (helper_tag t ty) (t @ middle_dot)"
  unfolding helper_tag_def by (metis append.assoc has_prefix_append)

text \<open>The plan of such a link: the main outbound under its tag, and the helper, if there is one, under
  a tag derived from it, which is what the main outbound dials through.\<close>

lemma one_hop_plan:
  assumes "one_hop opts" and "hot_add_plan override opts = Inr p"
  shows "hp_endpoints p = []"
    and "(\<exists>m. hp_outbounds p = [m] \<and> o_tag m = hp_main p \<and> detours m = []) \<or>
      (\<exists>m h ht. hp_outbounds p = [m, h] \<and> o_tag m = hp_main p \<and> detours m = [ht] \<and> o_tag h = ht \<and> detours h = [] \<and>
         has_prefix ht (hp_main p @ middle_dot) \<and> ht \<noteq> hp_main p)"
proof -
  from assms(1) have f: "filter (\<lambda>b. o_type b \<notin> set systemTypes) (sb_outbounds opts) = sb_outbounds opts"
    and e: "sb_endpoints opts = []"
    by (auto simp: one_hop_def intro: filter_True)
  consider (single) m where "sb_outbounds opts = [m]" "detours m = []"
    | (pair) m h where "sb_outbounds opts = [m, h]" "detours m = [o_tag h]" "detours h = []"
    using assms(1) unfolding one_hop_def by blast
  then have "hp_endpoints p = [] \<and>
     ((\<exists>m. hp_outbounds p = [m] \<and> o_tag m = hp_main p \<and> detours m = []) \<or>
      (\<exists>m h ht. hp_outbounds p = [m, h] \<and> o_tag m = hp_main p \<and> detours m = [ht] \<and> o_tag h = ht \<and> detours h = [] \<and>
         has_prefix ht (hp_main p @ middle_dot) \<and> ht \<noteq> hp_main p))"
  proof cases
    case single
    then have "do_detour (take_dialer (o_options m)) = ''''" by (simp add: detours_def Let_def split: if_splits)
    with assms(2) single e f show ?thesis by (auto simp: hot_add_plan_def Let_def)
  next
    case pair
    then have d: "do_detour (take_dialer (o_options m)) = o_tag h" "o_tag h \<noteq> ''''"
      by (auto simp: detours_def Let_def split: if_splits)
    let ?t = "override_tag override (o_tag m)" and ?ht = "helper_tag (override_tag override (o_tag m)) (o_type h)"
    have "p = \<lparr>hp_main = ?t, hp_outbounds = [detour_out ?ht (m\<lparr>o_tag := ?t\<rparr>), h\<lparr>o_tag := ?ht\<rparr>], hp_endpoints = []\<rparr>"
      using assms(2) e d by (simp add: hot_add_plan_def trans [OF f pair(1)] Let_def)
    with pair(3) show ?thesis by simp
  qed
  then show "hp_endpoints p = []"
    and "(\<exists>m. hp_outbounds p = [m] \<and> o_tag m = hp_main p \<and> detours m = []) \<or>
      (\<exists>m h ht. hp_outbounds p = [m, h] \<and> o_tag m = hp_main p \<and> detours m = [ht] \<and> o_tag h = ht \<and> detours h = [] \<and>
         has_prefix ht (hp_main p @ middle_dot) \<and> ht \<noteq> hp_main p)"
    by blast+
qed


text \<open>The tag and everything derived from it is new to the engine.\<close>

definition fresh_tag :: "'b engine_ops \<Rightarrow> 'b \<Rightarrow> string \<Rightarrow> bool" where
  "fresh_tag en x t \<longleftrightarrow>
     (\<forall>u. u = t \<or> has_prefix u (t @ middle_dot) \<longrightarrow>
        en_find en x u = None \<and> (\<forall>s. u \<notin> en_members en x s) \<and> \<not> depended en x u)"

lemma fresh_view:
  assumes "fresh_tag en x t" and "u = t \<or> has_prefix u (t @ middle_dot)"
  shows "en_view en x u = None" "u \<notin> en_members en x s" "en_view en x s = Some (Some ds) \<Longrightarrow> u \<notin> set ds"
proof -
  from assms(1) [unfolded fresh_tag_def, rule_format, OF assms(2)]
  have f: "en_find en x u = None" "u \<notin> en_members en x s" "\<not> depended en x u"
    by auto
  then show "en_view en x u = None" "u \<notin> en_members en x s" by (simp_all add: en_view_find)
  show "u \<notin> set ds" if "en_view en x s = Some (Some ds)"
    using that f(3) by (auto simp: en_view_find depended_def)
qed

lemma run_plan_parts:
  assumes "hp_endpoints p = []" and "run_plan en p sels x = (Inr t, y)"
  obtains z u v where "create_all (en_create en) o_tag ''add outbound: create '' (hp_outbounds p) x = (Inr u, z)"
    "join_selectors en (hp_main p) sels z = (v, y)" "t = hp_main p"
proof (cases "create_all (en_create en) o_tag ''add outbound: create '' (hp_outbounds p) x")
  case (Pair r z)
  show ?thesis
  proof (cases r)
    case (Inl e)
    with Pair assms(2) show ?thesis by (simp add: run_plan_def)
  next
    case (Inr u)
    obtain v w where j: "join_selectors en (hp_main p) sels z = (v, w)" by (rule prod.exhaust)
    have "(case v of Inl e \<Rightarrow> (Inl e, w) | Inr _ \<Rightarrow> (Inr (hp_main p), w)) = (Inr t, y)"
      using assms(2) by (simp add: run_plan_def assms(1) Pair Inr j err_def split: if_splits)
    then have "w = y" "t = hp_main p" by (auto split: sum.splits)
    with that [of u z v] Pair Inr j show ?thesis by simp
  qed
qed

lemma run_plan_view:
  assumes "engine_laws en" and "hp_endpoints p = []" and "run_plan en p sels x = (Inr t, y)"
  shows "t = hp_main p"
    and "en_view en y = fold (\<lambda>b v. v(o_tag b \<mapsto> Some (detours b))) (hp_outbounds p) (en_view en x)"
    and "end_tags en y = end_tags en x"
    and "en_members en x s \<subseteq> en_members en y s" "en_members en y s \<subseteq> insert t (en_members en x s)"
    and "en_members en y s \<noteq> en_members en x s \<Longrightarrow> en_view en y s = Some None"
proof -
  from assms(1) have laws: "create_law en" "member_law en" by (simp_all add: engine_laws_def)
  from assms(2,3) obtain z u v where z: "create_all (en_create en) o_tag ''add outbound: create '' (hp_outbounds p) x = (Inr u, z)"
    "join_selectors en (hp_main p) sels z = (v, y)" "t = hp_main p"
    by (rule run_plan_parts)
  from create_all_view [OF laws(1) z(1)] join_selectors_view [OF laws(2) z(2)] z(3)
  show "t = hp_main p"
    and "en_view en y = fold (\<lambda>b v. v(o_tag b \<mapsto> Some (detours b))) (hp_outbounds p) (en_view en x)"
    and "end_tags en y = end_tags en x"
    and "en_members en x s \<subseteq> en_members en y s" "en_members en y s \<subseteq> insert t (en_members en x s)"
    and "en_members en y s \<noteq> en_members en x s \<Longrightarrow> en_view en y s = Some None"
    by auto
qed

text \<open>After leaving the selectors the members are those from before the add.\<close>

lemma leave_selectors_view:
  assumes laws: "engine_laws en" and t: "t \<notin> en_members en x s"
    and m: "en_members en x s \<subseteq> en_members en y s" "en_members en y s \<subseteq> insert t (en_members en x s)"
      "en_members en y s \<noteq> en_members en x s \<Longrightarrow> en_view en y s = Some None"
  shows "en_members en (leave_selectors en t y) s = en_members en x s"
    and "en_view en (leave_selectors en t y) = en_view en y" "end_tags en (leave_selectors en t y) = end_tags en y"
proof -
  from laws have l: "list_law en" "member_law en" by (simp_all add: engine_laws_def)
  have "\<forall>(s, l) \<in> set (en_outs en y). is_selector l \<longrightarrow> en_view en y s = Some None"
    using l(1) unfolding list_law_def en_view_find by blast
  note v = leave_view [OF l(2) this refl, of t, folded leave_selectors_def]
  from v show "en_view en (leave_selectors en t y) = en_view en y" "end_tags en (leave_selectors en t y) = end_tags en y"
    by simp_all
  have sel: "\<exists>l. (s, l) \<in> set (en_outs en y) \<and> is_selector l" if "en_view en y s = Some None"
    using that l(1) unfolding list_law_def en_view_find by blast
  show "en_members en (leave_selectors en t y) s = en_members en x s"
  proof (cases "en_members en y s = en_members en x s")
    case True
    then show ?thesis using v t by auto
  next
    case False
    from sel [OF m(3) [OF False]] have "en_members en (leave_selectors en t y) s = en_members en y s - {t}"
      using v by auto
    with m(1,2) t show ?thesis by blast
  qed
qed

text \<open>A tag of the engine as it was before is not an endpoint's.\<close>

lemma fresh_not_end: "list_law en \<Longrightarrow> en_view en x t = None \<Longrightarrow> t \<notin> end_tags en x"
  unfolding list_law_def end_tags_def en_view_find by fastforce

section \<open>Properties\<close>

text \<open>C27: adding a link of one hop under a tag that is new to the engine and removing it again leaves the
  engine as it was: the same outbounds and endpoints with the same dependencies, the helper of a
  pair included, and the same members in every selector.\<close>

theorem hot_add_then_remove:
  assumes "engine_laws en" and "one_hop opts" and "fresh_tag en x t"
    and "AddOutbound en (Inr opts) override sels (Some x) = (Inr t, Some y)"
  shows "\<exists>z. RemoveOutbound en t (Some y) = (None, Some z) \<and> en_view en z = en_view en x \<and> en_members en z = en_members en x"
proof -
  from assms(4) obtain p where p: "hot_add_plan override opts = Inr p" "run_plan en p sels x = (Inr t, y)"
    by (auto simp: AddOutbound_def split: sum.splits prod.splits)
  note plan = one_hop_plan [OF assms(2) p(1)]
  note run = run_plan_view [OF assms(1) plan(1) p(2)]
  from assms(1) have l: "list_law en" by (simp add: engine_laws_def)
  have new: "en_view en x u = None" "u \<notin> en_members en x s" "u \<notin> end_tags en x"
    "en_view en x s = Some (Some ds) \<Longrightarrow> u \<notin> set ds"
    if "u = t \<or> has_prefix u (t @ middle_dot)" for u s ds
    using fresh_view [OF assms(3) that] fresh_not_end [OF l] by blast+
  let ?w = "leave_selectors en t y"
  have w: "en_members en ?w = en_members en x" "en_view en ?w = en_view en y" "end_tags en ?w = end_tags en x"
    using leave_selectors_view [OF assms(1) new(2) run(4,5,6)] run(3) by auto
  from plan(2) consider
      (single) m where "hp_outbounds p = [m]" "o_tag m = t" "detours m = []"
    | (pair) m h where "hp_outbounds p = [m, h]" "o_tag m = t" "detours m = [o_tag h]" "detours h = []"
        "has_prefix (o_tag h) (t @ middle_dot)" "o_tag h \<noteq> t"
    using run(1) by blast
  then show ?thesis
  proof cases
    case single
    then have v: "en_view en ?w = (en_view en x)(t \<mapsto> Some [])" using w(2) run(2) by simp
    obtain z where z: "en_remove en t ?w = (Removed, z)" "en_view en z = (en_view en ?w)(t := None)"
      "en_members en z = en_members en ?w"
      by (rule remove_free [OF assms(1), of ?w t]) (use v w new in \<open>auto split: if_splits\<close>)
    have "en_find en y t = Some l \<Longrightarrow> lv_deps l = []" for l
      using v w(2) en_view_find(3) [of en y t "[]"] by auto
    then have "helpers_of en t y = []" by (auto simp: helpers_of_def split: option.splits)
    with z v w new(1) show ?thesis by (auto simp: RemoveOutbound_def remove_one_def)
  next
    case pair
    let ?h = "o_tag h"
    have v: "en_view en ?w = (en_view en x)(t \<mapsto> Some [?h], ?h \<mapsto> Some [])" using pair w(2) run(2) by simp
    obtain z where z: "en_remove en t ?w = (Removed, z)" "en_view en z = (en_view en ?w)(t := None)"
      "en_members en z = en_members en ?w" "end_tags en z = end_tags en ?w"
      by (rule remove_free [OF assms(1), of ?w t]) (use v w new pair in \<open>auto split: if_splits\<close>)
    have vz: "en_view en z = (en_view en x)(?h \<mapsto> Some [])" using z(2) v new(1) [of t] pair(6) by (auto simp: fun_eq_iff)
    have dep: "\<forall>s ds. en_view en z s = Some (Some ds) \<longrightarrow> ?h \<notin> set ds" "\<forall>s. ?h \<notin> en_members en z s"
      using new pair(5) z(3) w(1) unfolding vz by (auto split: if_splits)
    obtain z' where z': "en_remove en ?h z = (Removed, z')" "en_view en z' = (en_view en z)(?h := None)"
      "en_members en z' = en_members en z"
      by (rule remove_free [OF assms(1), of z ?h]) (use vz dep z(4) w(3) new pair(5) in auto)
    have "en_find en y t = Some l \<Longrightarrow> lv_deps l = [?h]" for l
      using v w(2) pair(6) en_view_find(3) [of en y t "[?h]"] by auto
    moreover have "en_find en y t \<noteq> None" using v w(2) pair(6) en_view_find(1) [of en y t] by auto
    ultimately have "helpers_of en t y = [?h]" using pair(5) by (auto simp: helpers_of_def)
    moreover have "remove_helper en ?h z = z'" using not_depended(2) [OF l dep] z'(1) by (simp add: remove_helper_def)
    ultimately have "RemoveOutbound en t (Some y) = (None, Some z')" using z(1) by (simp add: RemoveOutbound_def remove_one_def)
    moreover have "en_view en z' = en_view en x" using z'(2) vz new(1) [of ?h] pair(5) by (auto simp: fun_eq_iff)
    ultimately show ?thesis using z'(3) z(3) w(1) by simp
  qed
qed



text \<open>an add that names a selector the engine does not have fails, but only after the outbound was
  created: the outbound stays in the engine under its tag, in none of the selectors named after.\<close>

theorem failed_add_stays:
  assumes "engine_laws en" and "one_hop opts" and "hot_add_plan override opts = Inr p"
    and "create_all (en_create en) o_tag ''add outbound: create '' (hp_outbounds p) x = (Inr u, z)"
    and "en_find en z s = None"
  shows "\<exists>e. AddOutbound en (Inr opts) override (s # ss) (Some x) = (Inl e, Some z) \<and>
    en_find en z (hp_main p) \<noteq> None"
proof -
  note plan = one_hop_plan [OF assms(2,3)]
  from assms(1) have l: "create_law en" by (simp add: engine_laws_def)
  have "en_view en z (hp_main p) \<noteq> None"
    using create_all_view [OF l assms(4)] plan(2) by auto
  then have "en_find en z (hp_main p) \<noteq> None" by (simp add: en_view_find)
  with assms(3,4,5) plan(1) show ?thesis
    by (simp add: AddOutbound_def run_plan_def err_def)
qed

lemma index_section_mark:
  "CHR 0xA7 \<notin> set a \<Longrightarrow> str_index (a @ section_mark @ b) section_mark = Some (length a)"
proof (induction a)
  case (Cons c a)
  have "\<not> has_prefix ((c # a) @ section_mark @ b) section_mark"
    using Cons.prems by (cases a) (auto simp: section_mark_def)
  with Cons show ?case by simp
qed (simp add: section_mark_def)

text \<open>The name shown for an outbound of the converter is the name of its link.\<close>

lemma TrimTagName_numbered:
  assumes "CHR 0xA7 \<notin> set t"
  shows "TrimTagName (numbered t n) = trim_set (t @ '' '') '' ''"
proof -
  have "numbered t n = (t @ '' '') @ section_mark @ ('' '' @ itoa n)"
    by (simp add: numbered_def section_sign_def section_mark_def)
  moreover have "str_index ((t @ '' '') @ section_mark @ ('' '' @ itoa n)) section_mark = Some (length (t @ '' ''))"
    using assms by (intro index_section_mark) simp
  ultimately have "hd (split_str (numbered t n) section_mark) = t @ '' ''"
    by (subst split_str.simps) (simp add: section_mark_def)
  then show ?thesis by (simp add: TrimTagName_def)
qed

section \<open>A small engine\<close>

text \<open>The live outbounds, the newest first, and the members of the selectors.\<close>

type_synonym small_box = "(string \<times> live) list \<times> (string \<Rightarrow> string set)"

definition out_live :: "outbound \<Rightarrow> live" where
  "out_live b = \<lparr>lv_deps = detours b, lv_kind = Server\<rparr>"

definition live_view :: "live \<Rightarrow> live" where
  "live_view l = (if is_selector l then l\<lparr>lv_deps := []\<rparr> else l)"

definition small_engine :: "small_box engine_ops" where
  "small_engine = \<lparr>
     en_find = (\<lambda>(ls, _) t. map_option live_view (map_of ls t)),
     en_outs = (\<lambda>(ls, _). map (map_prod id live_view) (AList.clearjunk ls)),
     en_ends = (\<lambda>_. []),
     en_members = snd,
     en_create = (\<lambda>b (ls, m). (None, ((o_tag b, out_live b) # ls, m))),
     en_create_end = (\<lambda>e x. (Some ''no endpoints'', x)),
     en_remove = (\<lambda>t (ls, m). if map_of ls t = None then (Unknown_Tag, (ls, m)) else (Removed, (AList.delete t ls, m))),
     en_remove_end = (\<lambda>t x. (Unknown_Tag, x)),
     en_add_member = (\<lambda>s t (ls, m). (ls, m(s := insert t (m s)))),
     en_remove_member = (\<lambda>s t (ls, m). (ls, m(s := m s - {t}))),
     en_select = (\<lambda>s t x. (t \<in> snd x s, x))\<rparr>"

lemma live_view_simps [simp]:
  "is_selector (live_view l) = is_selector l" "is_selector l \<Longrightarrow> lv_deps (live_view l) = []"
  "\<not> is_selector l \<Longrightarrow> live_view l = l" "\<not> is_selector (out_live b)" "lv_deps (out_live b) = detours b"
  by (simp_all add: live_view_def is_selector_def out_live_def)

lemma small_find: "en_find small_engine (ls, m) t = map_option live_view (map_of ls t)"
  and small_members: "en_members small_engine (ls, m) = m"
  and small_ends: "end_tags small_engine (ls, m) = {}" "en_ends small_engine (ls, m) = []"
  by (simp_all add: small_engine_def end_tags_def)

lemma small_outs: "(t, l) \<in> set (en_outs small_engine (ls, m)) \<longleftrightarrow> en_find small_engine (ls, m) t = Some l"
proof -
  have "(t, k) \<in> set (AList.clearjunk ls) \<longleftrightarrow> map_of ls t = Some k" for k
    by (metis distinct_clearjunk map_of_clearjunk map_of_eq_Some_iff)
  then show ?thesis by (force simp: small_engine_def)
qed

lemma small_engine_laws: "engine_laws small_engine"
proof -
  have "list_law small_engine"
    by (auto simp: list_law_def small_outs small_find small_ends)
  moreover have "create_law small_engine"
    by (auto simp: create_law_def small_engine_def en_view_def end_tags_def fun_eq_iff)
  moreover have "member_law small_engine"
    by (auto simp: member_law_def small_engine_def en_view_def end_tags_def fun_eq_iff)
  moreover have "remove_law small_engine"
    by (auto simp: remove_law_def small_engine_def en_view_def end_tags_def fun_eq_iff AList.delete_conv)
  ultimately show ?thesis by (simp add: engine_laws_def)
qed


definition sample_box :: small_box where
  "sample_box = ([(''select'', \<lparr>lv_deps = [], lv_kind = Selector ''a''\<rparr>)], \<lambda>_. {})"

definition sample_node :: "string \<Rightarrow> string \<Rightarrow> string \<Rightarrow> outbound" where
  "sample_node ty t d = \<lparr>o_type = ty, o_tag = t, o_options = ODirect \<lparr>do_detour = d\<rparr>\<rparr>"

definition sample_pair :: sb_options where
  "sample_pair = \<lparr>sb_outbounds = [sample_node ''vless'' ''m'' ''h'', sample_node ''utproto'' ''h'' ''''], sb_endpoints = []\<rparr>"

lemma sample_pair_one_hop: "one_hop sample_pair"
  by (simp add: one_hop_def sample_pair_def sample_node_def detours_def systemTypes_def)

theorem hot_add_then_remove_witness:
  "\<exists>y z. AddOutbound small_engine (Inr sample_pair) ''n1'' [''select''] (Some sample_box) = (Inr ''n1'', Some y) \<and>
     en_members small_engine y ''select'' = {''n1''} \<and>
     RemoveOutbound small_engine ''n1'' (Some y) = (None, Some z) \<and> en_view small_engine z = en_view small_engine sample_box"
proof -
  have fresh: "fresh_tag small_engine sample_box ''n1''"
    by (auto simp: fresh_tag_def sample_box_def small_find small_members depended_def live_view_def is_selector_def)
  let ?r = "AddOutbound small_engine (Inr sample_pair) ''n1'' [''select''] (Some sample_box)"
  have "fst ?r = Inr ''n1'' \<and> (case snd ?r of None \<Rightarrow> False | Some y \<Rightarrow> en_members small_engine y ''select'' = {''n1''})"
    by (simp add: AddOutbound_def hot_add_plan_def sample_pair_def sample_node_def systemTypes_def override_tag_def
        Let_def run_plan_def small_engine_def sample_box_def is_selector_def live_view_def helper_tag_def)
  then obtain y where y: "?r = (Inr ''n1'', Some y)" "en_members small_engine y ''select'' = {''n1''}"
    by (cases ?r) (auto split: option.splits)
  from hot_add_then_remove [OF small_engine_laws sample_pair_one_hop fresh y(1)] y show ?thesis by blast
qed


theorem failed_add_stays_witness:
  "\<exists>e y. AddOutbound small_engine (Inr sample_pair) ''n1'' [''nosuch''] (Some sample_box) = (Inl e, Some y) \<and>
     en_find small_engine y ''n1'' \<noteq> None"
proof -
  have "\<exists>p. hot_add_plan ''n1'' sample_pair = Inr p \<and> hp_main p = ''n1'' \<and>
      map o_tag (hp_outbounds p) = [''n1'', helper_tag ''n1'' ''utproto'']"
    by (simp add: hot_add_plan_def sample_pair_def sample_node_def systemTypes_def override_tag_def Let_def)
  then obtain p where p: "hot_add_plan ''n1'' sample_pair = Inr p" "hp_main p = ''n1''"
    and tags: "map o_tag (hp_outbounds p) = [''n1'', helper_tag ''n1'' ''utproto'']" by (elim exE conjE)
  from tags obtain a b where ab: "hp_outbounds p = [a, b]" "o_tag a = ''n1''" "o_tag b = helper_tag ''n1'' ''utproto''"
    by (auto simp: map_eq_Cons_conv)
  let ?z = "((o_tag b, out_live b) # (o_tag a, out_live a) # fst sample_box, snd sample_box)"
  have "create_all (en_create small_engine) o_tag ''add outbound: create '' (hp_outbounds p) sample_box = (Inr (), ?z)"
    by (simp add: ab small_engine_def sample_box_def)
  moreover have "en_find small_engine ?z ''nosuch'' = None"
    by (simp add: small_find sample_box_def ab helper_tag_def)
  ultimately show ?thesis
    using failed_add_stays [OF small_engine_laws sample_pair_one_hop p(1), of sample_box "()" ?z "''nosuch''" "[]"] p(2)
    by auto
qed

end
