(* ===== verification/Side_Instance.thy ===== *)
theory Side_Instance
  imports Core_Lifecycle
begin

text \<open>
  The side instance of \<open>hcore/independent_instance.go\<close>, a second engine brought up for one probe or
  one fetch: what is stripped from the app's options (\<open>sanitizeSideInstance\<close>), and the race of its
  bring-up against the deadline (\<open>runInstanceCore\<close>), a
  worker and a caller around an unbuffered channel. The rendezvous of the channel is one step of
  both; a context that is done stays done.
\<close>

section \<open>Stripping the options\<close>

text \<open>The listen options of an inbound, for the types that have them: an address and a port.\<close>

record inbound =
  ib_type :: string
  ib_tag :: string
  ib_listen :: "(string option \<times> nat) option"

record experimental =
  ex_clash_api :: "string option"
  ex_cache_file :: "string option"
  ex_monitoring_disabled :: "bool option"
  ex_other :: string

record side_options =
  so_inbounds :: "inbound list"
  so_experimental :: "experimental option"
  so_rest :: string

definition experimental_zero :: experimental where
  "experimental_zero = \<lparr>ex_clash_api = None, ex_cache_file = None, ex_monitoring_disabled = None, ex_other = ''''\<rparr>"

definition side_experimental :: "experimental option \<Rightarrow> experimental" where
  "side_experimental e0 =
     (let e = (case e0 of None \<Rightarrow> experimental_zero | Some x \<Rightarrow> x) in
      e\<lparr>ex_clash_api := None, ex_cache_file := None, ex_monitoring_disabled := Some True\<rparr>)"

text \<open>\<open>port\<close> is what \<open>getRandomAvailblePort\<close> returns.\<close>

fun side_inbounds :: "nat outcome \<Rightarrow> bool \<Rightarrow> inbound list \<Rightarrow> (inbound list \<times> nat) outcome" where
  "side_inbounds port assigned [] = Done ([], 0)"
| "side_inbounds port assigned (b # bs) =
     (if ib_type b = ''tun'' then side_inbounds port assigned bs
      else if \<not> assigned \<and> ib_listen b \<noteq> None then
        and_then port (\<lambda>p.
        and_then (side_inbounds port True bs) (\<lambda>(kept, _).
          Done (b\<lparr>ib_listen := Some (Some ''127.0.0.1'', p)\<rparr> # kept, p)))
      else and_then (side_inbounds port assigned bs) (\<lambda>(kept, q). Done (b # kept, q)))"

definition sanitizeSideInstance :: "nat outcome \<Rightarrow> side_options \<Rightarrow> (side_options \<times> nat) outcome" where
  "sanitizeSideInstance port opts =
     and_then (side_inbounds port False (so_inbounds opts)) (\<lambda>(kept, p).
       Done (opts\<lparr>so_experimental := Some (side_experimental (so_experimental opts)), so_inbounds := kept\<rparr>, p))"

section \<open>Bring-up against the deadline\<close>

text \<open>What the build function returned: an instance or none, and an error or none.\<close>

type_synonym build_result = "nat option \<times> string option"

datatype worker_pc = W_Building | W_Offering build_result | W_Delivered | W_Cleaned

datatype caller_pc = C_Waiting | C_Returned build_result | C_TimedOut

record bring_up =
  bu_worker :: worker_pc
  bu_caller :: caller_pc
  bu_done :: bool
  bu_closed :: "nat set"

definition bring_up_init :: bring_up where
  "bring_up_init = \<lparr>bu_worker = W_Building, bu_caller = C_Waiting, bu_done = False, bu_closed = {}\<rparr>"

inductive bring_up_step :: "bring_up \<Rightarrow> bring_up \<Rightarrow> bool" where
  deadline: "\<not> bu_done s \<Longrightarrow> bring_up_step s (s\<lparr>bu_done := True\<rparr>)"
| built: "bu_worker s = W_Building \<Longrightarrow> bring_up_step s (s\<lparr>bu_worker := W_Offering r\<rparr>)"
| rendezvous: "bu_worker s = W_Offering r \<Longrightarrow> bu_caller s = C_Waiting \<Longrightarrow>
    bring_up_step s (s\<lparr>bu_worker := W_Delivered, bu_caller := C_Returned r, bu_done := True\<rparr>)"
| caller_gives_up: "bu_caller s = C_Waiting \<Longrightarrow> bu_done s \<Longrightarrow> bring_up_step s (s\<lparr>bu_caller := C_TimedOut\<rparr>)"
| worker_gives_up: "bu_worker s = W_Offering (inst, e) \<Longrightarrow> bu_done s \<Longrightarrow>
    bring_up_step s (s\<lparr>bu_worker := W_Cleaned, bu_closed := bu_closed s \<union> set_option inst\<rparr>)"

text \<open>The result of the call: what was received, or the error of the deadline.\<close>

definition bring_up_result :: "bring_up \<Rightarrow> build_result option" where
  "bring_up_result s =
     (case bu_caller s of
        C_Waiting \<Rightarrow> None
      | C_Returned r \<Rightarrow> Some r
      | C_TimedOut \<Rightarrow> Some (None, Some ''side-instance bring-up exceeded 8s''))"

section \<open>Facts\<close>

text \<open>
  Ownership: the caller holds a result exactly when the worker has handed it over, and the worker
  has closed something exactly when it cleaned up.
\<close>

definition owned :: "bring_up \<Rightarrow> bool" where
  "owned s \<longleftrightarrow>
     ((\<exists>r. bu_caller s = C_Returned r) \<longleftrightarrow> bu_worker s = W_Delivered) \<and>
     (bu_caller s = C_TimedOut \<longrightarrow> bu_done s) \<and> (bu_worker s \<in> {W_Delivered, W_Cleaned} \<longrightarrow> bu_done s) \<and>
     (bu_worker s \<noteq> W_Cleaned \<longrightarrow> bu_closed s = {})"

interpretation bring: invariant_system bring_up_init bring_up_step owned
proof
  show "owned bring_up_init" by (simp add: owned_def bring_up_init_def)
  show "owned t" if "owned s" "bring_up_step s t" for s t
    using that(2,1) by cases (auto simp: owned_def)
qed

text \<open>Every step uses up something: a run has at most four.\<close>

fun worker_fuel :: "worker_pc \<Rightarrow> nat" where
  "worker_fuel W_Building = 2" | "worker_fuel (W_Offering _) = 1" | "worker_fuel W_Delivered = 0" | "worker_fuel W_Cleaned = 0"

definition bring_up_fuel :: "bring_up \<Rightarrow> nat" where
  "bring_up_fuel s = worker_fuel (bu_worker s) + (if bu_caller s = C_Waiting then 1 else 0) + (if bu_done s then 0 else 1)"

lemma bring_up_decreases: "bring_up_step s t \<Longrightarrow> bring_up_fuel t < bring_up_fuel s"
  by (cases rule: bring_up_step.cases) (auto simp: bring_up_fuel_def)

lemma side_inbounds_facts:
  "side_inbounds port assigned bs = Done (kept, p) \<Longrightarrow>
     (\<forall>b \<in> set kept. ib_type b \<noteq> ''tun'') \<and>
     map ib_tag kept = map ib_tag (filter (\<lambda>b. ib_type b \<noteq> ''tun'') bs) \<and>
     (assigned \<longrightarrow> kept = filter (\<lambda>b. ib_type b \<noteq> ''tun'') bs)"
proof (induction bs arbitrary: assigned kept p)
  case (Cons b bs)
  consider (tun) "ib_type b = ''tun''"
    | (first) "ib_type b \<noteq> ''tun''" "\<not> assigned \<and> ib_listen b \<noteq> None"
    | (other) "ib_type b \<noteq> ''tun''" "\<not> (\<not> assigned \<and> ib_listen b \<noteq> None)"
    by blast
  then show ?case
  proof cases
    case tun
    with Cons show ?thesis by simp
  next
    case first
    with Cons.prems have "and_then port (\<lambda>p. and_then (side_inbounds port True bs) (\<lambda>(kept, _).
          Done (b\<lparr>ib_listen := Some (Some ''127.0.0.1'', p)\<rparr> # kept, p))) = Done (kept, p)"
      by simp
    then obtain p' where "and_then (side_inbounds port True bs) (\<lambda>(kept, _).
          Done (b\<lparr>ib_listen := Some (Some ''127.0.0.1'', p')\<rparr> # kept, p')) = Done (kept, p)"
      by (rule and_then_DoneE)
    then obtain x where "side_inbounds port True bs = Done x"
      "(case x of (kept, _) \<Rightarrow> Done (b\<lparr>ib_listen := Some (Some ''127.0.0.1'', p')\<rparr> # kept, p')) = Done (kept, p)"
      by (rule and_then_DoneE)
    then obtain kept' q where "side_inbounds port True bs = Done (kept', q)"
      "kept = b\<lparr>ib_listen := Some (Some ''127.0.0.1'', p')\<rparr> # kept'"
      by (cases x) auto
    moreover from Cons.IH [OF calculation(1)]
    have "\<forall>b \<in> set kept'. ib_type b \<noteq> ''tun''" "map ib_tag kept' = map ib_tag (filter (\<lambda>b. ib_type b \<noteq> ''tun'') bs)"
      by (rule conjunct1, rule conjunct2 [THEN conjunct1])
    ultimately show ?thesis using first by (simp del: not_None_eq)
  next
    case other
    with Cons.prems have "and_then (side_inbounds port assigned bs) (\<lambda>(kept, q). Done (b # kept, q)) = Done (kept, p)"
      by (simp del: not_None_eq split: if_splits)
    then obtain x where "side_inbounds port assigned bs = Done x" "(case x of (kept, q) \<Rightarrow> Done (b # kept, q)) = Done (kept, p)"
      by (rule and_then_DoneE)
    then obtain kept' where "side_inbounds port assigned bs = Done (kept', p)" and kept: "kept = b # kept'"
      by (cases x) auto
    note ih = Cons.IH [OF this(1)]
    have "\<forall>b \<in> set kept. ib_type b \<noteq> ''tun''"
      using ih [THEN conjunct1] other(1) by (simp add: kept)
    moreover have "map ib_tag kept = map ib_tag (filter (\<lambda>b. ib_type b \<noteq> ''tun'') (b # bs))"
      using ih [THEN conjunct2, THEN conjunct1] other(1) by (simp add: kept)
    moreover have "assigned \<longrightarrow> kept = filter (\<lambda>b. ib_type b \<noteq> ''tun'') (b # bs)"
      using ih [THEN conjunct2, THEN conjunct2] other(1) by (simp add: kept)
    ultimately show ?thesis by blast
  qed
qed simp

definition listens :: "inbound \<Rightarrow> bool" where
  "listens b \<longleftrightarrow> ib_type b \<noteq> ''tun'' \<and> ib_listen b \<noteq> None"

lemma side_inbounds_first:
  "side_inbounds port False bs = Done (kept, p) \<Longrightarrow>
   (case find listens bs of
      None \<Rightarrow> p = 0 | Some b \<Rightarrow> port = Done p \<and> b\<lparr>ib_listen := Some (Some ''127.0.0.1'', p)\<rparr> \<in> set kept)"
proof (induction bs arbitrary: kept p)
  case (Cons b bs)
  show ?case
  proof (cases "listens b")
    case True
    then have "ib_type b \<noteq> ''tun''" "ib_listen b \<noteq> None" by (simp_all add: listens_def)
    with True Cons.prems show ?thesis by (auto simp: and_then_Done)
  next
    case False
    then obtain kept' where k: "side_inbounds port False bs = Done (kept', p)" "kept = kept' \<or> kept = b # kept'"
      using Cons.prems by (auto simp: and_then_Done listens_def split: if_splits)
    then have "set kept' \<subseteq> set kept" by auto
    with Cons.IH [OF k(1)] False show ?thesis by (auto split: option.splits)
  qed
qed simp

section \<open>Properties\<close>


text \<open>C29: a bring-up ends: every step uses up one of at most four, and when no step is left the caller has
  returned, with what was built or with the error of the deadline.\<close>

theorem bring_up_ends:
  assumes "reach bring_up_step bring_up_init s"
  shows "(\<forall>t. bring_up_step s t \<longrightarrow> bring_up_fuel t < bring_up_fuel s) \<and> bring_up_fuel s \<le> 4 \<and>
    ((\<nexists>t. bring_up_step s t) \<longrightarrow> bring_up_result s \<noteq> None \<and> bu_worker s \<in> {W_Delivered, W_Cleaned})"
proof -
  have "worker_fuel (bu_worker s) \<le> 2" by (cases "bu_worker s") auto
  then have "bring_up_fuel s \<le> 4" by (simp add: bring_up_fuel_def)
  moreover have "bring_up_result s \<noteq> None \<and> bu_worker s \<in> {W_Delivered, W_Cleaned}" if "\<nexists>t. bring_up_step s t"
  proof -
    have d: "bu_done s" using that deadline by blast
    have "bu_worker s \<noteq> W_Building" using that built by blast
    moreover have "bu_worker s \<noteq> W_Offering r" for r
      using that worker_gives_up [of s "fst r" "snd r"] d by auto
    moreover have "bu_caller s \<noteq> C_Waiting" using that caller_gives_up d by blast
    ultimately show ?thesis by (cases "bu_worker s"; cases "bu_caller s") (auto simp: bring_up_result_def)
  qed
  ultimately show ?thesis using bring_up_decreases by blast
qed

text \<open>a sanitised side instance has no TUN inbound, no API, no cache file and no monitoring; its
  first listening inbound sits on the loopback address at the fresh port that is returned, and
  everything else is as the app built it.\<close>

theorem side_instance_isolated:
  assumes "sanitizeSideInstance port opts = Done (opts', p)"
  shows "(\<forall>b \<in> set (so_inbounds opts'). ib_type b \<noteq> ''tun'') \<and>
    map ib_tag (so_inbounds opts') = map ib_tag (filter (\<lambda>b. ib_type b \<noteq> ''tun'') (so_inbounds opts)) \<and>
    (\<exists>e. so_experimental opts' = Some e \<and> ex_clash_api e = None \<and> ex_cache_file e = None \<and>
       ex_monitoring_disabled e = Some True) \<and> so_rest opts' = so_rest opts \<and>
    (case find listens (so_inbounds opts) of
       None \<Rightarrow> p = 0
     | Some b \<Rightarrow> port = Done p \<and> b\<lparr>ib_listen := Some (Some ''127.0.0.1'', p)\<rparr> \<in> set (so_inbounds opts'))"
proof -
  from assms obtain kept where k: "side_inbounds port False (so_inbounds opts) = Done (kept, p)"
    "opts' = opts\<lparr>so_experimental := Some (side_experimental (so_experimental opts)), so_inbounds := kept\<rparr>"
    by (auto simp: sanitizeSideInstance_def and_then_def split: outcome.splits prod.splits)
  have "\<exists>e. so_experimental opts' = Some e \<and> ex_clash_api e = None \<and> ex_cache_file e = None \<and>
      ex_monitoring_disabled e = Some True" "so_rest opts' = so_rest opts" "so_inbounds opts' = kept"
    using k(2) by (simp_all add: side_experimental_def Let_def)
  with side_inbounds_facts [OF k(1)] side_inbounds_first [OF k(1)] show ?thesis by (simp split: option.splits)
qed

section \<open>Witnesses\<close>

lemma late_build: "reach bring_up_step bring_up_init
    \<lparr>bu_worker = W_Offering (Some 7, None), bu_caller = C_TimedOut, bu_done = True, bu_closed = {}\<rparr>"
proof -
  let ?d = "bring_up_init\<lparr>bu_done := True\<rparr>"
  let ?c = "?d\<lparr>bu_caller := C_TimedOut\<rparr>"
  have "bring_up_step bring_up_init ?d" by (rule deadline) (simp add: bring_up_init_def)
  moreover have "bring_up_step ?d ?c" by (rule caller_gives_up) (simp_all add: bring_up_init_def)
  moreover have "bring_up_step ?c (?c\<lparr>bu_worker := W_Offering (Some 7, None)\<rparr>)" by (rule built) (simp add: bring_up_init_def)
  ultimately have "reach bring_up_step bring_up_init (?c\<lparr>bu_worker := W_Offering (Some 7, None)\<rparr>)"
    by (metis reach_refl reach_step)
  then show ?thesis by (simp add: bring_up_init_def)
qed


theorem bring_up_ends_witness: "bring_up_fuel bring_up_init \<le> 4"
  using bring_up_ends [OF reach_refl] by simp

theorem side_instance_isolated_witness:
  "case sanitizeSideInstance (Done 40001)
      \<lparr>so_inbounds = [\<lparr>ib_type = ''tun'', ib_tag = ''tun-in'', ib_listen = None\<rparr>,
         \<lparr>ib_type = ''mixed'', ib_tag = ''mixed-in'', ib_listen = Some (None, 12334)\<rparr>], so_experimental = None, so_rest = ''dns''\<rparr> of
     Done (o', p) \<Rightarrow> map ib_tag (so_inbounds o') = [''mixed-in''] \<and> p = 40001
   | _ \<Rightarrow> False"
proof -
  let ?o = "\<lparr>so_inbounds = [\<lparr>ib_type = ''tun'', ib_tag = ''tun-in'', ib_listen = None\<rparr>,
         \<lparr>ib_type = ''mixed'', ib_tag = ''mixed-in'', ib_listen = Some (None, 12334)\<rparr>], so_experimental = None, so_rest = ''dns''\<rparr>"
  obtain o' p where r: "sanitizeSideInstance (Done 40001) ?o = Done (o', p)"
    by (simp add: sanitizeSideInstance_def and_then_def)
  from side_instance_isolated [OF r] r show ?thesis by (simp add: listens_def)
qed

end
