(* ===== verification/Probe.thy ===== *)
theory Probe
  imports Hot_Add Side_Instance
begin

text \<open>
  The measurements the app asks for: \<open>hcore/url_test_config.go\<close> with the helpers of
  \<open>probe_helpers.go\<close> (is a server alive), \<open>speedtest.go\<close>, and \<open>bootstrap_fetch.go\<close> (a download through a
  side instance). What the network and the engine answer is the environment of a call. An error of the
  probe keeps its text and the name of a failed DNS lookup, when it is one.
\<close>

record probe_error =
  pe_text :: string
  pe_dns :: "string option"

definition probe_err :: "string \<Rightarrow> probe_error" where
  "probe_err m = \<lparr>pe_text = m, pe_dns = None\<rparr>"

section \<open>One probe\<close>

definition urlTestConfigDefaultURL :: string where
  "urlTestConfigDefaultURL = ''https://www.gstatic.com/generate_204''"

definition default_link :: "string \<Rightarrow> string" where
  "default_link link = (if link = '''' then urlTestConfigDefaultURL else link)"

definition statusOK :: "int \<Rightarrow> int \<Rightarrow> bool" where
  "statusOK st expected = (if expected = 0 then st = 204 \<or> st = 200 else st = expected)"

definition probeHostPort :: "string \<Rightarrow> (string \<times> string) result" where
  "probeHostPort link =
     bindE (url_Parse link) (\<lambda>u.
       let port = url_port u in
       Inr (url_hostname u,
            if port = '''' then (if u_scheme u = ''http'' then ''80'' else ''443'') else port))"

definition probeURLHost :: "string \<Rightarrow> string" where
  "probeURLHost link = (case url_Parse (default_link link) of Inl _ \<Rightarrow> '''' | Inr u \<Rightarrow> url_hostname u)"

text \<open>What happens on the wire, times in nanoseconds: the dial to a host and port, whether the connection
  defers its handshake to the first write, the request, the response.\<close>

record wire =
  wi_url_text :: "go_error \<Rightarrow> string"
  wi_dial :: "string \<times> string \<Rightarrow> probe_error option"
  wi_late :: bool
  wi_start :: int
  wi_dialed :: int
  wi_request :: "probe_error option"
  wi_response :: "probe_error + int"
  wi_end :: int

definition clamp_delay :: "int \<Rightarrow> nat" where
  "clamp_delay ms = (if ms \<le> 0 then 1 else if 65535 < ms then 65535 else nat ms)"

definition probeThroughDetour :: "bool \<Rightarrow> string \<Rightarrow> int \<Rightarrow> wire \<Rightarrow> probe_error + nat" where
  "probeThroughDetour detour link expected w =
     (if \<not> detour then Inl (probe_err ''probe dialer is nil'')
      else case probeHostPort (default_link link) of
             Inl e \<Rightarrow> Inl (probe_err (wi_url_text w e))
           | Inr hp \<Rightarrow>
               (case (wi_dial w hp, wi_request w) of
                  (Some e, _) \<Rightarrow> Inl e
                | (None, Some e) \<Rightarrow> Inl e
                | (None, None) \<Rightarrow>
                    (case wi_response w of
                       Inl e \<Rightarrow> Inl e
                     | Inr st \<Rightarrow>
                         if \<not> statusOK st expected then Inl (probe_err (''unexpected status '' @ itoa_int st))
                         else Inr (clamp_delay ((wi_end w - (if wi_late w then wi_dialed w else wi_start w)) div 10 ^ 6)))))"

text \<open>The guard races the probe with the deadline; \<open>in_time\<close> is whether the probe is first, \<open>panics\<close>
  a panic of the worker.\<close>

definition probeThroughDetourGuarded ::
  "bool \<Rightarrow> string option \<Rightarrow> bool \<Rightarrow> string \<Rightarrow> int \<Rightarrow> wire \<Rightarrow> probe_error + nat" where
  "probeThroughDetourGuarded in_time panics detour link expected w =
     (if \<not> in_time then Inl (probe_err ''probe budget exhausted: context deadline exceeded'')
      else case panics of
             Some m \<Rightarrow> Inl (probe_err (''probeThroughDetour panic: '' @ m))
           | None \<Rightarrow> probeThroughDetour detour link expected w)"

section \<open>The verdict\<close>

definition deterministic_markers :: "string list" where
  "deterministic_markers =
     [''parse config:'', ''initialize outbound'', ''initialize endpoint'', ''create outbound'', ''create endpoint'',
      ''unknown outbound type'', ''unknown endpoint type'', ''not available in this build'', ''is deprecated'',
      ''plugin not found'']"

definition isDeterministicBringUpError :: "string option \<Rightarrow> bool" where
  "isDeterministicBringUpError e =
     (case e of None \<Rightarrow> False | Some msg \<Rightarrow> list_ex (contains msg) deterministic_markers)"

definition isProbeDNSFailure :: "probe_error option \<Rightarrow> string \<Rightarrow> bool" where
  "isProbeDNSFailure e host0 =
     (case e of
        None \<Rightarrow> False
      | Some x \<Rightarrow>
          if host0 = '''' then False
          else let host = trim_suffix host0 ''.'' in
               case pe_dns x of
                 Some name \<Rightarrow> trim_suffix name ''.'' = host
               | None \<Rightarrow> contains (pe_text x) (''lookup '' @ host))"

text \<open>The options of a probed configuration: type and tag of the outbounds, the tags of the endpoints.\<close>

record probe_config =
  pc_outbounds :: "(string \<times> string) list"
  pc_endpoints :: "string list"

definition probeTag :: "probe_config \<Rightarrow> string" where
  "probeTag c =
     (case pc_endpoints c of
        e # es \<Rightarrow> e
      | [] \<Rightarrow>
          (case find (\<lambda>(ty, t). ty \<notin> {''selector'', ''urltest'', ''loadbalance''}) (pc_outbounds c) of
             None \<Rightarrow> '''' | Some (ty, t) \<Rightarrow> t))"

definition urlTestConfigDefaultTimeout :: int where
  "urlTestConfigDefaultTimeout = 5 * 10 ^ 9"

definition splitProbeBudget :: "int \<Rightarrow> int list" where
  "splitProbeBudget budget = [if budget \<le> 0 then urlTestConfigDefaultTimeout else budget]"

record probe_request =
  pq_config :: string
  pq_url :: string
  pq_timeout_ms :: int

record verdict =
  ve_delay :: nat
  ve_error :: string
  ve_bring_up_failed :: bool
  ve_config_rejected :: bool

definition alive :: "nat \<Rightarrow> verdict" where
  "alive d = \<lparr>ve_delay = d, ve_error = '''', ve_bring_up_failed = False, ve_config_rejected = False\<rparr>"

definition dead :: "string \<Rightarrow> verdict" where
  "dead m = \<lparr>ve_delay = 0, ve_error = m, ve_bring_up_failed = False, ve_config_rejected = False\<rparr>"

definition untested :: "bool \<Rightarrow> string \<Rightarrow> verdict" where
  "untested rejected m = \<lparr>ve_delay = 0, ve_error = m, ve_bring_up_failed = True, ve_config_rejected = rejected\<rparr>"

text \<open>What the engine does with a configuration: the decoder, the bring-up (an instance, an error or a
  panic anywhere on the way), whether the instance has a box and knows the tag, and for each attempt
  whether the budget still lasts and what the guarded probe gives.\<close>

record probe_env =
  en_parse :: "string \<Rightarrow> string + probe_config"
  en_bring_up :: "unit outcome"
  en_box :: bool
  en_known :: "string \<Rightarrow> bool"
  en_spent :: bool
  en_in_time :: "int \<Rightarrow> bool"
  en_panics :: "string option"
  en_wire :: "int \<Rightarrow> wire"

fun attempts :: "bool \<Rightarrow> (int \<Rightarrow> probe_error + nat) \<Rightarrow> int list \<Rightarrow> probe_error option \<Rightarrow> probe_error option + nat" where
  "attempts spent probe [] last_err = Inl last_err"
| "attempts spent probe (b # bs) last_err =
     (if spent then Inl last_err
      else case probe b of
             Inr d \<Rightarrow> if 0 < d then Inr d else attempts spent probe bs (Some (probe_err ''zero delay''))
           | Inl e \<Rightarrow> attempts spent probe bs (Some e))"

definition classify :: "string \<Rightarrow> probe_error option + nat \<Rightarrow> verdict" where
  "classify url r =
     (case r of
        Inr d \<Rightarrow> alive d
      | Inl None \<Rightarrow> dead ''zero delay''
      | Inl (Some e) \<Rightarrow> if isProbeDNSFailure (Some e) (probeURLHost url) then untested False (pe_text e) else dead (pe_text e))"

definition probe_timeout :: "probe_request \<Rightarrow> int" where
  "probe_timeout q = (if pq_timeout_ms q = 0 then urlTestConfigDefaultTimeout else pq_timeout_ms q * 10 ^ 6)"

definition guarded_attempt :: "probe_env \<Rightarrow> string \<Rightarrow> int \<Rightarrow> probe_error + nat" where
  "guarded_attempt env url b = probeThroughDetourGuarded (en_in_time env b) (en_panics env) True url 204 (en_wire env b)"

definition UrlTestConfig :: "probe_env \<Rightarrow> probe_request \<Rightarrow> verdict" where
  "UrlTestConfig env q =
     (if pq_config q = '''' then untested True ''empty config_json''
      else
        let url = default_link (pq_url q); timeout = probe_timeout q in
        case en_parse env (pq_config q) of
          Inl m \<Rightarrow> untested True (''parse config: '' @ m)
        | Inr c \<Rightarrow>
            let tag = probeTag c in
            if tag = '''' then untested True ''no exit outbound or endpoint in config''
            else case en_bring_up env of
                   Panics m \<Rightarrow> untested False (''CoreService.UrlTestConfig panic: '' @ m)
                 | Fails m \<Rightarrow> untested (isDeterministicBringUpError (Some m)) (''run instance: '' @ m)
                 | Done _ \<Rightarrow>
                     if \<not> en_box env then untested False ''side-instance not ready''
                     else if \<not> en_known env tag then untested True (''main outbound not found: '' @ tag)
                     else classify url
                            (attempts (timeout < 0 \<or> en_spent env) (guarded_attempt env url) (splitProbeBudget timeout) None))"

section \<open>The speed test\<close>

record speed =
  sp_kbps :: int
  sp_elapsed_ms :: int
  sp_bytes :: int
  sp_error :: string

definition speed_error :: "string \<Rightarrow> speed" where
  "speed_error m = \<lparr>sp_kbps = 0, sp_elapsed_ms = 0, sp_bytes = 0, sp_error = m\<rparr>"

text \<open>Division truncates towards zero.\<close>

definition quot :: "int \<Rightarrow> int \<Rightarrow> int" where
  "quot a b = sgn a * sgn b * (\<bar>a\<bar> div \<bar>b\<bar>)"

definition computeKbps :: "int \<Rightarrow> int \<Rightarrow> speed outcome" where
  "computeKbps bytes elapsed =
     (let ms = elapsed div 10 ^ 6;
          r = \<lparr>sp_kbps = 0, sp_elapsed_ms = ms, sp_bytes = bytes, sp_error = ''''\<rparr> in
      if 0 < bytes \<and> 0 < elapsed then
        (if wrap_duration (ms * 1024) = 0 then Panics ''runtime error: integer divide by zero''
         else Done (r\<lparr>sp_kbps := quot (wrap_duration (bytes * 1000)) (wrap_duration (ms * 1024))\<rparr>))
      else Done r)"

record speed_request =
  sq_tag :: string
  sq_bytes :: int
  sq_upload :: bool

text \<open>The transfer: the request, then what was read (bytes, an error, the time it took).\<close>

record transfer =
  tf_request :: "string option"
  tf_got :: int
  tf_read :: "string option"
  tf_elapsed :: int

definition runDownload :: "transfer \<Rightarrow> speed outcome" where
  "runDownload t =
     (case tf_request t of
        Some e \<Rightarrow> Done (speed_error (''download request: '' @ e))
      | None \<Rightarrow>
          (case tf_read t of
             Some e \<Rightarrow> if tf_got t = 0 then Done (speed_error (''download read: '' @ e)) else computeKbps (tf_got t) (tf_elapsed t)
           | None \<Rightarrow> computeKbps (tf_got t) (tf_elapsed t)))"

definition runUpload :: "transfer \<Rightarrow> int \<Rightarrow> speed outcome" where
  "runUpload t bytes =
     (case tf_request t of
        Some e \<Rightarrow> Done (speed_error (''upload request: '' @ e))
      | None \<Rightarrow> computeKbps bytes (tf_elapsed t))"

definition defaultTestBytes :: int where
  "defaultTestBytes = 2000000"

definition SpeedTest :: "'b engine_ops \<Rightarrow> (int \<Rightarrow> transfer) \<Rightarrow> speed_request \<Rightarrow> 'b option \<Rightarrow> speed" where
  "SpeedTest en transfer q box =
     (if sq_tag q = '''' then speed_error ''outbound_tag is required''
      else case box of
             None \<Rightarrow> speed_error ''core not started''
           | Some x \<Rightarrow>
               if en_find en x (sq_tag q) = None then speed_error (''outbound not found: '' @ sq_tag q)
               else
                 let bytes = (if sq_bytes q \<le> 0 then defaultTestBytes else sq_bytes q) in
                 case (if sq_upload q then runUpload (transfer bytes) bytes else runDownload (transfer bytes)) of
                   Done r \<Rightarrow> r
                 | Fails e \<Rightarrow> speed_error e
                 | Panics m \<Rightarrow> speed_error (''CoreService.SpeedTest panic: '' @ m))"

section \<open>A download through a side instance\<close>

record fetch_env =
  fe_parse :: "string \<Rightarrow> string option"
  fe_bring_up :: "unit outcome"
  fe_socks :: "string option"
  fe_request :: "string option"
  fe_do :: "string + int"
  fe_body :: "string + string"

record fetched =
  fd_body :: string
  fd_status :: int
  fd_error :: string

definition fetch_error :: "int \<Rightarrow> string \<Rightarrow> fetched" where
  "fetch_error status m = \<lparr>fd_body = '''', fd_status = status, fd_error = m\<rparr>"

definition BootstrapFetch :: "fetch_env \<Rightarrow> string \<Rightarrow> string \<Rightarrow> fetched" where
  "BootstrapFetch env url config =
     (if url = '''' then fetch_error 0 ''empty url''
      else if config = '''' then fetch_error 0 ''empty config_json''
      else case fe_parse env config of
        Some e \<Rightarrow> fetch_error 0 (''parse config: '' @ e)
      | None \<Rightarrow>
          (case fe_bring_up env of
             Panics m \<Rightarrow> fetch_error 0 (''CoreService.BootstrapFetch panic: '' @ m)
           | Fails e \<Rightarrow> fetch_error 0 (''run instance: '' @ e)
           | Done _ \<Rightarrow>
               (case (fe_socks env, fe_request env) of
                  (Some e, _) \<Rightarrow> fetch_error 0 (''socks dialer: '' @ e)
                | (None, Some e) \<Rightarrow> fetch_error 0 (''new request: '' @ e)
                | (None, None) \<Rightarrow>
                    (case fe_do env of
                       Inl e \<Rightarrow> fetch_error 0 (''http do: '' @ e)
                     | Inr st \<Rightarrow>
                         (case fe_body env of
                            Inl e \<Rightarrow> fetch_error st (''read body: '' @ e)
                          | Inr b \<Rightarrow> \<lparr>fd_body = b, fd_status = st, fd_error = ''''\<rparr>)))))"


section \<open>Facts\<close>

lemma clamp_delay_bounds: "1 \<le> clamp_delay ms \<and> clamp_delay ms \<le> 65535"
  by (auto simp: clamp_delay_def le_nat_iff)

lemma verdict_simps [simp]:
  "ve_delay (alive d) = d" "ve_error (alive d) = ''''" "\<not> ve_bring_up_failed (alive d)" "\<not> ve_config_rejected (alive d)"
  "ve_delay (dead m) = 0" "ve_error (dead m) = m" "\<not> ve_bring_up_failed (dead m)" "\<not> ve_config_rejected (dead m)"
  "ve_delay (untested rj m) = 0" "ve_error (untested rj m) = m" "ve_bring_up_failed (untested rj m)"
  "ve_config_rejected (untested rj m) = rj"
  by (simp_all add: alive_def dead_def untested_def)

lemma probe_success:
  assumes "probeThroughDetour detour link expected w = Inr d"
  shows "1 \<le> d \<and> d \<le> 65535 \<and> (\<exists>st. wi_response w = Inr st \<and> statusOK st expected)"
proof -
  from assms obtain st where "wi_response w = Inr st" "statusOK st expected"
    "d = clamp_delay ((wi_end w - (if wi_late w then wi_dialed w else wi_start w)) div 10 ^ 6)"
    by (auto simp: probeThroughDetour_def split: if_splits sum.splits option.splits)
  with clamp_delay_bounds show ?thesis by blast
qed

lemma attempt_success:
  assumes "guarded_attempt env url b = Inr d"
  shows "1 \<le> d \<and> d \<le> 65535 \<and> wi_response (en_wire env b) = Inr 204"
proof -
  from assms have "probeThroughDetour True url 204 (en_wire env b) = Inr d"
    by (auto simp: guarded_attempt_def probeThroughDetourGuarded_def split: if_splits option.splits)
  from probe_success [OF this] show ?thesis by (auto simp: statusOK_def)
qed

lemma attempts_outcome:
  "attempts spent probe bs le = Inr d \<Longrightarrow> \<not> spent \<and> (\<exists>b \<in> set bs. probe b = Inr d)"
  "attempts spent probe bs None = Inl (Some e) \<Longrightarrow> (\<And>b. probe b \<noteq> Inr 0) \<Longrightarrow> \<exists>b \<in> set bs. probe b = Inl e"
proof -
  show "\<not> spent \<and> (\<exists>b \<in> set bs. probe b = Inr d)" if "attempts spent probe bs le = Inr d"
    using that by (induction bs arbitrary: le) (auto split: if_splits sum.splits)
  have "(\<exists>b \<in> set bs. probe b = Inl e) \<or> le = Some e"
    if "attempts spent probe bs le = Inl (Some e)" "\<And>b. probe b \<noteq> Inr 0" for le
    using that
  proof (induction bs arbitrary: le)
    case (Cons b bs)
    show ?case
    proof (cases "spent")
      case False
      with Cons.prems obtain x where "probe b = Inl x"
        by (cases "probe b") (auto split: if_splits)
      with Cons False show ?thesis by fastforce
    qed (use Cons.prems in auto)
  qed simp
  then show "\<exists>b \<in> set bs. probe b = Inl e"
    if "attempts spent probe bs None = Inl (Some e)" "\<And>b. probe b \<noteq> Inr 0"
    using that by blast
qed

lemma UrlTestConfig_cases:
  obtains (own) rejected m where "UrlTestConfig env q = untested rejected m"
      "\<not> rejected \<Longrightarrow> (\<forall>u. en_bring_up env \<noteq> Done u) \<or> \<not> en_box env"
    | (probed) r where "UrlTestConfig env q = classify (default_link (pq_url q)) r"
      "r = attempts (probe_timeout q < 0 \<or> en_spent env) (guarded_attempt env (default_link (pq_url q)))
             (splitProbeBudget (probe_timeout q)) None" "en_bring_up env = Done ()" "en_box env"
proof -
  let ?v = "UrlTestConfig env q"
  let ?r = "attempts (probe_timeout q < 0 \<or> en_spent env) (guarded_attempt env (default_link (pq_url q)))
             (splitProbeBudget (probe_timeout q)) None"
  have "(\<exists>rejected m. ?v = untested rejected m \<and> (\<not> rejected \<longrightarrow> (\<forall>u. en_bring_up env \<noteq> Done u) \<or> \<not> en_box env)) \<or>
        (?v = classify (default_link (pq_url q)) ?r \<and> en_bring_up env = Done () \<and> en_box env)"
    unfolding UrlTestConfig_def Let_def by (auto split: sum.split outcome.split)
  with that show ?thesis by blast
qed

section \<open>Properties\<close>


text \<open>when the app is told that the server could not be tested and that the configuration is not to
  blame, the cause is on this side: the side instance did not come up or has no engine, or the name
  of the probe's own target did not resolve; a server whose own name does not resolve counts as dead.\<close>

theorem untested_is_our_fault:
  assumes "UrlTestConfig env q = v" and "ve_bring_up_failed v" and "\<not> ve_config_rejected v"
  shows "(\<forall>u. en_bring_up env \<noteq> Done u) \<or> \<not> en_box env \<or>
    (\<exists>b e. guarded_attempt env (default_link (pq_url q)) b = Inl e \<and>
       isProbeDNSFailure (Some e) (probeURLHost (default_link (pq_url q))))"
proof (cases rule: UrlTestConfig_cases [of env q])
  case (own rejected m)
  with assms show ?thesis by auto
next
  case (probed r)
  let ?url = "default_link (pq_url q)"
  from assms probed(1) have v: "v = classify ?url r" by simp
  from assms(2,3) obtain e where r: "r = Inl (Some e)" "isProbeDNSFailure (Some e) (probeURLHost ?url)"
    unfolding v by (auto simp: classify_def split: sum.splits option.splits if_splits)
  have "guarded_attempt env ?url b \<noteq> Inr 0" for b using attempt_success [of env ?url b 0] by auto
  with attempts_outcome(2) [of _ "guarded_attempt env ?url"] r(1) probed(2)
  obtain b where "guarded_attempt env ?url b = Inl e" by metis
  with r(2) show ?thesis by blast
qed

text \<open>a negative timeout is spent before the first attempt: the server is reported dead although
  nothing was sent.\<close>

theorem negative_timeout_is_dead:
  assumes "pq_config q \<noteq> ''''" and "pq_timeout_ms q < 0" and "en_parse env (pq_config q) = Inr c" and "probeTag c \<noteq> ''''"
    and "en_bring_up env = Done ()" and "en_box env" and "en_known env (probeTag c)"
  shows "UrlTestConfig env q = dead ''zero delay''"
  using assms by (simp add: UrlTestConfig_def Let_def probe_timeout_def splitProbeBudget_def classify_def mult_less_0_iff)

text \<open>the speed of a transfer is the whole number of kilobytes per second; a transfer that took less
  than a millisecond ends in a division by zero instead.\<close>

theorem speed_of_transfer:
  assumes "0 < bytes" and "bytes < 2 ^ 53" and "0 < elapsed" and "elapsed < 2 ^ 63"
  shows "computeKbps bytes elapsed =
    (if elapsed < 10 ^ 6 then Panics ''runtime error: integer divide by zero''
     else Done \<lparr>sp_kbps = bytes * 1000 div (elapsed div 10 ^ 6 * 1024), sp_elapsed_ms = elapsed div 10 ^ 6,
                sp_bytes = bytes, sp_error = ''''\<rparr>)"
proof -
  let ?ms = "elapsed div 10 ^ 6"
  have ms: "0 \<le> ?ms" "?ms * 1024 < 2 ^ 63" using assms(3,4) by (auto simp: pos_imp_zdiv_nonneg_iff)
  have w: "wrap_duration x = x" if "0 \<le> x" "x < 2 ^ 63" for x
    using that by (simp add: wrap_duration_def)
  have z: "?ms = 0 \<longleftrightarrow> elapsed < 10 ^ 6" using assms(3) by (auto simp: zdiv_eq_0_iff)
  have b: "wrap_duration (bytes * 1000) = bytes * 1000" by (rule w) (use assms in auto)
  have m: "wrap_duration (?ms * 1024) = ?ms * 1024" by (rule w) (use ms in auto)
  show ?thesis
  proof (cases "elapsed < 10 ^ 6")
    case True
    with z m assms show ?thesis by (simp add: computeKbps_def Let_def)
  next
    case False
    with z ms(1) have "0 < ?ms" by linarith
    with False m b assms show ?thesis by (simp add: computeKbps_def Let_def quot_def)
  qed
qed


section \<open>Witnesses\<close>

definition sample_wire :: wire where
  "sample_wire = \<lparr>wi_url_text = (\<lambda>_. ''bad url''), wi_dial = (\<lambda>_. None), wi_late = False, wi_start = 0, wi_dialed = 0,
     wi_request = None, wi_response = Inr 204, wi_end = 35 * 10 ^ 6\<rparr>"

definition sample_probe_env :: "(string \<times> string \<Rightarrow> probe_error option) \<Rightarrow> probe_env" where
  "sample_probe_env dial = \<lparr>en_parse = (\<lambda>_. Inr \<lparr>pc_outbounds = [(''selector'', ''select''), (''vless'', ''main'')], pc_endpoints = []\<rparr>),
     en_bring_up = Done (), en_box = True, en_known = (\<lambda>t. t = ''main''), en_spent = False, en_in_time = (\<lambda>_. True),
     en_panics = None, en_wire = (\<lambda>_. sample_wire\<lparr>wi_dial := dial\<rparr>)\<rparr>"

definition sample_probe :: "int \<Rightarrow> probe_request" where
  "sample_probe ms = \<lparr>pq_config = ''{}'', pq_url = '''', pq_timeout_ms = ms\<rparr>"


definition lookup_fails :: "string \<times> string \<Rightarrow> probe_error option" where
  "lookup_fails hp = Some \<lparr>pe_text = ''lookup failed'', pe_dns = Some (fst hp)\<rparr>"

theorem untested_is_our_fault_witness:
  "\<exists>b e. guarded_attempt (sample_probe_env lookup_fails) urlTestConfigDefaultURL b = Inl e \<and>
     isProbeDNSFailure (Some e) (probeURLHost urlTestConfigDefaultURL)"
proof -
  let ?env = "sample_probe_env lookup_fails"
  have v: "ve_bring_up_failed (UrlTestConfig ?env (sample_probe 0)) \<and>
      \<not> ve_config_rejected (UrlTestConfig ?env (sample_probe 0))"
    by code_simp
  have d: "default_link (pq_url (sample_probe 0)) = urlTestConfigDefaultURL" by code_simp
  have up: "\<not> ((\<forall>u. en_bring_up ?env \<noteq> Done u) \<or> \<not> en_box ?env)" by (simp add: sample_probe_env_def)
  from untested_is_our_fault [OF refl v [THEN conjunct1] v [THEN conjunct2]] up show ?thesis unfolding d by blast
qed

theorem negative_timeout_is_dead_witness:
  "UrlTestConfig (sample_probe_env (\<lambda>_. None)) (sample_probe (-1)) = dead ''zero delay''"
proof -
  let ?c = "\<lparr>pc_outbounds = [(''selector'', ''select''), (''vless'', ''main'')], pc_endpoints = []\<rparr>"
  have "probeTag ?c = ''main''" by (simp add: probeTag_def)
  then show ?thesis
    by (intro negative_timeout_is_dead [where c = ?c]) (simp_all add: sample_probe_env_def sample_probe_def)
qed

theorem speed_of_transfer_witness:
  "computeKbps 2000000 (2 * 10 ^ 9) =
     Done \<lparr>sp_kbps = 976, sp_elapsed_ms = 2000, sp_bytes = 2000000, sp_error = ''''\<rparr> \<and>
   computeKbps 100 999999 = Panics ''runtime error: integer divide by zero''"
  using speed_of_transfer [of 2000000 "2 * 10 ^ 9"] speed_of_transfer [of 100 999999] by simp

end
