(* ===== verification/Json_Raw.thy ===== *)
theory Json_Raw
  imports Go_Json Go_Url
begin

text \<open>
  How \<open>encoding/json\<close> decodes into structures. A \<open>json.RawMessage\<close> is the text of a value as it stands
  in the source, so a structure is decoded from texts: the members of an object with the texts of
  their values, each stored in the field its key names (exactly, or else up to the case of ASCII
  letters), the last member winning and \<open>null\<close> leaving a scalar as it was. A value of the wrong kind is
  an error of the whole decoding (\<open>None\<close>). The second half is the encoder: strings with the escapes
  of \<open>Marshal\<close>, maps with sorted keys, and the compaction of raw values. An array decoded twice into
  one field is decoded afresh.
\<close>

type_synonym raw = string

section \<open>Members and elements\<close>

text \<open>The value at the head of a text and what follows it.\<close>

definition raw_value :: "string \<Rightarrow> (raw \<times> string) option" where
  "raw_value s =
     (let v = skip_ws s in
      case jv (2 * length v + 2) v of
        None \<Rightarrow> None
      | Some (_, r) \<Rightarrow> Some (take (length v - length r) v, r))"

fun raw_members :: "nat \<Rightarrow> string \<Rightarrow> (string \<times> raw) list option" where
  "raw_members 0 s = None"
| "raw_members (Suc n) s =
     (case skip_ws s of
        [] \<Rightarrow> None
      | q # t \<Rightarrow>
          if q \<noteq> CHR 0x22 then None
          else case json_string t of
            None \<Rightarrow> None
          | Some (k, r) \<Rightarrow>
              (case skip_ws r of
                 [] \<Rightarrow> None
               | c # u \<Rightarrow>
                   if c \<noteq> CHR '':'' then None
                   else case raw_value u of
                     None \<Rightarrow> None
                   | Some (x, w) \<Rightarrow>
                       (case skip_ws w of
                          [] \<Rightarrow> None
                        | d # z \<Rightarrow>
                            if d = CHR '','' then map_option ((#) (k, x)) (raw_members n z)
                            else if d = CHR ''}'' then Some [(k, x)] else None)))"

fun raw_elems :: "nat \<Rightarrow> string \<Rightarrow> raw list option" where
  "raw_elems 0 s = None"
| "raw_elems (Suc n) s =
     (case raw_value s of
        None \<Rightarrow> None
      | Some (x, r) \<Rightarrow>
          (case skip_ws r of
             [] \<Rightarrow> None
           | c # t \<Rightarrow>
               if c = CHR '','' then map_option ((#) x) (raw_elems n t)
               else if c = CHR '']'' then Some [x] else None))"

definition raw_object :: "raw \<Rightarrow> (string \<times> raw) list option" where
  "raw_object t =
     (case json_parse t of
        Some (JObj _) \<Rightarrow>
          let u = drop 1 (skip_ws t) in
          if has_prefix (skip_ws u) ''}'' then Some [] else raw_members (Suc (length t)) u
      | _ \<Rightarrow> None)"

definition raw_array :: "raw \<Rightarrow> raw list option" where
  "raw_array t =
     (case json_parse t of
        Some (JArr _) \<Rightarrow>
          let u = drop 1 (skip_ws t) in
          if has_prefix (skip_ws u) '']'' then Some [] else raw_elems (Suc (length t)) u
      | _ \<Rightarrow> None)"

definition is_null :: "raw \<Rightarrow> bool" where
  "is_null t \<longleftrightarrow> json_parse t = Some JNull"

section \<open>Decoding values\<close>

definition dec_string :: "raw \<Rightarrow> string \<Rightarrow> string option" where
  "dec_string t old = (case json_parse t of Some (JStr s) \<Rightarrow> Some s | Some JNull \<Rightarrow> Some old | _ \<Rightarrow> None)"

definition dec_bool :: "raw \<Rightarrow> bool \<Rightarrow> bool option" where
  "dec_bool t old = (case json_parse t of Some (JBool b) \<Rightarrow> Some b | Some JNull \<Rightarrow> Some old | _ \<Rightarrow> None)"

definition dec_int :: "raw \<Rightarrow> int \<Rightarrow> int option" where
  "dec_int t old =
     (case json_parse t of
        Some (JNum n) \<Rightarrow> (case parse_int 64 n of (i, ok) \<Rightarrow> if ok then Some i else None)
      | Some JNull \<Rightarrow> Some old
      | _ \<Rightarrow> None)"

definition dec_uint :: "nat \<Rightarrow> raw \<Rightarrow> nat \<Rightarrow> nat option" where
  "dec_uint bits t old =
     (case json_parse t of
        Some (JNum n) \<Rightarrow> parse_uint bits n
      | Some JNull \<Rightarrow> Some old
      | _ \<Rightarrow> None)"

text \<open>\<open>json.Number\<close>: the literal of a number, or a string that is one.\<close>

definition number_text :: "string \<Rightarrow> bool" where
  "number_text s \<longleftrightarrow> json_number s = Some (s, [])"

definition dec_number :: "raw \<Rightarrow> string \<Rightarrow> string option" where
  "dec_number t old =
     (case json_parse t of
        Some (JNum n) \<Rightarrow> Some n
      | Some (JStr s) \<Rightarrow> if number_text s then Some s else None
      | Some JNull \<Rightarrow> Some old
      | _ \<Rightarrow> None)"

definition dec_raw :: "raw \<Rightarrow> raw \<Rightarrow> raw option" where
  "dec_raw t old = Some t"

fun map_opt :: "('a \<Rightarrow> 'b option) \<Rightarrow> 'a list \<Rightarrow> 'b list option" where
  "map_opt f [] = Some []"
| "map_opt f (x # xs) = (case f x of None \<Rightarrow> None | Some y \<Rightarrow> map_option ((#) y) (map_opt f xs))"

definition dec_list :: "(raw \<Rightarrow> 'a option) \<Rightarrow> raw \<Rightarrow> 'a list option" where
  "dec_list f t =
     (if is_null t then Some []
      else case raw_array t of None \<Rightarrow> None | Some ts \<Rightarrow> map_opt f ts)"

definition dec_strings :: "raw \<Rightarrow> string list option" where
  "dec_strings t = dec_list (\<lambda>x. dec_string x '''') t"

text \<open>A map is decoded into the one that is there; \<open>null\<close> empties it.\<close>

fun add_members :: "(raw \<Rightarrow> 'a option) \<Rightarrow> (string \<times> raw) list \<Rightarrow> (string \<rightharpoonup> 'a) \<Rightarrow> (string \<rightharpoonup> 'a) option" where
  "add_members f [] m = Some m"
| "add_members f ((k, t) # ms) m = (case f t of None \<Rightarrow> None | Some v \<Rightarrow> add_members f ms (m(k \<mapsto> v)))"

definition dec_map :: "(raw \<Rightarrow> 'a option) \<Rightarrow> raw \<Rightarrow> (string \<rightharpoonup> 'a) \<Rightarrow> (string \<rightharpoonup> 'a) option" where
  "dec_map f t m =
     (if is_null t then Some Map.empty
      else case raw_object t of None \<Rightarrow> None | Some ms \<Rightarrow> add_members f ms m)"

section \<open>Decoding structures\<close>

definition field_of :: "string list \<Rightarrow> string \<Rightarrow> string option" where
  "field_of tags k = (if k \<in> set tags then Some k else find (\<lambda>t. to_lower t = to_lower k) tags)"

fun dec_fields :: "string list \<Rightarrow> (string \<Rightarrow> raw \<Rightarrow> 'a \<Rightarrow> 'a option) \<Rightarrow> (string \<times> raw) list \<Rightarrow> 'a \<Rightarrow> 'a option" where
  "dec_fields tags store [] x = Some x"
| "dec_fields tags store ((k, t) # ms) x =
     (case field_of tags k of
        None \<Rightarrow> dec_fields tags store ms x
      | Some f \<Rightarrow> (case store f t x of None \<Rightarrow> None | Some y \<Rightarrow> dec_fields tags store ms y))"

definition dec_struct :: "string list \<Rightarrow> (string \<Rightarrow> raw \<Rightarrow> 'a \<Rightarrow> 'a option) \<Rightarrow> raw \<Rightarrow> 'a \<Rightarrow> 'a option" where
  "dec_struct tags store t x =
     (if is_null t then Some x
      else case raw_object t of None \<Rightarrow> None | Some ms \<Rightarrow> dec_fields tags store ms x)"

text \<open>A pointer to a structure: \<open>null\<close> clears it, an object is decoded into what it points to.\<close>

definition dec_ptr :: "(raw \<Rightarrow> 'a \<Rightarrow> 'a option) \<Rightarrow> 'a \<Rightarrow> raw \<Rightarrow> 'a option \<Rightarrow> 'a option option" where
  "dec_ptr dec zero t old =
     (if is_null t then Some None
      else map_option Some (dec t (case old of None \<Rightarrow> zero | Some x \<Rightarrow> x)))"

section \<open>Encoding\<close>

text \<open>The bytes that \<open>Marshal\<close> writes for a byte of an ASCII string.\<close>

definition u00 :: "char \<Rightarrow> string" where
  "u00 c = [CHR 0x5C, CHR ''u'', CHR ''0'', CHR ''0'', to_lower_byte (hex_digit (code c div 16)), to_lower_byte (hex_digit (code c mod 16))]"

definition enc_ascii :: "char \<Rightarrow> string" where
  "enc_ascii c =
     (if c = CHR 0x22 \<or> c = CHR 0x5C then [CHR 0x5C, c]
      else if c = CHR 0x08 then [CHR 0x5C, CHR ''b'']
      else if c = CHR 0x0C then [CHR 0x5C, CHR ''f'']
      else if c = CHR 0x0A then [CHR 0x5C, CHR ''n'']
      else if c = CHR 0x0D then [CHR 0x5C, CHR ''r'']
      else if c = CHR 0x09 then [CHR 0x5C, CHR ''t'']
      else if code c < 32 \<or> c = CHR ''<'' \<or> c = CHR ''>'' \<or> c = CHR ''&'' then u00 c
      else [c])"

text \<open>U+2028 and U+2029 are escaped, a byte of a malformed sequence becomes \<open>\ufffd\<close>.\<close>

function enc_body :: "string \<Rightarrow> string" where
  "enc_body s =
     (case s of
        [] \<Rightarrow> []
      | c # t \<Rightarrow>
          if code c < 0x80 then enc_ascii c @ enc_body t
          else if has_prefix s [CHR 0xE2, CHR 0x80, CHR 0xA8] then [CHR 0x5C] @ ''u2028'' @ enc_body (drop 3 s)
          else if has_prefix s [CHR 0xE2, CHR 0x80, CHR 0xA9] then [CHR 0x5C] @ ''u2029'' @ enc_body (drop 3 s)
          else
            (let n = (if valid_utf8 (take 2 s) \<and> 2 \<le> length s then 2
                      else if valid_utf8 (take 3 s) \<and> 3 \<le> length s then 3
                      else if valid_utf8 (take 4 s) \<and> 4 \<le> length s then 4 else 0)
             in if n = 0 then [CHR 0x5C] @ ''ufffd'' @ enc_body t else take n s @ enc_body (drop n s)))"
  by pat_completeness auto
termination
  by (relation "measure length") (auto simp: has_prefix_iff split: if_splits)

declare enc_body.simps [simp del]

definition enc_string :: "string \<Rightarrow> string" where
  "enc_string s = [CHR 0x22] @ enc_body s @ [CHR 0x22]"

definition sorted_keys :: "string list \<Rightarrow> string list" where
  "sorted_keys ks = foldr insert_key ks []"

text \<open>An object whose values are already encoded, by sorted keys.\<close>

definition enc_object :: "(string \<times> string) list \<Rightarrow> string" where
  "enc_object kvs =
     ''{'' @ join '','' (map (\<lambda>(k, v). enc_string k @ '':'' @ v) kvs) @ ''}''"

text \<open>The members of a Go map, given by its keys without repetition.\<close>

definition enc_map :: "('a \<Rightarrow> string) \<Rightarrow> string list \<Rightarrow> (string \<rightharpoonup> 'a) \<Rightarrow> string" where
  "enc_map enc ks m =
     enc_object (concat (map (\<lambda>k. case m k of None \<Rightarrow> [] | Some v \<Rightarrow> [(k, enc v)]) (sorted_keys (remdups ks))))"

text \<open>The compaction of a raw value: no blanks outside strings, and the escapes of HTML; \<open>q\<close> is whether
  the text is inside a string, \<open>e\<close> whether the byte is escaped.\<close>

fun compact :: "bool \<Rightarrow> bool \<Rightarrow> string \<Rightarrow> string" where
  "compact q e [] = []"
| "compact q e (c # s) =
     (if \<not> q then
        (if json_ws c then compact False False s
         else c # compact (c = CHR 0x22) False s)
      else if e then c # compact True False s
      else if c = CHR 0x22 then c # compact False False s
      else if c = CHR 0x5C then c # compact True True s
      else if c = CHR ''<'' \<or> c = CHR ''>'' \<or> c = CHR ''&'' then u00 c @ compact True False s
      else if has_prefix (c # s) [CHR 0xE2, CHR 0x80, CHR 0xA8] then [CHR 0x5C] @ ''u2028'' @ compact True False (drop 2 s)
      else if has_prefix (c # s) [CHR 0xE2, CHR 0x80, CHR 0xA9] then [CHR 0x5C] @ ''u2029'' @ compact True False (drop 2 s)
      else c # compact True False s)"

definition enc_raw :: "raw \<Rightarrow> string" where
  "enc_raw t = compact False False t"

end
