(* ===== verification/Link_Writer.thy ===== *)
theory Link_Writer
  imports Json_Raw Base64_Input Go_Strconv
begin

text \<open>
  The helpers of \<open>ray2sing/json_ingest.go\<close> that every container reader writes share links with: the
  query under construction (\<open>url.Values\<close> with \<open>Set\<close>), \<open>hostPort\<close>, \<open>buildSSURI\<close>, the vmess object, and the
  renaming of a finished link.
\<close>

section \<open>Queries\<close>

text \<open>Only \<open>Set\<close> is used, so every key has one value.\<close>

type_synonym query = "(string \<times> string) list"

fun qset :: "string \<Rightarrow> string \<Rightarrow> query \<Rightarrow> query" where
  "qset k v [] = [(k, v)]"
| "qset k v ((k', v') # q) = (if k = k' then (k, v) # q else (k', v') # qset k v q)"

definition qset_ne :: "string \<Rightarrow> string \<Rightarrow> query \<Rightarrow> query" where
  "qset_ne k v q = (if v = '''' then q else qset k v q)"

definition qset_if :: "bool \<Rightarrow> string \<Rightarrow> string \<Rightarrow> query \<Rightarrow> query" where
  "qset_if b k v q = (if b then qset k v q else q)"

definition qget :: "query \<Rightarrow> string \<Rightarrow> string" where
  "qget q k = (case map_of q k of None \<Rightarrow> '''' | Some v \<Rightarrow> v)"

definition qencode :: "query \<Rightarrow> string" where
  "qencode q = values_encode (map (\<lambda>(k, v). (k, [v])) q)"

lemma map_of_qset [simp]: "map_of (qset k v q) = (map_of q)(k \<mapsto> v)"
  by (induction q) auto

lemma qset_distinct: "distinct (map fst q) \<Longrightarrow> distinct (map fst (qset k v q))"
proof (induction q)
  case (Cons p q)
  have "fst ` set (qset k v q) = insert k (fst ` set q)"
    by (metis dom_fun_upd dom_map_of_conv_image_fst map_of_qset option.distinct(1))
  with Cons show ?case by (cases p) auto
qed simp

lemma qget_qset [simp]: "qget (qset k v q) k' = (if k' = k then v else qget q k')"
  by (simp add: qget_def)

section \<open>Parts of links\<close>

definition orDefault :: "string \<Rightarrow> string \<Rightarrow> string" where
  "orDefault v d = (if v \<noteq> '''' then v else d)"

definition numToString :: "string \<Rightarrow> string" where
  "numToString n = (if n = '''' then ''0'' else n)"

definition hostPort :: "string \<Rightarrow> int \<Rightarrow> string" where
  "hostPort host port =
     (let p = (if port = 0 then 443 else port);
          h = (if contains host '':'' \<and> \<not> has_prefix host ''['' then ''['' @ host @ '']'' else host) in
      h @ '':'' @ itoa_int p)"

definition raw_url_encode :: "string \<Rightarrow> string" where
  "raw_url_encode s = unpad (url_encode s)"

definition link_of :: "string \<Rightarrow> (string \<times> string option) option \<Rightarrow> string \<Rightarrow> query \<Rightarrow> string \<Rightarrow> string" where
  "link_of sch user host q name =
     url_String (empty_url\<lparr>u_scheme := sch, u_user := user, u_host := host, u_rawquery := qencode q,
       u_fragment := name\<rparr>)"

definition ss_method_name :: "string \<Rightarrow> string" where
  "ss_method_name m0 = (let m = to_lower (trim_space m0) in if m = ''plain'' \<or> m = ''dummy'' then ''none'' else m)"

definition buildSSURI :: "string \<Rightarrow> string \<Rightarrow> string \<Rightarrow> int \<Rightarrow> string \<Rightarrow> string \<Rightarrow> string" where
  "buildSSURI method password host port name plugin =
     ''ss://'' @ raw_url_encode (ss_method_name method @ '':'' @ password) @ ''@'' @ hostPort host port @
     (if plugin = '''' then '''' else ''?'' @ qencode [(''plugin'', plugin)]) @
     (if name = '''' then '''' else ''#'' @ escape EncPathSegment name)"

text \<open>A vmess link is the base64 of a JSON object of strings.\<close>

definition vmess_link :: "query \<Rightarrow> string" where
  "vmess_link m = ''vmess://'' @ std_encode (enc_map enc_string (map fst m) (map_of m))"

definition renameURIFragment :: "string \<Rightarrow> string \<Rightarrow> string" where
  "renameURIFragment uri name =
     (case url_Parse uri of
        Inl _ \<Rightarrow> uri | Inr u \<Rightarrow> url_String (u\<lparr>u_fragment := name\<rparr>))"

text \<open>
  Query parameters into a vmess object. Go ranges over the query in an unspecified order; the order
  here is that of the query.
\<close>

definition merge_param :: "string \<times> string \<Rightarrow> query \<Rightarrow> query" where
  "merge_param kv m =
     (let (k, v) = kv; lk = to_lower k in
      if lk = ''type'' then
        (let m1 = qset ''net'' v m in if map_of m1 ''type'' = None then qset ''type'' ''none'' m1 else m1)
      else if lk = ''security'' then
        (let m1 = qset ''security'' v m in if v = ''tls'' \<or> v = ''reality'' then qset ''tls'' v m1 else m1)
      else if lk = ''packetencoding'' then qset ''packetEncoding'' v m
      else qset lk v m)"

definition mergeQueryIntoVmessMap :: "query \<Rightarrow> query \<Rightarrow> query" where
  "mergeQueryIntoVmessMap q m = fold merge_param q m"

definition normalizeNetwork :: "string \<Rightarrow> string" where
  "normalizeNetwork n0 =
     (let n = to_lower (trim_space n0) in
      if n \<in> {'''', ''raw'', ''tcp'', ''none''} then ''tcp''
      else if n \<in> {''ws'', ''websocket''} then ''ws''
      else if n = ''httpupgrade'' then ''httpupgrade''
      else if n \<in> {''grpc'', ''gun''} then ''grpc''
      else if n \<in> {''h2'', ''http''} then ''http''
      else if n = ''quic'' then ''quic''
      else if n \<in> {''xhttp'', ''splithttp''} then ''xhttp''
      else n)"

text \<open>\<open>stripTagSuffix\<close>: the name of a tag without the number of the pipeline.\<close>

definition pipeline_mark :: string where
  "pipeline_mark = [CHR '' '', CHR 0xC2, CHR 0xA7, CHR '' '']"

definition stripTagSuffix :: "string \<Rightarrow> string" where
  "stripTagSuffix tag =
     (case last_index tag pipeline_mark of
        None \<Rightarrow> tag
      | Some i \<Rightarrow>
          let suffix = drop (i + length pipeline_mark) tag in
          if suffix = '''' then tag else if \<not> list_all is_digit suffix then tag else take i tag)"

end
