(* ===== verification/Xray_Ingest.thy ===== *)
theory Xray_Ingest
  imports Link_Writer Link_Parsers
begin

text \<open>
  An Xray outbound object becomes a share link (\<open>ray2sing/json_ingest.go\<close>, \<open>uriFromXrayOutbound\<close> and what
  it calls), and a SIP008 server an \<open>ss://\<close> link. The structures are decoded from the texts of their
  members. An entry that the code logs and skips is \<open>None\<close>.
\<close>

section \<open>The stream settings\<close>

record xrayHysteriaStream =
  xhy_version :: int
  xhy_auth :: string
  xhy_obfs :: string

definition dec_xrayHysteriaStream :: "raw \<Rightarrow> xrayHysteriaStream \<Rightarrow> xrayHysteriaStream option" where
  "dec_xrayHysteriaStream = dec_struct [''version'', ''auth'', ''obfs'']
     (\<lambda>f t x.
        if f = ''version'' then map_option (\<lambda>v. x\<lparr>xhy_version := v\<rparr>) (dec_int t (xhy_version x))
        else if f = ''auth'' then map_option (\<lambda>v. x\<lparr>xhy_auth := v\<rparr>) (dec_string t (xhy_auth x))
        else map_option (\<lambda>v. x\<lparr>xhy_obfs := v\<rparr>) (dec_string t (xhy_obfs x)))"

text \<open>The header of the TCP transport; its request is a structure of its own.\<close>

record xrayTCPSettings =
  xt_type :: string
  xt_path :: "string list"
  xt_headers :: "string \<rightharpoonup> string list"

definition dec_tcp_request :: "raw \<Rightarrow> xrayTCPSettings \<Rightarrow> xrayTCPSettings option" where
  "dec_tcp_request = dec_struct [''path'', ''headers'']
     (\<lambda>f t x.
        if f = ''path'' then map_option (\<lambda>v. x\<lparr>xt_path := v\<rparr>) (dec_strings t)
        else map_option (\<lambda>v. x\<lparr>xt_headers := v\<rparr>) (dec_map dec_strings t (xt_headers x)))"

definition dec_tcp_header :: "raw \<Rightarrow> xrayTCPSettings \<Rightarrow> xrayTCPSettings option" where
  "dec_tcp_header = dec_struct [''type'', ''request'']
     (\<lambda>f t x.
        if f = ''type'' then map_option (\<lambda>v. x\<lparr>xt_type := v\<rparr>) (dec_string t (xt_type x))
        else dec_tcp_request t x)"

definition dec_xrayTCPSettings :: "raw \<Rightarrow> xrayTCPSettings \<Rightarrow> xrayTCPSettings option" where
  "dec_xrayTCPSettings = dec_struct [''header''] (\<lambda>f. dec_tcp_header)"

record xrayTLSSettings =
  xtls_serverName :: string
  xtls_sni :: string
  xtls_alpn :: "string list"
  xtls_fingerprint :: string
  xtls_allowInsecure :: bool
  xtls_echConfigList :: string
  xtls_echConfig :: string
  xtls_echForceQuery :: string

definition store_xrayTLS :: "string \<Rightarrow> raw \<Rightarrow> xrayTLSSettings \<Rightarrow> xrayTLSSettings option" where
  "store_xrayTLS f t x =
     (if f = ''serverName'' then map_option (\<lambda>v. x\<lparr>xtls_serverName := v\<rparr>) (dec_string t (xtls_serverName x))
      else if f = ''sni'' then map_option (\<lambda>v. x\<lparr>xtls_sni := v\<rparr>) (dec_string t (xtls_sni x))
      else if f = ''alpn'' then map_option (\<lambda>v. x\<lparr>xtls_alpn := v\<rparr>) (dec_strings t)
      else if f = ''fingerprint'' then map_option (\<lambda>v. x\<lparr>xtls_fingerprint := v\<rparr>) (dec_string t (xtls_fingerprint x))
      else if f = ''allowInsecure'' then map_option (\<lambda>v. x\<lparr>xtls_allowInsecure := v\<rparr>) (dec_bool t (xtls_allowInsecure x))
      else if f = ''echConfigList'' then map_option (\<lambda>v. x\<lparr>xtls_echConfigList := v\<rparr>) (dec_string t (xtls_echConfigList x))
      else if f = ''echConfig'' then map_option (\<lambda>v. x\<lparr>xtls_echConfig := v\<rparr>) (dec_string t (xtls_echConfig x))
      else map_option (\<lambda>v. x\<lparr>xtls_echForceQuery := v\<rparr>) (dec_string t (xtls_echForceQuery x)))"

definition dec_xrayTLSSettings :: "raw \<Rightarrow> xrayTLSSettings \<Rightarrow> xrayTLSSettings option" where
  "dec_xrayTLSSettings = dec_struct
     [''serverName'', ''sni'', ''alpn'', ''fingerprint'', ''allowInsecure'', ''echConfigList'', ''echConfig'',
      ''echForceQuery''] store_xrayTLS"

text \<open>The key \<open>ech\<close> of a link: an inline list as it is, an address or a forced query as the empty text.\<close>

definition ech_key :: "xrayTLSSettings \<Rightarrow> string option" where
  "ech_key t =
     (let blob = orDefault (xtls_echConfigList t) (xtls_echConfig t) in
      if blob = '''' \<and> \<not> toBool (xtls_echForceQuery t) False then None
      else if has_prefix (to_lower blob) ''http'' then Some '''' else Some blob)"

definition applyECHKeys :: "xrayTLSSettings \<Rightarrow> query \<Rightarrow> query" where
  "applyECHKeys t q = (case ech_key t of None \<Rightarrow> q | Some v \<Rightarrow> qset ''ech'' v q)"

record xrayRealitySettings =
  xr_serverName :: string
  xr_sni :: string
  xr_publicKey :: string
  xr_shortId :: string
  xr_shortID :: string
  xr_spiderX :: string
  xr_fingerprint :: string

definition store_xrayReality :: "string \<Rightarrow> raw \<Rightarrow> xrayRealitySettings \<Rightarrow> xrayRealitySettings option" where
  "store_xrayReality f t x =
     (if f = ''serverName'' then map_option (\<lambda>v. x\<lparr>xr_serverName := v\<rparr>) (dec_string t (xr_serverName x))
      else if f = ''sni'' then map_option (\<lambda>v. x\<lparr>xr_sni := v\<rparr>) (dec_string t (xr_sni x))
      else if f = ''publicKey'' then map_option (\<lambda>v. x\<lparr>xr_publicKey := v\<rparr>) (dec_string t (xr_publicKey x))
      else if f = ''shortId'' then map_option (\<lambda>v. x\<lparr>xr_shortId := v\<rparr>) (dec_string t (xr_shortId x))
      else if f = ''shortID'' then map_option (\<lambda>v. x\<lparr>xr_shortID := v\<rparr>) (dec_string t (xr_shortID x))
      else if f = ''spiderX'' then map_option (\<lambda>v. x\<lparr>xr_spiderX := v\<rparr>) (dec_string t (xr_spiderX x))
      else map_option (\<lambda>v. x\<lparr>xr_fingerprint := v\<rparr>) (dec_string t (xr_fingerprint x)))"

definition dec_xrayRealitySettings :: "raw \<Rightarrow> xrayRealitySettings \<Rightarrow> xrayRealitySettings option" where
  "dec_xrayRealitySettings = dec_struct
     [''serverName'', ''sni'', ''publicKey'', ''shortId'', ''shortID'', ''spiderX'', ''fingerprint'']
     store_xrayReality"

record xrayWSSettings =
  xws_path :: string
  xws_host :: string
  xws_headers :: "string \<rightharpoonup> string"

definition dec_xrayWSSettings :: "raw \<Rightarrow> xrayWSSettings \<Rightarrow> xrayWSSettings option" where
  "dec_xrayWSSettings = dec_struct [''path'', ''host'', ''headers'']
     (\<lambda>f t x.
        if f = ''path'' then map_option (\<lambda>v. x\<lparr>xws_path := v\<rparr>) (dec_string t (xws_path x))
        else if f = ''host'' then map_option (\<lambda>v. x\<lparr>xws_host := v\<rparr>) (dec_string t (xws_host x))
        else map_option (\<lambda>v. x\<lparr>xws_headers := v\<rparr>) (dec_map (\<lambda>y. dec_string y '''') t (xws_headers x)))"

definition wsHost :: "xrayWSSettings \<Rightarrow> string" where
  "wsHost ws =
     (if xws_host ws \<noteq> '''' then xws_host ws
      else case xws_headers ws ''Host'' of
        Some h \<Rightarrow> h
      | None \<Rightarrow> (case xws_headers ws ''host'' of Some h \<Rightarrow> h | None \<Rightarrow> ''''))"

record xrayGRPCSettings =
  xg_serviceName :: string

definition dec_xrayGRPCSettings :: "raw \<Rightarrow> xrayGRPCSettings \<Rightarrow> xrayGRPCSettings option" where
  "dec_xrayGRPCSettings = dec_struct [''serviceName'']
     (\<lambda>f t x. map_option (\<lambda>v. x\<lparr>xg_serviceName := v\<rparr>) (dec_string t (xg_serviceName x)))"

record xrayHTTPSettings =
  xh_path :: string
  xh_host :: "string list"

definition dec_xrayHTTPSettings :: "raw \<Rightarrow> xrayHTTPSettings \<Rightarrow> xrayHTTPSettings option" where
  "dec_xrayHTTPSettings = dec_struct [''path'', ''host'']
     (\<lambda>f t x.
        if f = ''path'' then map_option (\<lambda>v. x\<lparr>xh_path := v\<rparr>) (dec_string t (xh_path x))
        else map_option (\<lambda>v. x\<lparr>xh_host := v\<rparr>) (dec_strings t))"

text \<open>The whole object of the XHTTP settings is kept beside its fields; it is decoded afresh each time.\<close>

record xrayXHTTPSettings =
  xx_path :: string
  xx_host :: string
  xx_mode :: string
  xx_extra :: raw
  xx_raw :: raw

definition dec_xrayXHTTPSettings :: "raw \<Rightarrow> xrayXHTTPSettings \<Rightarrow> xrayXHTTPSettings option" where
  "dec_xrayXHTTPSettings t old =
     map_option (\<lambda>x. x\<lparr>xx_raw := t\<rparr>)
       (dec_struct [''path'', ''host'', ''mode'', ''extra'']
         (\<lambda>f t x.
            if f = ''path'' then map_option (\<lambda>v. x\<lparr>xx_path := v\<rparr>) (dec_string t (xx_path x))
            else if f = ''host'' then map_option (\<lambda>v. x\<lparr>xx_host := v\<rparr>) (dec_string t (xx_host x))
            else if f = ''mode'' then map_option (\<lambda>v. x\<lparr>xx_mode := v\<rparr>) (dec_string t (xx_mode x))
            else map_option (\<lambda>v. x\<lparr>xx_extra := v\<rparr>) (dec_raw t (xx_extra x)))
         t \<lparr>xx_path = '''', xx_host = '''', xx_mode = '''', xx_extra = '''', xx_raw = ''''\<rparr>)"

record xrayStream =
  xs_network :: string
  xs_security :: string
  xs_tls :: "xrayTLSSettings option"
  xs_reality :: "xrayRealitySettings option"
  xs_ws :: "xrayWSSettings option"
  xs_httpupgrade :: "xrayWSSettings option"
  xs_grpc :: "xrayGRPCSettings option"
  xs_http :: "xrayHTTPSettings option"
  xs_xhttp :: "xrayXHTTPSettings option"
  xs_splithttp :: "xrayXHTTPSettings option"
  xs_tcp :: "xrayTCPSettings option"
  xs_hysteria :: "xrayHysteriaStream option"

definition zero_tls :: xrayTLSSettings where
  "zero_tls = \<lparr>xtls_serverName = '''', xtls_sni = '''', xtls_alpn = [], xtls_fingerprint = '''',
     xtls_allowInsecure = False, xtls_echConfigList = '''', xtls_echConfig = '''', xtls_echForceQuery = ''''\<rparr>"

definition zero_reality :: xrayRealitySettings where
  "zero_reality = \<lparr>xr_serverName = '''', xr_sni = '''', xr_publicKey = '''', xr_shortId = '''', xr_shortID = '''',
     xr_spiderX = '''', xr_fingerprint = ''''\<rparr>"

definition zero_ws :: xrayWSSettings where
  "zero_ws = \<lparr>xws_path = '''', xws_host = '''', xws_headers = Map.empty\<rparr>"

definition zero_xhttp :: xrayXHTTPSettings where
  "zero_xhttp = \<lparr>xx_path = '''', xx_host = '''', xx_mode = '''', xx_extra = '''', xx_raw = ''''\<rparr>"

definition zero_stream :: xrayStream where
  "zero_stream = \<lparr>xs_network = '''', xs_security = '''', xs_tls = None, xs_reality = None, xs_ws = None,
     xs_httpupgrade = None, xs_grpc = None, xs_http = None, xs_xhttp = None, xs_splithttp = None,
     xs_tcp = None, xs_hysteria = None\<rparr>"

definition store_xrayStream :: "string \<Rightarrow> raw \<Rightarrow> xrayStream \<Rightarrow> xrayStream option" where
  "store_xrayStream f t x =
     (if f = ''network'' then map_option (\<lambda>v. x\<lparr>xs_network := v\<rparr>) (dec_string t (xs_network x))
      else if f = ''security'' then map_option (\<lambda>v. x\<lparr>xs_security := v\<rparr>) (dec_string t (xs_security x))
      else if f = ''tlsSettings'' then
        map_option (\<lambda>v. x\<lparr>xs_tls := v\<rparr>) (dec_ptr dec_xrayTLSSettings zero_tls t (xs_tls x))
      else if f = ''realitySettings'' then
        map_option (\<lambda>v. x\<lparr>xs_reality := v\<rparr>) (dec_ptr dec_xrayRealitySettings zero_reality t (xs_reality x))
      else if f = ''wsSettings'' then
        map_option (\<lambda>v. x\<lparr>xs_ws := v\<rparr>) (dec_ptr dec_xrayWSSettings zero_ws t (xs_ws x))
      else if f = ''httpupgradeSettings'' then
        map_option (\<lambda>v. x\<lparr>xs_httpupgrade := v\<rparr>) (dec_ptr dec_xrayWSSettings zero_ws t (xs_httpupgrade x))
      else if f = ''grpcSettings'' then
        map_option (\<lambda>v. x\<lparr>xs_grpc := v\<rparr>) (dec_ptr dec_xrayGRPCSettings \<lparr>xg_serviceName = ''''\<rparr> t (xs_grpc x))
      else if f = ''httpSettings'' then
        map_option (\<lambda>v. x\<lparr>xs_http := v\<rparr>)
          (dec_ptr dec_xrayHTTPSettings \<lparr>xh_path = '''', xh_host = []\<rparr> t (xs_http x))
      else if f = ''xhttpSettings'' then
        map_option (\<lambda>v. x\<lparr>xs_xhttp := v\<rparr>) (dec_ptr dec_xrayXHTTPSettings zero_xhttp t (xs_xhttp x))
      else if f = ''splithttpSettings'' then
        map_option (\<lambda>v. x\<lparr>xs_splithttp := v\<rparr>) (dec_ptr dec_xrayXHTTPSettings zero_xhttp t (xs_splithttp x))
      else if f = ''tcpSettings'' then
        map_option (\<lambda>v. x\<lparr>xs_tcp := v\<rparr>)
          (dec_ptr dec_xrayTCPSettings \<lparr>xt_type = '''', xt_path = [], xt_headers = Map.empty\<rparr> t (xs_tcp x))
      else
        map_option (\<lambda>v. x\<lparr>xs_hysteria := v\<rparr>)
          (dec_ptr dec_xrayHysteriaStream \<lparr>xhy_version = 0, xhy_auth = '''', xhy_obfs = ''''\<rparr> t (xs_hysteria x)))"

definition dec_xrayStream :: "raw \<Rightarrow> xrayStream \<Rightarrow> xrayStream option" where
  "dec_xrayStream = dec_struct
     [''network'', ''security'', ''tlsSettings'', ''realitySettings'', ''wsSettings'', ''httpupgradeSettings'',
      ''grpcSettings'', ''httpSettings'', ''xhttpSettings'', ''splithttpSettings'', ''tcpSettings'',
      ''hysteriaSettings''] store_xrayStream"

section \<open>Stream settings in a query\<close>

text \<open>The settings of a network, shared by \<open>ws\<close> and \<open>httpupgrade\<close>, \<open>xhttp\<close> and \<open>splithttp\<close>.\<close>

definition xray_ws :: "string \<Rightarrow> xrayStream \<Rightarrow> xrayWSSettings option" where
  "xray_ws net st = (if net = ''httpupgrade'' \<and> xs_httpupgrade st \<noteq> None then xs_httpupgrade st else xs_ws st)"

definition xray_xhttp :: "xrayStream \<Rightarrow> xrayXHTTPSettings option" where
  "xray_xhttp st = (if xs_xhttp st = None then xs_splithttp st else xs_xhttp st)"

definition xhttp_params :: "xrayXHTTPSettings \<Rightarrow> query \<Rightarrow> query" where
  "xhttp_params x q =
     qset_ne ''extra'' (if xx_extra x \<noteq> '''' then xx_extra x else xx_raw x)
       (qset_ne ''mode'' (xx_mode x) (qset_ne ''host'' (xx_host x) (qset_ne ''path'' (xx_path x) q)))"

text \<open>The first element of a list, empty when there is none.\<close>

definition first_of :: "string list \<Rightarrow> string" where
  "first_of xs = (case xs of [] \<Rightarrow> '''' | x # _ \<Rightarrow> x)"

definition tcp_host :: "xrayTCPSettings \<Rightarrow> string" where
  "tcp_host t = (case xt_headers t ''Host'' of None \<Rightarrow> '''' | Some h \<Rightarrow> first_of h)"

text \<open>Only the keys of the header type and of a gRPC service differ between a query and a vmess object.\<close>

definition network_params :: "string \<Rightarrow> string \<Rightarrow> string \<Rightarrow> xrayStream \<Rightarrow> query \<Rightarrow> query" where
  "network_params service_key header_key net st q =
     (if net \<in> {''ws'', ''httpupgrade''} then
        (case xray_ws net st of
           None \<Rightarrow> q | Some ws \<Rightarrow> qset_ne ''host'' (wsHost ws) (qset_ne ''path'' (xws_path ws) q))
      else if net = ''grpc'' then
        (case xs_grpc st of None \<Rightarrow> q | Some g \<Rightarrow> qset_ne service_key (xg_serviceName g) q)
      else if net \<in> {''http'', ''h2''} then
        (case xs_http st of
           None \<Rightarrow> q
         | Some h \<Rightarrow> qset_if (xh_host h \<noteq> []) ''host'' (join '','' (xh_host h)) (qset_ne ''path'' (xh_path h) q))
      else if net \<in> {''xhttp'', ''splithttp''} then
        (case xray_xhttp st of None \<Rightarrow> q | Some x \<Rightarrow> xhttp_params x q)
      else if net = ''tcp'' then
        (case xs_tcp st of
           None \<Rightarrow> q
         | Some t \<Rightarrow>
             if to_lower (xt_type t) = ''http''
             then qset_ne ''host'' (tcp_host t) (qset_ne ''path'' (first_of (xt_path t)) (qset header_key ''http'' q))
             else q)
      else q)"

definition applyNetworkParamsToQuery :: "string \<Rightarrow> xrayStream \<Rightarrow> query \<Rightarrow> query" where
  "applyNetworkParamsToQuery net st q = network_params ''serviceName'' ''headerType'' net st q"

definition tls_params :: "string \<Rightarrow> xrayTLSSettings \<Rightarrow> query \<Rightarrow> query" where
  "tls_params insecure_key t q =
     applyECHKeys t
       (qset_if (xtls_allowInsecure t) insecure_key ''1''
         (qset_ne ''fp'' (xtls_fingerprint t)
           (qset_if (xtls_alpn t \<noteq> []) ''alpn'' (join '','' (xtls_alpn t))
             (qset_ne ''sni'' (orDefault (xtls_sni t) (xtls_serverName t)) q))))"

definition reality_params :: "bool \<Rightarrow> xrayRealitySettings \<Rightarrow> query \<Rightarrow> query" where
  "reality_params spider r q =
     qset_ne ''fp'' (xr_fingerprint r)
       (qset_ne ''spx'' (if spider then xr_spiderX r else '''')
         (qset_ne ''sid'' (orDefault (xr_shortId r) (xr_shortID r))
           (qset_ne ''pbk'' (xr_publicKey r)
             (qset_ne ''sni'' (orDefault (xr_sni r) (xr_serverName r)) q))))"

definition applyStreamToQuery :: "xrayStream option \<Rightarrow> query \<Rightarrow> query" where
  "applyStreamToQuery st0 q =
     (case st0 of
        None \<Rightarrow> q
      | Some st \<Rightarrow>
          let net = normalizeNetwork (xs_network st);
              sec = to_lower (xs_security st);
              q1 = qset_ne ''type'' net q;
              q2 = (if sec = ''tls'' then qset ''security'' ''tls'' q1
                    else if sec = ''reality'' then qset ''security'' ''reality'' q1
                    else if sec \<in> {''none'', ''''} then q1
                    else qset ''security'' (xs_security st) q1);
              q3 = (case xs_tls st of None \<Rightarrow> q2 | Some t \<Rightarrow> tls_params ''allowInsecure'' t q2);
              q4 = (case xs_reality st of None \<Rightarrow> q3 | Some r \<Rightarrow> reality_params True r q3)
          in applyNetworkParamsToQuery net st q4)"

definition applyStreamToVmessMap :: "xrayStream option \<Rightarrow> query \<Rightarrow> query" where
  "applyStreamToVmessMap st0 m =
     (case st0 of
        None \<Rightarrow> qset ''net'' ''tcp'' m
      | Some st \<Rightarrow>
          let net = (let n = normalizeNetwork (xs_network st) in if n = '''' then ''tcp'' else n);
              sec = to_lower (xs_security st);
              m1 = qset ''net'' net m;
              m2 = (if sec = ''tls'' then qset ''tls'' ''tls'' m1
                    else if sec = ''reality'' then qset ''tls'' ''reality'' m1
                    else m1);
              m3 = (case xs_tls st of None \<Rightarrow> m2 | Some t \<Rightarrow> tls_params ''insecure'' t m2);
              m4 = (case xs_reality st of None \<Rightarrow> m3 | Some r \<Rightarrow> reality_params False r m3)
          in network_params ''path'' ''type'' net st m4)"

section \<open>Outbounds\<close>

record xrayOutbound =
  ob_protocol :: string
  ob_tag :: string
  ob_settings :: raw
  ob_stream :: "xrayStream option"

definition dec_xrayOutbound :: "raw \<Rightarrow> xrayOutbound option" where
  "dec_xrayOutbound t0 = dec_struct [''protocol'', ''tag'', ''settings'', ''streamSettings'']
     (\<lambda>f t x.
        if f = ''protocol'' then map_option (\<lambda>v. x\<lparr>ob_protocol := v\<rparr>) (dec_string t (ob_protocol x))
        else if f = ''tag'' then map_option (\<lambda>v. x\<lparr>ob_tag := v\<rparr>) (dec_string t (ob_tag x))
        else if f = ''settings'' then map_option (\<lambda>v. x\<lparr>ob_settings := v\<rparr>) (dec_raw t (ob_settings x))
        else map_option (\<lambda>v. x\<lparr>ob_stream := v\<rparr>) (dec_ptr dec_xrayStream zero_stream t (ob_stream x)))
     t0 \<lparr>ob_protocol = '''', ob_tag = '''', ob_settings = '''', ob_stream = None\<rparr>"

text \<open>The servers of VLESS and VMess, and their users.\<close>

record vnext_user =
  vu_id :: string
  vu_flow :: string
  vu_encryption :: string
  vu_security :: string
  vu_alterId :: string

record vnext_server =
  vn_address :: string
  vn_port :: int
  vn_users :: "vnext_user list"

definition dec_vnext_user :: "raw \<Rightarrow> vnext_user option" where
  "dec_vnext_user t0 = dec_struct [''id'', ''flow'', ''encryption'', ''security'', ''alterId'']
     (\<lambda>f t x.
        if f = ''id'' then map_option (\<lambda>v. x\<lparr>vu_id := v\<rparr>) (dec_string t (vu_id x))
        else if f = ''flow'' then map_option (\<lambda>v. x\<lparr>vu_flow := v\<rparr>) (dec_string t (vu_flow x))
        else if f = ''encryption'' then map_option (\<lambda>v. x\<lparr>vu_encryption := v\<rparr>) (dec_string t (vu_encryption x))
        else if f = ''security'' then map_option (\<lambda>v. x\<lparr>vu_security := v\<rparr>) (dec_string t (vu_security x))
        else map_option (\<lambda>v. x\<lparr>vu_alterId := v\<rparr>) (dec_number t (vu_alterId x)))
     t0 \<lparr>vu_id = '''', vu_flow = '''', vu_encryption = '''', vu_security = '''', vu_alterId = ''''\<rparr>"

definition dec_vnext_server :: "raw \<Rightarrow> vnext_server option" where
  "dec_vnext_server t0 = dec_struct [''address'', ''port'', ''users'']
     (\<lambda>f t x.
        if f = ''address'' then map_option (\<lambda>v. x\<lparr>vn_address := v\<rparr>) (dec_string t (vn_address x))
        else if f = ''port'' then map_option (\<lambda>v. x\<lparr>vn_port := v\<rparr>) (dec_int t (vn_port x))
        else map_option (\<lambda>v. x\<lparr>vn_users := v\<rparr>) (dec_list dec_vnext_user t))
     t0 \<lparr>vn_address = '''', vn_port = 0, vn_users = []\<rparr>"

definition vnextSettings :: "raw \<Rightarrow> vnext_server list option" where
  "vnextSettings t0 = dec_struct [''vnext''] (\<lambda>f t x. dec_list dec_vnext_server t) t0 []"

text \<open>The first user of the first server.\<close>

definition first_vnext :: "raw \<Rightarrow> (vnext_server \<times> vnext_user) option" where
  "first_vnext t =
     (case vnextSettings t of
        Some (srv # _) \<Rightarrow> (case vn_users srv of [] \<Rightarrow> None | usr # _ \<Rightarrow> Some (srv, usr))
      | _ \<Rightarrow> None)"

text \<open>The flow: a known one as \<open>normalizeVlessFlow\<close> writes it, an unknown one as it stands.\<close>

definition flow_param :: "string \<Rightarrow> string" where
  "flow_param f = (if f = '''' then '''' else case normalizeVlessFlow f of Inr g \<Rightarrow> g | Inl _ \<Rightarrow> f)"

definition vless_query :: "xrayStream option \<Rightarrow> vnext_user \<Rightarrow> query" where
  "vless_query st usr =
     applyStreamToQuery st
       (qset_ne ''flow'' (flow_param (vu_flow usr))
         (qset ''encryption'' (orDefault (vu_encryption usr) ''none'') []))"

definition xrayVLESS :: "xrayOutbound \<Rightarrow> string option" where
  "xrayVLESS ob =
     (case first_vnext (ob_settings ob) of
        None \<Rightarrow> None
      | Some (srv, usr) \<Rightarrow>
          Some (link_of ''vless'' (Some (vu_id usr, None)) (hostPort (vn_address srv) (vn_port srv))
            (vless_query (ob_stream ob) usr) (ob_tag ob)))"

text \<open>The servers of Trojan and Shadowsocks.\<close>

record xray_server =
  sv_address :: string
  sv_port :: int
  sv_password :: string
  sv_flow :: string
  sv_method :: string

definition zero_server :: xray_server where
  "zero_server = \<lparr>sv_address = '''', sv_port = 0, sv_password = '''', sv_flow = '''', sv_method = ''''\<rparr>"

definition store_server :: "string \<Rightarrow> raw \<Rightarrow> xray_server \<Rightarrow> xray_server option" where
  "store_server f t x =
     (if f = ''address'' then map_option (\<lambda>v. x\<lparr>sv_address := v\<rparr>) (dec_string t (sv_address x))
      else if f = ''port'' then map_option (\<lambda>v. x\<lparr>sv_port := v\<rparr>) (dec_int t (sv_port x))
      else if f = ''password'' then map_option (\<lambda>v. x\<lparr>sv_password := v\<rparr>) (dec_string t (sv_password x))
      else if f = ''flow'' then map_option (\<lambda>v. x\<lparr>sv_flow := v\<rparr>) (dec_string t (sv_flow x))
      else map_option (\<lambda>v. x\<lparr>sv_method := v\<rparr>) (dec_string t (sv_method x)))"

definition dec_servers :: "string list \<Rightarrow> raw \<Rightarrow> xray_server list option" where
  "dec_servers tags t0 =
     dec_struct [''servers''] (\<lambda>f t x. dec_list (\<lambda>y. dec_struct tags store_server y zero_server) t) t0 []"

definition trojan_query :: "xrayStream option \<Rightarrow> string \<Rightarrow> query" where
  "trojan_query st flow =
     (let q = applyStreamToQuery st (qset_ne ''flow'' flow []) in
      if qget q ''security'' = '''' then qset ''security'' ''tls'' q else q)"

definition xrayTrojan :: "xrayOutbound \<Rightarrow> string option" where
  "xrayTrojan ob =
     (case dec_servers [''address'', ''port'', ''password'', ''flow''] (ob_settings ob) of
        Some (srv # _) \<Rightarrow>
          Some (link_of ''trojan'' (Some (sv_password srv, None)) (hostPort (sv_address srv) (sv_port srv))
            (trojan_query (ob_stream ob) (sv_flow srv)) (ob_tag ob))
      | _ \<Rightarrow> None)"

definition xrayShadowsocks :: "xrayOutbound \<Rightarrow> string option" where
  "xrayShadowsocks ob =
     (case dec_servers [''address'', ''port'', ''method'', ''password''] (ob_settings ob) of
        Some (srv # _) \<Rightarrow>
          Some (buildSSURI (sv_method srv) (sv_password srv) (sv_address srv) (sv_port srv) (ob_tag ob) '''')
      | _ \<Rightarrow> None)"

record hysteria_settings =
  hse_address :: string
  hse_port :: int
  hse_version :: string
  hse_auth :: string
  hse_password :: string

definition dec_hysteria_settings :: "raw \<Rightarrow> hysteria_settings option" where
  "dec_hysteria_settings t0 = dec_struct [''address'', ''port'', ''version'', ''auth'', ''password'']
     (\<lambda>f t x.
        if f = ''address'' then map_option (\<lambda>v. x\<lparr>hse_address := v\<rparr>) (dec_string t (hse_address x))
        else if f = ''port'' then map_option (\<lambda>v. x\<lparr>hse_port := v\<rparr>) (dec_int t (hse_port x))
        else if f = ''version'' then map_option (\<lambda>v. x\<lparr>hse_version := v\<rparr>) (dec_number t (hse_version x))
        else if f = ''auth'' then map_option (\<lambda>v. x\<lparr>hse_auth := v\<rparr>) (dec_string t (hse_auth x))
        else map_option (\<lambda>v. x\<lparr>hse_password := v\<rparr>) (dec_string t (hse_password x)))
     t0 \<lparr>hse_address = '''', hse_port = 0, hse_version = '''', hse_auth = '''', hse_password = ''''\<rparr>"

text \<open>Hysteria 2 is marked by the version, in the settings or in the stream.\<close>

definition hysteria_stream :: "xrayOutbound \<Rightarrow> xrayHysteriaStream option" where
  "hysteria_stream ob = (case ob_stream ob of None \<Rightarrow> None | Some st \<Rightarrow> xs_hysteria st)"

definition is_v2 :: "hysteria_settings \<Rightarrow> xrayHysteriaStream option \<Rightarrow> bool" where
  "is_v2 s hs \<longleftrightarrow> hse_version s = ''2'' \<or> (case hs of None \<Rightarrow> False | Some h \<Rightarrow> xhy_version h = 2)"

definition hysteria2_query :: "xrayOutbound \<Rightarrow> query" where
  "hysteria2_query ob =
     (let q = (case ob_stream ob of
                 None \<Rightarrow> []
               | Some st \<Rightarrow>
                   (case xs_tls st of
                      None \<Rightarrow> []
                    | Some t \<Rightarrow>
                        qset_if (xtls_allowInsecure t) ''insecure'' ''1''
                          (qset_if (xtls_alpn t \<noteq> []) ''alpn'' (join '','' (xtls_alpn t))
                            (qset_ne ''sni'' (orDefault (xtls_sni t) (xtls_serverName t)) []))))
      in case hysteria_stream ob of
           None \<Rightarrow> q
         | Some h \<Rightarrow>
             if xhy_obfs h = '''' then q
             else qset ''obfs-password'' (xhy_obfs h) (qset ''obfs'' ''salamander'' q))"

definition xrayHysteria2 :: "xrayOutbound \<Rightarrow> string option" where
  "xrayHysteria2 ob =
     (case dec_hysteria_settings (ob_settings ob) of
        None \<Rightarrow> None
      | Some s \<Rightarrow>
          let hs = hysteria_stream ob;
              password0 = (case hs of None \<Rightarrow> '''' | Some h \<Rightarrow> xhy_auth h);
              password = orDefault password0 (orDefault (hse_auth s) (hse_password s)) in
          if hse_address s = '''' then None
          else if \<not> is_v2 s hs then None
          else Some (link_of ''hysteria2'' (Some (password, None)) (hostPort (hse_address s) (hse_port s))
                 (hysteria2_query ob) (ob_tag ob)))"

definition vmess_object :: "xrayOutbound \<Rightarrow> vnext_server \<Rightarrow> vnext_user \<Rightarrow> query" where
  "vmess_object ob srv usr =
     applyStreamToVmessMap (ob_stream ob)
       [(''v'', ''2''), (''ps'', ob_tag ob), (''add'', vn_address srv), (''port'', itoa_int (vn_port srv)),
        (''id'', vu_id usr), (''aid'', numToString (vu_alterId usr)),
        (''scy'', orDefault (vu_security usr) ''auto'')]"

definition xrayVMess :: "xrayOutbound \<Rightarrow> string option" where
  "xrayVMess ob =
     (case first_vnext (ob_settings ob) of
        None \<Rightarrow> None
      | Some (srv, usr) \<Rightarrow> Some (vmess_link (vmess_object ob srv usr)))"

definition uriFromXrayOutbound :: "raw \<Rightarrow> string \<Rightarrow> string option" where
  "uriFromXrayOutbound t protocol =
     (case dec_xrayOutbound t of
        None \<Rightarrow> None
      | Some ob \<Rightarrow>
          let p = to_lower protocol in
          if p = ''vless'' then xrayVLESS ob
          else if p = ''vmess'' then xrayVMess ob
          else if p = ''trojan'' then xrayTrojan ob
          else if p = ''shadowsocks'' then xrayShadowsocks ob
          else if p = ''hysteria2'' \<or> p = ''hysteria'' then xrayHysteria2 ob
          else None)"

section \<open>SIP008\<close>

record sip008 =
  s8_server :: string
  s8_port :: string
  s8_method :: string
  s8_password :: string
  s8_remarks :: string
  s8_name :: string
  s8_plugin :: string
  s8_plugin_opts :: string

definition store_sip008 :: "string \<Rightarrow> raw \<Rightarrow> sip008 \<Rightarrow> sip008 option" where
  "store_sip008 f t x =
     (if f = ''server'' then map_option (\<lambda>v. x\<lparr>s8_server := v\<rparr>) (dec_string t (s8_server x))
      else if f = ''server_port'' then map_option (\<lambda>v. x\<lparr>s8_port := v\<rparr>) (dec_number t (s8_port x))
      else if f = ''method'' then map_option (\<lambda>v. x\<lparr>s8_method := v\<rparr>) (dec_string t (s8_method x))
      else if f = ''password'' then map_option (\<lambda>v. x\<lparr>s8_password := v\<rparr>) (dec_string t (s8_password x))
      else if f = ''remarks'' then map_option (\<lambda>v. x\<lparr>s8_remarks := v\<rparr>) (dec_string t (s8_remarks x))
      else if f = ''name'' then map_option (\<lambda>v. x\<lparr>s8_name := v\<rparr>) (dec_string t (s8_name x))
      else if f = ''plugin'' then map_option (\<lambda>v. x\<lparr>s8_plugin := v\<rparr>) (dec_string t (s8_plugin x))
      else map_option (\<lambda>v. x\<lparr>s8_plugin_opts := v\<rparr>) (dec_string t (s8_plugin_opts x)))"

definition dec_sip008 :: "raw \<Rightarrow> sip008 option" where
  "dec_sip008 t = dec_struct
     [''server'', ''server_port'', ''method'', ''password'', ''remarks'', ''name'', ''plugin'', ''plugin_opts'']
     store_sip008 t
     \<lparr>s8_server = '''', s8_port = '''', s8_method = '''', s8_password = '''', s8_remarks = '''', s8_name = '''',
      s8_plugin = '''', s8_plugin_opts = ''''\<rparr>"

definition number_int :: "string \<Rightarrow> int" where
  "number_int n = (case parse_int 64 n of (i, ok) \<Rightarrow> if ok then i else 0)"

definition uriFromSIP008 :: "raw \<Rightarrow> string option" where
  "uriFromSIP008 t =
     (case dec_sip008 t of
        None \<Rightarrow> None
      | Some s \<Rightarrow>
          if s8_server s = '''' \<or> s8_method s = '''' then None
          else
            let plugin = (if s8_plugin s \<noteq> '''' \<and> s8_plugin_opts s \<noteq> ''''
                          then s8_plugin s @ '';'' @ s8_plugin_opts s else s8_plugin s)
            in Some (buildSSURI (s8_method s) (s8_password s) (s8_server s) (number_int (s8_port s))
                 (orDefault (s8_remarks s) (s8_name s)) plugin))"

end
