(* ===== verification/Singbox_Ingest.thy ===== *)
theory Singbox_Ingest
  imports Link_Writer Go_Time "HOL-Library.AList"
begin

text \<open>
  A native sing-box outbound or endpoint becomes a share link (\<open>ray2sing/singbox_ingest.go\<close>). An entry the
  code skips, or leaves to the JSON fallback of its callers, is \<open>None\<close>. A map that is later written out
  is an association list, since the writer needs its keys.
\<close>

section \<open>Decoding\<close>

text \<open>A text or a list of texts; empty texts and other values are dropped.\<close>

definition stringOrList :: "raw \<Rightarrow> string list \<Rightarrow> string list option" where
  "stringOrList t old =
     (case json_parse t of
        None \<Rightarrow> None
      | Some (JStr s) \<Rightarrow> Some (if s = '''' then old else [s])
      | Some (JArr vs) \<Rightarrow>
          Some (filter (\<lambda>s. s \<noteq> '''') (List.map_filter (\<lambda>v. case v of JStr s \<Rightarrow> Some s | _ \<Rightarrow> None) vs))
      | Some _ \<Rightarrow> Some old)"

fun add_pairs :: "(raw \<Rightarrow> 'a option) \<Rightarrow> (string \<times> raw) list \<Rightarrow> (string \<times> 'a) list \<Rightarrow> (string \<times> 'a) list option" where
  "add_pairs f [] m = Some m"
| "add_pairs f ((k, t) # ms) m = (case f t of None \<Rightarrow> None | Some v \<Rightarrow> add_pairs f ms (AList.update k v m))"

definition dec_pairs :: "(raw \<Rightarrow> 'a option) \<Rightarrow> raw \<Rightarrow> (string \<times> 'a) list \<Rightarrow> (string \<times> 'a) list option" where
  "dec_pairs f t m =
     (if is_null t then Some []
      else case raw_object t of None \<Rightarrow> None | Some ms \<Rightarrow> add_pairs f ms m)"

definition dec_headers :: "raw \<Rightarrow> (string \<times> string list) list \<Rightarrow> (string \<times> string list) list option" where
  "dec_headers = dec_pairs (\<lambda>x. stringOrList x [])"

record singboxObfs =
  sob_type :: string
  sob_password :: string

definition dec_singboxObfs :: "raw \<Rightarrow> singboxObfs \<Rightarrow> singboxObfs option" where
  "dec_singboxObfs = dec_struct [''type'', ''password'']
     (\<lambda>f t x.
        if f = ''type'' then map_option (\<lambda>v. x\<lparr>sob_type := v\<rparr>) (dec_string t (sob_type x))
        else map_option (\<lambda>v. x\<lparr>sob_password := v\<rparr>) (dec_string t (sob_password x)))"

record singboxUTLS =
  sut_enabled :: bool
  sut_fingerprint :: string

definition dec_singboxUTLS :: "raw \<Rightarrow> singboxUTLS \<Rightarrow> singboxUTLS option" where
  "dec_singboxUTLS = dec_struct [''enabled'', ''fingerprint'']
     (\<lambda>f t x.
        if f = ''enabled'' then map_option (\<lambda>v. x\<lparr>sut_enabled := v\<rparr>) (dec_bool t (sut_enabled x))
        else map_option (\<lambda>v. x\<lparr>sut_fingerprint := v\<rparr>) (dec_string t (sut_fingerprint x)))"

record singboxReality =
  sre_enabled :: bool
  sre_publicKey :: string
  sre_shortID :: string

definition dec_singboxReality :: "raw \<Rightarrow> singboxReality \<Rightarrow> singboxReality option" where
  "dec_singboxReality = dec_struct [''enabled'', ''public_key'', ''short_id'']
     (\<lambda>f t x.
        if f = ''enabled'' then map_option (\<lambda>v. x\<lparr>sre_enabled := v\<rparr>) (dec_bool t (sre_enabled x))
        else if f = ''public_key'' then map_option (\<lambda>v. x\<lparr>sre_publicKey := v\<rparr>) (dec_string t (sre_publicKey x))
        else map_option (\<lambda>v. x\<lparr>sre_shortID := v\<rparr>) (dec_string t (sre_shortID x)))"

record singboxECH =
  sec_enabled :: bool
  sec_config :: "string list"
  sec_configPath :: string
  sec_queryServerName :: string

definition dec_singboxECH :: "raw \<Rightarrow> singboxECH \<Rightarrow> singboxECH option" where
  "dec_singboxECH = dec_struct [''enabled'', ''config'', ''config_path'', ''query_server_name'']
     (\<lambda>f t x.
        if f = ''enabled'' then map_option (\<lambda>v. x\<lparr>sec_enabled := v\<rparr>) (dec_bool t (sec_enabled x))
        else if f = ''config'' then map_option (\<lambda>v. x\<lparr>sec_config := v\<rparr>) (stringOrList t (sec_config x))
        else if f = ''config_path'' then map_option (\<lambda>v. x\<lparr>sec_configPath := v\<rparr>) (dec_string t (sec_configPath x))
        else map_option (\<lambda>v. x\<lparr>sec_queryServerName := v\<rparr>) (dec_string t (sec_queryServerName x)))"

record singboxTLS =
  stl_enabled :: bool
  stl_serverName :: string
  stl_insecure :: bool
  stl_alpn :: "string list"
  stl_utls :: "singboxUTLS option"
  stl_reality :: "singboxReality option"
  stl_ech :: "singboxECH option"

definition zero_singboxTLS :: singboxTLS where
  "zero_singboxTLS = \<lparr>stl_enabled = False, stl_serverName = '''', stl_insecure = False, stl_alpn = [],
     stl_utls = None, stl_reality = None, stl_ech = None\<rparr>"

definition store_singboxTLS :: "string \<Rightarrow> raw \<Rightarrow> singboxTLS \<Rightarrow> singboxTLS option" where
  "store_singboxTLS f t x =
     (if f = ''enabled'' then map_option (\<lambda>v. x\<lparr>stl_enabled := v\<rparr>) (dec_bool t (stl_enabled x))
      else if f = ''server_name'' then map_option (\<lambda>v. x\<lparr>stl_serverName := v\<rparr>) (dec_string t (stl_serverName x))
      else if f = ''insecure'' then map_option (\<lambda>v. x\<lparr>stl_insecure := v\<rparr>) (dec_bool t (stl_insecure x))
      else if f = ''alpn'' then map_option (\<lambda>v. x\<lparr>stl_alpn := v\<rparr>) (stringOrList t (stl_alpn x))
      else if f = ''utls'' then
        map_option (\<lambda>v. x\<lparr>stl_utls := v\<rparr>)
          (dec_ptr dec_singboxUTLS \<lparr>sut_enabled = False, sut_fingerprint = ''''\<rparr> t (stl_utls x))
      else if f = ''reality'' then
        map_option (\<lambda>v. x\<lparr>stl_reality := v\<rparr>)
          (dec_ptr dec_singboxReality \<lparr>sre_enabled = False, sre_publicKey = '''', sre_shortID = ''''\<rparr> t (stl_reality x))
      else
        map_option (\<lambda>v. x\<lparr>stl_ech := v\<rparr>)
          (dec_ptr dec_singboxECH
            \<lparr>sec_enabled = False, sec_config = [], sec_configPath = '''', sec_queryServerName = ''''\<rparr> t (stl_ech x)))"

definition dec_singboxTLS :: "raw \<Rightarrow> singboxTLS \<Rightarrow> singboxTLS option" where
  "dec_singboxTLS = dec_struct
     [''enabled'', ''server_name'', ''insecure'', ''alpn'', ''utls'', ''reality'', ''ech''] store_singboxTLS"

record singboxTransport =
  str_type :: string
  str_path :: string
  str_headers :: "(string \<times> string list) list"
  str_serviceName :: string
  str_host :: raw
  str_maxEarlyData :: nat
  str_earlyDataHeaderName :: string
  str_method :: string
  str_idleTimeout :: raw
  str_pingTimeout :: raw
  str_heartbeatPeriod :: raw
  str_permitWithoutStream :: bool
  str_authority :: string
  str_userAgent :: string
  str_mode :: string
  str_raw :: raw

definition zero_singboxTransport :: singboxTransport where
  "zero_singboxTransport = \<lparr>str_type = '''', str_path = '''', str_headers = [], str_serviceName = '''', str_host = '''',
     str_maxEarlyData = 0, str_earlyDataHeaderName = '''', str_method = '''', str_idleTimeout = '''',
     str_pingTimeout = '''', str_heartbeatPeriod = '''', str_permitWithoutStream = False, str_authority = '''',
     str_userAgent = '''', str_mode = '''', str_raw = ''''\<rparr>"

definition store_singboxTransport :: "string \<Rightarrow> raw \<Rightarrow> singboxTransport \<Rightarrow> singboxTransport option" where
  "store_singboxTransport f t x =
     (if f = ''type'' then map_option (\<lambda>v. x\<lparr>str_type := v\<rparr>) (dec_string t (str_type x))
      else if f = ''path'' then map_option (\<lambda>v. x\<lparr>str_path := v\<rparr>) (dec_string t (str_path x))
      else if f = ''headers'' then map_option (\<lambda>v. x\<lparr>str_headers := v\<rparr>) (dec_headers t (str_headers x))
      else if f = ''service_name'' then map_option (\<lambda>v. x\<lparr>str_serviceName := v\<rparr>) (dec_string t (str_serviceName x))
      else if f = ''host'' then map_option (\<lambda>v. x\<lparr>str_host := v\<rparr>) (dec_raw t (str_host x))
      else if f = ''max_early_data'' then map_option (\<lambda>v. x\<lparr>str_maxEarlyData := v\<rparr>) (dec_uint 32 t (str_maxEarlyData x))
      else if f = ''early_data_header_name'' then
        map_option (\<lambda>v. x\<lparr>str_earlyDataHeaderName := v\<rparr>) (dec_string t (str_earlyDataHeaderName x))
      else if f = ''method'' then map_option (\<lambda>v. x\<lparr>str_method := v\<rparr>) (dec_string t (str_method x))
      else if f = ''idle_timeout'' then map_option (\<lambda>v. x\<lparr>str_idleTimeout := v\<rparr>) (dec_raw t (str_idleTimeout x))
      else if f = ''ping_timeout'' then map_option (\<lambda>v. x\<lparr>str_pingTimeout := v\<rparr>) (dec_raw t (str_pingTimeout x))
      else if f = ''heartbeat_period'' then map_option (\<lambda>v. x\<lparr>str_heartbeatPeriod := v\<rparr>) (dec_raw t (str_heartbeatPeriod x))
      else if f = ''permit_without_stream'' then
        map_option (\<lambda>v. x\<lparr>str_permitWithoutStream := v\<rparr>) (dec_bool t (str_permitWithoutStream x))
      else if f = ''authority'' then map_option (\<lambda>v. x\<lparr>str_authority := v\<rparr>) (dec_string t (str_authority x))
      else if f = ''user_agent'' then map_option (\<lambda>v. x\<lparr>str_userAgent := v\<rparr>) (dec_string t (str_userAgent x))
      else map_option (\<lambda>v. x\<lparr>str_mode := v\<rparr>) (dec_string t (str_mode x)))"

definition dec_singboxTransport :: "raw \<Rightarrow> singboxTransport \<Rightarrow> singboxTransport option" where
  "dec_singboxTransport t old =
     map_option (\<lambda>x. x\<lparr>str_raw := t\<rparr>)
       (dec_struct
         [''type'', ''path'', ''headers'', ''service_name'', ''host'', ''max_early_data'', ''early_data_header_name'',
          ''method'', ''idle_timeout'', ''ping_timeout'', ''heartbeat_period'', ''permit_without_stream'',
          ''authority'', ''user_agent'', ''mode''] store_singboxTransport t zero_singboxTransport)"

record singboxOutbound =
  sb_type :: string
  sb_tag :: string
  sb_server :: string
  sb_serverPort :: int
  sb_uuid :: string
  sb_password :: string
  sb_method :: string
  sb_flow :: string
  sb_security :: string
  sb_alterID :: int
  sb_packetEncoding :: string
  sb_congestionControl :: string
  sb_udpRelayMode :: string
  sb_obfs :: "singboxObfs option"
  sb_tls :: "singboxTLS option"
  sb_transport :: "singboxTransport option"

definition zero_singboxOutbound :: singboxOutbound where
  "zero_singboxOutbound = \<lparr>sb_type = '''', sb_tag = '''', sb_server = '''', sb_serverPort = 0, sb_uuid = '''',
     sb_password = '''', sb_method = '''', sb_flow = '''', sb_security = '''', sb_alterID = 0, sb_packetEncoding = '''',
     sb_congestionControl = '''', sb_udpRelayMode = '''', sb_obfs = None, sb_tls = None, sb_transport = None\<rparr>"

definition store_singboxOutbound :: "string \<Rightarrow> raw \<Rightarrow> singboxOutbound \<Rightarrow> singboxOutbound option" where
  "store_singboxOutbound f t x =
     (if f = ''type'' then map_option (\<lambda>v. x\<lparr>sb_type := v\<rparr>) (dec_string t (sb_type x))
      else if f = ''tag'' then map_option (\<lambda>v. x\<lparr>sb_tag := v\<rparr>) (dec_string t (sb_tag x))
      else if f = ''server'' then map_option (\<lambda>v. x\<lparr>sb_server := v\<rparr>) (dec_string t (sb_server x))
      else if f = ''server_port'' then map_option (\<lambda>v. x\<lparr>sb_serverPort := v\<rparr>) (dec_int t (sb_serverPort x))
      else if f = ''uuid'' then map_option (\<lambda>v. x\<lparr>sb_uuid := v\<rparr>) (dec_string t (sb_uuid x))
      else if f = ''password'' then map_option (\<lambda>v. x\<lparr>sb_password := v\<rparr>) (dec_string t (sb_password x))
      else if f = ''method'' then map_option (\<lambda>v. x\<lparr>sb_method := v\<rparr>) (dec_string t (sb_method x))
      else if f = ''flow'' then map_option (\<lambda>v. x\<lparr>sb_flow := v\<rparr>) (dec_string t (sb_flow x))
      else if f = ''security'' then map_option (\<lambda>v. x\<lparr>sb_security := v\<rparr>) (dec_string t (sb_security x))
      else if f = ''alter_id'' then map_option (\<lambda>v. x\<lparr>sb_alterID := v\<rparr>) (dec_int t (sb_alterID x))
      else if f = ''packet_encoding'' then map_option (\<lambda>v. x\<lparr>sb_packetEncoding := v\<rparr>) (dec_string t (sb_packetEncoding x))
      else if f = ''congestion_control'' then
        map_option (\<lambda>v. x\<lparr>sb_congestionControl := v\<rparr>) (dec_string t (sb_congestionControl x))
      else if f = ''udp_relay_mode'' then map_option (\<lambda>v. x\<lparr>sb_udpRelayMode := v\<rparr>) (dec_string t (sb_udpRelayMode x))
      else if f = ''obfs'' then
        map_option (\<lambda>v. x\<lparr>sb_obfs := v\<rparr>)
          (dec_ptr dec_singboxObfs \<lparr>sob_type = '''', sob_password = ''''\<rparr> t (sb_obfs x))
      else if f = ''tls'' then
        map_option (\<lambda>v. x\<lparr>sb_tls := v\<rparr>) (dec_ptr dec_singboxTLS zero_singboxTLS t (sb_tls x))
      else
        map_option (\<lambda>v. x\<lparr>sb_transport := v\<rparr>)
          (dec_ptr dec_singboxTransport zero_singboxTransport t (sb_transport x)))"

definition dec_singboxOutbound :: "raw \<Rightarrow> singboxOutbound option" where
  "dec_singboxOutbound t = dec_struct
     [''type'', ''tag'', ''server'', ''server_port'', ''uuid'', ''password'', ''method'', ''flow'', ''security'',
      ''alter_id'', ''packet_encoding'', ''congestion_control'', ''udp_relay_mode'', ''obfs'', ''tls'', ''transport'']
     store_singboxOutbound t zero_singboxOutbound"

section \<open>TLS and transport in a query\<close>

definition sb_header :: "singboxTransport \<Rightarrow> string \<Rightarrow> string" where
  "sb_header tr key =
     (case map_of (str_headers tr) key of
        Some (v # _) \<Rightarrow> v
      | _ \<Rightarrow> (case map_of (str_headers tr) (to_lower key) of Some (v # _) \<Rightarrow> v | _ \<Rightarrow> ''''))"

definition hostString :: "singboxTransport \<Rightarrow> string" where
  "hostString tr =
     (if str_host tr = '''' then ''''
      else case dec_strings (str_host tr) of
        Some hs \<Rightarrow> join '','' hs
      | None \<Rightarrow> (case dec_string (str_host tr) '''' of Some h \<Rightarrow> h | None \<Rightarrow> ''''))"

text \<open>Whole seconds, towards zero.\<close>

definition whole_seconds :: "int \<Rightarrow> int" where
  "whole_seconds d = (if d < 0 then - ((- d) div 1000000000) else d div 1000000000)"

definition singboxDuration :: "raw \<Rightarrow> int" where
  "singboxDuration t =
     (if t = '''' then 0
      else case dec_string t '''' of
        Some s \<Rightarrow> (case ParseDuration s of Some d \<Rightarrow> whole_seconds d | None \<Rightarrow> 0)
      | None \<Rightarrow> (case dec_int t 0 of Some n \<Rightarrow> whole_seconds n | None \<Rightarrow> 0))"

definition applySingboxECH :: "singboxTLS option \<Rightarrow> query \<Rightarrow> query" where
  "applySingboxECH tls q =
     (case tls of
        None \<Rightarrow> q
      | Some t \<Rightarrow>
          (case stl_ech t of
             None \<Rightarrow> q
           | Some e \<Rightarrow>
               if sec_enabled e
               then qset_ne ''query_server_name'' (sec_queryServerName e)
                      (qset ''ech'' (join [CHR 0x0A] (sec_config e)) q)
               else q))"

definition reality_on :: "singboxTLS \<Rightarrow> bool" where
  "reality_on t = (case stl_reality t of None \<Rightarrow> False | Some r \<Rightarrow> sre_enabled r)"

definition utls_fp :: "singboxTLS \<Rightarrow> string" where
  "utls_fp t = (case stl_utls t of None \<Rightarrow> '''' | Some u \<Rightarrow> sut_fingerprint u)"

definition sb_security_params :: "singboxTLS \<Rightarrow> query \<Rightarrow> query" where
  "sb_security_params t q =
     (if reality_on t then
        (let r = the (stl_reality t) in
         qset_ne ''sid'' (sre_shortID r) (qset_ne ''pbk'' (sre_publicKey r) (qset ''security'' ''reality'' q)))
      else qset ''security'' ''tls'' q)"

definition applySingboxTLS :: "singboxTLS option \<Rightarrow> query \<Rightarrow> query" where
  "applySingboxTLS tls q =
     (case tls of
        None \<Rightarrow> qset ''security'' ''none'' q
      | Some t \<Rightarrow>
          if \<not> stl_enabled t then qset ''security'' ''none'' q
          else
            applySingboxECH tls
              (qset_ne ''fp'' (utls_fp t)
                (qset_if (stl_insecure t) ''allowInsecure'' ''1''
                  (qset_if (stl_insecure t) ''insecure'' ''1''
                    (qset_if (stl_alpn t \<noteq> []) ''alpn'' (join '','' (stl_alpn t))
                      (qset_ne ''sni'' (stl_serverName t) (sb_security_params t q)))))))"

definition appendEarlyDataQuery :: "string \<Rightarrow> nat \<Rightarrow> string" where
  "appendEarlyDataQuery path n = path @ (if contains path ''?'' then ''&'' else ''?'') @ ''ed='' @ itoa n"

definition singleValueHeaders :: "(string \<times> string list) list \<Rightarrow> query" where
  "singleValueHeaders h =
     List.map_filter (\<lambda>(k, v). if to_lower k = ''host'' then None else case v of [] \<Rightarrow> None | x # _ \<Rightarrow> Some (k, x)) h"

text \<open>The path with the early data, as \<open>ws\<close> and \<open>httpupgrade\<close> write it.\<close>

definition early_path :: "singboxTransport \<Rightarrow> query \<Rightarrow> query" where
  "early_path tr q =
     qset_if (str_maxEarlyData tr > 0 \<and> str_path tr \<noteq> '''') ''path''
       (appendEarlyDataQuery (str_path tr) (str_maxEarlyData tr)) q"

definition set_seconds :: "string \<Rightarrow> raw \<Rightarrow> query \<Rightarrow> query" where
  "set_seconds k t q = qset_if (singboxDuration t > 0) k (itoa_int (singboxDuration t)) q"

definition transport_params :: "singboxTransport \<Rightarrow> query \<Rightarrow> query" where
  "transport_params tr q =
     (let p = qset_ne ''path'' (str_path tr) q in
      if str_type tr = ''ws'' then
        set_seconds ''heartbeat_period'' (str_heartbeatPeriod tr)
          (early_path tr (qset_ne ''host'' (sb_header tr ''Host'') p))
      else if str_type tr = ''httpupgrade'' then
        early_path tr (qset_ne ''host'' (orDefault (hostString tr) (sb_header tr ''Host'')) p)
      else if str_type tr = ''grpc'' then
        qset_ne ''user_agent'' (str_userAgent tr)
          (qset_ne ''authority'' (str_authority tr)
            (qset_if (str_permitWithoutStream tr) ''permit_without_stream'' ''1''
              (set_seconds ''health_check_timeout'' (str_pingTimeout tr)
                (set_seconds ''idle_timeout'' (str_idleTimeout tr)
                  (qset_ne ''serviceName'' (str_serviceName tr) q)))))
      else if str_type tr = ''http'' then
        (let hdrs = singleValueHeaders (str_headers tr) in
         set_seconds ''health_check_timeout'' (str_pingTimeout tr)
           (set_seconds ''idle_timeout'' (str_idleTimeout tr)
             (qset_if (hdrs \<noteq> []) ''headers'' (enc_map enc_string (map fst hdrs) (map_of hdrs))
               (qset_ne ''method'' (str_method tr) (qset_ne ''host'' (hostString tr) p)))))
      else if str_type tr = ''xhttp'' then
        qset_ne ''extra'' (str_raw tr) (qset_ne ''mode'' (str_mode tr) (qset_ne ''host'' (hostString tr) p))
      else q)"

definition applySingboxTransport :: "singboxTransport option \<Rightarrow> query \<Rightarrow> query" where
  "applySingboxTransport tr q =
     (case tr of
        None \<Rightarrow> qset ''type'' ''tcp'' q
      | Some t \<Rightarrow>
          if str_type t = '''' then qset ''type'' ''tcp'' q
          else transport_params t (qset ''type'' (str_type t) q))"

section \<open>Outbounds\<close>

definition singboxHysteria2 :: "singboxOutbound \<Rightarrow> string option" where
  "singboxHysteria2 ob =
     (let q1 = (case sb_tls ob of
                  None \<Rightarrow> []
                | Some t \<Rightarrow>
                    qset_if (stl_insecure t) ''insecure'' ''1''
                      (qset_if (stl_alpn t \<noteq> []) ''alpn'' (join '','' (stl_alpn t))
                        (qset_ne ''sni'' (stl_serverName t) [])));
          q2 = (case sb_obfs ob of
                  None \<Rightarrow> q1
                | Some f \<Rightarrow>
                    if sob_type f = '''' then q1
                    else qset_ne ''obfs-password'' (sob_password f) (qset ''obfs'' (sob_type f) q1))
      in Some (link_of ''hysteria2'' (Some (sb_password ob, None)) (hostPort (sb_server ob) (sb_serverPort ob))
           q2 (sb_tag ob)))"

definition singbox_vless_query :: "singboxOutbound \<Rightarrow> query" where
  "singbox_vless_query ob =
     applySingboxTLS (sb_tls ob)
       (applySingboxTransport (sb_transport ob)
         (qset_ne ''packetEncoding'' (sb_packetEncoding ob)
           (qset_ne ''flow'' (sb_flow ob) (qset ''encryption'' ''none'' []))))"

definition singboxVLESS :: "singboxOutbound \<Rightarrow> string option" where
  "singboxVLESS ob =
     (if sb_uuid ob = '''' then None
      else Some (link_of ''vless'' (Some (sb_uuid ob, None)) (hostPort (sb_server ob) (sb_serverPort ob))
             (singbox_vless_query ob) (sb_tag ob)))"

definition singbox_trojan_query :: "singboxOutbound \<Rightarrow> query" where
  "singbox_trojan_query ob =
     (let q = applySingboxTLS (sb_tls ob) (applySingboxTransport (sb_transport ob) []) in
      if qget q ''security'' = '''' \<or> qget q ''security'' = ''none'' then qset ''security'' ''tls'' q else q)"

definition singboxTrojan :: "singboxOutbound \<Rightarrow> string option" where
  "singboxTrojan ob =
     (if sb_password ob = '''' then None
      else Some (link_of ''trojan'' (Some (sb_password ob, None)) (hostPort (sb_server ob) (sb_serverPort ob))
             (singbox_trojan_query ob) (sb_tag ob)))"

definition singboxShadowsocks :: "singboxOutbound \<Rightarrow> string option" where
  "singboxShadowsocks ob =
     (if sb_method ob = '''' then None
      else Some (link_of ''ss'' (Some (raw_url_encode (sb_method ob @ '':'' @ sb_password ob), None))
             (hostPort (sb_server ob) (sb_serverPort ob)) [] (sb_tag ob)))"

definition singbox_tuic_query :: "singboxOutbound \<Rightarrow> query" where
  "singbox_tuic_query ob =
     (let q = qset_ne ''udp_relay_mode'' (sb_udpRelayMode ob)
                (qset_ne ''congestion_control'' (sb_congestionControl ob) [])
      in case sb_tls ob of
           None \<Rightarrow> q
         | Some t \<Rightarrow>
             qset_if (stl_insecure t) ''allow_insecure'' ''1''
               (qset_if (stl_alpn t \<noteq> []) ''alpn'' (join '','' (stl_alpn t))
                 (qset_ne ''sni'' (stl_serverName t) q)))"

definition singboxTUIC :: "singboxOutbound \<Rightarrow> string option" where
  "singboxTUIC ob =
     (if sb_uuid ob = '''' then None
      else Some (link_of ''tuic'' (Some (sb_uuid ob, Some (sb_password ob)))
             (hostPort (sb_server ob) (sb_serverPort ob)) (singbox_tuic_query ob) (sb_tag ob)))"

definition singbox_vmess_object :: "singboxOutbound \<Rightarrow> query" where
  "singbox_vmess_object ob =
     (let m1 = qset_ne ''packetEncoding'' (sb_packetEncoding ob)
                 [(''v'', ''2''), (''ps'', sb_tag ob), (''add'', sb_server ob), (''port'', itoa_int (sb_serverPort ob)),
                  (''id'', sb_uuid ob), (''aid'', itoa_int (sb_alterID ob)),
                  (''scy'', orDefault (sb_security ob) ''auto''), (''net'', ''tcp''), (''type'', ''none'')];
          q = applySingboxTLS (sb_tls ob) (applySingboxTransport (sb_transport ob) []);
          m2 = mergeQueryIntoVmessMap q m1
      in case sb_transport ob of
           None \<Rightarrow> m2
         | Some tr \<Rightarrow> if str_type tr = ''grpc'' then qset_ne ''path'' (str_serviceName tr) m2 else m2)"

definition singboxVMess :: "singboxOutbound \<Rightarrow> string option" where
  "singboxVMess ob =
     (if sb_uuid ob = '''' then None else Some (vmess_link (singbox_vmess_object ob)))"

record singbox_dnstt =
  sdn_tag :: string
  sdn_domain :: string
  sdn_pubkey :: string
  sdn_resolver :: string

definition dec_singbox_dnstt :: "raw \<Rightarrow> singbox_dnstt option" where
  "dec_singbox_dnstt t0 = dec_struct [''tag'', ''domain'', ''pubkey'', ''resolver'']
     (\<lambda>f t x.
        if f = ''tag'' then map_option (\<lambda>v. x\<lparr>sdn_tag := v\<rparr>) (dec_string t (sdn_tag x))
        else if f = ''domain'' then map_option (\<lambda>v. x\<lparr>sdn_domain := v\<rparr>) (dec_string t (sdn_domain x))
        else if f = ''pubkey'' then map_option (\<lambda>v. x\<lparr>sdn_pubkey := v\<rparr>) (dec_string t (sdn_pubkey x))
        else map_option (\<lambda>v. x\<lparr>sdn_resolver := v\<rparr>) (dec_string t (sdn_resolver x)))
     t0 \<lparr>sdn_tag = '''', sdn_domain = '''', sdn_pubkey = '''', sdn_resolver = ''''\<rparr>"

definition singboxDnstt :: "raw \<Rightarrow> string option" where
  "singboxDnstt t =
     (case dec_singbox_dnstt t of
        None \<Rightarrow> None
      | Some d \<Rightarrow>
          if sdn_domain d = '''' \<or> sdn_pubkey d = '''' then None
          else Some (''dnstt://'' @ sdn_domain d @ ''?'' @
                 qencode (qset_ne ''resolver'' (sdn_resolver d) (qset ''pubkey'' (sdn_pubkey d) [])) @ ''#'' @
                 escape EncPathSegment (orDefault (sdn_tag d) (sdn_domain d))))"

record singbox_psiphon =
  sps_tag :: string
  sps_region :: string
  sps_url :: string
  sps_filename :: string
  sps_key :: string

definition dec_singbox_psiphon :: "raw \<Rightarrow> singbox_psiphon option" where
  "dec_singbox_psiphon t0 = dec_struct
     [''tag'', ''egress_region'', ''remote_server_list_url'', ''remote_server_list_download_filename'',
      ''remote_server_list_signature_public_key'']
     (\<lambda>f t x.
        if f = ''tag'' then map_option (\<lambda>v. x\<lparr>sps_tag := v\<rparr>) (dec_string t (sps_tag x))
        else if f = ''egress_region'' then map_option (\<lambda>v. x\<lparr>sps_region := v\<rparr>) (dec_string t (sps_region x))
        else if f = ''remote_server_list_url'' then map_option (\<lambda>v. x\<lparr>sps_url := v\<rparr>) (dec_string t (sps_url x))
        else if f = ''remote_server_list_download_filename'' then
          map_option (\<lambda>v. x\<lparr>sps_filename := v\<rparr>) (dec_string t (sps_filename x))
        else map_option (\<lambda>v. x\<lparr>sps_key := v\<rparr>) (dec_string t (sps_key x)))
     t0 \<lparr>sps_tag = '''', sps_region = '''', sps_url = '''', sps_filename = '''', sps_key = ''''\<rparr>"

definition singboxPsiphon :: "raw \<Rightarrow> string option" where
  "singboxPsiphon t =
     (case dec_singbox_psiphon t of
        None \<Rightarrow> None
      | Some p \<Rightarrow>
          let enc = qencode
                (qset_ne ''remote_server_list_signature_public_key'' (sps_key p)
                  (qset_ne ''remote_server_list_download_filename'' (sps_filename p)
                    (qset_ne ''remote_server_list_url'' (sps_url p) (qset_ne ''region'' (sps_region p) []))))
          in Some (''psiphon://'' @ (if enc = '''' then '''' else ''?'' @ enc) @ ''#'' @
               escape EncPathSegment (orDefault (sps_tag p) ''Psiphon'')))"

record singbox_binding =
  sbi_protocol :: string
  sbi_portRange :: string
  sbi_port :: nat

record singbox_mieru =
  smi_tag :: string
  smi_server :: string
  smi_username :: string
  smi_password :: string
  smi_multiplexing :: string
  smi_handshakeMode :: string
  smi_mtu :: int
  smi_bindings :: "singbox_binding list"

definition dec_singbox_binding :: "raw \<Rightarrow> singbox_binding option" where
  "dec_singbox_binding t0 = dec_struct [''protocol'', ''portRange'', ''port'']
     (\<lambda>f t x.
        if f = ''protocol'' then map_option (\<lambda>v. x\<lparr>sbi_protocol := v\<rparr>) (dec_string t (sbi_protocol x))
        else if f = ''portRange'' then map_option (\<lambda>v. x\<lparr>sbi_portRange := v\<rparr>) (dec_string t (sbi_portRange x))
        else map_option (\<lambda>v. x\<lparr>sbi_port := v\<rparr>) (dec_uint 16 t (sbi_port x)))
     t0 \<lparr>sbi_protocol = '''', sbi_portRange = '''', sbi_port = 0\<rparr>"

definition store_singbox_mieru :: "string \<Rightarrow> raw \<Rightarrow> singbox_mieru \<Rightarrow> singbox_mieru option" where
  "store_singbox_mieru f t x =
     (if f = ''tag'' then map_option (\<lambda>v. x\<lparr>smi_tag := v\<rparr>) (dec_string t (smi_tag x))
      else if f = ''server'' then map_option (\<lambda>v. x\<lparr>smi_server := v\<rparr>) (dec_string t (smi_server x))
      else if f = ''username'' then map_option (\<lambda>v. x\<lparr>smi_username := v\<rparr>) (dec_string t (smi_username x))
      else if f = ''password'' then map_option (\<lambda>v. x\<lparr>smi_password := v\<rparr>) (dec_string t (smi_password x))
      else if f = ''multiplexing'' then map_option (\<lambda>v. x\<lparr>smi_multiplexing := v\<rparr>) (dec_string t (smi_multiplexing x))
      else if f = ''handshake_mode'' then map_option (\<lambda>v. x\<lparr>smi_handshakeMode := v\<rparr>) (dec_string t (smi_handshakeMode x))
      else if f = ''mtu'' then map_option (\<lambda>v. x\<lparr>smi_mtu := v\<rparr>) (dec_int t (smi_mtu x))
      else map_option (\<lambda>v. x\<lparr>smi_bindings := v\<rparr>) (dec_list dec_singbox_binding t))"

definition dec_singbox_mieru :: "raw \<Rightarrow> singbox_mieru option" where
  "dec_singbox_mieru t = dec_struct
     [''tag'', ''server'', ''username'', ''password'', ''multiplexing'', ''handshake_mode'', ''mtu'', ''portBindings'']
     store_singbox_mieru t
     \<lparr>smi_tag = '''', smi_server = '''', smi_username = '''', smi_password = '''', smi_multiplexing = '''',
      smi_handshakeMode = '''', smi_mtu = 0, smi_bindings = []\<rparr>"

definition binding_ok :: "singbox_binding \<Rightarrow> bool" where
  "binding_ok b \<longleftrightarrow> \<not> (sbi_protocol b = '''' \<or> sbi_portRange b = '''' \<and> sbi_port b = 0)"

definition binding_port :: "singbox_binding \<Rightarrow> string" where
  "binding_port b = orDefault (sbi_portRange b) (itoa (sbi_port b))"

definition singboxMieru :: "raw \<Rightarrow> string option" where
  "singboxMieru t =
     (case dec_singbox_mieru t of
        None \<Rightarrow> None
      | Some m \<Rightarrow>
          if smi_server m = '''' \<or> smi_bindings m = [] then None
          else if \<not> list_all binding_ok (smi_bindings m) then None
          else
            let q = qset_if (smi_mtu m \<noteq> 0) ''mtu'' (itoa_int (smi_mtu m))
                      (qset_ne ''handshake-mode'' (smi_handshakeMode m)
                        (qset_ne ''multiplexing'' (smi_multiplexing m)
                          (qset ''port'' (join '','' (map binding_port (smi_bindings m)))
                            (qset ''protocol'' (join '','' (map sbi_protocol (smi_bindings m))) []))))
            in Some (link_of ''mieru'' (Some (smi_username m, Some (smi_password m))) (smi_server m) q
                 (orDefault (smi_tag m) (smi_server m))))"

record singbox_naive =
  sna_tag :: string
  sna_server :: string
  sna_serverPort :: int
  sna_username :: string
  sna_password :: string
  sna_concurrency :: int
  sna_quic :: bool
  sna_congestion :: string
  sna_headers :: "(string \<times> string list) list"
  sna_window :: raw
  sna_quicWindow :: raw
  sna_uot :: "bool option"
  sna_tls :: "singboxTLS option"

definition dec_uot :: "raw \<Rightarrow> bool \<Rightarrow> bool option" where
  "dec_uot = dec_struct [''enabled''] (\<lambda>f. dec_bool)"

definition store_singbox_naive :: "string \<Rightarrow> raw \<Rightarrow> singbox_naive \<Rightarrow> singbox_naive option" where
  "store_singbox_naive f t x =
     (if f = ''tag'' then map_option (\<lambda>v. x\<lparr>sna_tag := v\<rparr>) (dec_string t (sna_tag x))
      else if f = ''server'' then map_option (\<lambda>v. x\<lparr>sna_server := v\<rparr>) (dec_string t (sna_server x))
      else if f = ''server_port'' then map_option (\<lambda>v. x\<lparr>sna_serverPort := v\<rparr>) (dec_int t (sna_serverPort x))
      else if f = ''username'' then map_option (\<lambda>v. x\<lparr>sna_username := v\<rparr>) (dec_string t (sna_username x))
      else if f = ''password'' then map_option (\<lambda>v. x\<lparr>sna_password := v\<rparr>) (dec_string t (sna_password x))
      else if f = ''insecure_concurrency'' then map_option (\<lambda>v. x\<lparr>sna_concurrency := v\<rparr>) (dec_int t (sna_concurrency x))
      else if f = ''quic'' then map_option (\<lambda>v. x\<lparr>sna_quic := v\<rparr>) (dec_bool t (sna_quic x))
      else if f = ''quic_congestion_control'' then
        map_option (\<lambda>v. x\<lparr>sna_congestion := v\<rparr>) (dec_string t (sna_congestion x))
      else if f = ''extra_headers'' then map_option (\<lambda>v. x\<lparr>sna_headers := v\<rparr>) (dec_headers t (sna_headers x))
      else if f = ''stream_receive_window'' then map_option (\<lambda>v. x\<lparr>sna_window := v\<rparr>) (dec_raw t (sna_window x))
      else if f = ''quic_session_receive_window'' then
        map_option (\<lambda>v. x\<lparr>sna_quicWindow := v\<rparr>) (dec_raw t (sna_quicWindow x))
      else if f = ''udp_over_tcp'' then map_option (\<lambda>v. x\<lparr>sna_uot := v\<rparr>) (dec_ptr dec_uot False t (sna_uot x))
      else map_option (\<lambda>v. x\<lparr>sna_tls := v\<rparr>) (dec_ptr dec_singboxTLS zero_singboxTLS t (sna_tls x)))"

definition dec_singbox_naive :: "raw \<Rightarrow> singbox_naive option" where
  "dec_singbox_naive t = dec_struct
     [''tag'', ''server'', ''server_port'', ''username'', ''password'', ''insecure_concurrency'', ''quic'',
      ''quic_congestion_control'', ''extra_headers'', ''stream_receive_window'', ''quic_session_receive_window'',
      ''udp_over_tcp'', ''tls''] store_singbox_naive t
     \<lparr>sna_tag = '''', sna_server = '''', sna_serverPort = 0, sna_username = '''', sna_password = '''',
      sna_concurrency = 0, sna_quic = False, sna_congestion = '''', sna_headers = [], sna_window = '''',
      sna_quicWindow = '''', sna_uot = None, sna_tls = None\<rparr>"

definition ech_on :: "singboxTLS \<Rightarrow> bool" where
  "ech_on t = (case stl_ech t of None \<Rightarrow> False | Some e \<Rightarrow> sec_enabled e)"

text \<open>What a naive link cannot carry.\<close>

definition naive_unfaithful :: "singbox_naive \<Rightarrow> bool" where
  "naive_unfaithful n \<longleftrightarrow>
     sna_headers n \<noteq> [] \<or> sna_window n \<noteq> '''' \<or> sna_quicWindow n \<noteq> '''' \<or>
     (case sna_tls n of
        None \<Rightarrow> False
      | Some t \<Rightarrow> stl_alpn t \<noteq> [] \<or> stl_insecure t \<or> ech_on t \<or> reality_on t)"

definition naive_query :: "singbox_naive \<Rightarrow> query" where
  "naive_query n =
     (let q0 = qset ''security'' ''tls'' [];
          q1 = (case sna_tls n of
                  None \<Rightarrow> q0
                | Some t \<Rightarrow> qset_ne ''fp'' (utls_fp t) (qset_ne ''sni'' (stl_serverName t) q0))
      in qset_if (sna_uot n = Some False) ''uot'' ''false''
           (qset_ne ''quic_congestion_control'' (sna_congestion n)
             (qset_if (sna_concurrency n > 0) ''insecure_concurrency'' (itoa_int (sna_concurrency n)) q1)))"

definition singboxNaive :: "raw \<Rightarrow> string option" where
  "singboxNaive t =
     (case dec_singbox_naive t of
        None \<Rightarrow> None
      | Some n \<Rightarrow>
          if sna_server n = '''' \<or> sna_serverPort n = 0 then None
          else if naive_unfaithful n then None
          else Some (link_of (if sna_quic n then ''naive+quic'' else ''naive+https'')
                 (Some (sna_username n, Some (sna_password n))) (hostPort (sna_server n) (sna_serverPort n))
                 (naive_query n) (orDefault (sna_tag n) (sna_server n))))"

definition uriFromSingboxOutbound :: "raw \<Rightarrow> string \<Rightarrow> string option" where
  "uriFromSingboxOutbound t typ =
     (case dec_singboxOutbound t of
        None \<Rightarrow> None
      | Some ob \<Rightarrow>
          let lt = to_lower typ in
          if lt = ''dnstt'' then singboxDnstt t
          else if lt = ''psiphon'' then singboxPsiphon t
          else if lt = ''mieru'' then singboxMieru t
          else if sb_server ob = '''' \<or> sb_serverPort ob = 0 then None
          else if lt = ''hysteria2'' \<or> lt = ''hy2'' then singboxHysteria2 ob
          else if lt = ''vless'' then singboxVLESS ob
          else if lt = ''vmess'' then singboxVMess ob
          else if lt = ''trojan'' then singboxTrojan ob
          else if lt = ''shadowsocks'' then singboxShadowsocks ob
          else if lt = ''tuic'' then singboxTUIC ob
          else if lt = ''naive'' then singboxNaive t
          else None)"

section \<open>Endpoints\<close>

record singboxWGPeer =
  swp_address :: string
  swp_port :: nat
  swp_publicKey :: string
  swp_preSharedKey :: string
  swp_presharedKey :: string
  swp_allowedIPs :: "string list"
  swp_keepalive :: nat
  swp_reserved :: "int list"

definition store_singboxWGPeer :: "string \<Rightarrow> raw \<Rightarrow> singboxWGPeer \<Rightarrow> singboxWGPeer option" where
  "store_singboxWGPeer f t x =
     (if f = ''address'' then map_option (\<lambda>v. x\<lparr>swp_address := v\<rparr>) (dec_string t (swp_address x))
      else if f = ''port'' then map_option (\<lambda>v. x\<lparr>swp_port := v\<rparr>) (dec_uint 16 t (swp_port x))
      else if f = ''public_key'' then map_option (\<lambda>v. x\<lparr>swp_publicKey := v\<rparr>) (dec_string t (swp_publicKey x))
      else if f = ''pre_shared_key'' then map_option (\<lambda>v. x\<lparr>swp_preSharedKey := v\<rparr>) (dec_string t (swp_preSharedKey x))
      else if f = ''preshared_key'' then map_option (\<lambda>v. x\<lparr>swp_presharedKey := v\<rparr>) (dec_string t (swp_presharedKey x))
      else if f = ''allowed_ips'' then map_option (\<lambda>v. x\<lparr>swp_allowedIPs := v\<rparr>) (stringOrList t (swp_allowedIPs x))
      else if f = ''persistent_keepalive_interval'' then
        map_option (\<lambda>v. x\<lparr>swp_keepalive := v\<rparr>) (dec_uint 16 t (swp_keepalive x))
      else map_option (\<lambda>v. x\<lparr>swp_reserved := v\<rparr>) (dec_list (\<lambda>y. dec_int y 0) t))"

definition dec_singboxWGPeer :: "raw \<Rightarrow> singboxWGPeer option" where
  "dec_singboxWGPeer t = dec_struct
     [''address'', ''port'', ''public_key'', ''pre_shared_key'', ''preshared_key'', ''allowed_ips'',
      ''persistent_keepalive_interval'', ''reserved''] store_singboxWGPeer t
     \<lparr>swp_address = '''', swp_port = 0, swp_publicKey = '''', swp_preSharedKey = '''', swp_presharedKey = '''',
      swp_allowedIPs = [], swp_keepalive = 0, swp_reserved = []\<rparr>"

text \<open>The AmneziaWG scalars by their keys; they are decoded in a second pass over the same text.\<close>

definition awg_int_keys :: "string list" where
  "awg_int_keys = [''jc'', ''jmin'', ''jmax'', ''s1'', ''s2'', ''s3'', ''s4'', ''itime'']"

definition awg_str_keys :: "string list" where
  "awg_str_keys = [''h1'', ''h2'', ''h3'', ''h4'', ''i1'', ''i2'', ''i3'', ''i4'', ''i5'', ''j1'', ''j2'', ''j3'']"

record awg_scalars =
  aws_ints :: "string \<Rightarrow> int"
  aws_strs :: "string \<Rightarrow> string"

definition dec_awg_scalars :: "raw \<Rightarrow> awg_scalars option" where
  "dec_awg_scalars t0 = dec_struct (awg_int_keys @ awg_str_keys)
     (\<lambda>f t x.
        if f \<in> set awg_int_keys
        then map_option (\<lambda>v. x\<lparr>aws_ints := (aws_ints x)(f := v)\<rparr>) (dec_int t (aws_ints x f))
        else map_option (\<lambda>v. x\<lparr>aws_strs := (aws_strs x)(f := v)\<rparr>) (dec_string t (aws_strs x f)))
     t0 \<lparr>aws_ints = (\<lambda>k. 0), aws_strs = (\<lambda>k. '''')\<rparr>"

record singboxEndpoint =
  sep_type :: string
  sep_tag :: string
  sep_privateKey :: string
  sep_address :: "string list"
  sep_mtu :: nat
  sep_listenPort :: nat
  sep_workers :: int
  sep_useIntegratedTun :: bool
  sep_noise :: raw
  sep_peers :: "singboxWGPeer list"
  sep_awg :: awg_scalars

definition store_singboxEndpoint :: "string \<Rightarrow> raw \<Rightarrow> singboxEndpoint \<Rightarrow> singboxEndpoint option" where
  "store_singboxEndpoint f t x =
     (if f = ''type'' then map_option (\<lambda>v. x\<lparr>sep_type := v\<rparr>) (dec_string t (sep_type x))
      else if f = ''tag'' then map_option (\<lambda>v. x\<lparr>sep_tag := v\<rparr>) (dec_string t (sep_tag x))
      else if f = ''private_key'' then map_option (\<lambda>v. x\<lparr>sep_privateKey := v\<rparr>) (dec_string t (sep_privateKey x))
      else if f = ''address'' then map_option (\<lambda>v. x\<lparr>sep_address := v\<rparr>) (stringOrList t (sep_address x))
      else if f = ''mtu'' then map_option (\<lambda>v. x\<lparr>sep_mtu := v\<rparr>) (dec_uint 32 t (sep_mtu x))
      else if f = ''listen_port'' then map_option (\<lambda>v. x\<lparr>sep_listenPort := v\<rparr>) (dec_uint 16 t (sep_listenPort x))
      else if f = ''workers'' then map_option (\<lambda>v. x\<lparr>sep_workers := v\<rparr>) (dec_int t (sep_workers x))
      else if f = ''useIntegratedTun'' then
        map_option (\<lambda>v. x\<lparr>sep_useIntegratedTun := v\<rparr>) (dec_bool t (sep_useIntegratedTun x))
      else if f = ''noise'' then map_option (\<lambda>v. x\<lparr>sep_noise := v\<rparr>) (dec_raw t (sep_noise x))
      else map_option (\<lambda>v. x\<lparr>sep_peers := v\<rparr>) (dec_list dec_singboxWGPeer t))"

definition dec_singboxEndpoint :: "raw \<Rightarrow> singboxEndpoint option" where
  "dec_singboxEndpoint t =
     (case dec_struct
        [''type'', ''tag'', ''private_key'', ''address'', ''mtu'', ''listen_port'', ''workers'', ''useIntegratedTun'',
         ''noise'', ''peers''] store_singboxEndpoint t
        \<lparr>sep_type = '''', sep_tag = '''', sep_privateKey = '''', sep_address = [], sep_mtu = 0, sep_listenPort = 0,
         sep_workers = 0, sep_useIntegratedTun = False, sep_noise = '''', sep_peers = [],
         sep_awg = \<lparr>aws_ints = (\<lambda>k. 0), aws_strs = (\<lambda>k. '''')\<rparr>\<rparr> of
        None \<Rightarrow> None
      | Some ep \<Rightarrow> map_option (\<lambda>w. ep\<lparr>sep_awg := w\<rparr>) (dec_awg_scalars t))"

record fake_packet =
  fpk_enabled :: bool
  fpk_count :: string
  fpk_size :: string
  fpk_delay :: string
  fpk_mode :: string

definition dec_fake_packet :: "raw \<Rightarrow> fake_packet \<Rightarrow> fake_packet option" where
  "dec_fake_packet = dec_struct [''enabled'', ''count'', ''size'', ''delay'', ''mode'']
     (\<lambda>f t x.
        if f = ''enabled'' then map_option (\<lambda>v. x\<lparr>fpk_enabled := v\<rparr>) (dec_bool t (fpk_enabled x))
        else if f = ''count'' then map_option (\<lambda>v. x\<lparr>fpk_count := v\<rparr>) (dec_string t (fpk_count x))
        else if f = ''size'' then map_option (\<lambda>v. x\<lparr>fpk_size := v\<rparr>) (dec_string t (fpk_size x))
        else if f = ''delay'' then map_option (\<lambda>v. x\<lparr>fpk_delay := v\<rparr>) (dec_string t (fpk_delay x))
        else map_option (\<lambda>v. x\<lparr>fpk_mode := v\<rparr>) (dec_string t (fpk_mode x)))"

definition hasWGNoise :: "raw \<Rightarrow> bool" where
  "hasWGNoise t =
     (if t = '''' then False
      else case dec_struct [''fake_packet''] (\<lambda>f. dec_fake_packet) t
          \<lparr>fpk_enabled = False, fpk_count = '''', fpk_size = '''', fpk_delay = '''', fpk_mode = ''''\<rparr> of
        None \<Rightarrow> False
      | Some p \<Rightarrow>
          fpk_enabled p \<or> fpk_mode p \<noteq> '''' \<or> fpk_count p \<noteq> '''' \<or> fpk_size p \<noteq> '''' \<or> fpk_delay p \<noteq> '''')"

definition is_awg :: "awg_scalars \<Rightarrow> bool" where
  "is_awg w \<longleftrightarrow>
     list_ex (\<lambda>k. aws_ints w k \<noteq> 0) awg_int_keys \<or> list_ex (\<lambda>k. aws_strs w k \<noteq> '''') awg_str_keys"

definition awg_params :: "awg_scalars \<Rightarrow> query \<Rightarrow> query" where
  "awg_params w q =
     fold (\<lambda>k. qset_ne k (aws_strs w k)) awg_str_keys
       (fold (\<lambda>k. qset_if (aws_ints w k \<noteq> 0) k (itoa_int (aws_ints w k))) awg_int_keys q)"

text \<open>One peer, an address, a port and both keys, and nothing a link cannot carry.\<close>

definition endpoint_linkable :: "singboxEndpoint \<Rightarrow> bool" where
  "endpoint_linkable ep \<longleftrightarrow>
     to_lower (sep_type ep) \<in> {''wireguard'', ''awg''} \<and>
     \<not> (length (sep_peers ep) \<noteq> 1 \<or> sep_listenPort ep \<noteq> 0 \<or> sep_useIntegratedTun ep \<or> hasWGNoise (sep_noise ep)) \<and>
     \<not> (sep_privateKey ep = '''' \<or> swp_address (hd (sep_peers ep)) = '''' \<or> swp_port (hd (sep_peers ep)) = 0 \<or>
        swp_publicKey (hd (sep_peers ep)) = '''')"

definition endpoint_query :: "singboxEndpoint \<Rightarrow> singboxWGPeer \<Rightarrow> query" where
  "endpoint_query ep p =
     (let q1 = qset ''peerpublickey'' (swp_publicKey p) (qset ''privatekey'' (sep_privateKey ep) []);
          q2 = qset_ne ''presharedkey'' (orDefault (swp_preSharedKey p) (swp_presharedKey p)) q1;
          q3 = qset_ne ''address'' (join '','' (sep_address ep)) q2;
          q4 = qset_if (swp_allowedIPs p \<noteq> []) ''allowedips'' (join '','' (swp_allowedIPs p)) q3;
          q5 = qset_if (swp_keepalive p > 0) ''keepalive'' (itoa (swp_keepalive p)) q4;
          q6 = qset_if (swp_reserved p \<noteq> []) ''reserved'' (join '','' (map itoa_int (swp_reserved p))) q5;
          q7 = qset_if (sep_mtu ep > 0) ''mtu'' (itoa (sep_mtu ep)) q6;
          q8 = qset_if (sep_workers ep > 0) ''workers'' (itoa_int (sep_workers ep)) q7
      in if is_awg (sep_awg ep) then awg_params (sep_awg ep) q8 else q8)"

definition uriFromSingboxEndpoint :: "raw \<Rightarrow> string option" where
  "uriFromSingboxEndpoint t =
     (case dec_singboxEndpoint t of
        None \<Rightarrow> None
      | Some ep \<Rightarrow>
          if \<not> endpoint_linkable ep then None
          else
            let p = hd (sep_peers ep) in
            Some (link_of (if is_awg (sep_awg ep) then ''awg'' else ''wireguard'') None
              (hostPort (swp_address p) (int (swp_port p))) (endpoint_query ep p)
              (orDefault (sep_tag ep) (swp_address p))))"

end
