(* ===== verification/Json_Ingest.thy ===== *)
theory Json_Ingest
  imports Xray_Ingest Singbox_Ingest
begin

text \<open>
  JSON containers of subscriptions (\<open>ray2sing/json_ingest.go\<close>): the walk over Xray, sing-box, Happ and
  SIP008 shapes into an ordered list of entries, and its two consumers: the import path, which keeps the
  entries that become links, and the record list, where a node without a link is kept as its JSON.
\<close>

section \<open>One entry\<close>

definition looksLikeJSON :: "string \<Rightarrow> char option" where
  "looksLikeJSON s0 =
     (case dropWhile (\<lambda>c. c = CHR '' '' \<or> c = CHR 0x09 \<or> c = CHR 0x0D \<or> c = CHR 0x0A) (trim_prefix s0 bom) of
        [] \<Rightarrow> None
      | c # _ \<Rightarrow> if c = CHR ''{'' \<or> c = CHR ''['' then Some c else None)"

text \<open>The keys that say which reader an entry is for.\<close>

record entry_probe =
  pr_protocol :: string
  pr_type :: string
  pr_method :: string
  pr_server :: string

definition store_probe :: "string \<Rightarrow> raw \<Rightarrow> entry_probe \<Rightarrow> entry_probe option" where
  "store_probe f t x =
     (if f = ''protocol'' then map_option (\<lambda>v. x\<lparr>pr_protocol := v\<rparr>) (dec_string t (pr_protocol x))
      else if f = ''type'' then map_option (\<lambda>v. x\<lparr>pr_type := v\<rparr>) (dec_string t (pr_type x))
      else if f = ''method'' then map_option (\<lambda>v. x\<lparr>pr_method := v\<rparr>) (dec_string t (pr_method x))
      else if f = ''server'' then map_option (\<lambda>v. x\<lparr>pr_server := v\<rparr>) (dec_string t (pr_server x))
      else Some x)"

definition dec_probe :: "string list \<Rightarrow> raw \<Rightarrow> entry_probe option" where
  "dec_probe tags t = dec_struct tags store_probe t
     \<lparr>pr_protocol = '''', pr_type = '''', pr_method = '''', pr_server = ''''\<rparr>"

definition uriFromAnyEntry :: "raw \<Rightarrow> string option" where
  "uriFromAnyEntry t =
     (case dec_probe [''protocol'', ''type'', ''method'', ''password'', ''server''] t of
        None \<Rightarrow> None
      | Some p \<Rightarrow>
          if pr_protocol p \<noteq> '''' then uriFromXrayOutbound t (pr_protocol p)
          else if pr_type p \<noteq> '''' then uriFromSingboxOutbound t (pr_type p)
          else if pr_method p \<noteq> '''' \<and> pr_server p \<noteq> '''' then uriFromSIP008 t
          else None)"

definition isNodeEntry :: "raw \<Rightarrow> bool \<Rightarrow> bool" where
  "isNodeEntry t is_endpoint \<longleftrightarrow>
     (if is_endpoint then True
      else case dec_probe [''protocol'', ''type'', ''method'', ''server''] t of
        None \<Rightarrow> False
      | Some p \<Rightarrow>
          if pr_protocol p \<noteq> '''' then
            to_lower (pr_protocol p) \<notin> {''freedom'', ''blackhole'', ''dns'', ''loopback'', ''dokodemo-door''}
          else if pr_type p \<noteq> '''' then
            to_lower (pr_type p) \<notin> {''selector'', ''urltest'', ''loadbalance'', ''direct'', ''block'', ''dns''}
          else pr_method p \<noteq> '''' \<and> pr_server p \<noteq> '''')"

text \<open>The object again as one line: its members, the name as the tag or the tag without its number.\<close>

definition minify_tag :: "string \<Rightarrow> (string \<times> raw) list \<Rightarrow> (string \<times> raw) list" where
  "minify_tag rename obj =
     (if rename \<noteq> '''' then AList.update ''tag'' (enc_string rename) obj
      else case map_of obj ''tag'' of
        None \<Rightarrow> obj
      | Some t \<Rightarrow>
          (case dec_string t '''' of
             None \<Rightarrow> obj
           | Some tag \<Rightarrow>
               if stripTagSuffix tag \<noteq> tag then AList.update ''tag'' (enc_string (stripTagSuffix tag)) obj
               else obj))"

text \<open>A \<open>null\<close> is a map that is not there: it cannot take a tag (\<open>None\<close> of the outer option is the panic).\<close>

definition minifyNodeJSON :: "raw \<Rightarrow> string \<Rightarrow> string option option" where
  "minifyNodeJSON t rename =
     (if is_null t then (if rename \<noteq> '''' then None else Some (Some ''null''))
      else Some
        (case dec_pairs Some t [] of
           None \<Rightarrow> None
         | Some obj0 \<Rightarrow>
             let obj = minify_tag rename obj0 in Some (enc_map enc_raw (map fst obj) (map_of obj))))"

section \<open>Containers\<close>

record containerEntry =
  ce_raw :: raw
  ce_isEndpoint :: bool
  ce_rename :: string

definition toURI :: "containerEntry \<Rightarrow> string option" where
  "toURI e =
     (case (if ce_isEndpoint e then uriFromSingboxEndpoint (ce_raw e) else uriFromAnyEntry (ce_raw e)) of
        None \<Rightarrow> None
      | Some uri \<Rightarrow> Some (if ce_rename e \<noteq> '''' then renameURIFragment uri (ce_rename e) else uri))"

definition toRecord :: "containerEntry \<Rightarrow> string option option" where
  "toRecord e =
     (case toURI e of
        Some uri \<Rightarrow> Some (Some uri)
      | None \<Rightarrow>
          if \<not> isNodeEntry (ce_raw e) (ce_isEndpoint e) then Some None
          else minifyNodeJSON (ce_raw e) (ce_rename e))"

record containerObject =
  co_outbounds :: "raw list"
  co_endpoints :: "raw list"
  co_servers :: "raw list"
  co_remarks :: string
  co_remark :: string

definition store_containerObject :: "string \<Rightarrow> raw \<Rightarrow> containerObject \<Rightarrow> containerObject option" where
  "store_containerObject f t x =
     (if f = ''outbounds'' then map_option (\<lambda>v. x\<lparr>co_outbounds := v\<rparr>) (dec_list Some t)
      else if f = ''endpoints'' then map_option (\<lambda>v. x\<lparr>co_endpoints := v\<rparr>) (dec_list Some t)
      else if f = ''servers'' then map_option (\<lambda>v. x\<lparr>co_servers := v\<rparr>) (dec_list Some t)
      else if f = ''remarks'' then map_option (\<lambda>v. x\<lparr>co_remarks := v\<rparr>) (dec_string t (co_remarks x))
      else map_option (\<lambda>v. x\<lparr>co_remark := v\<rparr>) (dec_string t (co_remark x)))"

definition dec_containerObject :: "raw \<Rightarrow> containerObject option" where
  "dec_containerObject t = dec_struct [''outbounds'', ''endpoints'', ''servers'', ''remarks'', ''remark'']
     store_containerObject t
     \<lparr>co_outbounds = [], co_endpoints = [], co_servers = [], co_remarks = '''', co_remark = ''''\<rparr>"

definition plain_entry :: "raw \<Rightarrow> containerEntry" where
  "plain_entry t = \<lparr>ce_raw = t, ce_isEndpoint = False, ce_rename = ''''\<rparr>"

definition endpoint_entry :: "raw \<Rightarrow> containerEntry" where
  "endpoint_entry t = \<lparr>ce_raw = t, ce_isEndpoint = True, ce_rename = ''''\<rparr>"

text \<open>
  The outbound that stands for a named container: the first that becomes a link, or else the first that
  is a node; \<open>first\<close> is the node met so far.
\<close>

fun happ_node :: "raw option \<Rightarrow> raw list \<Rightarrow> raw option" where
  "happ_node first [] = first"
| "happ_node first (ob # obs) =
     (if uriFromAnyEntry ob \<noteq> None then Some ob
      else happ_node (if first = None \<and> isNodeEntry ob False then Some ob else first) obs)"

text \<open>\<open>None\<close> when the object is no container.\<close>

definition entriesFromContainerObject :: "raw \<Rightarrow> containerEntry list option" where
  "entriesFromContainerObject t =
     (case dec_containerObject t of
        None \<Rightarrow> None
      | Some c \<Rightarrow>
          let name = orDefault (co_remarks c) (co_remark c) in
          if co_outbounds c = [] \<and> co_servers c = [] \<and> co_endpoints c = [] \<and> name = '''' then None
          else if name \<noteq> '''' \<and> co_outbounds c \<noteq> [] then
            (case happ_node None (co_outbounds c) of
               None \<Rightarrow> Some []
             | Some ob \<Rightarrow> Some [\<lparr>ce_raw = ob, ce_isEndpoint = False, ce_rename = name\<rparr>])
          else Some (map plain_entry (co_outbounds c) @ map plain_entry (co_servers c) @
                 map endpoint_entry (co_endpoints c)))"

definition item_entries :: "raw \<Rightarrow> containerEntry list" where
  "item_entries t = (case entriesFromContainerObject t of Some es \<Rightarrow> es | None \<Rightarrow> [plain_entry t])"

definition collectContainerEntries :: "string \<Rightarrow> containerEntry list option" where
  "collectContainerEntries body =
     (case looksLikeJSON body of
        None \<Rightarrow> None
      | Some c \<Rightarrow>
          (case (if c = CHR ''['' then map_option (\<lambda>items. concat (map item_entries items)) (dec_list Some body)
                 else Some (item_entries body)) of
             None \<Rightarrow> None
           | Some es \<Rightarrow> if es = [] then None else Some es))"

definition ingestJSON :: "string \<Rightarrow> string option" where
  "ingestJSON body =
     (case collectContainerEntries body of
        None \<Rightarrow> None
      | Some es \<Rightarrow>
          let uris = List.map_filter (\<lambda>e. if ce_isEndpoint e then None else toURI e) es in
          if uris = [] then None else Some (join [CHR 0x0A] uris))"

text \<open>The records of the entries in their order; the outer \<open>None\<close> is a panic, the inner one a body that
  is no container.\<close>

fun entry_records :: "containerEntry list \<Rightarrow> string list option" where
  "entry_records [] = Some []"
| "entry_records (e # es) =
     (case toRecord e of
        None \<Rightarrow> None
      | Some r \<Rightarrow> map_option (\<lambda>rs. (case r of None \<Rightarrow> rs | Some s \<Rightarrow> s # rs)) (entry_records es))"

definition convertJSONEntries :: "string \<Rightarrow> string list option option" where
  "convertJSONEntries body =
     (case collectContainerEntries body of
        None \<Rightarrow> Some None
      | Some es \<Rightarrow> map_option Some (entry_records es))"

end
