(* ===== verification/Json_Walk.thy ===== *)
theory Json_Walk
  imports Json_Ingest "HOL-Library.Sublist"
begin

text \<open>
  What the walk over a JSON container promises: no node of the container is lost from the record list, the
  two consumers agree, and the two shapes for which it fails: a server object that carries its name under
  \<open>remarks\<close>, and a body that begins with a byte order mark.
\<close>

section \<open>Entries\<close>

text \<open>A renamed entry is an object, so that its tag can be set.\<close>

definition entry_ok :: "containerEntry \<Rightarrow> bool" where
  "entry_ok e \<longleftrightarrow> (ce_rename e \<noteq> '''' \<longrightarrow> \<not> is_null (ce_raw e))"

lemma null_probe:
  assumes "is_null t"
  shows "uriFromAnyEntry t = None" "\<not> isNodeEntry t False"
  using assms by (simp_all add: uriFromAnyEntry_def isNodeEntry_def dec_probe_def dec_struct_def)

lemma happ_node_ok:
  "(\<And>ob. first = Some ob \<Longrightarrow> \<not> is_null ob) \<Longrightarrow> happ_node first obs = Some ob \<Longrightarrow> \<not> is_null ob"
proof (induction obs arbitrary: first)
  case (Cons x obs)
  show ?case
  proof (cases "uriFromAnyEntry x = None")
    case True
    show ?thesis
    proof (rule Cons.IH)
      show "happ_node (if first = None \<and> isNodeEntry x False then Some x else first) obs = Some ob"
        using Cons.prems(2) True by simp
      show "\<not> is_null y" if "(if first = None \<and> isNodeEntry x False then Some x else first) = Some y" for y
        using that Cons.prems(1) null_probe(2) [of x] by (auto split: if_splits)
    qed
  next
    case False
    with Cons.prems(2) null_probe(1) [of x] show ?thesis by auto
  qed
qed simp

lemma container_ok:
  assumes "entriesFromContainerObject t = Some es"
  shows "list_all entry_ok es"
proof -
  have plain: "entry_ok (plain_entry x)" "entry_ok (endpoint_entry x)" for x
    by (simp_all add: entry_ok_def plain_entry_def endpoint_entry_def)
  have happ: "happ_node None obs = Some ob \<Longrightarrow> \<not> is_null ob" for obs ob
    by (rule happ_node_ok [of None]) simp
  show ?thesis
    using assms
    by (auto simp: entriesFromContainerObject_def Let_def list_all_iff entry_ok_def [of "_\<lparr>ce_raw := _\<rparr>"] plain
        dest: happ split: option.splits if_splits)
      (simp add: entry_ok_def happ)
qed

lemma collect_ok:
  assumes "collectContainerEntries body = Some es"
  shows "list_all entry_ok es"
proof -
  have "list_all entry_ok (item_entries t)" for t
    by (auto simp: item_entries_def entry_ok_def plain_entry_def dest: container_ok split: option.split)
  with assms show ?thesis
    by (auto simp: collectContainerEntries_def list_all_iff split: option.splits if_splits)
qed

lemma add_pairs_Some: "add_pairs Some ms m \<noteq> None"
  by (induction ms arbitrary: m) auto

text \<open>An entry has a record exactly when it is a link or the object of a node.\<close>

definition kept :: "containerEntry \<Rightarrow> bool" where
  "kept e \<longleftrightarrow> toURI e \<noteq> None \<or>
     isNodeEntry (ce_raw e) (ce_isEndpoint e) \<and> (is_null (ce_raw e) \<or> raw_object (ce_raw e) \<noteq> None)"

lemma minify_kept:
  assumes "entry_ok e"
  shows "\<exists>r. minifyNodeJSON (ce_raw e) (ce_rename e) = Some r \<and>
    (r \<noteq> None \<longleftrightarrow> is_null (ce_raw e) \<or> raw_object (ce_raw e) \<noteq> None)"
  using assms add_pairs_Some
  by (auto simp: minifyNodeJSON_def entry_ok_def dec_pairs_def Let_def simp del: not_None_eq split: option.split)

lemma toRecord_kept:
  assumes "entry_ok e"
  shows "\<exists>r. toRecord e = Some r \<and> (r \<noteq> None \<longleftrightarrow> kept e)"
  using minify_kept [OF assms] by (auto simp: toRecord_def kept_def split: option.split)

lemma entry_records_kept:
  assumes "list_all entry_ok es"
  shows "\<exists>rs. entry_records es = Some rs \<and> list_all2 (\<lambda>e r. toRecord e = Some (Some r)) (filter kept es) rs"
  using assms
proof (induction es)
  case (Cons e es)
  then obtain rs where rs: "entry_records es = Some rs"
    "list_all2 (\<lambda>e r. toRecord e = Some (Some r)) (filter kept es) rs" by auto
  obtain r where "toRecord e = Some r" "r \<noteq> None \<longleftrightarrow> kept e" using toRecord_kept Cons.prems by auto
  with rs show ?case by (cases r) auto
qed simp

section \<open>Properties\<close>

lemma node_is_object:
  assumes "isNodeEntry t False"
  shows "\<not> is_null t \<and> raw_object t \<noteq> None"
proof -
  have "dec_probe tags t = None" if "\<not> is_null t" "raw_object t = None" for tags
    using that by (simp add: dec_probe_def dec_struct_def)
  moreover have "dec_probe [''protocol'', ''type'', ''method'', ''server''] t \<noteq> None"
    using assms by (auto simp: isNodeEntry_def split: option.splits)
  moreover have "\<not> is_null t" using null_probe(2) [of t] assms by blast
  ultimately show ?thesis by (cases "raw_object t") auto
qed

text \<open>JSON texts are written with backquotes.\<close>

definition quoted :: "string \<Rightarrow> string" where
  "quoted s = replace_byte (CHR 0x60) (CHR 0x22) s"


definition sample_trojan :: raw where
  "sample_trojan = quoted ''{`type`:`trojan`,`tag`:`a`,`server`:`h.example`,`server_port`:443,`password`:`p`}''"

definition sample_ssh :: raw where
  "sample_ssh = quoted ''{`type`:`ssh`,`tag`:`b`,`server`:`h.example`,`server_port`:22}''"

definition sample_direct_json :: raw where
  "sample_direct_json = quoted ''{`type`:`direct`,`tag`:`c`}''"

definition sample_container :: string where
  "sample_container = quoted ''{`outbounds`:['' @ sample_trojan @ '','' @ sample_direct_json @ '','' @ sample_ssh @ '']}''"

lemma sample_entries:
  "collectContainerEntries sample_container =
     Some [plain_entry sample_trojan, plain_entry sample_direct_json, plain_entry sample_ssh]"
  by code_simp

lemma sample_kept:
  "kept (plain_entry sample_trojan)" "\<not> kept (plain_entry sample_direct_json)" "kept (plain_entry sample_ssh)"
  "toURI (plain_entry sample_ssh) = None"
  by code_simp+


lemma uris_subseq:
  assumes "entry_records es = Some rs"
  shows "subseq (List.map_filter (\<lambda>e. if ce_isEndpoint e then None else toURI e) es) rs"
  using assms
proof (induction es arbitrary: rs)
  case (Cons e es)
  then obtain r rs' where r: "toRecord e = Some r" "entry_records es = Some rs'"
    "rs = (case r of None \<Rightarrow> rs' | Some s \<Rightarrow> s # rs')" by (auto split: option.splits)
  have IH: "subseq (List.map_filter (\<lambda>e. if ce_isEndpoint e then None else toURI e) es) rs'"
    by (rule Cons.IH [OF r(2)])
  show ?case
  proof (cases "if ce_isEndpoint e then None else toURI e")
    case None
    with IH r(3) show ?thesis by (cases r) (auto simp: List.map_filter_simps)
  next
    case (Some s)
    then have "r = Some s" using r(1) by (auto simp: toRecord_def split: if_splits)
    with Some IH r(3) show ?thesis by (simp add: List.map_filter_simps)
  qed
qed (simp add: List.map_filter_simps)

text \<open>C33: the import path and the record list walk the same container: every link that the import takes is a
  record, in the same order.\<close>

theorem import_within_records:
  assumes "ingestJSON body = Some s"
  shows "\<exists>uris rs. s = join [CHR 0x0A] uris \<and> uris \<noteq> [] \<and> convertJSONEntries body = Some (Some rs) \<and> subseq uris rs"
proof -
  from assms obtain es where es: "collectContainerEntries body = Some es"
    by (auto simp: ingestJSON_def split: option.splits)
  obtain rs where rs: "entry_records es = Some rs" using entry_records_kept [OF collect_ok [OF es]] by auto
  show ?thesis
    using assms es rs uris_subseq [OF rs] by (auto simp: ingestJSON_def convertJSONEntries_def Let_def split: if_splits)
qed

theorem import_within_records_witness:
  "\<exists>s uris rs. ingestJSON sample_container = Some s \<and> s = join [CHR 0x0A] uris \<and> uris \<noteq> [] \<and>
     convertJSONEntries sample_container = Some (Some rs) \<and> subseq uris rs"
proof -
  have "ingestJSON sample_container \<noteq> None" by code_simp
  then obtain s where s: "ingestJSON sample_container = Some s" by auto
  from import_within_records [OF s] s show ?thesis by blast
qed

text \<open>A name and none of the lists of a container.\<close>

definition named_only :: "raw \<Rightarrow> bool" where
  "named_only t \<longleftrightarrow>
     (case dec_containerObject t of
        None \<Rightarrow> False
      | Some c \<Rightarrow> co_outbounds c = [] \<and> co_servers c = [] \<and> co_endpoints c = [] \<and>
          orDefault (co_remarks c) (co_remark c) \<noteq> '''')"

lemma named_only_lost: "named_only t \<Longrightarrow> item_entries t = []"
  by (auto simp: named_only_def item_entries_def entriesFromContainerObject_def Let_def split: option.splits)

text \<open>a server object that carries its name as \<open>remarks\<close> is taken for an empty wrapper: a list of such
  servers has no link and no record, although each of them alone is read.\<close>

theorem named_servers_lost:
  assumes "looksLikeJSON body = Some (CHR ''['')" and "dec_list Some body = Some ts" and "list_all named_only ts"
  shows "ingestJSON body = None \<and> convertJSONEntries body = Some None"
proof -
  have "concat (map item_entries ts) = []"
    using assms(3) by (auto simp: list_all_iff named_only_lost)
  then have "collectContainerEntries body = None"
    using assms(1,2) by (simp add: collectContainerEntries_def)
  then show ?thesis by (simp add: ingestJSON_def convertJSONEntries_def)
qed

definition sample_sip008 :: raw where
  "sample_sip008 = quoted
     ''{`server`:`h.example`,`server_port`:8388,`method`:`aes-256-gcm`,`password`:`p`,`remarks`:`a`}''"

theorem named_servers_lost_witness:
  "ingestJSON (''['' @ sample_sip008 @ '']'') = None \<and> convertJSONEntries (''['' @ sample_sip008 @ '']'') = Some None \<and>
   uriFromAnyEntry sample_sip008 \<noteq> None"
proof -
  have a: "looksLikeJSON (''['' @ sample_sip008 @ '']'') = Some (CHR ''['')"
    "dec_list Some (''['' @ sample_sip008 @ '']'') = Some [sample_sip008]" "list_all named_only [sample_sip008]"
    by code_simp+
  have "uriFromAnyEntry sample_sip008 \<noteq> None" by code_simp
  with named_servers_lost [OF a] show ?thesis by simp
qed

lemma bom_no_json: "json_parse (bom @ s) = None"
proof -
  have "\<not> json_ws (CHR 0xEF)" by code_simp
  then have "skip_ws (bom @ s) = CHR 0xEF # CHR 0xBB # CHR 0xBF # s" by (simp add: skip_ws_def bom_def)
  moreover have "json_number (CHR 0xEF # t) = None" for t
    by (simp add: json_number_def digits_of_def is_digit_def code_def)
  ultimately show ?thesis by (simp add: json_parse_def)
qed

text \<open>a byte order mark loses the body: the sniff skips it, the decoder does not, so a JSON body that begins
  with one has no link and no record, whatever it holds.\<close>

theorem bom_body_lost:
  "convertJSONEntries (bom @ body) \<in> {Some None, Some (Some [])} \<and> ingestJSON (bom @ body) = None"
proof -
  have n: "is_null (bom @ body) = False" "raw_object (bom @ body) = None" "raw_array (bom @ body) = None"
    by (simp_all add: is_null_def raw_object_def raw_array_def bom_no_json)
  have e: "item_entries (bom @ body) = [plain_entry (bom @ body)]"
    by (simp add: item_entries_def entriesFromContainerObject_def dec_containerObject_def dec_struct_def n)
  have u: "uriFromAnyEntry (bom @ body) = None" "isNodeEntry (bom @ body) False = False"
    by (simp_all add: uriFromAnyEntry_def isNodeEntry_def dec_probe_def dec_struct_def n)
  have "collectContainerEntries (bom @ body) \<in> {None, Some [plain_entry (bom @ body)]}"
    by (auto simp: collectContainerEntries_def e dec_list_def n split: option.split)
  then show ?thesis
    by (auto simp: convertJSONEntries_def ingestJSON_def toRecord_def toURI_def plain_entry_def u List.map_filter_simps)
qed

end
