(* ===== verification/Ingest_Links.thy ===== *)
theory Ingest_Links
  imports Json_Walk Link_Shape
begin

text \<open>
  What the JSON readers write is what the link reader reads. A link built from a query reads back part
  for part, the queries of the Xray and sing-box readers have keys that stay apart after normalisation,
  and the record list keeps every node of a container.
\<close>

section \<open>A written link reads back\<close>

lemma insert_key_set [simp]: "set (insert_key k ks) = insert k (set ks)"
  by (induction ks) auto

lemma insert_key_distinct [simp]: "distinct (insert_key k ks) \<longleftrightarrow> k \<notin> set ks \<and> distinct ks"
  by (induction ks) auto

lemma sorted_set [simp]: "set (foldr insert_key ks []) = set ks"
  by (induction ks) auto

lemma sorted_distinct [simp]: "distinct (foldr insert_key ks []) \<longleftrightarrow> distinct ks"
  by (induction ks) auto

definition sorted_query :: "query \<Rightarrow> query" where
  "sorted_query q = map (\<lambda>k. (k, qget q k)) (sorted_keys (map fst q))"

lemma map_of_values: "map_of (map (\<lambda>(k, v). (k, [v])) q) k = map_option (\<lambda>v. [v]) (map_of q k)"
  by (induction q) auto

lemma encode_keys:
  "set ks \<subseteq> fst ` set q \<Longrightarrow>
   concat (map (\<lambda>k. case map_of (map (\<lambda>(k, v). (k, [v])) q) k of None \<Rightarrow> []
      | Some vs \<Rightarrow> map (\<lambda>v. query_escape k @ ''='' @ query_escape v) vs) ks) =
   map (\<lambda>k. query_pair (k, qget q k)) ks"
proof (induction ks)
  case (Cons k ks)
  then obtain v where "map_of q k = Some v"
    by (metis list.set_intros(1) map_of_eq_None_iff not_None_eq subsetD)
  with Cons show ?case by (simp add: map_of_values query_pair_def qget_def)
qed simp

lemma qencode_link: "qencode q = link_query (sorted_query q)"
proof -
  have keys: "map fst (map (\<lambda>(k, v). (k, [v])) q) = map fst q" by (induction q) auto
  show ?thesis
    unfolding qencode_def values_encode_def keys link_query_def sorted_query_def sorted_keys_def
    by (subst encode_keys) (simp_all add: o_def)
qed

lemma map_of_key_map: "map_of (map (\<lambda>k. (k, f k)) ks) k = (if k \<in> set ks then Some (f k) else None)"
  by (induction ks) auto

lemma map_of_sorted_query: "map_of (sorted_query q) = map_of q"
proof
  fix k
  have "map_of (sorted_query q) k = (if k \<in> fst ` set q then Some (qget q k) else None)"
    by (simp add: sorted_query_def sorted_keys_def map_of_key_map)
  moreover have "k \<in> fst ` set q \<longleftrightarrow> map_of q k \<noteq> None" by (simp add: map_of_eq_None_iff)
  ultimately show "map_of (sorted_query q) k = map_of q k"
    by (auto simp: qget_def split: option.splits simp del: not_None_eq)
qed

text \<open>A query the link reader keeps apart: keys of a list whose normalised names differ.\<close>

definition good_keys :: "string list \<Rightarrow> bool" where
  "good_keys ks \<longleftrightarrow> distinct (map normalizeStr ks) \<and> list_all (\<lambda>k. CHR '' '' \<notin> set k) ks"

definition over :: "string list \<Rightarrow> query \<Rightarrow> bool" where
  "over ks q \<longleftrightarrow> distinct (map fst q) \<and> set (map fst q) \<subseteq> set ks"

definition blank_free :: "query \<Rightarrow> bool" where
  "blank_free q \<longleftrightarrow> (\<forall>k. raw_key k \<longrightarrow> CHR '' '' \<notin> set (qget q k))"

lemma over_Nil [simp]: "over ks []"
  by (simp add: over_def)

lemma over_qset [simp]: "over ks q \<Longrightarrow> k \<in> set ks \<Longrightarrow> over ks (qset k v q)"
proof -
  assume a: "over ks q" "k \<in> set ks"
  have "fst ` set (qset k v q) = insert k (fst ` set q)"
    by (metis dom_fun_upd dom_map_of_conv_image_fst map_of_qset option.distinct(1))
  with a show ?thesis by (auto simp: over_def qset_distinct)
qed

lemma over_qset_ne [simp]: "over ks q \<Longrightarrow> k \<in> set ks \<Longrightarrow> over ks (qset_ne k v q)"
  by (simp add: qset_ne_def)

lemma over_qset_if [simp]: "over ks q \<Longrightarrow> k \<in> set ks \<Longrightarrow> over ks (qset_if b k v q)"
  by (simp add: qset_if_def)

lemma plain_sorted:
  assumes "good_keys ks" and "over ks q" and "blank_free q"
  shows "plain_params (sorted_query q)"
proof -
  let ?s = "sorted_keys (map fst q)"
  have s: "set ?s \<subseteq> set ks" "distinct ?s" using assms(2) by (auto simp: over_def sorted_keys_def)
  have "inj_on normalizeStr (set ks)" using assms(1) by (simp add: good_keys_def distinct_map)
  then have "distinct (map normalizeStr ?s)" using s by (simp add: distinct_map inj_on_subset)
  moreover have "map (normalizeStr \<circ> fst) (sorted_query q) = map normalizeStr ?s"
    unfolding sorted_query_def by (simp add: o_def)
  moreover have "\<forall>k \<in> set ?s. CHR '' '' \<notin> set k" using s assms(1) by (auto simp: good_keys_def list_all_iff)
  ultimately show ?thesis
    using assms(3) unfolding plain_params_def
    by (auto simp: list_all_iff sorted_query_def blank_free_def simp del: map_map)
qed

lemma param_lookup:
  assumes "good_keys ks" and "over ks q"
  shows "k \<in> set ks \<Longrightarrow> param_map (sorted_query q) (normalizeStr k) = map_of q k"
    and "k' \<notin> normalizeStr ` set ks \<Longrightarrow> param_map (sorted_query q) k' = None"
proof -
  let ?s = "sorted_keys (map fst q)"
  have s: "set ?s = fst ` set q" "fst ` set q \<subseteq> set ks" using assms(2) by (auto simp: over_def sorted_keys_def)
  have inj: "inj_on normalizeStr (set ks)" using assms(1) by (simp add: good_keys_def distinct_map)
  have look: "param_map (sorted_query q) x = (case find (\<lambda>k. normalizeStr k = x) ?s of None \<Rightarrow> None | Some k \<Rightarrow> Some (qget q k))" for x
  proof -
    have "map_of (map (\<lambda>(k, v). (normalizeStr k, v)) (map (\<lambda>k. (k, qget q k)) ks)) x =
        (case find (\<lambda>k. normalizeStr k = x) ks of None \<Rightarrow> None | Some k \<Rightarrow> Some (qget q k))" for ks
      by (induction ks) auto
    then show ?thesis by (simp add: param_map_def sorted_query_def)
  qed
  show "param_map (sorted_query q) (normalizeStr k) = map_of q k" if k: "k \<in> set ks"
  proof (cases "map_of q k")
    case None
    then have "find (\<lambda>k'. normalizeStr k' = normalizeStr k) ?s = None"
      unfolding find_None_iff using s k inj None unfolding map_of_eq_None_iff inj_on_def by blast
    with None show ?thesis by (simp add: look)
  next
    case (Some v)
    then have "k \<in> set ?s" using s by (metis map_of_SomeD fst_conv image_eqI)
    then obtain k2 where f: "find (\<lambda>k'. normalizeStr k' = normalizeStr k) ?s = Some k2"
      by (cases "find (\<lambda>k'. normalizeStr k' = normalizeStr k) ?s") (auto simp: find_None_iff)
    then have "k2 \<in> set ?s" "normalizeStr k2 = normalizeStr k" by (auto simp: find_Some_iff)
    with s k inj have "k2 = k" by (auto simp: inj_on_def)
    with f Some show ?thesis by (simp add: look qget_def)
  qed
  show "param_map (sorted_query q) k' = None" if "k' \<notin> normalizeStr ` set ks"
  proof -
    have "find (\<lambda>k. normalizeStr k = k') ?s = None" using that s by (auto simp: find_None_iff)
    then show ?thesis by (simp add: look)
  qed
qed

lemma escape_host_port:
  assumes "host_ok h"
  shows "escape EncHost (host_port h n) = host_port h n"
proof -
  have "escape_byte EncHost c = [c]" if "is_alnum c \<or> c \<in> set ''-.:''" for c
    using that by (auto simp: escape_byte_def should_escape_def is_alnum_def is_digit_def is_upper_def is_lower_def code_def)
  then have e: "escape EncHost s = s" if "list_all (\<lambda>c. is_alnum c \<or> c \<in> set ''-.:'') s" for s
    using that by (induction s) (auto simp: escape_def)
  show ?thesis
    using assms itoa_digits [of n]
    by (intro e) (auto simp: host_port_def host_ok_def list_all_iff is_alnum_def)
qed

definition user_text :: "string \<times> string option \<Rightarrow> string" where
  "user_text c = (case snd c of None \<Rightarrow> escape EncUserPassword (fst c) | Some p \<Rightarrow> credentials (fst c) p)"

lemma userinfo_text: "userinfo_string c = user_text c"
  by (cases c) (simp add: userinfo_string_def user_text_def credentials_def split: option.splits)

lemma link_of_share:
  assumes "scheme_ok sch" and "host_ok h"
  shows "link_of sch (Some c) (host_port h n) q name =
    share_link sch (user_text c) h n (qencode q) name"
proof -
  have "host_port h n \<noteq> ''''" "sch \<noteq> ''''" using assms by (auto simp: host_port_def scheme_ok_def)
  then show ?thesis
    by (simp add: link_of_def url_String_def url_authority_string_def url_path_string_def escaped_path_def
        escaped_fragment_def empty_url_def escape_host_port [OF assms(2)] userinfo_text share_link_def)
      (simp add: escape_def host_port_def Let_def)
qed

lemma hostPort_text:
  assumes "host_ok h" and "0 \<le> p"
  shows "hostPort h p = host_port h (nat (if p = 0 then 443 else p))"
proof -
  have "CHR '':'' \<notin> set h" using link_chars_free [OF host_link_chars [OF assms(1)]] by simp
  with assms(2) show ?thesis by (simp add: hostPort_def host_port_def itoa_int_def contains_byte)
qed

text \<open>The port that a link to port 0 carries.\<close>

definition eff_port :: "int \<Rightarrow> 16 word" where
  "eff_port p = of_int (if p = 0 then 443 else p)"

lemma link_reads_back:
  assumes "scheme_ok sch" and "sch \<noteq> ''ss''" and h: "host_ok h" and p: "0 \<le> p" "p < 65536"
    and ks: "good_keys ks" and q: "over ks q" "blank_free q"
  shows "\<exists>u. ParseUrl (link_of sch (Some (user, pw)) (hostPort h p) q name) d = Inr u \<and>
    us_scheme u = sch \<and> us_username u = user \<and> us_password u = (case pw of None \<Rightarrow> '''' | Some x \<Rightarrow> x) \<and>
    us_hostname u = h \<and> us_port u = eff_port p \<and> us_name u = name \<and>
    us_params u = param_map (sorted_query q)"
proof -
  let ?n = "nat (if p = 0 then 443 else p)"
  have n: "?n < 2 ^ 16" using p by (simp add: nat_less_iff)
  have ui: "ui_text (user_text (user, pw))" "parse_userinfo (user_text (user, pw)) = Inr (user, pw)"
    by (cases pw; simp add: user_text_def parse_userinfo_name parse_userinfo_credentials)+
  have plain: "plain_params (sorted_query q)" by (rule plain_sorted [OF ks q])
  obtain u where u: "ParseUrl (share_link sch (user_text (user, pw)) h ?n (link_query (sorted_query q)) name) d = Inr u"
    "us_scheme u = sch" "us_username u = user" "us_password u = (case pw of None \<Rightarrow> '''' | Some x \<Rightarrow> x)"
    "us_hostname u = h" "us_port u = of_nat ?n" "us_name u = name" "us_params u = param_map (sorted_query q)"
    using ParseUrl_link [OF assms(1) h ui n plain] assms(2) by blast
  have port: "us_port u = eff_port p" using u(6) p by (simp add: eff_port_def)
  with u port show ?thesis
    by (simp add: hostPort_text [OF h p(1)] link_of_share [OF assms(1) h] qencode_link)
qed

section \<open>The keys of the written queries\<close>

definition stream_keys :: "string list" where
  "stream_keys = [''encryption'', ''flow'', ''packetEncoding'', ''type'', ''security'', ''sni'', ''alpn'', ''fp'',
     ''allowInsecure'', ''insecure'', ''ech'', ''query_server_name'', ''pbk'', ''sid'', ''spx'', ''path'', ''host'',
     ''serviceName'', ''mode'', ''extra'', ''headerType'', ''heartbeat_period'', ''idle_timeout'',
     ''health_check_timeout'', ''permit_without_stream'', ''authority'', ''user_agent'', ''method'', ''headers'']"

lemma good_stream_keys: "good_keys stream_keys"
  by code_simp

lemma stream_key_mem [simp]: "k \<in> set stream_keys \<longleftrightarrow> k \<in> set
    [''encryption'', ''flow'', ''packetEncoding'', ''type'', ''security'', ''sni'', ''alpn'', ''fp'',
     ''allowInsecure'', ''insecure'', ''ech'', ''query_server_name'', ''pbk'', ''sid'', ''spx'', ''path'', ''host'',
     ''serviceName'', ''mode'', ''extra'', ''headerType'', ''heartbeat_period'', ''idle_timeout'',
     ''health_check_timeout'', ''permit_without_stream'', ''authority'', ''user_agent'', ''method'', ''headers'']"
  by (simp add: stream_keys_def)

lemma over_network [simp]:
  "over stream_keys q \<Longrightarrow> over stream_keys (applyNetworkParamsToQuery net st q)"
  by (simp add: applyNetworkParamsToQuery_def network_params_def xhttp_params_def split: option.split)

lemma over_tls [simp]: "over stream_keys q \<Longrightarrow> over stream_keys (tls_params ''allowInsecure'' t q)"
  by (simp add: tls_params_def applyECHKeys_def split: option.split)

lemma over_reality [simp]: "over stream_keys q \<Longrightarrow> over stream_keys (reality_params b r q)"
  by (simp add: reality_params_def)

lemma over_stream [simp]: "over stream_keys q \<Longrightarrow> over stream_keys (applyStreamToQuery st q)"
  by (simp add: applyStreamToQuery_def Let_def split: option.split)

lemma over_vless_query: "over stream_keys (vless_query st usr)"
  by (simp add: vless_query_def del: qset.simps)

lemma over_trojan_query: "over stream_keys (trojan_query st flow)"
  by (simp add: trojan_query_def Let_def)

lemma over_transport [simp]: "over stream_keys q \<Longrightarrow> over stream_keys (applySingboxTransport tr q)"
  by (simp add: applySingboxTransport_def transport_params_def early_path_def set_seconds_def Let_def split: option.split)

lemma over_singbox_tls [simp]: "over stream_keys q \<Longrightarrow> over stream_keys (applySingboxTLS tr q)"
  by (simp add: applySingboxTLS_def applySingboxECH_def sb_security_params_def Let_def split: option.split)

lemma over_singbox_vless: "over stream_keys (singbox_vless_query ob)"
  by (simp add: singbox_vless_query_def del: qset.simps)

lemma over_singbox_trojan: "over stream_keys (singbox_trojan_query ob)"
  by (simp add: singbox_trojan_query_def Let_def)

text \<open>The settings of a transport, of TLS and of Reality leave the other keys alone.\<close>

lemma map_of_qset_ne: "map_of (qset_ne k v q) k' = (if k' = k \<and> v \<noteq> '''' then Some v else map_of q k')"
  by (simp add: qset_ne_def)

lemma map_of_qset_if: "map_of (qset_if b k v q) k' = (if k' = k \<and> b then Some v else map_of q k')"
  by (simp add: qset_if_def)

lemma map_of_network:
  "k \<notin> {sk, hk, ''path'', ''host'', ''mode'', ''extra''} \<Longrightarrow> map_of (network_params sk hk net st q) k = map_of q k"
  by (simp add: network_params_def xhttp_params_def map_of_qset_ne map_of_qset_if split: option.split)

lemma map_of_tls_params:
  "k \<notin> {ik, ''sni'', ''alpn'', ''fp'', ''ech''} \<Longrightarrow> map_of (tls_params ik t q) k = map_of q k"
  by (simp add: tls_params_def applyECHKeys_def map_of_qset_ne map_of_qset_if split: option.split)

lemma map_of_reality_params:
  "k \<notin> {''sni'', ''pbk'', ''sid'', ''spx'', ''fp''} \<Longrightarrow> map_of (reality_params b r q) k = map_of q k"
  by (simp add: reality_params_def map_of_qset_ne)

definition stream_net :: "xrayStream option \<Rightarrow> string option" where
  "stream_net st = (case st of None \<Rightarrow> None | Some s \<Rightarrow> Some (normalizeNetwork (xs_network s)))"

definition stream_security :: "xrayStream option \<Rightarrow> string" where
  "stream_security st = (case st of None \<Rightarrow> '''' | Some s \<Rightarrow> to_lower (xs_security s))"

lemma normalizeNetwork_nonempty: "normalizeNetwork n \<noteq> ''''"
  by (simp add: normalizeNetwork_def Let_def)

lemma map_of_stream:
  "k \<in> {''encryption'', ''flow''} \<Longrightarrow> map_of (applyStreamToQuery st q) k = map_of q k"
  "map_of (applyStreamToQuery st q) ''type'' = (case stream_net st of None \<Rightarrow> map_of q ''type'' | Some n \<Rightarrow> Some n)"
  by (auto simp: applyStreamToQuery_def applyNetworkParamsToQuery_def Let_def map_of_network map_of_tls_params
      map_of_reality_params map_of_qset_ne stream_net_def normalizeNetwork_nonempty split: option.split)

lemma map_of_stream_security:
  assumes "map_of q ''security'' = None"
  shows "map_of (applyStreamToQuery st q) ''security'' =
    (if stream_security st \<in> {''none'', ''''} then None
     else Some (if stream_security st \<in> {''tls'', ''reality''} then stream_security st
                else case st of None \<Rightarrow> '''' | Some s \<Rightarrow> xs_security s))"
  using assms
  by (auto simp: applyStreamToQuery_def applyNetworkParamsToQuery_def Let_def map_of_network map_of_tls_params
      map_of_reality_params map_of_qset_ne stream_security_def split: option.split)

lemma vlessFlow_idem: "normalizeVlessFlow f = Inr g \<Longrightarrow> normalizeVlessFlow g = Inr g"
proof -
  have "normalizeVlessFlow '''' = Inr ''''" "normalizeVlessFlow ''xtls-rprx-vision'' = Inr ''xtls-rprx-vision''"
    by code_simp+
  then show "normalizeVlessFlow f = Inr g \<Longrightarrow> ?thesis" by (auto dest: vlessFlow_range)
qed

lemma flow_param_ok: "normalizeVlessFlow f = Inr g \<Longrightarrow> flow_param f = g"
proof -
  have "normalizeVlessFlow '''' = Inr ''''" by code_simp
  then show "normalizeVlessFlow f = Inr g \<Longrightarrow> ?thesis" by (auto simp: flow_param_def)
qed

definition link_params :: "query \<Rightarrow> params" where
  "link_params q = param_map (sorted_query q)"

lemma link_param:
  assumes "over stream_keys q"
  shows "k \<in> set stream_keys \<Longrightarrow> normalizeStr k = k' \<Longrightarrow> mget (link_params q) k' = qget q k"
    and "k' \<notin> set (map normalizeStr stream_keys) \<Longrightarrow> mget (link_params q) k' = ''''"
proof -
  show "mget (link_params q) k' = qget q k" if "k \<in> set stream_keys" "normalizeStr k = k'"
    unfolding mget_def qget_def link_params_def that(2) [symmetric]
      param_lookup(1) [OF good_stream_keys assms that(1)] ..
  show "mget (link_params q) k' = ''''" if "k' \<notin> set (map normalizeStr stream_keys)"
    unfolding mget_def link_params_def param_lookup(2) [OF good_stream_keys assms that [unfolded set_map]]
    by simp
qed

lemma stream_normal:
  "normalizeStr ''encryption'' = ''encryption''" "normalizeStr ''flow'' = ''flow''"
  "normalizeStr ''type'' = ''type''" "normalizeStr ''security'' = ''security''"
  "''net'' \<notin> set (map normalizeStr stream_keys)" "''tls'' \<notin> set (map normalizeStr stream_keys)"
  by code_simp+

lemma vless_params:
  assumes "d = link_params (vless_query st usr)"
  shows "mget d ''encryption'' = orDefault (vu_encryption usr) ''none''"
    "mget d ''flow'' = flow_param (vu_flow usr)" "mget d ''net'' = ''''" "mget d ''tls'' = ''''"
    "mget d ''type'' = (case stream_net st of None \<Rightarrow> '''' | Some n \<Rightarrow> n)"
    "mget d ''security'' \<in> {''tls'', ''reality''} \<longleftrightarrow> stream_security st \<in> {''tls'', ''reality''}"
proof -
  note p = link_param [OF over_vless_query [of st usr]]
  show "mget d ''encryption'' = orDefault (vu_encryption usr) ''none''"
    unfolding assms by (subst p(1) [of "''encryption''"])
      (simp_all add: stream_normal qget_def vless_query_def map_of_stream map_of_qset_ne)
  show "mget d ''flow'' = flow_param (vu_flow usr)"
    unfolding assms by (subst p(1) [of "''flow''"])
      (simp_all add: stream_normal qget_def vless_query_def map_of_stream map_of_qset_ne)
  show "mget d ''net'' = ''''" "mget d ''tls'' = ''''"
    unfolding assms by (intro p(2) stream_normal)+
  show "mget d ''type'' = (case stream_net st of None \<Rightarrow> '''' | Some n \<Rightarrow> n)"
    unfolding assms by (subst p(1) [of "''type''"])
      (simp_all add: stream_normal qget_def vless_query_def map_of_stream map_of_qset_ne split: option.split)
  have sec: "map_of (qset_ne ''flow'' (flow_param (vu_flow usr))
      (qset ''encryption'' (orDefault (vu_encryption usr) ''none'') [])) ''security'' = None"
    by (simp add: map_of_qset_ne)
  have low: "to_lower ''tls'' = ''tls''" "to_lower ''reality'' = ''reality''" by code_simp+
  have "mget d ''security'' = qget (vless_query st usr) ''security''"
    unfolding assms by (rule p(1)) (simp_all add: stream_normal)
  moreover have "qget (vless_query st usr) ''security'' \<in> {''tls'', ''reality''} \<longleftrightarrow> stream_security st \<in> {''tls'', ''reality''}"
    unfolding qget_def vless_query_def map_of_stream_security [OF sec]
    by (cases st) (use low in \<open>auto simp: stream_security_def\<close>)
  ultimately show "mget d ''security'' \<in> {''tls'', ''reality''} \<longleftrightarrow> stream_security st \<in> {''tls'', ''reality''}"
    by simp
qed

text \<open>The networks whose transport needs nothing else.\<close>

definition linkable_nets :: "string list" where
  "linkable_nets = [''tcp'', ''ws'', ''httpupgrade'', ''grpc'', ''http'', ''xhttp'']"

lemma vless_transport:
  assumes "d = link_params (vless_query st usr)"
    and "\<And>n. stream_net st = Some n \<Longrightarrow> n \<in> set linkable_nets"
  shows "\<exists>tr d'. getTransportOptions dec d = Inr (tr, d') \<and> (\<forall>k. k \<noteq> ''alpn'' \<longrightarrow> d' k = d k)"
proof -
  note v = vless_params [OF assms(1)]
  have "transport_net d \<in> set linkable_nets"
    using assms(2) v(3,5) unfolding transport_net_def transport_net0_def Let_def linkable_nets_def
    by (cases "stream_net st") auto
  then show ?thesis
    unfolding linkable_nets_def by (auto simp: getTransportOptions_def default_alpn_def)
qed

definition vless_link :: "vnext_server \<Rightarrow> vnext_user \<Rightarrow> xrayOutbound \<Rightarrow> string" where
  "vless_link srv usr ob =
     link_of ''vless'' (Some (vu_id usr, None)) (hostPort (vn_address srv) (vn_port srv))
       (vless_query (ob_stream ob) usr) (ob_tag ob)"

lemma vless_link_imported:
  assumes ob: "dec_xrayOutbound t = Some ob" "first_vnext (ob_settings ob) = Some (srv, usr)"
    and proto: "to_lower protocol = ''vless''"
    and addr: "host_ok (vn_address srv)" "0 \<le> vn_port srv" "vn_port srv < 65536"
    and usr: "vu_encryption usr \<in> {'''', ''none''}" "normalizeVlessFlow (vu_flow usr) = Inr flow"
    and st: "blank_free (vless_query (ob_stream ob) usr)"
      "\<And>n. stream_net (ob_stream ob) = Some n \<Longrightarrow> n \<in> set linkable_nets"
  shows "\<exists>x v. uriFromXrayOutbound t protocol = Some (vless_link srv usr ob) \<and>
    VlessSingbox dec (vless_link srv usr ob) = Inr x \<and>
    o_type x = ''vless'' \<and> o_tag x = ob_tag ob \<and> o_options x = OVless v \<and> vl_uuid v = vu_id usr \<and>
    vl_server v = \<lparr>so_server = vn_address srv, so_port = eff_port (vn_port srv)\<rparr> \<and> vl_flow v = flow \<and>
    (vl_tls v \<noteq> None \<longleftrightarrow> stream_security (ob_stream ob) \<in> {''tls'', ''reality''})"
proof -
  let ?q = "vless_query (ob_stream ob) usr"
  let ?d = "link_params ?q"
  let ?link = "vless_link srv usr ob"
  have ok: "scheme_ok ''vless''" "''vless'' \<noteq> ''ss''" by code_simp+
  obtain u where u: "ParseUrl ?link 443 = Inr u" "us_username u = vu_id usr" "us_hostname u = vn_address srv"
    "us_port u = eff_port (vn_port srv)" "us_name u = ob_tag ob" "us_params u = ?d"
    using link_reads_back [OF ok addr good_stream_keys over_vless_query st(1), of "vu_id usr" None "ob_tag ob" 443]
    unfolding link_params_def vless_link_def by blast
  note v = vless_params [OF refl, of "ob_stream ob" usr]
  obtain tr d' where tr: "getTransportOptions dec ?d = Inr (tr, d')" "\<And>k. k \<noteq> ''alpn'' \<Longrightarrow> d' k = ?d k"
    using vless_transport [OF refl st(2)] by metis
  have enc: "mget ?d ''encryption'' = ''none''" using usr(1) v(1) by (auto simp: orDefault_def)
  have flow: "normalizeVlessFlow (mget ?d ''flow'') = Inr flow"
    using flow_param_ok [OF usr(2)] vlessFlow_idem [OF usr(2)] v(2) by simp
  have tls: "getTLSOptions d' \<noteq> None \<longleftrightarrow> stream_security (ob_stream ob) \<in> {''tls'', ''reality''}"
  proof -
    have "mget d' ''tls'' = ''''" "mget d' ''security'' = mget ?d ''security''" using tr(2) v(4) by (simp_all add: mget_def)
    then show ?thesis using v(6) by (simp add: getTLSOptions_def tls_requested_def)
  qed
  have link: "uriFromXrayOutbound t protocol = Some ?link"
    using ob proto by (simp add: uriFromXrayOutbound_def xrayVLESS_def vless_link_def Let_def)
  show ?thesis
    using tls by (simp add: link VlessSingbox_def u enc flow tr(1) Let_def GetServerOption_def)
qed

text \<open>an Xray VLESS outbound survives its import: the link written for its first server reads back, and
  the VLESS parser builds an outbound of the same address, port, user, flow and name, with TLS exactly
  when the stream asks for TLS or Reality.\<close>

theorem xray_vless_imported:
  assumes ob: "dec_xrayOutbound t = Some ob" "first_vnext (ob_settings ob) = Some (srv, usr)"
    and proto: "to_lower protocol = ''vless''"
    and addr: "host_ok (vn_address srv)" "0 \<le> vn_port srv" "vn_port srv < 65536"
    and usr: "vu_encryption usr \<in> {'''', ''none''}" "normalizeVlessFlow (vu_flow usr) = Inr flow"
    and st: "blank_free (vless_query (ob_stream ob) usr)"
      "\<And>n. stream_net (ob_stream ob) = Some n \<Longrightarrow> n \<in> set linkable_nets"
  shows "\<exists>link x v. uriFromXrayOutbound t protocol = Some link \<and> VlessSingbox dec link = Inr x \<and>
    o_type x = ''vless'' \<and> o_tag x = ob_tag ob \<and> o_options x = OVless v \<and> vl_uuid v = vu_id usr \<and>
    vl_server v = \<lparr>so_server = vn_address srv, so_port = eff_port (vn_port srv)\<rparr> \<and> vl_flow v = flow \<and>
    (vl_tls v \<noteq> None \<longleftrightarrow> stream_security (ob_stream ob) \<in> {''tls'', ''reality''})"
  using vless_link_imported [OF assms] by blast

lemma blank_freeI:
  assumes "list_all (\<lambda>(k, v). CHR '' '' \<notin> set v) q"
  shows "blank_free q"
  unfolding blank_free_def
proof (intro allI impI)
  fix k
  show "CHR '' '' \<notin> set (qget q k)"
    using assms by (cases "map_of q k") (auto simp: qget_def list_all_iff dest: map_of_SomeD)
qed

definition sample_vless :: raw where
  "sample_vless = quoted
     (''{`protocol`:`vless`,`tag`:`de 1`,`settings`:{`vnext`:[{`address`:`h.example`,`port`:8443,'' @
      ''`users`:[{`id`:`u-1`,`flow`:`xtls-rprx-vision-udp443`,`encryption`:`none`}]}]},'' @
      ''`streamSettings`:{`network`:`raw`,`security`:`reality`,'' @
      ''`realitySettings`:{`serverName`:`a.example`,`publicKey`:`pk`,`shortId`:`0a`}}}'')"

definition sample_server :: vnext_server where
  "sample_server = \<lparr>vn_address = ''h.example'', vn_port = 8443, vn_users =
     [\<lparr>vu_id = ''u-1'', vu_flow = ''xtls-rprx-vision-udp443'', vu_encryption = ''none'', vu_security = '''', vu_alterId = ''''\<rparr>]\<rparr>"

definition is_sample :: "xrayOutbound \<Rightarrow> bool" where
  "is_sample ob \<longleftrightarrow> ob_tag ob = ''de 1'' \<and> first_vnext (ob_settings ob) = Some (sample_server, hd (vn_users sample_server)) \<and>
     stream_net (ob_stream ob) = Some ''tcp'' \<and> stream_security (ob_stream ob) = ''reality'' \<and>
     list_all (\<lambda>(k, v). CHR '' '' \<notin> set v) (vless_query (ob_stream ob) (hd (vn_users sample_server)))"

lemma sample_decodes: "case dec_xrayOutbound sample_vless of None \<Rightarrow> False | Some ob \<Rightarrow> is_sample ob"
  by code_simp

theorem xray_vless_imported_witness:
  "\<exists>link x v. uriFromXrayOutbound sample_vless ''VLESS'' = Some link \<and> VlessSingbox (\<lambda>_. None) link = Inr x \<and>
     o_type x = ''vless'' \<and> o_tag x = ''de 1'' \<and> o_options x = OVless v \<and> vl_uuid v = ''u-1'' \<and>
     vl_server v = \<lparr>so_server = ''h.example'', so_port = 8443\<rparr> \<and> vl_flow v = ''xtls-rprx-vision'' \<and> vl_tls v \<noteq> None"
proof -
  let ?srv = sample_server and ?usr = "hd (vn_users sample_server)"
  obtain ob where d: "dec_xrayOutbound sample_vless = Some ob" and s: "is_sample ob"
    using sample_decodes by (auto split: option.splits)
  from s have n: "first_vnext (ob_settings ob) = Some (?srv, ?usr)" and b: "blank_free (vless_query (ob_stream ob) ?usr)"
    and c: "ob_tag ob = ''de 1''" "stream_net (ob_stream ob) = Some ''tcp''" "stream_security (ob_stream ob) = ''reality''"
    by (simp_all add: is_sample_def blank_freeI)
  have a: "to_lower ''VLESS'' = ''vless''" "host_ok (vn_address ?srv)" "0 \<le> vn_port ?srv" "vn_port ?srv < 65536"
    "vu_encryption ?usr \<in> {'''', ''none''}" "normalizeVlessFlow (vu_flow ?usr) = Inr ''xtls-rprx-vision''"
    by code_simp+
  have e: "vu_id ?usr = ''u-1''" "vn_address ?srv = ''h.example''" "eff_port (vn_port ?srv) = 8443"
    by (simp_all add: sample_server_def eff_port_def)
  from xray_vless_imported [OF d n a b, of "\<lambda>_. None"] show ?thesis
    by (simp add: c e linkable_nets_def)
qed

end
