(* ===== verification/Config_Options.thy ===== *)
theory Config_Options
  imports Awg Core_Lifecycle
begin

text \<open>
  The options builder (\<open>v2/config\<close>): its tags (\<open>builder.go\<close>), its settings and their defaults
  (\<open>inhive_option.go\<close>, \<open>warp_account.go\<close>, \<open>types.go\<close>), the part of the engine's option structures it
  writes, and its helpers (\<open>builder_helpers.go\<close>, \<open>builder_inbound.go\<close>). A build may fail or panic: its
  results are outcomes.
\<close>

section \<open>Tags\<close>

definition hide_mark :: string where
  "hide_mark = [CHR 0xC2, CHR 0xA7] @ ''hide'' @ [CHR 0xC2, CHR 0xA7]"

definition default_mark :: string where
  "default_mark = [CHR 0xC2, CHR 0xA7] @ ''default'' @ [CHR 0xC2, CHR 0xA7]"

definition DNSRemoteTag :: string where "DNSRemoteTag = ''dns-remote''"
definition DNSRemoteTagFallback :: string where "DNSRemoteTagFallback = ''dns-remote-fallback''"
definition DNSLocalTag :: string where "DNSLocalTag = ''dns-local''"
definition DNSStaticTag :: string where "DNSStaticTag = ''dns-static''"
definition DNSDirectTag :: string where "DNSDirectTag = ''dns-direct''"
definition DNSRemoteNoWarpTag :: string where "DNSRemoteNoWarpTag = ''dns-remote-no-warp''"
definition DNSFakeTag :: string where "DNSFakeTag = ''dns-fake''"
definition DNSTricksDirectTag :: string where "DNSTricksDirectTag = ''dns-trick-direct''"
definition DNSMultiDirectTag :: string where "DNSMultiDirectTag = ''dns-direct''"
definition DNSMultiRemoteTag :: string where "DNSMultiRemoteTag = ''dns-remote''"

definition OutboundDirectTag :: string where "OutboundDirectTag = ''direct '' @ hide_mark"
definition OutboundBypassTag :: string where "OutboundBypassTag = ''bypass '' @ hide_mark"
definition OutboundSelect :: string where "OutboundSelect = ''select''"
definition OutboundURLTestTag :: string where "OutboundURLTestTag = ''lowest''"
definition OutboundRoundRobinTag :: string where "OutboundRoundRobinTag = ''balance''"
definition OutboundDNSTag :: string where "OutboundDNSTag = ''dns-out '' @ hide_mark"
definition OutboundDirectFragmentTag :: string where "OutboundDirectFragmentTag = ''direct-fragment '' @ hide_mark"

definition WARPConfigTag :: string where
  "WARPConfigTag = [CHR 0xF0, CHR 0x9F, CHR 0x94, CHR 0x92] @ '' WARP''"

definition InboundTUNTag :: string where "InboundTUNTag = ''tun-in''"
definition InboundMixedTag :: string where "InboundMixedTag = ''mixed-in''"
definition InboundTProxy :: string where "InboundTProxy = ''tproxy-in''"
definition InboundRedirect :: string where "InboundRedirect = ''redirect-in''"
definition InboundDirectTag :: string where "InboundDirectTag = ''dns-in''"

definition PredefinedOutboundTags :: "string list" where
  "PredefinedOutboundTags =
     [OutboundDirectTag, OutboundBypassTag, OutboundSelect, OutboundURLTestTag, OutboundDNSTag,
      OutboundDirectFragmentTag, WARPConfigTag]"

section \<open>Settings\<close>

datatype domain_strategy = AsIS | PreferIPv4 | OtherStrategy nat

record dns_settings =
  ds_remote :: string
  ds_remote_strategy :: domain_strategy
  ds_direct :: string
  ds_direct_strategy :: domain_strategy
  ds_independent_cache :: bool
  ds_fake :: bool

record inbound_settings =
  nd_tun :: bool
  nd_tun_service :: bool
  nd_system_proxy :: bool
  nd_mixed_port :: "16 word"
  nd_tproxy_port :: "16 word"
  nd_redirect_port :: "16 word"
  nd_direct_port :: "16 word"
  nd_mtu :: "32 word"
  nd_strict_route :: bool
  nd_tun_stack :: string

record urltest_settings =
  us_test_url :: string
  us_test_urls :: "string list"
  us_interval :: int

record route_settings =
  rs_resolve :: bool
  rs_ipv6 :: domain_strategy
  rs_bypass_lan :: bool
  rs_allow_lan :: bool
  rs_block_quic :: bool

record tricks_settings =
  ts_fragment :: bool
  ts_fragment_size :: string
  ts_fragment_sleep :: string
  ts_mixed_sni :: bool
  ts_padding :: bool
  ts_padding_size :: string

record mux_settings =
  ms_enable :: bool
  ms_padding :: bool
  ms_max_streams :: int
  ms_protocol :: string

record warp_account =
  wa_id :: string
  wa_token :: string

record warp_wg_config =
  wc_private_key :: string
  wc_ipv4 :: string
  wc_ipv6 :: string
  wc_peer_key :: string
  wc_client_id :: string

record warp_settings =
  ws_id :: string
  ws_enable :: bool
  ws_mode :: string
  ws_config_str :: string
  ws_config :: warp_wg_config
  ws_packets :: string
  ws_packet_size :: string
  ws_packet_delay :: string
  ws_packet_mode :: string
  ws_clean_ip :: string
  ws_clean_port :: "16 word"
  ws_account :: warp_account

text \<open>Left out: the rules, which nothing reads, and the three switches of the traffic padding, which belong to the engine.\<close>

record InhiveOptions =
  ho_full_config :: bool
  ho_log_level :: string
  ho_log_file :: string
  ho_clash_api :: bool
  ho_clash_port :: "16 word"
  ho_clash_secret :: string
  ho_region :: string
  ho_block_ads :: bool
  ho_use_xray :: bool
  ho_balancer :: string
  ho_warp :: warp_settings
  ho_warp2 :: warp_settings
  ho_mux :: mux_settings
  ho_tricks :: tricks_settings
  ho_ntp :: bool
  ho_dns :: dns_settings
  ho_inbound :: inbound_settings
  ho_urltest :: urltest_settings
  ho_route :: route_settings

definition warp_wg_zero :: warp_wg_config where
  "warp_wg_zero =
     \<lparr>wc_private_key = '''', wc_ipv4 = '''', wc_ipv6 = '''', wc_peer_key = '''', wc_client_id = ''''\<rparr>"

definition warp_settings_zero :: warp_settings where
  "warp_settings_zero =
     \<lparr>ws_id = '''', ws_enable = False, ws_mode = '''', ws_config_str = '''', ws_config = warp_wg_zero,
      ws_packets = '''', ws_packet_size = '''', ws_packet_delay = '''', ws_packet_mode = '''', ws_clean_ip = '''',
      ws_clean_port = 0, ws_account = \<lparr>wa_id = '''', wa_token = ''''\<rparr>\<rparr>"

definition DefaultInhiveOptions :: InhiveOptions where
  "DefaultInhiveOptions =
     \<lparr>ho_full_config = False, ho_log_level = ''debug'', ho_log_file = ''data/box.log'', ho_clash_api = True,
      ho_clash_port = 16756, ho_clash_secret = '''', ho_region = ''other'', ho_block_ads = False,
      ho_use_xray = False, ho_balancer = '''', ho_warp = warp_settings_zero, ho_warp2 = warp_settings_zero,
      ho_mux = \<lparr>ms_enable = False, ms_padding = True, ms_max_streams = 8, ms_protocol = ''h2mux''\<rparr>,
      ho_tricks = \<lparr>ts_fragment = False, ts_fragment_size = ''10-100'', ts_fragment_sleep = ''50-200'',
        ts_mixed_sni = False, ts_padding = False, ts_padding_size = ''1200-1500''\<rparr>,
      ho_ntp = True,
      ho_dns = \<lparr>ds_remote = ''1.1.1.1'', ds_remote_strategy = AsIS, ds_direct = ''1.1.1.1'',
        ds_direct_strategy = AsIS, ds_independent_cache = False, ds_fake = False\<rparr>,
      ho_inbound = \<lparr>nd_tun = False, nd_tun_service = False, nd_system_proxy = False, nd_mixed_port = 12334,
        nd_tproxy_port = 12335, nd_redirect_port = 12336, nd_direct_port = 12337, nd_mtu = 9000,
        nd_strict_route = True, nd_tun_stack = ''mixed''\<rparr>,
      ho_urltest = \<lparr>us_test_url = ''http://cp.cloudflare.com/'', us_test_urls = [], us_interval = 600\<rparr>,
      ho_route = \<lparr>rs_resolve = False, rs_ipv6 = AsIS, rs_bypass_lan = False, rs_allow_lan = False,
        rs_block_quic = False\<rparr>\<rparr>"

text \<open>\<open>DurationInSeconds.Duration\<close>: nanoseconds in 64 bits.\<close>

definition seconds_duration :: "int \<Rightarrow> 64 word" where
  "seconds_duration d = word_of_int d * 1000000000"

section \<open>The engine's options\<close>

text \<open>As in the theory of the converter's options, a field that no code here writes has no counterpart.\<close>

datatype inbound_options =
    TunIn string "32 word" bool bool "prefix list"
  | MixedIn addr "16 word" bool
  | TProxyIn addr "16 word"
  | RedirectIn addr "16 word"
  | DirectIn addr "16 word"
  | OtherIn string

record cfg_inbound =
  nb_type :: string
  nb_tag :: string
  nb_options :: inbound_options

record balancer_options =
  bl_outbounds :: "string list"
  bl_strategy :: string
  bl_ratio :: nat
  bl_tolerance :: nat
  bl_interrupt :: bool

record selector_options =
  sl_outbounds :: "string list"
  sl_default :: string
  sl_interrupt :: bool

text \<open>
  The options of an outbound are an interface value: the engine's decoder and the converter put a pointer to
  the structure there (\<open>ProxyOut\<close>), the structure itself would be a different value (\<open>ProxyVal\<close>). A type that
  the development has no structure for keeps its dialer and a text.
\<close>

datatype cfg_out_options =
    ProxyOut outbound_options
  | ProxyVal outbound_options
  | BalancerOut balancer_options
  | SelectorOut selector_options
  | OtherOut dialer_options string

record cfg_outbound =
  cb_type :: string
  cb_tag :: string
  cb_options :: cfg_out_options

record dns_remote =
  dr_detour :: string
  dr_resolver :: string
  dr_resolver_strategy :: domain_strategy
  dr_server :: string
  dr_port :: "16 word"
  dr_connect_timeout :: "64 word"
  dr_no_keepalive :: bool

record dns_tls =
  dt_enabled :: bool
  dt_fragment :: bool
  dt_record_fragment :: bool
  dt_fallback_delay :: "64 word"

datatype dns_server_options =
    DnsLocal dns_remote bool
  | DnsPlain dns_remote
  | DnsTls dns_remote
  | DnsHttps dns_remote string dns_tls
  | DnsRcode nat
  | DnsDhcp string
  | DnsFakeIp "(prefix \<times> prefix) option"
  | DnsHosts "(string \<times> addr list) list"
  | DnsMulti "string list" bool "prefix list"

record dns_server =
  dv_tag :: string
  dv_type :: string
  dv_options :: dns_server_options

text \<open>The route action of a DNS rule: server, strategy, new time to live, cache switch.\<close>

record dns_route =
  da_server :: string
  da_strategy :: domain_strategy
  da_ttl :: "32 word option"
  da_no_cache :: bool

datatype dns_action = DnsRoute dns_route | DnsPredefined nat

record dns_rule =
  qr_domain :: "string list"
  qr_suffix :: "string list"
  qr_rule_set :: "string list"
  qr_query_type :: "nat list"
  qr_action :: dns_action

record dns_options =
  dq_servers :: "dns_server list"
  dq_rules :: "dns_rule list"
  dq_final :: string
  dq_independent :: bool
  dq_no_expire :: bool

datatype route_action = Sniff | HijackDNS | RouteTo string | Reject string

record route_rule =
  rr_protocol :: "string list"
  rr_ip_cidr :: "string list"
  rr_private :: bool
  rr_domain :: "string list"
  rr_suffix :: "string list"
  rr_rule_set :: "string list"
  rr_action :: route_action

record rule_set =
  rz_type :: string
  rz_tag :: string
  rz_format :: string
  rz_url :: string
  rz_interval :: "64 word"
  rz_detour :: string

record cfg_route =
  rt_rules :: "route_rule list"
  rt_final :: string
  rt_auto_detect :: bool
  rt_resolver :: "string \<times> domain_strategy"
  rt_rule_sets :: "rule_set list"
  rt_find_process :: bool

record cfg_experimental =
  xp_unified_delay :: bool
  xp_controller :: string
  xp_secret :: string
  xp_cache_file :: string
  xp_monitor_urls :: "string list"
  xp_interval :: "64 word"
  xp_debounce :: "64 word"
  xp_idle :: "64 word"

record cfg_log =
  lo_level :: string
  lo_output :: string
  lo_disabled :: bool
  lo_timestamp :: bool
  lo_no_color :: bool

record cfg_ntp =
  np_enabled :: bool
  np_server :: string
  np_port :: "16 word"
  np_interval :: "64 word"
  np_detour :: string

record cfg_options =
  cf_log :: "cfg_log option"
  cf_dns :: "dns_options option"
  cf_ntp :: "cfg_ntp option"
  cf_inbounds :: "cfg_inbound list"
  cf_outbounds :: "cfg_outbound list"
  cf_endpoints :: "endpoint list"
  cf_route :: "cfg_route option"
  cf_experimental :: "cfg_experimental option"

definition cfg_options_zero :: cfg_options where
  "cfg_options_zero =
     \<lparr>cf_log = None, cf_dns = None, cf_ntp = None, cf_inbounds = [], cf_outbounds = [], cf_endpoints = [],
      cf_route = None, cf_experimental = None\<rparr>"

section \<open>Helpers\<close>

text \<open>The platform the code is built for.\<close>

record platform =
  pf_ios :: bool
  pf_android :: bool
  pf_linux :: bool
  pf_darwin :: bool

fun contains_tag :: "string list \<Rightarrow> string \<Rightarrow> bool" where
  "contains_tag [] item = False"
| "contains_tag (s # ss) item = (s = item \<or> contains_tag ss item)"

lemma contains_tag_set [simp]: "contains_tag xs t \<longleftrightarrow> t \<in> set xs"
  by (induction xs) auto

definition isBlockedIP :: "string \<Rightarrow> bool" where
  "isBlockedIP ip \<longleftrightarrow> has_prefix ip ''10.'' \<or> has_prefix ip ''2001:4188:2:600:10''"

text \<open>
  \<open>getIPs\<close> of one domain: \<open>found\<close> are the addresses the resolver gave in time, \<open>cache\<close> the answers kept from
  earlier calls; an empty answer falls back on the one kept.
\<close>

definition getIPs ::
  "string list \<Rightarrow> string \<Rightarrow> (string \<rightharpoonup> string list) \<Rightarrow> string list \<times> (string \<rightharpoonup> string list)" where
  "getIPs found d cache =
     (let res = filter (\<lambda>ip. \<not> isBlockedIP ip) found in
      case cache d of
        Some (x # xs) \<Rightarrow> if res = [] then (x # xs, cache) else (res, cache(d \<mapsto> res))
      | _ \<Rightarrow> (res, cache(d \<mapsto> res)))"

text \<open>What the network says during a build: the addresses of a domain, after the cache.\<close>

type_synonym lookup = "string \<Rightarrow> string list"

definition isBlockedDomain :: "lookup \<Rightarrow> string \<Rightarrow> bool" where
  "isBlockedDomain ips d =
     (if has_prefix d ''full:'' then False
      else if contains d ''instagram'' \<or> contains d ''facebook'' \<or> contains d ''telegram'' \<or> contains d ''t.me''
      then True
      else ips d = [])"

definition isBlockedConnectionTestUrl :: "lookup \<Rightarrow> string \<Rightarrow> bool" where
  "isBlockedConnectionTestUrl ips d =
     (case url_Parse d of Inl _ \<Rightarrow> False | Inr u \<Rightarrow> isBlockedDomain ips (u_host u))"

fun remove_seen :: "string set \<Rightarrow> string list \<Rightarrow> string list" where
  "remove_seen seen [] = []"
| "remove_seen seen (x # xs) =
     (if x \<in> seen then remove_seen seen xs else x # remove_seen (insert x seen) xs)"

definition removeDuplicateStr :: "string list \<Rightarrow> string list" where
  "removeDuplicateStr xs = remove_seen {} xs"

text \<open>\<open>random n\<close> are the bytes of the generator.\<close>

definition generateRandomString :: "(nat \<Rightarrow> string) \<Rightarrow> nat \<Rightarrow> string" where
  "generateRandomString random n = take n (url_encode (random ((n * 6 + 7) div 8)))"

text \<open>The host of an address or URL that is no literal IP; the host keeps its port.\<close>

definition getHostnameIfNotIP :: "string \<Rightarrow> string outcome" where
  "getHostnameIfNotIP inp =
     (if inp = '''' then Fails ''empty hostname: ''
      else if parse_ip_ok (trim_set inp ''[]'') then Fails ''not a hostname: ''
      else case url_Parse (if contains inp ''://'' then inp else ''http://'' @ inp) of
        Inl _ \<Rightarrow> Done inp
      | Inr u \<Rightarrow> if parse_ip_ok (trim_set (u_host u) ''[]'') then Fails ''not a hostname: '' else Done (u_host u))"

section \<open>Facts\<close>

lemma getIPs_cached: "cache d = Some (x # xs) \<Longrightarrow> fst (getIPs found d cache) \<noteq> []"
  by (simp add: getIPs_def Let_def)

lemma remove_seen_set: "set (remove_seen seen xs) = set xs - seen"
  by (induction xs arbitrary: seen) auto

lemma remove_seen_distinct: "distinct (remove_seen seen xs)"
  by (induction xs arbitrary: seen) (auto simp: remove_seen_set)

lemma removeDuplicateStr_set: "set (removeDuplicateStr xs) = set xs" "distinct (removeDuplicateStr xs)"
  by (simp_all add: removeDuplicateStr_def remove_seen_set remove_seen_distinct)

end
