(* ===== verification/Config_Read.thy ===== *)
theory Config_Read
  imports Config_Options Json_Ingest
begin

text \<open>
  Reading a stored configuration (\<open>config/config.go\<close>, \<open>ReadContent\<close> of \<open>config/parser.go\<close>): the strict
  decoding by the engine, and the salvage of a profile some of whose entries the engine refuses. The engine's
  decoder is the parameter \<open>um\<close> (the decoded options or nothing), the file system the parameter \<open>rd\<close>.
\<close>

record read_options =
  ro_path :: string
  ro_content :: string
  ro_options :: "cfg_options option"

definition ReadContent :: "(string \<Rightarrow> string outcome) \<Rightarrow> read_options \<Rightarrow> string outcome" where
  "ReadContent rd ro = (if ro_content ro = '''' then rd (ro_path ro) else Done (ro_content ro))"

section \<open>Salvage\<close>

text \<open>The text the decoder is tried on for one entry.\<close>

definition probe_text :: "string \<Rightarrow> raw \<Rightarrow> string" where
  "probe_text sec entry = ''{'' @ enc_string sec @ '':['' @ entry @ '']}''"

definition entry_accepted :: "(string \<Rightarrow> 'a option) \<Rightarrow> string \<Rightarrow> raw \<Rightarrow> bool" where
  "entry_accepted um sec entry \<longleftrightarrow> um (probe_text sec entry) \<noteq> None"

text \<open>The kept entries as a JSON list; decoding \<open>null\<close> leaves a list that is not there.\<close>

definition enc_entries :: "raw \<Rightarrow> raw list \<Rightarrow> string" where
  "enc_entries old kept = (if is_null old then ''null'' else ''['' @ join '','' (map enc_raw kept) @ '']'')"

text \<open>One section of the document: the document with the kept entries and the number of dropped ones.\<close>

definition salvage_section ::
  "(string \<Rightarrow> 'a option) \<Rightarrow> string \<Rightarrow> (string \<times> raw) list \<Rightarrow> ((string \<times> raw) list \<times> nat) option" where
  "salvage_section um sec doc =
     (case map_of doc sec of
        None \<Rightarrow> Some (doc, 0)
      | Some t \<Rightarrow>
          (case dec_list Some t of
             None \<Rightarrow> None
           | Some es \<Rightarrow>
               let kept = filter (entry_accepted um sec) es in
               Some (AList.update sec (enc_entries t kept) doc, length es - length kept)))"

definition salvaged_text ::
  "(string \<Rightarrow> 'a option) \<Rightarrow> string \<Rightarrow> string option" where
  "salvaged_text um content =
     (case dec_pairs Some content [] of
        None \<Rightarrow> None
      | Some doc \<Rightarrow>
          (case salvage_section um ''outbounds'' doc of
             None \<Rightarrow> None
           | Some (doc1, n1) \<Rightarrow>
               (case salvage_section um ''endpoints'' doc1 of
                  None \<Rightarrow> None
                | Some (doc2, n2) \<Rightarrow>
                    if n1 + n2 = 0 then None
                    else Some (enc_map enc_raw (map fst doc2) (map_of doc2)))))"

definition salvageSingOptions :: "(string \<Rightarrow> cfg_options option) \<Rightarrow> string \<Rightarrow> cfg_options option" where
  "salvageSingOptions um content =
     (case salvaged_text um content of
        None \<Rightarrow> None
      | Some t \<Rightarrow>
          (case um t of
             None \<Rightarrow> None
           | Some x \<Rightarrow> if cf_outbounds x = [] \<and> cf_endpoints x = [] then None else Some x))"

definition entryTag :: "raw \<Rightarrow> nat \<Rightarrow> string" where
  "entryTag entry i =
     (let number = ''#'' @ itoa i in
      case dec_struct [''tag'', ''type'']
        (\<lambda>f t (tag, ty). if f = ''tag'' then map_option (\<lambda>s. (s, ty)) (dec_string t tag)
                        else map_option (\<lambda>s. (tag, s)) (dec_string t ty)) entry ('''', '''') of
        None \<Rightarrow> number
      | Some (tag, ty) \<Rightarrow> if tag \<noteq> '''' then tag @ ''/'' @ ty else number)"

definition ReadSingOptions ::
  "(string \<Rightarrow> cfg_options option) \<Rightarrow> (string \<Rightarrow> string outcome) \<Rightarrow> read_options \<Rightarrow> cfg_options outcome" where
  "ReadSingOptions um rd ro =
     (case ro_options ro of
        Some x \<Rightarrow> Done x
      | None \<Rightarrow> and_then (ReadContent rd ro) (\<lambda>content.
          case um content of
            Some x \<Rightarrow> Done x
          | None \<Rightarrow> (case salvageSingOptions um content of Some x \<Rightarrow> Done x | None \<Rightarrow> Fails ''UnmarshalJSONContext'')))"

end
