(* ===== verification/Config_Warp.thy ===== *)
theory Config_Warp
  imports Config_Options
begin

text \<open>
  Cloudflare WARP in the options builder (\<open>config/warp.go\<close>, \<open>config/warp_account.go\<close>, \<open>hcore/warp.go\<close>): an
  endpoint from a stored WireGuard identity, a new identity, and what is patched in an endpoint. The
  registration service and the choice of a random WARP address belong to the libraries: they are parameters.
\<close>

section \<open>An endpoint from an identity\<close>

text \<open>
  \<open>DecodeString\<close> returns, next to its error, the bytes it had decoded: the groups of four before the first
  bad one.
\<close>

fun std_leading :: "string \<Rightarrow> string" where
  "std_leading (a # b # c # d # s) =
     (case (std_val a, std_val b) of
        (Some x, Some y) \<Rightarrow>
          (if c = CHR ''='' then (if d = CHR ''='' then quad1 x y else '''')
           else case std_val c of
             None \<Rightarrow> ''''
           | Some z \<Rightarrow>
               (if d = CHR ''='' then quad2 x y z
                else case std_val d of None \<Rightarrow> '''' | Some w \<Rightarrow> quad3 x y z w @ std_leading s))
      | _ \<Rightarrow> '''')"
| "std_leading _ = ''''"

definition client_id :: "string \<Rightarrow> string" where
  "client_id s =
     (let c = std_leading (no_newlines s) in if length c < 2 then [CHR 0x00, CHR 0x00, CHR 0x00] else c)"

fun parse_prefixes :: "string list \<Rightarrow> prefix list outcome" where
  "parse_prefixes [] = Done []"
| "parse_prefixes (a # as) =
     (if a = '''' then parse_prefixes as
      else case parse_prefix a of
        None \<Rightarrow> Fails ''netip.ParsePrefix''
      | Some p \<Rightarrow> and_then (parse_prefixes as) (\<lambda>ps. Done (p # ps)))"

definition any_prefixes :: "prefix list" where
  "any_prefixes = [(Addr4 [0, 0, 0, 0], 0), (Addr6 (replicate 16 0) '''', 0)]"

definition byte_word :: "char \<Rightarrow> 8 word" where
  "byte_word c = of_nat (code c)"

definition wireGuardToSingbox :: "warp_wg_config \<Rightarrow> string \<Rightarrow> 16 word \<Rightarrow> endpoint outcome" where
  "wireGuardToSingbox wg server port =
     (let cid = client_id (wc_client_id wg) in
      and_then (parse_prefixes [wc_ipv4 wg @ ''/24'', wc_ipv6 wg @ ''/128'']) (\<lambda>addrs.
        if length cid < 3 then Panics ''index out of range''
        else Done
          \<lparr>e_type = ''wireguard'', e_tag = ''WARP'',
           e_options = EWireGuard
             \<lparr>wg_dialer = dialer_zero, wg_private = wc_private_key wg, wg_address = addrs, wg_mtu = 1330,
              wg_peers = [peer_zero\<lparr>ap_address := server, ap_port := port, ap_public := wc_peer_key wg,
                ap_allowed := any_prefixes, ap_reserved := map byte_word (take 3 cid)\<rparr>],
              wg_noise = noise_zero, wg_workers = 0\<rparr>\<rparr>))"

definition GenerateWarpSingbox ::
  "warp_wg_config \<Rightarrow> string \<Rightarrow> 16 word \<Rightarrow> noise_options \<Rightarrow> endpoint outcome" where
  "GenerateWarpSingbox wg host port noise =
     and_then (wireGuardToSingbox wg (if host = '''' then ''auto4'' else host) port) (\<lambda>ep.
       Done (case e_options ep of
               EWireGuard w \<Rightarrow> ep\<lparr>e_options := EWireGuard (w\<lparr>wg_noise := noise\<rparr>)\<rparr>
             | _ \<Rightarrow> ep))"

definition GenerateWarpSingboxNew :: "string \<Rightarrow> noise_options \<Rightarrow> endpoint" where
  "GenerateWarpSingboxNew uid noise =
     \<lparr>e_type = ''warp'', e_tag = ''WARP'',
      e_options = EWarp
        \<lparr>wo_dialer = dialer_zero, wo_server = \<lparr>so_server = '''', so_port = 0\<rparr>, wo_identifier = uid,
         wo_noise = noise,
         wo_profile = \<lparr>wp_license = '''', wp_id = '''', wp_token = '''', wp_private_key = '''', wp_detour = OutboundSelect\<rparr>,
         wo_mtu = 1280\<rparr>\<rparr>"

section \<open>Identities\<close>

record identity =
  id_id :: string
  id_token :: string
  id_private_key :: string
  id_peer_keys :: "string list"
  id_v4 :: string
  id_v6 :: string
  id_client_id :: string
  id_warp_plus :: bool
  id_account_type :: string

text \<open>The registration service: creating an identity for a licence. Deleting an old device only logs.\<close>

type_synonym register = "string \<Rightarrow> identity outcome"

definition identity_config :: "identity \<Rightarrow> warp_wg_config outcome" where
  "identity_config i =
     (case id_peer_keys i of
        [] \<Rightarrow> Panics ''index out of range''
      | k # _ \<Rightarrow> Done
          \<lparr>wc_private_key = id_private_key i, wc_ipv4 = id_v4 i, wc_ipv6 = id_v6 i, wc_peer_key = k,
           wc_client_id = id_client_id i\<rparr>)"

definition warp_log :: "identity \<Rightarrow> string" where
  "warp_log i =
     ''Warp+ enabled: '' @ (if id_warp_plus i then ''true'' else ''false'') @ [CHR 0x0A, CHR 0x0A] @
     ''Account type: '' @ id_account_type i @ [CHR 0x0A]"

definition GenerateWarpInfo :: "register \<Rightarrow> string \<Rightarrow> (identity \<times> string \<times> warp_wg_config) outcome" where
  "GenerateWarpInfo reg license =
     and_then (reg license) (\<lambda>i. and_then (identity_config i) (\<lambda>wg. Done (i, warp_log i, wg)))"

definition generateWarp ::
  "register \<Rightarrow> string \<Rightarrow> string \<Rightarrow> 16 word \<Rightarrow> noise_options \<Rightarrow> endpoint outcome" where
  "generateWarp reg license host port noise =
     and_then (GenerateWarpInfo reg license) (\<lambda>(_, _, wg). GenerateWarpSingbox wg host port noise)"

text \<open>The licence inside an identifier.\<close>

definition warp_license :: "string \<Rightarrow> string" where
  "warp_license ident =
     (if length ident = 26 then ident
      else if length ident > 28 \<and> ident ! 2 = CHR ''_'' then drop 3 ident
      else '''')"

text \<open>
  The configuration of the settings, else the stored one, else a new one, which is put into the settings and
  the store; with an error of the registration the configuration is empty.
\<close>

definition new_identity ::
  "register \<Rightarrow> warp_settings \<Rightarrow> (warp_wg_config \<times> warp_settings \<times> warp_settings option) outcome" where
  "new_identity reg w =
     (case GenerateWarpInfo reg (warp_license (ws_id w)) of
        Done (i, _, wg) \<Rightarrow>
          (let w' = w\<lparr>ws_account := \<lparr>wa_id = id_id i, wa_token = id_token i\<rparr>, ws_config := wg\<rparr>
           in Done (wg, w', Some w'))
      | Fails _ \<Rightarrow> Done (warp_wg_zero, w, None)
      | Panics m \<Rightarrow> Panics m)"

definition getOrGenerateWarpLocallyIfNeeded ::
  "register \<Rightarrow> (string \<Rightarrow> warp_settings option) \<Rightarrow> warp_settings \<Rightarrow>
     (warp_wg_config \<times> warp_settings \<times> warp_settings option) outcome" where
  "getOrGenerateWarpLocallyIfNeeded reg table w =
     (if wc_private_key (ws_config w) \<noteq> '''' then Done (ws_config w, w, None)
      else case table (ws_id w) of
        Some d \<Rightarrow>
          if wc_private_key (ws_config d) \<noteq> '''' then Done (ws_config d, w, None) else new_identity reg w
      | None \<Rightarrow> new_identity reg w)"

text \<open>The handler of the core: the registration's outcome as a response, with its error.\<close>

record warp_response =
  wr_account :: warp_account
  wr_config :: warp_wg_config
  wr_log :: string

definition GenerateWarpConfig :: "register \<Rightarrow> string \<Rightarrow> (warp_response \<times> string option) outcome" where
  "GenerateWarpConfig reg license =
     (case GenerateWarpInfo reg license of
        Panics m \<Rightarrow> Panics m
      | Fails e \<Rightarrow>
          Done (\<lparr>wr_account = \<lparr>wa_id = '''', wa_token = ''''\<rparr>, wr_config = warp_wg_zero, wr_log = ''Error: '' @ e\<rparr>, Some e)
      | Done (i, log, wg) \<Rightarrow>
          Done (\<lparr>wr_account = \<lparr>wa_id = id_id i, wa_token = id_token i\<rparr>, wr_config = wg, wr_log = log\<rparr>, None))"

section \<open>Patching an endpoint\<close>

text \<open>What one endpoint gets from the random choices of the library.\<close>

record warp_random =
  wr_ipv4 :: string
  wr_ipv6 :: string
  wr_port :: "16 word"

definition warp_hosts :: "string list" where
  "warp_hosts = [''default'', ''random'', ''auto'', ''auto4'', ''auto6'']"

text \<open>The two choices in the order of the code: the second sees what the first has chosen.\<close>

definition chosen_host :: "warp_random \<Rightarrow> string \<Rightarrow> string" where
  "chosen_host r host =
     (let h1 = (if host \<noteq> ''auto4'' then (if host = ''auto6'' then wr_ipv6 r else host) else host)
      in if h1 \<noteq> ''auto6'' then wr_ipv4 r else h1)"

definition patch_wireguard :: "lookup \<Rightarrow> warp_random \<Rightarrow> wg_options \<Rightarrow> wg_options" where
  "patch_wireguard ips r w =
     (let peers = (if wg_peers w = [] then [peer_zero\<lparr>ap_address := ''auto''\<rparr>] else wg_peers w);
          p = hd peers;
          host = (if ap_address p \<noteq> '''' then ap_address p else ''auto'');
          p1 = (if host \<in> set warp_hosts \<or> isBlockedDomain ips host
                then p\<lparr>ap_address := chosen_host r host\<rparr> else p);
          p2 = (if ap_port p1 = 0 then p1\<lparr>ap_port := wr_port r\<rparr> else p1);
          w1 = w\<lparr>wg_peers := p2 # tl peers\<rparr>
      in if do_detour (wg_dialer w) \<noteq> ''''
         then w1\<lparr>wg_mtu := (if wg_mtu w < 100 then 1280 else wg_mtu w), wg_noise := noise_zero\<rparr>
         else w1)"

definition patch_warp_options :: "warp_options \<Rightarrow> warp_options" where
  "patch_warp_options w =
     w\<lparr>wo_server := \<lparr>so_server = '''', so_port = 0\<rparr>,
       wo_profile := (wo_profile w)\<lparr>wp_detour := OutboundDirectFragmentTag\<rparr>\<rparr>"

definition patchWarp :: "lookup \<Rightarrow> warp_random \<Rightarrow> bool \<Rightarrow> endpoint \<Rightarrow> endpoint" where
  "patchWarp ips r final e =
     (case e_options e of
        EWarp w \<Rightarrow> if e_type e = ''warp'' then e\<lparr>e_options := EWarp (patch_warp_options w)\<rparr> else e
      | EWireGuard w \<Rightarrow>
          if final \<and> e_type e = ''wireguard''
          then e\<lparr>e_options := EWireGuard (patch_wireguard ips r w)\<rparr> else e
      | EAwg a \<Rightarrow> e)"

lemma patchWarp_kept [simp]: "e_tag (patchWarp ips r f e) = e_tag e" "e_type (patchWarp ips r f e) = e_type e"
  by (simp_all add: patchWarp_def split: endpoint_options.split)

end
