(* ===== verification/Config_Outbound.thy ===== *)
theory Config_Outbound
  imports Config_Warp
begin

text \<open>
  The outbounds of a built configuration (\<open>config/builder_outbound.go\<close>, \<open>config/outbound.go\<close>): the proxies of
  the input, the WARP endpoint, the balancers and the selector over them. The tag of the main detour, a global
  of the package, is part of the result.
\<close>

section \<open>TLS tricks and multiplexing\<close>

text \<open>The TLS options of a structure; those of the UDP protocols are always there.\<close>

fun out_tls :: "outbound_options \<Rightarrow> tls_options option" where
  "out_tls (OVless v) = vl_tls v"
| "out_tls (OTrojan t) = tr_tls t"
| "out_tls (OVmess v) = vm_tls v"
| "out_tls (OHysteria2 h) = Some (h2_tls h)"
| "out_tls (OHysteria h) = Some (h1_tls h)"
| "out_tls (OTuic t) = Some (tu_tls t)"
| "out_tls (ONaive n) = nv_tls n"
| "out_tls (OAnyTLS a) = at_tls a"
| "out_tls (OHttp h) = hp_tls h"
| "out_tls (OShadowTLS s) = st_tls s"
| "out_tls _ = None"

text \<open>\<open>OutboundTLSOptionsWrapper\<close> is implemented on the pointer.\<close>

definition take_tls :: "cfg_out_options \<Rightarrow> tls_options option" where
  "take_tls x = (case x of ProxyOut p \<Rightarrow> out_tls p | _ \<Rightarrow> None)"

text \<open>The three type assertions name the structures themselves.\<close>

definition asserted_transport :: "cfg_out_options \<Rightarrow> transport option" where
  "asserted_transport x =
     (case x of
        ProxyVal (OVless v) \<Rightarrow> vl_transport v
      | ProxyVal (OTrojan t) \<Rightarrow> tr_transport t
      | ProxyVal (OVmess v) \<Rightarrow> vm_transport v
      | _ \<Rightarrow> None)"

definition isOutboundReality :: "cfg_outbound \<Rightarrow> bool" where
  "isOutboundReality b =
     (if cb_type b \<noteq> ''vless'' then False
      else case take_tls (cb_options b) of
        None \<Rightarrow> False
      | Some t \<Rightarrow> tls_enabled t \<and> (case tls_reality t of None \<Rightarrow> False | Some r \<Rightarrow> rl_enabled r))"

definition mixed_tls :: "bool \<Rightarrow> tls_options \<Rightarrow> tls_options" where
  "mixed_tls m t =
     t\<lparr>tls_tricks := Some \<lparr>mixed_case_sni = ((case tls_tricks t of None \<Rightarrow> False | Some k \<Rightarrow> mixed_case_sni k) \<or> m)\<rparr>\<rparr>"

fun mix_sni :: "bool \<Rightarrow> cfg_out_options \<Rightarrow> cfg_out_options" where
  "mix_sni m (ProxyOut (OVless v)) = ProxyOut (OVless (v\<lparr>vl_tls := map_option (mixed_tls m) (vl_tls v)\<rparr>))"
| "mix_sni m (ProxyOut (OTrojan t)) = ProxyOut (OTrojan (t\<lparr>tr_tls := map_option (mixed_tls m) (tr_tls t)\<rparr>))"
| "mix_sni m (ProxyOut (OVmess v)) = ProxyOut (OVmess (v\<lparr>vm_tls := map_option (mixed_tls m) (vm_tls v)\<rparr>))"
| "mix_sni m x = x"

definition tricks_transport :: "transport \<Rightarrow> bool" where
  "tricks_transport t = (case t of TWs _ \<Rightarrow> True | TGrpc _ \<Rightarrow> True | THttpUpgrade _ \<Rightarrow> True | _ \<Rightarrow> False)"

definition patchOutboundTLSTricks :: "InhiveOptions \<Rightarrow> cfg_outbound \<Rightarrow> cfg_outbound" where
  "patchOutboundTLSTricks h b =
     (if cb_type b \<in> {''selector'', ''urltest'', ''block'', ''dns''} then b
      else if isOutboundReality b then b
      else if cb_type b = ''direct'' then b
      else case (take_tls (cb_options b), asserted_transport (cb_options b)) of
        (Some t, Some tr) \<Rightarrow>
          if tls_enabled t \<and> tricks_transport tr
          then b\<lparr>cb_options := mix_sni (ts_mixed_sni (ho_tricks h)) (cb_options b)\<rparr> else b
      | _ \<Rightarrow> b)"

definition patchOutboundMux :: "InhiveOptions \<Rightarrow> (string \<rightharpoonup> mux_options) \<Rightarrow> (string \<rightharpoonup> mux_options)" where
  "patchOutboundMux h obj =
     (if ms_enable (ho_mux h)
      then obj(''multiplex'' \<mapsto>
        \<lparr>mux_enabled = True, mux_protocol = ms_protocol (ho_mux h), mux_max_connections = 0, mux_min_streams = 0,
         mux_max_streams = ms_max_streams (ho_mux h), mux_padding = ms_padding (ho_mux h), mux_brutal = None\<rparr>)
      else obj)"

definition patchOutbound :: "InhiveOptions \<Rightarrow> cfg_outbound \<Rightarrow> cfg_outbound" where
  "patchOutbound h b = patchOutboundTLSTricks h b"

definition patchEndpoint :: "lookup \<Rightarrow> warp_random \<Rightarrow> endpoint \<Rightarrow> endpoint" where
  "patchEndpoint ips r e = patchWarp ips r True e"

section \<open>Collecting\<close>

definition replace_detour :: "string \<Rightarrow> cfg_out_options \<Rightarrow> cfg_out_options" where
  "replace_detour t x =
     (case x of
        ProxyOut p \<Rightarrow> ProxyOut (replace_dialer ((take_dialer p)\<lparr>do_detour := t\<rparr>) p)
      | OtherOut d s \<Rightarrow> OtherOut (d\<lparr>do_detour := t\<rparr>) s
      | _ \<Rightarrow> x)"

definition patchWarpFromConfig :: "InhiveOptions \<Rightarrow> cfg_outbound \<Rightarrow> cfg_outbound" where
  "patchWarpFromConfig h b =
     (if cb_type b = ''psiphon'' then b
      else if ws_enable (ho_warp h) \<and> ws_mode (ho_warp h) = ''proxy_over_warp''
      then b\<lparr>cb_options := replace_detour WARPConfigTag (cb_options b)\<rparr> else b)"

definition group_types :: "string list" where
  "group_types = [''block'', ''dns'', ''selector'', ''urltest'', ''custom'']"

definition hidden :: "string \<Rightarrow> bool" where
  "hidden t = contains t hide_mark"

fun collect_outbounds :: "InhiveOptions \<Rightarrow> bool \<Rightarrow> cfg_outbound list \<Rightarrow> cfg_outbound list \<times> string list" where
  "collect_outbounds h ps [] = ([], [])"
| "collect_outbounds h ps (b0 # bs) =
     (if contains_tag PredefinedOutboundTags (cb_tag b0) then collect_outbounds h ps bs
      else
        let b = patchOutbound h b0 in
        if cb_type b \<in> set group_types \<or> contains_tag [''direct'', ''bypass'', ''block''] (cb_tag b) \<or>
           (cb_type b = ''psiphon'' \<and> ps)
        then collect_outbounds h ps bs
        else
          let (outs, tags) = collect_outbounds h (ps \<or> cb_type b = ''psiphon'') bs in
          (patchWarpFromConfig h b # outs, if hidden (cb_tag b) then tags else cb_tag b # tags))"

definition raise_mtu :: "InhiveOptions \<Rightarrow> InhiveOptions" where
  "raise_mtu h = h\<lparr>ho_inbound := (ho_inbound h)\<lparr>nd_mtu := max (nd_mtu (ho_inbound h)) 1340\<rparr>\<rparr>"

definition over_proxy :: "InhiveOptions \<Rightarrow> bool" where
  "over_proxy h \<longleftrightarrow> ws_mode (ho_warp h) = ''warp_over_proxy''"

text \<open>The WARP endpoint of the settings, and the settings after it.\<close>

definition warp_endpoint :: "InhiveOptions \<Rightarrow> lookup \<Rightarrow> warp_random \<Rightarrow> InhiveOptions \<times> endpoint" where
  "warp_endpoint h ips r =
     (let e = (GenerateWarpSingboxNew ''p1'' noise_zero)\<lparr>e_tag := WARPConfigTag\<rparr>;
          via = (\<lambda>t m. case e_options e of
                   EWarp w \<Rightarrow> e\<lparr>e_options := EWarp (w\<lparr>wo_dialer := (wo_dialer w)\<lparr>do_detour := t\<rparr>, wo_mtu := m w\<rparr>)\<rparr>
                 | _ \<Rightarrow> e)
      in if over_proxy h then (h, patchEndpoint ips r (via OutboundSelect (\<lambda>_. 1280)))
         else (raise_mtu h, patchEndpoint ips r (via OutboundDirectTag wo_mtu)))"

text \<open>With WARP on, an endpoint that is the settings' own identity is left out, and another may raise the MTU.\<close>

definition own_identity :: "InhiveOptions \<Rightarrow> endpoint \<Rightarrow> bool" where
  "own_identity h e =
     (case e_options e of
        EWarp w \<Rightarrow> e_type e = ''warp'' \<and> wo_identifier w = ''p1''
      | EWireGuard w \<Rightarrow> e_type e = ''wireguard'' \<and> wg_private w = wc_private_key (ws_config (ho_warp h))
      | EAwg _ \<Rightarrow> False)"

definition raises_mtu :: "InhiveOptions \<Rightarrow> endpoint \<Rightarrow> bool" where
  "raises_mtu h e =
     (over_proxy h \<and>
      (case e_options e of EWarp _ \<Rightarrow> e_type e = ''warp'' | EWireGuard _ \<Rightarrow> e_type e = ''wireguard'' | EAwg _ \<Rightarrow> False))"

fun collect_endpoints ::
  "lookup \<Rightarrow> (nat \<Rightarrow> warp_random) \<Rightarrow> nat \<Rightarrow> InhiveOptions \<Rightarrow> endpoint list \<Rightarrow>
     InhiveOptions \<times> endpoint list \<times> string list" where
  "collect_endpoints ips r i h [] = (h, [], [])"
| "collect_endpoints ips r i h (e # es) =
     (if contains_tag PredefinedOutboundTags (e_tag e) then collect_endpoints ips r (Suc i) h es
      else if ws_enable (ho_warp h) \<and> own_identity h e then collect_endpoints ips r (Suc i) h es
      else
        let h1 = (if ws_enable (ho_warp h) \<and> raises_mtu h e then raise_mtu h else h);
            (h2, out, tags) = collect_endpoints ips r (Suc i) h1 es;
            e' = patchEndpoint ips (r i) e
        in (h2, e' # out, if hidden (e_tag e') then tags else e_tag e' # tags))"

section \<open>Groups\<close>

definition balancer_of :: "string \<Rightarrow> string \<Rightarrow> string list \<Rightarrow> cfg_outbound" where
  "balancer_of tag strategy tags =
     \<lparr>cb_type = ''balancer'', cb_tag = tag,
      cb_options = BalancerOut \<lparr>bl_outbounds = tags, bl_strategy = strategy, bl_ratio = 2, bl_tolerance = 1,
        bl_interrupt = True\<rparr>\<rparr>"

definition selector_of :: "string list \<Rightarrow> string \<Rightarrow> cfg_outbound" where
  "selector_of tags d =
     \<lparr>cb_type = ''selector'', cb_tag = OutboundSelect,
      cb_options = SelectorOut \<lparr>sl_outbounds = tags, sl_default = d, sl_interrupt = True\<rparr>\<rparr>"

definition direct_of :: "string \<Rightarrow> cfg_outbound" where
  "direct_of tag = \<lparr>cb_type = ''direct'', cb_tag = tag, cb_options = ProxyOut (ODirect dialer_zero)\<rparr>"

definition default_select :: "string list \<Rightarrow> string \<Rightarrow> string" where
  "default_select tags t = (if list_ex (\<lambda>x. contains x default_mark) tags then default_mark else t)"

definition group_outbounds :: "string \<Rightarrow> bool \<Rightarrow> string list \<Rightarrow> cfg_outbound list outcome" where
  "group_outbounds strategy warp tags =
     (let urlTest = balancer_of OutboundURLTestTag ''lowest-delay'' tags;
          balancer = balancer_of OutboundRoundRobinTag strategy tags
      in case tags of
           [] \<Rightarrow> Panics ''index out of range''
         | t # ts \<Rightarrow>
             if length tags > 1 then
               (if warp then Done [selector_of (cb_tag urlTest # tags) (cb_tag urlTest), urlTest]
                else Done [selector_of (cb_tag urlTest # cb_tag balancer # tags) (cb_tag balancer), balancer, urlTest])
             else Done [selector_of tags (default_select tags t)])"

section \<open>Connection tests\<close>

definition test_urls :: "lookup \<Rightarrow> string list \<Rightarrow> InhiveOptions \<Rightarrow> InhiveOptions" where
  "test_urls ips others h =
     (let u = ho_urltest h in
      if us_test_urls u = [] then
        h\<lparr>ho_urltest := u\<lparr>us_test_urls :=
          (if isBlockedConnectionTestUrl ips (us_test_url u) then [us_test_url u] else us_test_url u # others)\<rparr>\<rparr>
      else h)"

definition outbound_test_urls :: "string list" where
  "outbound_test_urls =
     [''https://www.google.com/generate_204'', ''http://captive.apple.com/generate_204'', ''https://cp.cloudflare.com'']"

record out_build =
  bo_outbounds :: "cfg_outbound list"
  bo_endpoints :: "endpoint list"
  bo_settings :: InhiveOptions
  bo_detour :: string

definition setOutbounds ::
  "lookup \<Rightarrow> (nat \<Rightarrow> warp_random) \<Rightarrow> cfg_outbound list \<Rightarrow> endpoint list \<Rightarrow> InhiveOptions \<Rightarrow> out_build outcome" where
  "setOutbounds ips r outs ends h =
     (let (kept, otags) = collect_outbounds h False outs;
          warp = ws_enable (ho_warp h);
          (h1, own) = (if warp then (let (h', e) = warp_endpoint h ips (r 0) in (h', [e])) else (h, []));
          (h2, ends', etags) = collect_endpoints ips r 1 h1 ends;
          h3 = test_urls ips outbound_test_urls h2
      in and_then (group_outbounds (ho_balancer h) warp (otags @ etags)) (\<lambda>groups. Done
           \<lparr>bo_outbounds = groups @ kept @ [direct_of OutboundDirectTag, direct_of OutboundDirectFragmentTag],
            bo_endpoints = own @ ends', bo_settings = h3,
            bo_detour = (if warp then WARPConfigTag else OutboundSelect)\<rparr>))"

end
