(* ===== verification/Config_Dns.thy ===== *)
theory Config_Dns
  imports Config_Outbound
begin

text \<open>
  The DNS servers of a built configuration (\<open>config/dns.go\<close>). The reader of a host and port
  (\<open>M.ParseSocksaddr\<close>) belongs to sing: it is the parameter \<open>sock\<close>, which gives the address text and the
  port of a valid address.
\<close>

type_synonym sock = "string \<Rightarrow> (string \<times> 16 word) option"

definition DEFAULT_DNS_TTL :: "32 word" where
  "DEFAULT_DNS_TTL = 86400"

definition getDnsAddress :: "string \<Rightarrow> string" where
  "getDnsAddress d = (if contains d ''://'' then d else ''udp://'' @ d)"

section \<open>One server\<close>

definition remote_base :: "string \<Rightarrow> string \<Rightarrow> dns_remote" where
  "remote_base detour resolver =
     \<lparr>dr_detour = detour, dr_resolver = resolver, dr_resolver_strategy = PreferIPv4, dr_server = '''', dr_port = 0,
      dr_connect_timeout = 0, dr_no_keepalive = False\<rparr>"

definition server_type :: "string \<Rightarrow> string" where
  "server_type dnsurl =
     (case url_Parse dnsurl of
        Inr u \<Rightarrow> if u_scheme u \<noteq> '''' then u_scheme u else if dnsurl \<in> {''local'', ''fakeip''} then dnsurl else ''udp''
      | Inl _ \<Rightarrow> if dnsurl \<in> {''local'', ''fakeip''} then dnsurl else ''udp'')"

text \<open>Address and port of a server; the usual port is left out.\<close>

definition with_address :: "sock \<Rightarrow> string \<Rightarrow> 16 word \<Rightarrow> dns_remote \<Rightarrow> dns_remote outcome" where
  "with_address sk host usual ro =
     (case sk host of
        None \<Rightarrow> Fails ''invalid server address''
      | Some (a, p) \<Rightarrow> Done (ro\<lparr>dr_server := a, dr_port := (if p \<noteq> 0 \<and> p \<noteq> usual then p else 0)\<rparr>))"

definition url_host_of :: "string \<Rightarrow> string" where
  "url_host_of dnsurl = (case url_Parse dnsurl of Inr u \<Rightarrow> u_host u | Inl _ \<Rightarrow> '''')"

definition udp_host :: "string \<Rightarrow> string" where
  "udp_host dnsurl =
     (case url_Parse dnsurl of
        Inl _ \<Rightarrow> dnsurl
      | Inr u \<Rightarrow> if u_scheme u = '''' then dnsurl else u_host u)"

definition fragment_tls :: "string \<Rightarrow> dns_tls" where
  "fragment_tls dnsurl =
     (if contains dnsurl ''#fragment='' then
        (let (d, ok) = atoi (last (split_str dnsurl ''#fragment='')) in
         \<lparr>dt_enabled = True, dt_fragment = True, dt_record_fragment = True,
          dt_fallback_delay = (if ok \<and> 0 \<le> d then word_of_int d * 1000000 else 0)\<rparr>)
      else \<lparr>dt_enabled = True, dt_fragment = False, dt_record_fragment = False, dt_fallback_delay = 0\<rparr>)"

definition rcode_of :: "string \<Rightarrow> nat option" where
  "rcode_of host =
     map_of [(''success'', 0), (''format_error'', 1), (''server_failure'', 2), (''name_error'', 3),
       (''not_implemented'', 4), (''refused'', 5)] host"

definition dns_path :: "string \<Rightarrow> string" where
  "dns_path dnsurl =
     (case url_Parse dnsurl of Inl _ \<Rightarrow> '''' | Inr u \<Rightarrow> if u_path u \<noteq> ''/dns-query'' then u_path u else '''')"

definition server_options_of :: "sock \<Rightarrow> string \<Rightarrow> dns_remote \<Rightarrow> (string \<times> dns_server_options) outcome" where
  "server_options_of sk dnsurl ro =
     (let t = server_type dnsurl in
      if t = ''local'' then Done (t, DnsLocal ro True)
      else if t = ''udp'' then
        and_then (with_address sk (udp_host dnsurl) 53 ro) (\<lambda>r.
          Done (t, DnsPlain (r\<lparr>dr_connect_timeout := 5000000000, dr_no_keepalive := True\<rparr>)))
      else if t = ''tcp'' then
        and_then (with_address sk (url_host_of dnsurl) 53 ro) (\<lambda>r. Done (t, DnsPlain r))
      else if t = ''tls'' \<or> t = ''quic'' then
        and_then (with_address sk (url_host_of dnsurl) 853 ro) (\<lambda>r. Done (t, DnsTls r))
      else if t = ''https'' \<or> t = ''h3'' then
        and_then (with_address sk (url_host_of dnsurl) 443 ro) (\<lambda>r.
          Done (t, DnsHttps r (dns_path dnsurl) (fragment_tls dnsurl)))
      else if t = ''rcode'' then
        (case rcode_of (url_host_of dnsurl) of
           None \<Rightarrow> Fails (''unknown rcode: '' @ url_host_of dnsurl)
         | Some c \<Rightarrow> Done (''legacy_rcode'', DnsRcode c))
      else if t = ''dhcp'' then
        Done (t, DnsDhcp (if url_host_of dnsurl = ''auto'' then '''' else url_host_of dnsurl))
      else if t = ''fakeip'' then Done (t, DnsFakeIp None)
      else Fails (''unsupported DNS server scheme: '' @ t))"

definition getDNSServerOptions :: "sock \<Rightarrow> string \<Rightarrow> string \<Rightarrow> string \<Rightarrow> string \<Rightarrow> dns_server outcome" where
  "getDNSServerOptions sk tag dnsurl resolver detour =
     (let res = (case getHostnameIfNotIP dnsurl of Done h \<Rightarrow> if h = '''' then '''' else resolver | _ \<Rightarrow> '''') in
      and_then (server_options_of sk dnsurl (remote_base detour res)) (\<lambda>(t, x).
        Done \<lparr>dv_tag = tag, dv_type = t, dv_options = x\<rparr>))"

fun addrs_of :: "string list \<Rightarrow> addr list outcome" where
  "addrs_of [] = Done []"
| "addrs_of (a # as) =
     (case parse_addr a of
        None \<Rightarrow> Fails ''netip.ParseAddr''
      | Some x \<Rightarrow> and_then (addrs_of as) (\<lambda>xs. Done (x # xs)))"

fun hosts_of :: "(string \<times> string list) list \<Rightarrow> (string \<times> addr list) list outcome" where
  "hosts_of [] = Done []"
| "hosts_of ((d, ips) # ds) = and_then (addrs_of ips) (\<lambda>as. and_then (hosts_of ds) (\<lambda>r. Done ((d, as) # r)))"

definition getStaticDNSServerOptions :: "string \<Rightarrow> (string \<times> string list) list \<Rightarrow> dns_server outcome" where
  "getStaticDNSServerOptions tag static =
     and_then (hosts_of static) (\<lambda>m. Done \<lparr>dv_tag = tag, dv_type = ''hosts'', dv_options = DnsHosts m\<rparr>)"

definition must_prefix :: "string \<Rightarrow> prefix" where
  "must_prefix s = the (parse_prefix s)"

definition getMultiDnsServerOptions :: "string \<Rightarrow> string list \<Rightarrow> bool \<Rightarrow> dns_server" where
  "getMultiDnsServerOptions tag servers par =
     \<lparr>dv_tag = tag, dv_type = ''multi'',
      dv_options = DnsMulti servers par [must_prefix ''10.10.34.0/24'', must_prefix ''001:4188:2:600::/64'']\<rparr>"

section \<open>All servers\<close>

definition fallback_address :: "string \<Rightarrow> string" where
  "fallback_address remote =
     (if remote = ''https://8.8.8.8/dns-query'' then ''https://1.0.0.1/dns-query'' else ''https://8.8.8.8/dns-query'')"

definition direct_dns_detour :: "string \<Rightarrow> string" where
  "direct_dns_detour d =
     (if has_prefix d ''udp://'' \<or> \<not> contains d ''://'' then '''' else OutboundDirectFragmentTag)"

text \<open>Tag, address, resolver and detour of each server.\<close>

definition dns_entries :: "string \<Rightarrow> InhiveOptions \<Rightarrow> (string \<times> string \<times> string \<times> string) list" where
  "dns_entries main h =
     (let d = ho_dns h; remote = getDnsAddress (ds_remote d) in
      [(DNSRemoteTag, remote, DNSDirectTag, main),
       (DNSRemoteTagFallback, fallback_address remote, DNSDirectTag, main),
       (DNSRemoteNoWarpTag, ds_remote d, DNSDirectTag, OutboundDirectFragmentTag),
       (DNSDirectTag, ds_direct d, DNSLocalTag, direct_dns_detour (ds_direct d)),
       (DNSTricksDirectTag, ''https://dns.cloudflare.com/dns-query#fragment=300'', DNSDirectTag,
        OutboundDirectFragmentTag),
       (DNSLocalTag, ''local'', '''', '''')])"

fun servers_of :: "sock \<Rightarrow> (string \<times> string \<times> string \<times> string) list \<Rightarrow> dns_server list outcome" where
  "servers_of sk [] = Done []"
| "servers_of sk ((t, a, f, d) # es) =
     and_then (getDNSServerOptions sk t a f d) (\<lambda>s. and_then (servers_of sk es) (\<lambda>ss. Done (s # ss)))"

definition fake_server :: dns_server where
  "fake_server =
     \<lparr>dv_tag = DNSFakeTag, dv_type = ''fakeip'',
      dv_options = DnsFakeIp (Some (must_prefix ''198.18.0.0/15'', must_prefix ''fc00::/18''))\<rparr>"

definition setDns ::
  "platform \<Rightarrow> sock \<Rightarrow> string \<Rightarrow> InhiveOptions \<Rightarrow> (string \<times> string list) list \<Rightarrow> cfg_options \<Rightarrow> cfg_options outcome" where
  "setDns pf sk main h static opts =
     and_then (servers_of sk (dns_entries main h)) (\<lambda>servers.
     and_then (getStaticDNSServerOptions DNSStaticTag static) (\<lambda>st.
       Done (opts\<lparr>cf_dns := Some
         \<lparr>dq_servers = st # servers @ (if ds_fake (ho_dns h) then [fake_server] else []), dq_rules = [],
          dq_final = DNSMultiRemoteTag, dq_independent = (ds_independent_cache (ho_dns h) \<and> \<not> pf_ios pf),
          dq_no_expire = True\<rparr>\<rparr>)))"

section \<open>Hosts that are never proxied\<close>

definition route_to :: "string \<Rightarrow> domain_strategy \<Rightarrow> dns_action" where
  "route_to server strategy =
     DnsRoute \<lparr>da_server = server, da_strategy = strategy, da_ttl = Some DEFAULT_DNS_TTL, da_no_cache = False\<rparr>"

definition domain_rule :: "string list \<Rightarrow> dns_action \<Rightarrow> dns_rule" where
  "domain_rule ds a = \<lparr>qr_domain = ds, qr_suffix = [], qr_rule_set = [], qr_query_type = [], qr_action = a\<rparr>"

text \<open>The keys of the map: the service's host and the hosts of the test URLs.\<close>

definition test_host :: "string \<Rightarrow> string option" where
  "test_host u = (case getHostnameIfNotIP u of Done host \<Rightarrow> Some host | _ \<Rightarrow> None)"

definition direct_domains :: "InhiveOptions \<Rightarrow> string list" where
  "direct_domains h =
     remdups (''api.cloudflareclient.com'' # List.map_filter test_host (us_test_urls (ho_urltest h)))"

definition addForceDirect :: "InhiveOptions \<Rightarrow> dns_rule list" where
  "addForceDirect h =
     (let s = ds_direct_strategy (ho_dns h) in
      [domain_rule [''api.cloudflareclient.com''] (route_to DNSRemoteNoWarpTag s),
       domain_rule (direct_domains h) (route_to DNSMultiDirectTag s)])"

end
