(* ===== verification/Config_Route.thy ===== *)
theory Config_Route
  imports Config_Dns
begin

text \<open>
  The routing and DNS rules of a built configuration (\<open>config/builder_route.go\<close>). Whether the engine calls a
  DNS rule valid (\<open>IsValid\<close>) is the parameter \<open>valid\<close>.
\<close>

section \<open>Rules\<close>

definition plain_rule :: "route_action \<Rightarrow> route_rule" where
  "plain_rule a =
     \<lparr>rr_protocol = [], rr_ip_cidr = [], rr_private = False, rr_domain = [], rr_suffix = [], rr_rule_set = [],
      rr_action = a\<rparr>"

definition plain_dns :: "dns_action \<Rightarrow> dns_rule" where
  "plain_dns a = \<lparr>qr_domain = [], qr_suffix = [], qr_rule_set = [], qr_query_type = [], qr_action = a\<rparr>"

definition blocked_ranges :: "string list" where
  "blocked_ranges = [''10.10.34.0/24'', ''2001:4188:2:600:10:10:34:0/120'']"

definition first_rules :: "string \<Rightarrow> route_rule list" where
  "first_rules main =
     [plain_rule Sniff, (plain_rule HijackDNS)\<lparr>rr_protocol := [''dns'']\<rparr>,
      (plain_rule (RouteTo main))\<lparr>rr_ip_cidr := blocked_ranges\<rparr>]"

definition lan_rules :: "InhiveOptions \<Rightarrow> route_rule list" where
  "lan_rules h =
     (if rs_bypass_lan (ho_route h) then [(plain_rule (RouteTo OutboundDirectTag))\<lparr>rr_private := True\<rparr>] else [])"

definition ntp_hosts :: "cfg_options \<Rightarrow> string list" where
  "ntp_hosts opts = (case cf_ntp opts of None \<Rightarrow> [] | Some n \<Rightarrow> if np_enabled n then [np_server n] else [])"

definition ntp_rules :: "cfg_options \<Rightarrow> route_rule list" where
  "ntp_rules opts =
     (if ntp_hosts opts = [] then [] else [(plain_rule (RouteTo OutboundDirectTag))\<lparr>rr_domain := ntp_hosts opts\<rparr>])"

definition ntp_dns_rules :: "InhiveOptions \<Rightarrow> cfg_options \<Rightarrow> dns_rule list" where
  "ntp_dns_rules h opts =
     (if ntp_hosts opts = [] then []
      else [domain_rule (ntp_hosts opts) (route_to DNSMultiDirectTag (ds_direct_strategy (ho_dns h)))])"

definition ads_set :: string where "ads_set = ''geosite-ads''"

definition remote_set :: "string \<Rightarrow> string \<Rightarrow> rule_set" where
  "remote_set tag url =
     \<lparr>rz_type = ''remote'', rz_tag = tag, rz_format = ''binary'', rz_url = url, rz_interval = 432000000000000,
      rz_detour = OutboundSelect\<rparr>"

definition ads_rules :: "InhiveOptions \<Rightarrow> route_rule list" where
  "ads_rules h = (if ho_block_ads h then [(plain_rule (Reject ''default''))\<lparr>rr_rule_set := [ads_set]\<rparr>] else [])"

definition ads_dns_rules :: "InhiveOptions \<Rightarrow> dns_rule list" where
  "ads_dns_rules h = (if ho_block_ads h then [(plain_dns (DnsPredefined 5))\<lparr>qr_rule_set := [ads_set]\<rparr>] else [])"

definition ads_sets :: "InhiveOptions \<Rightarrow> rule_set list" where
  "ads_sets h =
     (if ho_block_ads h then
        [remote_set ads_set
          ''https://raw.githubusercontent.com/SagerNet/sing-geosite/rule-set/geosite-category-ads-all.srs'']
      else [])"

definition geoip :: "InhiveOptions \<Rightarrow> string" where "geoip h = ''geoip-'' @ ho_region h"
definition geosite :: "InhiveOptions \<Rightarrow> string" where "geosite h = ''geosite-'' @ ho_region h"

definition region_rules :: "InhiveOptions \<Rightarrow> route_rule list" where
  "region_rules h =
     (if ho_region h = ''other'' then []
      else [(plain_rule (RouteTo OutboundDirectTag))\<lparr>rr_suffix := [''.'' @ ho_region h]\<rparr>,
            (plain_rule (RouteTo OutboundDirectTag))\<lparr>rr_rule_set := [geoip h, geosite h]\<rparr>])"

definition region_dns_rules :: "InhiveOptions \<Rightarrow> dns_rule list" where
  "region_dns_rules h =
     (if ho_region h = ''other'' then []
      else
        let a = route_to DNSMultiDirectTag (ds_direct_strategy (ho_dns h)) in
        [(plain_dns a)\<lparr>qr_suffix := [''.'' @ ho_region h]\<rparr>, (plain_dns a)\<lparr>qr_rule_set := [geosite h]\<rparr>])"

definition region_sets :: "InhiveOptions \<Rightarrow> rule_set list" where
  "region_sets h =
     (if ho_region h = ''other'' then []
      else
        [remote_set (geoip h)
          (''https://raw.githubusercontent.com/SagerNet/sing-geoip/rule-set/geoip-'' @ ho_region h @ ''.srs''),
         remote_set (geosite h)
          (''https://raw.githubusercontent.com/SagerNet/sing-geosite/rule-set/geosite-'' @ ho_region h @ ''.srs'')])"

definition quic_rules :: "InhiveOptions \<Rightarrow> route_rule list" where
  "quic_rules h =
     (if rs_block_quic (ho_route h) then [(plain_rule (Reject ''default''))\<lparr>rr_protocol := [''quic'']\<rparr>] else [])"

definition fake_dns_rules :: "InhiveOptions \<Rightarrow> dns_rule list" where
  "fake_dns_rules h =
     (if ds_fake (ho_dns h) then
        [(plain_dns (DnsRoute
            \<lparr>da_server = DNSFakeTag, da_strategy = ds_remote_strategy (ho_dns h), da_ttl = Some DEFAULT_DNS_TTL,
             da_no_cache = True\<rparr>))\<lparr>qr_query_type := [1, 28]\<rparr>]
      else [])"

definition last_dns_rule :: "InhiveOptions \<Rightarrow> dns_rule" where
  "last_dns_rule h = plain_dns (route_to DNSMultiRemoteTag (ds_remote_strategy (ho_dns h)))"

section \<open>Composition\<close>

definition route_rules :: "string \<Rightarrow> InhiveOptions \<Rightarrow> cfg_options \<Rightarrow> route_rule list" where
  "route_rules main h opts =
     first_rules main @ lan_rules h @ ntp_rules opts @ ads_rules h @ region_rules h @ quic_rules h"

definition dns_rules :: "InhiveOptions \<Rightarrow> cfg_options \<Rightarrow> dns_rule list" where
  "dns_rules h opts =
     addForceDirect h @ ntp_dns_rules h opts @ ads_dns_rules h @ region_dns_rules h @ fake_dns_rules h @ [last_dns_rule h]"

definition setRoutingOptions ::
  "platform \<Rightarrow> (dns_rule \<Rightarrow> bool) \<Rightarrow> string \<Rightarrow> InhiveOptions \<Rightarrow> cfg_options \<Rightarrow> cfg_options outcome" where
  "setRoutingOptions pf valid main h opts =
     (let opts1 = opts\<lparr>cf_route := Some
        \<lparr>rt_rules = route_rules main h opts, rt_final = main,
         rt_auto_detect = (\<not> pf_android pf \<and> \<not> pf_ios pf \<and> (nd_tun (ho_inbound h) \<or> nd_tun_service (ho_inbound h))),
         rt_resolver = (DNSMultiDirectTag, ds_direct_strategy (ho_dns h)), rt_rule_sets = ads_sets h @ region_sets h,
         rt_find_process = False\<rparr>\<rparr>;
          rules = filter valid (dns_rules h opts)
      in if rules = [] then Done opts1
         else case cf_dns opts of
           None \<Rightarrow> Panics ''nil pointer dereference''
         | Some d \<Rightarrow> Done (opts1\<lparr>cf_dns := Some (d\<lparr>dq_rules := dq_rules d @ rules\<rparr>)\<rparr>))"

end
