(* ===== verification/Config_Inbound.thy ===== *)
theory Config_Inbound
  imports Config_Outbound
begin

text \<open>
  The inbounds, the log and the experimental part of a built configuration (\<open>config/builder_inbound.go\<close>).
  What the machine is (platform, administrator, IPv6) and the random bytes of a secret are parameters.
\<close>

definition setNTP :: "cfg_options \<Rightarrow> cfg_options" where
  "setNTP opts = opts\<lparr>cf_ntp := Some
     \<lparr>np_enabled = True, np_server = ''time.apple.com'', np_port = 123, np_interval = 43200000000000,
      np_detour = OutboundDirectTag\<rparr>\<rparr>"

definition experimental_test_urls :: "string list" where
  "experimental_test_urls =
     [''http://captive.apple.com/generate_204'', ''https://cp.cloudflare.com'', ''https://google.com/generate_204'']"

definition clash_secret :: "(nat \<Rightarrow> string) \<Rightarrow> InhiveOptions \<Rightarrow> InhiveOptions" where
  "clash_secret random h =
     (if ho_clash_api h \<and> ho_clash_secret h = '''' then h\<lparr>ho_clash_secret := generateRandomString random 16\<rparr> else h)"

definition setExperimental ::
  "lookup \<Rightarrow> (nat \<Rightarrow> string) \<Rightarrow> InhiveOptions \<Rightarrow> cfg_options \<Rightarrow> InhiveOptions \<times> cfg_options" where
  "setExperimental ips random h0 opts =
     (let h = clash_secret random (test_urls ips experimental_test_urls h0);
          i = seconds_duration (us_interval (ho_urltest h))
      in (h, if \<not> ho_clash_api h then opts
             else opts\<lparr>cf_experimental := Some
               \<lparr>xp_unified_delay = True, xp_controller = ''127.0.0.1:'' @ itoa (unat (ho_clash_port h)),
                xp_secret = ho_clash_secret h, xp_cache_file = ''data/clash.db'',
                xp_monitor_urls = us_test_urls (ho_urltest h), xp_interval = i, xp_debounce = 500000000,
                xp_idle = i * 3\<rparr>\<rparr>))"

definition setLog :: "InhiveOptions \<Rightarrow> cfg_options \<Rightarrow> cfg_options" where
  "setLog h opts = opts\<lparr>cf_log := Some
     \<lparr>lo_level = ho_log_level h, lo_output = ho_log_file h, lo_disabled = False, lo_timestamp = False,
      lo_no_color = True\<rparr>\<rparr>"

text \<open>\<open>resolves\<close>: resolving \<open>::1\<close> succeeds.\<close>

definition isIPv6Supported :: "platform \<Rightarrow> bool \<Rightarrow> bool" where
  "isIPv6Supported pf resolves \<longleftrightarrow> pf_ios pf \<or> pf_darwin pf \<or> resolves"

section \<open>Inbounds\<close>

definition tun_prefixes :: "bool \<Rightarrow> prefix list" where
  "tun_prefixes ipv6 =
     [the (parse_prefix ''172.19.0.1/28'')] @ (if ipv6 then [the (parse_prefix ''fdfe:dcba:9876::1/126'')] else [])"

definition tun_inbound :: "bool \<Rightarrow> InhiveOptions \<Rightarrow> cfg_inbound" where
  "tun_inbound ipv6 h =
     (let s = ho_inbound h in
      \<lparr>nb_type = ''tun'', nb_tag = InboundTUNTag,
       nb_options = TunIn (nd_tun_stack s) (nd_mtu s) True (nd_strict_route s) (tun_prefixes ipv6)\<rparr>)"

definition bind_addresses :: "bool \<Rightarrow> InhiveOptions \<Rightarrow> string list" where
  "bind_addresses ipv6 h =
     (if rs_allow_lan (ho_route h) then (if ipv6 then [''::''] else [''0.0.0.0''])
      else (if ipv6 then [''::1''] else []) @ [''127.0.0.1''])"

definition listen_on :: "string \<Rightarrow> string \<Rightarrow> string \<Rightarrow> inbound_options \<Rightarrow> cfg_inbound" where
  "listen_on ty tag bind x = \<lparr>nb_type = ty, nb_tag = tag @ bind, nb_options = x\<rparr>"

definition bind_inbounds :: "platform \<Rightarrow> bool \<Rightarrow> InhiveOptions \<Rightarrow> string \<Rightarrow> cfg_inbound list" where
  "bind_inbounds pf admin h bind =
     (let s = ho_inbound h; a = the (parse_addr bind) in
      [listen_on ''mixed'' InboundMixedTag bind (MixedIn a (nd_mixed_port s) (nd_system_proxy s))] @
      (if pf_linux pf \<and> \<not> pf_android pf \<and> nd_tproxy_port s > 0 \<and> admin
       then [listen_on ''tproxy'' InboundTProxy bind (TProxyIn a (nd_tproxy_port s))] else []) @
      (if (pf_linux pf \<or> pf_darwin pf) \<and> \<not> pf_android pf \<and> nd_redirect_port s > 0
       then [listen_on ''redirect'' InboundRedirect bind (RedirectIn a (nd_redirect_port s))] else []) @
      (if nd_direct_port s > 0 then [listen_on ''direct'' InboundDirectTag bind (DirectIn a (nd_direct_port s))] else []))"

definition setInbound :: "platform \<Rightarrow> bool \<Rightarrow> bool \<Rightarrow> InhiveOptions \<Rightarrow> cfg_options \<Rightarrow> cfg_options" where
  "setInbound pf admin resolves h opts =
     (let ipv6 = isIPv6Supported pf resolves in
      opts\<lparr>cf_inbounds := cf_inbounds opts @ (if nd_tun (ho_inbound h) then [tun_inbound ipv6 h] else []) @
        concat (map (bind_inbounds pf admin h) (bind_addresses ipv6 h))\<rparr>)"

section \<open>Facts\<close>

lemma setExperimental_kept [simp]:
  "cf_inbounds (snd (setExperimental ips random h opts)) = cf_inbounds opts"
  "cf_dns (snd (setExperimental ips random h opts)) = cf_dns opts"
  "cf_ntp (snd (setExperimental ips random h opts)) = cf_ntp opts"
  "cf_route (snd (setExperimental ips random h opts)) = cf_route opts"
  by (simp_all add: setExperimental_def Let_def)

text \<open>The addresses an inbound may listen on.\<close>

fun listens_on :: "inbound_options \<Rightarrow> addr option" where
  "listens_on (MixedIn a _ _) = Some a"
| "listens_on (TProxyIn a _) = Some a"
| "listens_on (RedirectIn a _) = Some a"
| "listens_on (DirectIn a _) = Some a"
| "listens_on _ = None"

definition loopback :: "addr \<Rightarrow> bool" where
  "loopback a \<longleftrightarrow> a = Addr4 [127, 0, 0, 1] \<or> a = Addr6 (replicate 15 0 @ [1]) ''''"

lemma bind_loopback:
  "b \<in> set (bind_addresses ipv6 h) \<Longrightarrow> \<not> rs_allow_lan (ho_route h) \<Longrightarrow> loopback (the (parse_addr b))"
proof -
  have "loopback (the (parse_addr ''127.0.0.1''))" "loopback (the (parse_addr ''::1''))" by code_simp+
  then show "b \<in> set (bind_addresses ipv6 h) \<Longrightarrow> \<not> rs_allow_lan (ho_route h) \<Longrightarrow> loopback (the (parse_addr b))"
    by (auto simp: bind_addresses_def split: if_splits)
qed

lemma bind_inbounds_listen: "i \<in> set (bind_inbounds pf admin h b) \<Longrightarrow> listens_on (nb_options i) = Some (the (parse_addr b))"
  by (auto simp: bind_inbounds_def Let_def listen_on_def split: if_splits)

text \<open>C18: without the permission to serve the local network, no inbound that the builder adds listens on
  anything but a loopback address, whatever the platform, the ports and the IPv6 support.\<close>

theorem inbounds_stay_local:
  assumes "\<not> rs_allow_lan (ho_route h)" and "i \<in> set (cf_inbounds (setInbound pf admin resolves h opts))"
    and "i \<notin> set (cf_inbounds opts)"
  shows "(nb_type i = ''tun'' \<and> nd_tun (ho_inbound h)) \<or> (\<exists>a. listens_on (nb_options i) = Some a \<and> loopback a)"
proof -
  from assms(2,3) consider "nd_tun (ho_inbound h)" "i = tun_inbound (isIPv6Supported pf resolves) h"
    | b where "b \<in> set (bind_addresses (isIPv6Supported pf resolves) h)" "i \<in> set (bind_inbounds pf admin h b)"
    by (auto simp: setInbound_def Let_def split: if_splits)
  then show ?thesis
  proof cases
    case 1
    then show ?thesis by (simp add: tun_inbound_def Let_def)
  next
    case (2 b)
    then show ?thesis using bind_inbounds_listen [OF 2(2)] bind_loopback [OF 2(1) assms(1)] by blast
  qed
qed

theorem inbounds_stay_local_witness:
  "\<exists>a. listens_on (MixedIn (Addr4 [127, 0, 0, 1]) 12334 False) = Some a \<and> loopback a"
proof -
  let ?pf = "\<lparr>pf_ios = False, pf_android = False, pf_linux = True, pf_darwin = False\<rparr>"
  let ?i = "\<lparr>nb_type = ''mixed'', nb_tag = ''mixed-in127.0.0.1'', nb_options = MixedIn (Addr4 [127, 0, 0, 1]) 12334 False\<rparr>"
  have "\<not> rs_allow_lan (ho_route DefaultInhiveOptions)" by (simp add: DefaultInhiveOptions_def)
  moreover have "?i \<in> set (cf_inbounds (setInbound ?pf False False DefaultInhiveOptions cfg_options_zero))" by code_simp
  moreover have "?i \<notin> set (cf_inbounds cfg_options_zero)" by (simp add: cfg_options_zero_def)
  ultimately have "(nb_type ?i = ''tun'' \<and> nd_tun (ho_inbound DefaultInhiveOptions)) \<or>
      (\<exists>a. listens_on (nb_options ?i) = Some a \<and> loopback a)"
    by (rule inbounds_stay_local)
  then show ?thesis by simp
qed

end
