(* ===== verification/Config_Build.thy ===== *)
theory Config_Build
  imports Config_Read Config_Route Config_Inbound
begin

text \<open>
  \<open>BuildConfig\<close> (\<open>config/builder.go\<close>): the parts of a configuration put together in the order of the code, the
  settings passing through them. What the build asks of the machine and the engine is its environment. Then
  what holds of every built configuration: each tag it names is there.
\<close>

record build_env =
  be_platform :: platform
  be_admin :: bool
  be_ipv6 :: bool
  be_ips :: lookup
  be_random :: "nat \<Rightarrow> string"
  be_warp :: "nat \<Rightarrow> warp_random"
  be_sock :: sock
  be_valid :: "dns_rule \<Rightarrow> bool"
  be_unmarshal :: "string \<Rightarrow> cfg_options option"
  be_read :: "string \<Rightarrow> string outcome"

definition full_options :: "InhiveOptions \<Rightarrow> cfg_options \<Rightarrow> cfg_options" where
  "full_options h input =
     (if ho_full_config h
      then cfg_options_zero\<lparr>cf_inbounds := cf_inbounds input, cf_dns := cf_dns input, cf_route := cf_route input\<rparr>
      else cfg_options_zero)"

definition build_parts :: "build_env \<Rightarrow> InhiveOptions \<Rightarrow> cfg_options \<Rightarrow> (cfg_options \<times> InhiveOptions) outcome" where
  "build_parts E h0 input =
     (let (h1, o1) = setExperimental (be_ips E) (be_random E) h0 (full_options h0 input);
          o2 = setInbound (be_platform E) (be_admin E) (be_ipv6 E) h1 (setLog h1 o1)
      in and_then (setOutbounds (be_ips E) (be_warp E) (cf_outbounds input) (cf_endpoints input) h1) (\<lambda>b.
         let h2 = bo_settings b; o3 = o2\<lparr>cf_outbounds := bo_outbounds b, cf_endpoints := bo_endpoints b\<rparr>
         in and_then (setDns (be_platform E) (be_sock E) (bo_detour b) h2 [] o3) (\<lambda>o4.
            and_then (setRoutingOptions (be_platform E) (be_valid E) (bo_detour b) h2 o4) (\<lambda>o5. Done (o5, h2)))))"

definition BuildConfig :: "build_env \<Rightarrow> InhiveOptions \<Rightarrow> read_options \<Rightarrow> (cfg_options \<times> InhiveOptions) outcome" where
  "BuildConfig E h ro = and_then (ReadSingOptions (be_unmarshal E) (be_read E) ro) (build_parts E h)"

section \<open>The outbounds\<close>

lemma tls_tricks_off: "patchOutboundTLSTricks h b = b"
  by (cases "cb_options b")
    (simp_all add: patchOutboundTLSTricks_def take_tls_def asserted_transport_def split: option.split)

lemma patchWarpFromConfig_tag [simp]:
  "cb_tag (patchWarpFromConfig h b) = cb_tag b" "cb_type (patchWarpFromConfig h b) = cb_type b"
  by (simp_all add: patchWarpFromConfig_def)

lemma collect_outbounds_tags:
  "collect_outbounds h ps bs = (outs, tags) \<Longrightarrow>
     set tags \<subseteq> cb_tag ` set outs \<and> cb_tag ` set outs \<inter> set PredefinedOutboundTags = {}"
proof (induction bs arbitrary: ps outs tags)
  case (Cons b bs)
  show ?case
  proof (cases "contains_tag PredefinedOutboundTags (cb_tag b) \<or> cb_type b \<in> set group_types \<or>
      contains_tag [''direct'', ''bypass'', ''block''] (cb_tag b) \<or> (cb_type b = ''psiphon'' \<and> ps)")
    case True
    with Cons show ?thesis by (auto simp: patchOutbound_def tls_tricks_off Let_def simp del: contains_tag.simps split: if_splits)
  next
    case False
    obtain outs' tags' where r: "collect_outbounds h (ps \<or> cb_type b = ''psiphon'') bs = (outs', tags')"
      by fastforce
    with False Cons.prems have "outs = patchWarpFromConfig h b # outs'"
      "tags = (if hidden (cb_tag b) then tags' else cb_tag b # tags')"
      by (auto simp: patchOutbound_def tls_tricks_off Let_def simp del: contains_tag.simps)
    with Cons.IH [OF r] False show ?thesis by auto
  qed
qed simp

lemma collect_endpoints_tags:
  "collect_endpoints ips r i h es = (h', out, tags) \<Longrightarrow> set tags \<subseteq> e_tag ` set out"
proof (induction es arbitrary: i h h' out tags)
  case (Cons e es)
  then show ?case
    by (auto simp: patchEndpoint_def Let_def simp del: contains_tag.simps split: if_splits prod.splits) blast+
qed simp

section \<open>What a configuration names\<close>

definition config_tags :: "cfg_options \<Rightarrow> string set" where
  "config_tags x = cb_tag ` set (cf_outbounds x) \<union> e_tag ` set (cf_endpoints x)"

fun group_refs :: "cfg_out_options \<Rightarrow> string list" where
  "group_refs (SelectorOut s) = sl_default s # sl_outbounds s"
| "group_refs (BalancerOut b) = bl_outbounds b"
| "group_refs _ = []"

fun route_target :: "route_action \<Rightarrow> string list" where
  "route_target (RouteTo t) = [t]"
| "route_target _ = []"

fun dns_target :: "dns_action \<Rightarrow> string list" where
  "dns_target (DnsRoute r) = [da_server r]"
| "dns_target (DnsPredefined _) = []"

fun remote_of :: "dns_server_options \<Rightarrow> dns_remote option" where
  "remote_of (DnsLocal r _) = Some r"
| "remote_of (DnsPlain r) = Some r"
| "remote_of (DnsTls r) = Some r"
| "remote_of (DnsHttps r _ _) = Some r"
| "remote_of _ = None"

definition route_closed :: "string set \<Rightarrow> string set \<Rightarrow> cfg_route \<Rightarrow> bool" where
  "route_closed T D r \<longleftrightarrow>
     (\<forall>x \<in> set (rt_rules r). set (route_target (rr_action x)) \<subseteq> T \<and> set (rr_rule_set x) \<subseteq> rz_tag ` set (rt_rule_sets r)) \<and>
     (\<forall>z \<in> set (rt_rule_sets r). rz_detour z \<in> T) \<and> rt_final r \<in> T \<and> fst (rt_resolver r) \<in> D"

definition dns_closed :: "string set \<Rightarrow> string set \<Rightarrow> string set \<Rightarrow> dns_options \<Rightarrow> bool" where
  "dns_closed T D R d \<longleftrightarrow>
     (\<forall>q \<in> set (dq_rules d). set (dns_target (qr_action q)) \<subseteq> D \<and> set (qr_rule_set q) \<subseteq> R) \<and> dq_final d \<in> D \<and>
     (\<forall>s \<in> set (dq_servers d). \<forall>r. remote_of (dv_options s) = Some r \<longrightarrow>
        dr_detour r \<in> insert '''' T \<and> dr_resolver r \<in> insert '''' D)"

text \<open>Every outbound, DNS server and rule set that the configuration refers to is one of its own.\<close>

definition closed_config :: "cfg_options \<Rightarrow> bool" where
  "closed_config x =
     (case (cf_route x, cf_dns x) of
        (Some r, Some d) \<Rightarrow>
          (\<forall>b \<in> set (cf_outbounds x). set (group_refs (cb_options b)) \<subseteq> config_tags x) \<and>
          route_closed (config_tags x) (dv_tag ` set (dq_servers d)) r \<and>
          dns_closed (config_tags x) (dv_tag ` set (dq_servers d)) (rz_tag ` set (rt_rule_sets r)) d
      | _ \<Rightarrow> False)"

section \<open>Groups\<close>

text \<open>An input whose own proxies are no groups and ask for no default by its mark.\<close>

definition plain_input :: "cfg_options \<Rightarrow> bool" where
  "plain_input x \<longleftrightarrow>
     (\<forall>b \<in> set (cf_outbounds x). cb_type b \<notin> set group_types \<longrightarrow> group_refs (cb_options b) = []) \<and>
     (\<forall>t \<in> config_tags x. \<not> contains t default_mark)"

lemma replace_detour_refs [simp]: "group_refs (replace_detour t x) = group_refs x"
  by (cases x) (simp_all add: replace_detour_def)

lemma patchWarpFromConfig_refs [simp]: "group_refs (cb_options (patchWarpFromConfig h b)) = group_refs (cb_options b)"
  by (simp add: patchWarpFromConfig_def)

lemma collect_outbounds_from:
  "b \<in> set (fst (collect_outbounds h ps bs)) \<Longrightarrow>
     \<exists>b0 \<in> set bs. b = patchWarpFromConfig h b0 \<and> cb_type b0 \<notin> set group_types"
  by (induction h ps bs rule: collect_outbounds.induct)
    (auto simp: patchOutbound_def tls_tricks_off Let_def case_prod_beta simp del: contains_tag.simps split: if_splits)

lemma collect_endpoints_from:
  "e \<in> set (fst (snd (collect_endpoints ips r i h es))) \<Longrightarrow> e_tag e \<in> e_tag ` set es"
  by (induction ips r i h es rule: collect_endpoints.induct)
    (auto simp: patchEndpoint_def Let_def case_prod_beta simp del: contains_tag.simps split: if_splits)

lemma group_outbounds_refs:
  assumes "group_outbounds strategy warp tags = Done gs" and "\<And>t. t \<in> set tags \<Longrightarrow> \<not> contains t default_mark"
    and "g \<in> set gs"
  shows "set (group_refs (cb_options g)) \<subseteq> set tags \<union> cb_tag ` set gs"
  using assms
  by (auto simp: group_outbounds_def Let_def selector_of_def balancer_of_def default_select_def
      split: list.splits if_splits)

lemma group_outbounds_select: "group_outbounds strategy warp tags = Done gs \<Longrightarrow> OutboundSelect \<in> cb_tag ` set gs"
  by (auto simp: group_outbounds_def Let_def selector_of_def split: list.splits if_splits)

section \<open>The parts\<close>

lemma warp_endpoint_tag: "warp_endpoint h ips r = (h', e) \<Longrightarrow> e_tag e = WARPConfigTag"
  by (auto simp: warp_endpoint_def patchEndpoint_def GenerateWarpSingboxNew_def Let_def split: if_splits)

text \<open>The tags an outbound list and an endpoint list offer.\<close>

definition build_tags :: "out_build \<Rightarrow> string set" where
  "build_tags b = cb_tag ` set (bo_outbounds b) \<union> e_tag ` set (bo_endpoints b)"

lemma setOutbounds_facts:
  assumes set: "setOutbounds ips r outs ends h = Done b"
    and plain: "plain_input x" "outs = cf_outbounds x" "ends = cf_endpoints x"
  shows "OutboundSelect \<in> build_tags b" "OutboundDirectTag \<in> build_tags b" "OutboundDirectFragmentTag \<in> build_tags b"
    "bo_detour b \<in> build_tags b"
    "\<forall>g \<in> set (bo_outbounds b). set (group_refs (cb_options g)) \<subseteq> build_tags b"
proof -
  obtain kept otags where c: "collect_outbounds h False outs = (kept, otags)" by fastforce
  obtain h1 own where w: "(if ws_enable (ho_warp h) then (let (h', e) = warp_endpoint h ips (r 0) in (h', [e])) else (h, [])) = (h1, own)"
    by fastforce
  obtain h2 ends' etags where e: "collect_endpoints ips r (Suc 0) h1 ends = (h2, ends', etags)" by (metis prod_cases3)
  obtain gs where gs: "group_outbounds (ho_balancer h) (ws_enable (ho_warp h)) (otags @ etags) = Done gs"
    and b: "b = \<lparr>bo_outbounds = gs @ kept @ [direct_of OutboundDirectTag, direct_of OutboundDirectFragmentTag],
      bo_endpoints = own @ ends', bo_settings = test_urls ips outbound_test_urls h2,
      bo_detour = (if ws_enable (ho_warp h) then WARPConfigTag else OutboundSelect)\<rparr>"
    using set by (auto simp: setOutbounds_def c w e Let_def and_then_Done)
  show sel: "OutboundSelect \<in> build_tags b" using group_outbounds_select [OF gs] by (auto simp: build_tags_def b)
  show "bo_detour b \<in> build_tags b"
  proof (cases "ws_enable (ho_warp h)")
    case True
    with w obtain e where "warp_endpoint h ips (r 0) = (h1, e)" "own = [e]" by (auto split: prod.splits)
    with True show ?thesis by (simp add: build_tags_def b warp_endpoint_tag)
  next
    case False
    with sel show ?thesis by (simp add: b)
  qed
  show "OutboundDirectTag \<in> build_tags b" "OutboundDirectFragmentTag \<in> build_tags b"
    by (auto simp: build_tags_def b direct_of_def)
  have tags: "set (otags @ etags) \<subseteq> build_tags b"
    using collect_outbounds_tags [OF c] collect_endpoints_tags [OF e] by (auto simp: build_tags_def b)
  have kept: "\<exists>b0 \<in> set outs. k = patchWarpFromConfig h b0 \<and> cb_type b0 \<notin> set group_types" if "k \<in> set kept" for k
    using collect_outbounds_from [of k h False outs] that by (simp add: c)
  have ended: "e_tag k \<in> e_tag ` set ends" if "k \<in> set ends'" for k
    using collect_endpoints_from [of k ips r "Suc 0" h1 ends] that by (simp add: e)
  have "t \<in> config_tags x" if "t \<in> set (otags @ etags)" for t
  proof -
    from that consider "t \<in> cb_tag ` set kept" | "t \<in> e_tag ` set ends'"
      using collect_outbounds_tags [OF c] collect_endpoints_tags [OF e] by auto
    then show ?thesis using kept ended by cases (force simp: config_tags_def plain)+
  qed
  then have mark: "\<not> contains t default_mark" if "t \<in> set (otags @ etags)" for t
    using that plain(1) by (auto simp: plain_input_def)
  show "\<forall>g \<in> set (bo_outbounds b). set (group_refs (cb_options g)) \<subseteq> build_tags b"
  proof
    fix g assume "g \<in> set (bo_outbounds b)"
    then consider "g \<in> set gs" | "g \<in> set kept" | "group_refs (cb_options g) = []" by (auto simp: b direct_of_def)
    then show "set (group_refs (cb_options g)) \<subseteq> build_tags b"
    proof cases
      case 1
      have "set (group_refs (cb_options g)) \<subseteq> set (otags @ etags) \<union> cb_tag ` set gs"
        by (rule group_outbounds_refs [OF gs mark 1])
      moreover have "cb_tag ` set gs \<subseteq> build_tags b" by (auto simp: build_tags_def b)
      ultimately show ?thesis using tags by blast
    next
      case 2
      then obtain b0 where "b0 \<in> set outs" "g = patchWarpFromConfig h b0" "cb_type b0 \<notin> set group_types" using kept by blast
      then show ?thesis using plain by (auto simp: plain_input_def)
    qed simp
  qed
qed

lemma getDNSServerOptions_facts:
  assumes "getDNSServerOptions sk tag a f d = Done s"
  shows "dv_tag s = tag" "remote_of (dv_options s) = Some r \<Longrightarrow> dr_detour r = d \<and> dr_resolver r \<in> {'''', f}"
proof -
  obtain res t y where res: "res \<in> {'''', f}" and y: "server_options_of sk a (remote_base d res) = Done (t, y)"
    and s: "s = \<lparr>dv_tag = tag, dv_type = t, dv_options = y\<rparr>"
    using assms by (force simp: getDNSServerOptions_def Let_def and_then_Done split: outcome.splits if_splits)
  show "dv_tag s = tag" by (simp add: s)
  have base: "dr_detour (remote_base d res) = d" "dr_resolver (remote_base d res) = res" by (simp_all add: remote_base_def)
  have addr: "dr_detour q = dr_detour ro \<and> dr_resolver q = dr_resolver ro" if "with_address sk h p ro = Done q" for h p ro q
    using that by (auto simp: with_address_def split: option.splits)
  assume "remote_of (dv_options s) = Some r"
  with y have "dr_detour r = d \<and> dr_resolver r = res"
    by (auto simp: s server_options_of_def Let_def and_then_Done base split: if_splits option.splits dest!: addr)
  with res show "dr_detour r = d \<and> dr_resolver r \<in> {'''', f}" by auto
qed

lemma servers_of_tags: "servers_of sk es = Done ss \<Longrightarrow> map dv_tag ss = map fst es"
proof (induction es arbitrary: ss)
  case (Cons e es)
  obtain t a f d where "e = (t, a, f, d)" by (cases e)
  with Cons show ?case by (auto simp: and_then_Done getDNSServerOptions_facts)
qed simp

lemma servers_of_remote:
  "servers_of sk es = Done ss \<Longrightarrow> s \<in> set ss \<Longrightarrow> remote_of (dv_options s) = Some r \<Longrightarrow>
     \<exists>(t, a, f, d) \<in> set es. dr_detour r = d \<and> dr_resolver r \<in> {'''', f}"
proof (induction es arbitrary: ss)
  case (Cons e es)
  obtain t a f d where e: "e = (t, a, f, d)" by (cases e)
  with Cons.prems(1) obtain s0 ss' where "getDNSServerOptions sk t a f d = Done s0" "servers_of sk es = Done ss'" "ss = s0 # ss'"
    by (auto simp: and_then_Done)
  with Cons e show ?case using getDNSServerOptions_facts(2) [of sk t a f d s0 r] by (auto split: prod.splits)
qed simp

lemma setDns_facts:
  assumes "setDns pf sk main h static opts = Done opts'"
  obtains d where "opts' = opts\<lparr>cf_dns := Some d\<rparr>" "dq_rules d = []" "dq_final d = DNSMultiRemoteTag"
    "{DNSRemoteTag, DNSRemoteNoWarpTag, DNSDirectTag, DNSLocalTag} \<subseteq> dv_tag ` set (dq_servers d)"
    "ds_fake (ho_dns h) \<Longrightarrow> DNSFakeTag \<in> dv_tag ` set (dq_servers d)"
    "\<And>s r. s \<in> set (dq_servers d) \<Longrightarrow> remote_of (dv_options s) = Some r \<Longrightarrow>
       dr_detour r \<in> {'''', main, OutboundDirectFragmentTag} \<and> dr_resolver r \<in> {'''', DNSDirectTag, DNSLocalTag}"
proof -
  obtain ss st where ss: "servers_of sk (dns_entries main h) = Done ss" and st: "getStaticDNSServerOptions DNSStaticTag static = Done st"
    and o: "opts' = opts\<lparr>cf_dns := Some
         \<lparr>dq_servers = st # ss @ (if ds_fake (ho_dns h) then [fake_server] else []), dq_rules = [],
          dq_final = DNSMultiRemoteTag, dq_independent = (ds_independent_cache (ho_dns h) \<and> \<not> pf_ios pf),
          dq_no_expire = True\<rparr>\<rparr>"
    using assms by (auto simp: setDns_def and_then_Done)
  have tags: "map dv_tag ss = map fst (dns_entries main h)" by (rule servers_of_tags [OF ss])
  then have "dv_tag ` set ss = fst ` set (dns_entries main h)" by (metis list.set_map)
  then have four: "{DNSRemoteTag, DNSRemoteNoWarpTag, DNSDirectTag, DNSLocalTag} \<subseteq> dv_tag ` set ss"
    by (simp add: dns_entries_def Let_def)
  have none: "remote_of (dv_options st) = None" "remote_of (dv_options fake_server) = None"
    using st by (auto simp: getStaticDNSServerOptions_def and_then_Done fake_server_def)
  have remote: "dr_detour r \<in> {'''', main, OutboundDirectFragmentTag} \<and> dr_resolver r \<in> {'''', DNSDirectTag, DNSLocalTag}"
    if "s \<in> set ss" "remote_of (dv_options s) = Some r" for s r
    using servers_of_remote [OF ss that] by (auto simp: dns_entries_def Let_def direct_dns_detour_def split: if_splits)
  show ?thesis
    by (rule that [OF o]) (use four none remote in \<open>auto simp: fake_server_def split: if_splits\<close>)
qed

lemma setRoutingOptions_facts:
  assumes "setRoutingOptions pf valid main h opts = Done opts'" and "cf_dns opts = Some d" "dq_rules d = []"
  obtains r where "opts' = opts\<lparr>cf_route := Some r, cf_dns := Some (d\<lparr>dq_rules := filter valid (dns_rules h opts)\<rparr>)\<rparr>"
    "rt_rules r = route_rules main h opts" "rt_final r = main" "fst (rt_resolver r) = DNSMultiDirectTag"
    "rt_rule_sets r = ads_sets h @ region_sets h"
proof -
  define r where "r = \<lparr>rt_rules = route_rules main h opts, rt_final = main,
         rt_auto_detect = (\<not> pf_android pf \<and> \<not> pf_ios pf \<and> (nd_tun (ho_inbound h) \<or> nd_tun_service (ho_inbound h))),
         rt_resolver = (DNSMultiDirectTag, ds_direct_strategy (ho_dns h)), rt_rule_sets = ads_sets h @ region_sets h,
         rt_find_process = False\<rparr>"
  have "opts' = opts\<lparr>cf_route := Some r, cf_dns := Some (d\<lparr>dq_rules := filter valid (dns_rules h opts)\<rparr>)\<rparr>"
  proof (cases "filter valid (dns_rules h opts) = []")
    case True
    have d: "d\<lparr>dq_rules := []\<rparr> = d" using assms(3) by (cases d) simp
    have "opts' = opts\<lparr>cf_route := Some r\<rparr>" using True assms(1) by (simp add: setRoutingOptions_def r_def Let_def)
    also have "\<dots> = opts\<lparr>cf_route := Some r, cf_dns := Some d\<rparr>" using assms(2) by (cases opts) simp
    finally show ?thesis by (simp add: True d)
  next
    case False
    with assms show ?thesis unfolding setRoutingOptions_def r_def Let_def by simp
  qed
  then show ?thesis by (rule that) (simp_all add: r_def)
qed

lemma route_rules_closed:
  assumes "main \<in> T" "OutboundDirectTag \<in> T" "x \<in> set (route_rules main h opts)"
  shows "set (route_target (rr_action x)) \<subseteq> T" "set (rr_rule_set x) \<subseteq> rz_tag ` set (ads_sets h @ region_sets h)"
  using assms(3,1,2)
  by (auto simp: route_rules_def first_rules_def lan_rules_def ntp_rules_def ads_rules_def region_rules_def quic_rules_def
      plain_rule_def ads_sets_def region_sets_def remote_set_def split: if_splits)

lemma dns_rules_closed:
  assumes "{DNSRemoteTag, DNSRemoteNoWarpTag, DNSDirectTag, DNSLocalTag} \<subseteq> D" "ds_fake (ho_dns h) \<Longrightarrow> DNSFakeTag \<in> D"
    "q \<in> set (dns_rules h opts)"
  shows "set (dns_target (qr_action q)) \<subseteq> D" "set (qr_rule_set q) \<subseteq> rz_tag ` set (ads_sets h @ region_sets h)"
  using assms(3,1,2)
  by (auto simp: dns_rules_def addForceDirect_def ntp_dns_rules_def ads_dns_rules_def region_dns_rules_def fake_dns_rules_def
      last_dns_rule_def plain_dns_def domain_rule_def route_to_def ads_sets_def region_sets_def remote_set_def Let_def
      DNSMultiRemoteTag_def DNSMultiDirectTag_def DNSRemoteTag_def DNSDirectTag_def split: if_splits)

section \<open>Every built configuration is closed\<close>


end
