(* ===== verification/Config_Facts.thy ===== *)
theory Config_Facts
  imports Config_Build
begin

text \<open>
  What the built rules decide, against a reference decision: the engine reads a rule list in order and takes
  the first match. Then the inputs on which the builder does not do what it means to: an input without a
  visible proxy, one proxy marked as the default, an input tag of the builder's own, and the WARP address
  classes.
\<close>

section \<open>A build to evaluate\<close>

definition linux :: platform where
  "linux = \<lparr>pf_ios = False, pf_android = False, pf_linux = True, pf_darwin = False\<rparr>"

definition sample_sock :: sock where
  "sample_sock h = (if h = '''' then None else Some (h, 0))"

definition sample_env :: build_env where
  "sample_env =
     \<lparr>be_platform = linux, be_admin = False, be_ipv6 = False, be_ips = (\<lambda>_. [''192.0.2.1'']),
      be_random = (\<lambda>n. replicate n (CHR ''a'')),
      be_warp = (\<lambda>_. \<lparr>wr_ipv4 = ''162.159.192.1'', wr_ipv6 = ''2606:4700:d0::1'', wr_port = 2408\<rparr>),
      be_sock = sample_sock, be_valid = (\<lambda>_. True), be_unmarshal = (\<lambda>_. None), be_read = (\<lambda>_. Fails ''no file'')\<rparr>"

definition sample_proxy :: "string \<Rightarrow> cfg_outbound" where
  "sample_proxy tag =
     \<lparr>cb_type = ''socks'', cb_tag = tag,
      cb_options = ProxyOut (OSocks
        \<lparr>sk_dialer = dialer_zero, sk_server = \<lparr>so_server = ''192.0.2.9'', so_port = 1080\<rparr>, sk_version = ''5'',
         sk_username = '''', sk_password = '''', sk_uot = None\<rparr>)\<rparr>"

definition given :: "cfg_options \<Rightarrow> read_options" where
  "given x = \<lparr>ro_path = '''', ro_content = '''', ro_options = Some x\<rparr>"

definition sample_input :: cfg_options where
  "sample_input = cfg_options_zero\<lparr>cf_outbounds := [sample_proxy ''one'', sample_proxy ''two'']\<rparr>"

lemma read_given [simp]: "ReadSingOptions um rd (given x) = Done x"
  by (simp add: ReadSingOptions_def given_def)

definition sample_settings :: InhiveOptions where
  "sample_settings = DefaultInhiveOptions\<lparr>ho_region := ''ru'', ho_block_ads := True, ho_balancer := ''round-robin''\<rparr>"

lemma sample_builds: "case BuildConfig sample_env sample_settings (given sample_input) of Done _ \<Rightarrow> True | _ \<Rightarrow> False"
  by code_simp


section \<open>The DNS decision\<close>

record dns_query =
  qy_name :: string
  qy_type :: nat

text \<open>\<open>inside\<close> is the content of the rule sets: set and name. An empty condition holds.\<close>

definition dns_matches :: "(string \<Rightarrow> string \<Rightarrow> bool) \<Rightarrow> dns_query \<Rightarrow> dns_rule \<Rightarrow> bool" where
  "dns_matches inside q r \<longleftrightarrow>
     (qr_domain r = [] \<or> qy_name q \<in> set (qr_domain r)) \<and>
     (qr_suffix r = [] \<or> list_ex (\<lambda>s. has_suffix (qy_name q) s) (qr_suffix r)) \<and>
     (qr_rule_set r = [] \<or> list_ex (\<lambda>s. inside s (qy_name q)) (qr_rule_set r)) \<and>
     (qr_query_type r = [] \<or> qy_type q \<in> set (qr_query_type r))"

fun first_dns :: "(string \<Rightarrow> string \<Rightarrow> bool) \<Rightarrow> dns_query \<Rightarrow> dns_rule list \<Rightarrow> dns_action option" where
  "first_dns inside q [] = None"
| "first_dns inside q (r # rs) = (if dns_matches inside q r then Some (qr_action r) else first_dns inside q rs)"

text \<open>Where a query goes: a server, or refused.\<close>

datatype dns_fate = AskServer string | Refused

definition fate_of :: "dns_action \<Rightarrow> dns_fate" where
  "fate_of a = (case a of DnsRoute r \<Rightarrow> AskServer (da_server r) | DnsPredefined _ \<Rightarrow> Refused)"

definition dns_intent :: "(string \<Rightarrow> string \<Rightarrow> bool) \<Rightarrow> InhiveOptions \<Rightarrow> dns_query \<Rightarrow> dns_fate" where
  "dns_intent inside h q =
     (if qy_name q = ''api.cloudflareclient.com'' then AskServer DNSRemoteNoWarpTag
      else if qy_name q \<in> set (direct_domains h) then AskServer DNSMultiDirectTag
      else if ho_block_ads h \<and> inside ads_set (qy_name q) then Refused
      else if ho_region h \<noteq> ''other'' \<and> (has_suffix (qy_name q) (''.'' @ ho_region h) \<or> inside (geosite h) (qy_name q))
      then AskServer DNSMultiDirectTag
      else if ds_fake (ho_dns h) \<and> qy_type q \<in> {1, 28} then AskServer DNSFakeTag
      else AskServer DNSMultiRemoteTag)"

lemma first_dns_append:
  "first_dns inside q (rs @ ss) = (case first_dns inside q rs of None \<Rightarrow> first_dns inside q ss | Some a \<Rightarrow> Some a)"
  by (induction rs) auto



section \<open>The routing decision\<close>

text \<open>A connection: what sniffing found, whether its address is private, its name and its address ranges.\<close>

record connection =
  cn_protocol :: string
  cn_private :: bool
  cn_name :: string
  cn_ranges :: "string list"

definition route_matches :: "(string \<Rightarrow> string \<Rightarrow> bool) \<Rightarrow> connection \<Rightarrow> route_rule \<Rightarrow> bool" where
  "route_matches inside c r \<longleftrightarrow>
     (rr_protocol r = [] \<or> cn_protocol c \<in> set (rr_protocol r)) \<and>
     (rr_ip_cidr r = [] \<or> list_ex (\<lambda>x. x \<in> set (cn_ranges c)) (rr_ip_cidr r)) \<and>
     (\<not> rr_private r \<or> cn_private c) \<and>
     (rr_domain r = [] \<or> cn_name c \<in> set (rr_domain r)) \<and>
     (rr_suffix r = [] \<or> list_ex (\<lambda>s. has_suffix (cn_name c) s) (rr_suffix r)) \<and>
     (rr_rule_set r = [] \<or> list_ex (\<lambda>s. inside s (cn_name c)) (rr_rule_set r))"

datatype conn_fate = Via string | AnswerDNS | Refuse

text \<open>Sniffing lets the next rules go on; without a match the final outbound takes the connection.\<close>

fun route_fate :: "(string \<Rightarrow> string \<Rightarrow> bool) \<Rightarrow> connection \<Rightarrow> string \<Rightarrow> route_rule list \<Rightarrow> conn_fate" where
  "route_fate inside c final [] = Via final"
| "route_fate inside c final (r # rs) =
     (if route_matches inside c r then
        (case rr_action r of
           Sniff \<Rightarrow> route_fate inside c final rs
         | HijackDNS \<Rightarrow> AnswerDNS
         | RouteTo t \<Rightarrow> Via t
         | Reject m \<Rightarrow> Refuse)
      else route_fate inside c final rs)"

definition of_region :: "(string \<Rightarrow> string \<Rightarrow> bool) \<Rightarrow> InhiveOptions \<Rightarrow> connection \<Rightarrow> bool" where
  "of_region inside h c \<longleftrightarrow>
     ho_region h \<noteq> ''other'' \<and>
     (has_suffix (cn_name c) (''.'' @ ho_region h) \<or> inside (geoip h) (cn_name c) \<or> inside (geosite h) (cn_name c))"

definition route_intent :: "(string \<Rightarrow> string \<Rightarrow> bool) \<Rightarrow> InhiveOptions \<Rightarrow> string \<Rightarrow> connection \<Rightarrow> conn_fate" where
  "route_intent inside h main c =
     (if cn_protocol c = ''dns'' then AnswerDNS
      else if set blocked_ranges \<inter> set (cn_ranges c) \<noteq> {} then Via main
      else if rs_bypass_lan (ho_route h) \<and> cn_private c then Via OutboundDirectTag
      else if ho_block_ads h \<and> inside ads_set (cn_name c) then Refuse
      else if of_region inside h c then Via OutboundDirectTag
      else if rs_block_quic (ho_route h) \<and> cn_protocol c = ''quic'' then Refuse
      else Via main)"

text \<open>C9: read in their order, the routing rules decide every connection as intended: DNS is answered, the
  ranges of a national firewall go through the proxy even when private addresses are spared, advertising is
  refused before the region is spared, QUIC is refused only outside the region, and the rest takes the main
  detour, which is also the final one.\<close>

theorem route_rules_decide:
  assumes "cf_ntp opts = None"
  shows "route_fate inside c main (route_rules main h opts) = route_intent inside h main c"
  using assms
  by (simp add: route_rules_def first_rules_def lan_rules_def ntp_rules_def ntp_hosts_def ads_rules_def region_rules_def
      quic_rules_def plain_rule_def blocked_ranges_def route_matches_def route_intent_def of_region_def)

theorem route_rules_decide_witness:
  "route_fate (\<lambda>_ _. False) \<lparr>cn_protocol = ''quic'', cn_private = False, cn_name = ''ya.ru'', cn_ranges = []\<rparr>
     OutboundSelect (route_rules OutboundSelect sample_settings cfg_options_zero) = Via OutboundDirectTag"
proof -
  let ?c = "\<lparr>cn_protocol = ''quic'', cn_private = False, cn_name = ''ya.ru'', cn_ranges = []\<rparr>"
  have "cf_ntp cfg_options_zero = None" by (simp add: cfg_options_zero_def)
  moreover have "route_intent (\<lambda>_ _. False) sample_settings OutboundSelect ?c = Via OutboundDirectTag" by code_simp
  ultimately show ?thesis
    using route_rules_decide [of cfg_options_zero "\<lambda>_ _. False" ?c OutboundSelect sample_settings] by simp
qed

section \<open>Inputs the builder does not expect\<close>

lemma group_panics: "group_outbounds s w [] = Panics ''index out of range''"
  by (simp add: group_outbounds_def Let_def)

lemma hidden_not_collected:
  "(\<And>b. b \<in> set bs \<Longrightarrow> hidden (cb_tag b) \<or> cb_type b \<in> set group_types) \<Longrightarrow> snd (collect_outbounds h ps bs) = []"
  by (induction h ps bs rule: collect_outbounds.induct)
    (auto simp: patchOutbound_def tls_tricks_off Let_def case_prod_beta simp del: contains_tag.simps)

text \<open>C22: a configuration without a single visible proxy, such as one whose proxies are all groups or hidden, is
  not refused with an error: the choice of the default outbound indexes an empty list, and the build panics.\<close>

theorem build_without_proxies_panics:
  assumes "\<And>b. b \<in> set (cf_outbounds input) \<Longrightarrow> hidden (cb_tag b) \<or> cb_type b \<in> set group_types"
    and "cf_endpoints input = []"
  shows "BuildConfig E h (given input) = Panics ''index out of range''"
proof -
  obtain h1 o1 where e: "setExperimental (be_ips E) (be_random E) h (full_options h input) = (h1, o1)" by fastforce
  obtain kept otags where c: "collect_outbounds h1 False (cf_outbounds input) = (kept, otags)" by fastforce
  moreover have "snd (collect_outbounds h1 False (cf_outbounds input)) = []"
    by (rule hidden_not_collected) (rule assms(1))
  ultimately have "otags = []" by simp
  then have "setOutbounds (be_ips E) (be_warp E) (cf_outbounds input) (cf_endpoints input) h1 = Panics ''index out of range''"
    using c by (simp add: setOutbounds_def assms(2) group_panics and_then_def Let_def split: prod.split)
  then show ?thesis by (simp add: BuildConfig_def build_parts_def e Let_def and_then_def)
qed

theorem build_without_proxies_panics_witness:
  "BuildConfig sample_env sample_settings
     (given (cfg_options_zero\<lparr>cf_outbounds := [\<lparr>cb_type = ''urltest'', cb_tag = ''auto'', cb_options = OtherOut dialer_zero ''''\<rparr>]\<rparr>)) =
   Panics ''index out of range''"
  by (rule build_without_proxies_panics) (auto simp: cfg_options_zero_def group_types_def)

lemma patch_wireguard_address:
  assumes "wg_peers w = p # ps" and "ap_address p \<in> set warp_hosts" and "wr_ipv6 r \<noteq> ''auto6''"
  shows "\<exists>p'. wg_peers (patch_wireguard ips r w) = p' # ps \<and> ap_address p' = wr_ipv4 r"
proof -
  have "ap_address p \<noteq> ''''" using assms(2) by (auto simp: warp_hosts_def)
  moreover have "chosen_host r (ap_address p) = wr_ipv4 r"
    using assms(2,3) by (auto simp: chosen_host_def warp_hosts_def Let_def)
  ultimately show ?thesis using assms(1,2) by (simp add: patch_wireguard_def Let_def)
qed

text \<open>a WireGuard endpoint that asks for a WARP address of the IPv6 class gets one of the IPv4 class like all
  others: the address chosen for \<open>auto6\<close> is overwritten, since the second test looks at the address the first
  one has just put in place of the word.\<close>

theorem warp_auto6_gets_ipv4:
  assumes "e_type e = ''wireguard''" and "e_options e = EWireGuard w" and "wg_peers w = p # ps"
    and "ap_address p = ''auto6''" and "wr_ipv6 r \<noteq> ''auto6''"
  shows "\<exists>w' p'. e_options (patchEndpoint ips r e) = EWireGuard w' \<and> wg_peers w' = p' # ps \<and> ap_address p' = wr_ipv4 r"
  using patch_wireguard_address [of w p ps r ips] assms by (auto simp: patchEndpoint_def patchWarp_def warp_hosts_def)

theorem warp_auto6_gets_ipv4_witness:
  "\<exists>w p. e_options (patchEndpoint (\<lambda>_. []) \<lparr>wr_ipv4 = ''162.159.192.1'', wr_ipv6 = ''2606:4700:d0::1'', wr_port = 2408\<rparr>
       \<lparr>e_type = ''wireguard'', e_tag = ''w'',
        e_options = EWireGuard \<lparr>wg_dialer = dialer_zero, wg_private = ''k'', wg_address = [], wg_mtu = 0,
          wg_peers = [peer_zero\<lparr>ap_address := ''auto6''\<rparr>], wg_noise = noise_zero, wg_workers = 0\<rparr>\<rparr>) = EWireGuard w \<and>
     wg_peers w = [p] \<and> ap_address p = ''162.159.192.1''"
  using warp_auto6_gets_ipv4 [of "\<lparr>e_type = ''wireguard'', e_tag = ''w'',
        e_options = EWireGuard \<lparr>wg_dialer = dialer_zero, wg_private = ''k'', wg_address = [], wg_mtu = 0,
          wg_peers = [peer_zero\<lparr>ap_address := ''auto6''\<rparr>], wg_noise = noise_zero, wg_workers = 0\<rparr>\<rparr>" _
      "peer_zero\<lparr>ap_address := ''auto6''\<rparr>" "[]" "\<lparr>wr_ipv4 = ''162.159.192.1'', wr_ipv6 = ''2606:4700:d0::1'', wr_port = 2408\<rparr>"
      "\<lambda>_. []"] by simp

text \<open>One proxy, marked as the default: the selector's default is the mark itself, which is no tag.\<close>

lemma marked_default_dangles:
  assumes "contains t default_mark" and "group_outbounds strategy warp [t] = Done gs" and "t \<noteq> default_mark"
  shows "\<exists>s. gs = [selector_of [t] s] \<and> s \<notin> set [t]"
  using assms by (auto simp: group_outbounds_def default_select_def Let_def)

text \<open>The TLS tricks of the settings reach no outbound, and a client identifier of two bytes is indexed at its third.\<close>

lemma mixed_sni_unused: "collect_outbounds (h\<lparr>ho_tricks := t\<rparr>) ps bs = collect_outbounds h ps bs"
  by (induction h ps bs rule: collect_outbounds.induct)
    (simp_all add: patchOutbound_def tls_tricks_off patchWarpFromConfig_def Let_def del: contains_tag.simps)

lemma short_client_id_panics:
  assumes "length (std_leading (no_newlines (wc_client_id wg))) = 2"
    and "parse_prefixes [wc_ipv4 wg @ ''/24'', wc_ipv6 wg @ ''/128''] = Done ps"
  shows "wireGuardToSingbox wg server port = Panics ''index out of range''"
  using assms by (simp add: wireGuardToSingbox_def client_id_def and_then_def)

text \<open>A host and port of a test URL is no literal address and becomes a domain of a rule, with its port.\<close>

lemma host_keeps_port: "getHostnameIfNotIP ''http://192.0.2.1:8080/x'' = Done ''192.0.2.1:8080''"
  by code_simp

end
