(* ===== verification/Conf_Ingest.thy ===== *)
theory Conf_Ingest
  imports Json_Ingest Awg Splitter
begin

text \<open>
  A wg-quick or AmneziaWG configuration as a subscription (\<open>ray2sing/convert.go\<close>): it is cut at its
  \<open>[Interface]\<close> headers, every tunnel is read by \<open>AWGSingboxTxt\<close>, and the endpoints go as a JSON container
  through the record list. The encoder of the endpoints belongs to the fork of sing-box: it is a parameter.
\<close>

definition blank :: "char \<Rightarrow> bool" where
  "blank c \<longleftrightarrow> c = CHR '' '' \<or> c = CHR 0x09"

text \<open>A line that is a section header: blanks, the name in any case, blanks, at most one carriage return.\<close>

definition awgConfHeader :: "string \<Rightarrow> bool" where
  "awgConfHeader line =
     (let s = dropWhile blank line; r = dropWhile blank (drop 11 s) in
      to_lower (take 11 s) = ''[interface]'' \<and> (r = [] \<or> r = [CHR 0x0D]))"

fun first_significant :: "string list \<Rightarrow> bool" where
  "first_significant [] = False"
| "first_significant (l0 # ls) =
     (let l = trim_space l0 in
      if l = '''' \<or> has_prefix l ''#'' \<or> has_prefix l '';'' then first_significant ls
      else awgConfHeader l)"

definition looksLikeAWGConf :: "string \<Rightarrow> bool" where
  "looksLikeAWGConf body = first_significant (split_byte nl body)"

text \<open>The pieces from one header to the next; a line keeps its line break.\<close>

definition header_line :: "string \<Rightarrow> bool" where
  "header_line l \<longleftrightarrow> awgConfHeader (if l \<noteq> '''' \<and> last l = nl then butlast l else l)"

fun conf_chunks :: "string list \<Rightarrow> string list" where
  "conf_chunks [] = []"
| "conf_chunks (l # ls) =
     (if header_line l then concat (l # takeWhile (\<lambda>x. \<not> header_line x) ls) # conf_chunks ls else conf_chunks ls)"

definition conf_endpoints :: "string \<Rightarrow> endpoint list" where
  "conf_endpoints body =
     List.map_filter (\<lambda>c. case AWGSingboxTxt c of Inl _ \<Rightarrow> None | Inr ep \<Rightarrow> Some ep) (conf_chunks (line_list body))"

text \<open>The outer \<open>None\<close> is a panic, the inner one a body that is no such configuration.\<close>

definition convertAWGConfEntries :: "(endpoint list \<Rightarrow> string option) \<Rightarrow> string \<Rightarrow> string list option option" where
  "convertAWGConfEntries mj body0 =
     (let body = trim_prefix body0 bom in
      if \<not> looksLikeAWGConf body then Some None
      else
        let eps = conf_endpoints body in
        if eps = [] then Some (Some [])
        else case mj eps of
          None \<Rightarrow> Some (Some [])
        | Some blob \<Rightarrow>
            (case convertJSONEntries blob of
               None \<Rightarrow> None
             | Some None \<Rightarrow> Some (Some [])
             | Some (Some rs) \<Rightarrow> Some (Some rs)))"

end
