(* ===== verification/Go_Zlib.thy ===== *)
theory Go_Zlib
  imports Go_Strings
begin

text \<open>
  \<open>compress/zlib\<close> as the Amnezia reader uses it: the header, the three kinds of DEFLATE blocks and the
  Adler-32 checksum. A stream is read to the end of the last block; \<open>None\<close> is a corrupt or cut stream.
  The output is built in reverse.
\<close>

section \<open>Bits\<close>

type_synonym bits = "bool list"

definition byte_bits :: "char \<Rightarrow> bits" where
  "byte_bits c = map (\<lambda>i. odd (code c div 2 ^ i)) [0..<8]"

definition bits_of :: "string \<Rightarrow> bits" where
  "bits_of s = concat (map byte_bits s)"

text \<open>A number of \<open>n\<close> bits, the lowest first.\<close>

fun get_bits :: "nat \<Rightarrow> bits \<Rightarrow> (nat \<times> bits) option" where
  "get_bits 0 bs = Some (0, bs)"
| "get_bits (Suc n) s =
     (case s of
        [] \<Rightarrow> None
      | b # bs \<Rightarrow>
          (case get_bits n bs of None \<Rightarrow> None | Some (v, r) \<Rightarrow> Some ((if b then 1 else 0) + 2 * v, r)))"

fun get_bytes :: "nat \<Rightarrow> bits \<Rightarrow> (string \<times> bits) option" where
  "get_bytes 0 bs = Some ([], bs)"
| "get_bytes (Suc n) bs =
     (case get_bits 8 bs of
        None \<Rightarrow> None
      | Some (v, r) \<Rightarrow>
          (case get_bytes n r of None \<Rightarrow> None | Some (s, r') \<Rightarrow> Some (char_of v # s, r')))"

section \<open>Prefix codes\<close>

text \<open>A code is given by the lengths of its symbols; a symbol of length 0 is absent.\<close>

definition of_length :: "nat \<Rightarrow> nat list \<Rightarrow> nat list" where
  "of_length l ls = filter (\<lambda>i. ls ! i = l) [0..<length ls]"

text \<open>Canonical decoding: \<open>first\<close> is the first code of length \<open>l\<close>, \<open>v\<close> the bits so far.\<close>

fun decode_sym :: "nat \<Rightarrow> nat list \<Rightarrow> nat \<Rightarrow> nat \<Rightarrow> nat \<Rightarrow> bits \<Rightarrow> (nat \<times> bits) option" where
  "decode_sym 0 ls l first v bs = None"
| "decode_sym (Suc n) ls l first v s =
     (case s of
        [] \<Rightarrow> None
      | b # bs \<Rightarrow>
          (let v' = 2 * v + (if b then 1 else 0); f' = 2 * first; syms = of_length l ls in
           if v' < f' + length syms then Some (syms ! (v' - f'), bs)
           else decode_sym n ls (Suc l) (f' + length syms) v' bs))"

definition get_sym :: "nat list \<Rightarrow> bits \<Rightarrow> (nat \<times> bits) option" where
  "get_sym ls bs = decode_sym 15 ls 1 0 0 bs"

text \<open>Complete, or empty, or the single code of length 1.\<close>

definition code_space :: "nat list \<Rightarrow> nat" where
  "code_space ls = sum_list (map (\<lambda>l. if l = 0 then 0 else 2 ^ (15 - l)) ls)"

definition code_ok :: "nat list \<Rightarrow> bool" where
  "code_ok ls \<longleftrightarrow> list_all (\<lambda>l. l = 0) ls \<or> code_space ls = 2 ^ 15 \<or> filter (\<lambda>l. l \<noteq> 0) ls = [1]"

definition fixed_lit :: "nat list" where
  "fixed_lit = replicate 144 8 @ replicate 112 9 @ replicate 24 7 @ replicate 8 8"

definition fixed_dist :: "nat list" where
  "fixed_dist = replicate 32 5"

section \<open>Blocks\<close>

definition match_length :: "nat \<Rightarrow> bits \<Rightarrow> (nat \<times> bits) option" where
  "match_length s bs =
     (if s < 265 then Some (s - 254, bs)
      else if s = 285 then Some (258, bs)
      else if s > 285 then None
      else
        let n = (s - 261) div 4; base = (4 + (s - 265) mod 4) * 2 ^ n + 3 in
        map_option (\<lambda>(v, r). (base + v, r)) (get_bits n bs))"

definition match_distance :: "nat \<Rightarrow> bits \<Rightarrow> (nat \<times> bits) option" where
  "match_distance d bs =
     (if d < 4 then Some (d + 1, bs)
      else if d \<ge> 30 then None
      else
        let n = (d - 2) div 2; base = (2 + d mod 2) * 2 ^ n + 1 in
        map_option (\<lambda>(v, r). (base + v, r)) (get_bits n bs))"

fun copy_match :: "nat \<Rightarrow> nat \<Rightarrow> string \<Rightarrow> string" where
  "copy_match 0 d acc = acc"
| "copy_match (Suc n) d acc = copy_match n d (acc ! (d - 1) # acc)"

text \<open>The window is 32 KiB; every step consumes a bit, so the number of bits is enough fuel.\<close>

fun run_codes :: "nat \<Rightarrow> nat list \<Rightarrow> nat list \<Rightarrow> bits \<Rightarrow> string \<Rightarrow> (string \<times> bits) option" where
  "run_codes 0 lit dist bs acc = None"
| "run_codes (Suc k) lit dist bs acc =
     (case get_sym lit bs of
        None \<Rightarrow> None
      | Some (s, r) \<Rightarrow>
          if s < 256 then run_codes k lit dist r (char_of s # acc)
          else if s = 256 then Some (acc, r)
          else case match_length s r of
            None \<Rightarrow> None
          | Some (len, r1) \<Rightarrow>
              (case get_sym dist r1 of
                 None \<Rightarrow> None
               | Some (ds, r2) \<Rightarrow>
                   (case match_distance ds r2 of
                      None \<Rightarrow> None
                    | Some (d, r3) \<Rightarrow>
                        if d > length acc \<or> d > 32768 then None
                        else run_codes k lit dist r3 (copy_match len d acc))))"

definition clen_order :: "nat list" where
  "clen_order = [16, 17, 18, 0, 8, 7, 9, 6, 10, 5, 11, 4, 12, 3, 13, 2, 14, 1, 15]"

fun get_many :: "nat \<Rightarrow> nat \<Rightarrow> bits \<Rightarrow> (nat list \<times> bits) option" where
  "get_many 0 w bs = Some ([], bs)"
| "get_many (Suc n) w bs =
     (case get_bits w bs of
        None \<Rightarrow> None
      | Some (v, r) \<Rightarrow> (case get_many n w r of None \<Rightarrow> None | Some (vs, r') \<Rightarrow> Some (v # vs, r')))"

text \<open>The lengths of the two codes, run-length coded; \<open>n\<close> are wanted, \<open>acc\<close> are there, in reverse.\<close>

fun get_lengths :: "nat \<Rightarrow> nat list \<Rightarrow> nat \<Rightarrow> nat list \<Rightarrow> bits \<Rightarrow> (nat list \<times> bits) option" where
  "get_lengths 0 cl n acc bs = None"
| "get_lengths (Suc k) cl n acc bs =
     (if length acc = n then Some (rev acc, bs)
      else case get_sym cl bs of
        None \<Rightarrow> None
      | Some (s, r) \<Rightarrow>
          if s < 16 then get_lengths k cl n (s # acc) r
          else
            (case (if s = 16 then get_bits 2 r else if s = 17 then get_bits 3 r else get_bits 7 r) of
               None \<Rightarrow> None
             | Some (v, r') \<Rightarrow>
                 if s = 16 \<and> acc = [] then None
                 else
                   (let rep = v + (if s = 18 then 11 else 3); x = (if s = 16 then hd acc else 0) in
                    if length acc + rep > n then None
                    else get_lengths k cl n (replicate rep x @ acc) r')))"

definition dynamic_codes :: "bits \<Rightarrow> ((nat list \<times> nat list) \<times> bits) option" where
  "dynamic_codes bs =
     (case get_many 2 5 bs of
        Some ([hl, hdist], r) \<Rightarrow>
          (case get_bits 4 r of
             None \<Rightarrow> None
           | Some (hc, r1) \<Rightarrow>
               if hl + 257 > 286 \<or> hdist + 1 > 30 then None
               else case get_many (hc + 4) 3 r1 of
                 None \<Rightarrow> None
               | Some (vs, r2) \<Rightarrow>
                   let cl = map (\<lambda>i. case map_of (zip clen_order vs) i of None \<Rightarrow> 0 | Some v \<Rightarrow> v) [0..<19];
                       n = hl + 257 + hdist + 1 in
                   if \<not> code_ok cl then None
                   else case get_lengths (Suc n) cl n [] r2 of
                     None \<Rightarrow> None
                   | Some (ls, r3) \<Rightarrow>
                       let lit = take (hl + 257) ls; dist = drop (hl + 257) ls in
                       if \<not> code_ok lit \<or> \<not> code_ok dist then None else Some ((lit, dist), r3))
      | _ \<Rightarrow> None)"

text \<open>Skipping to the next byte: the number of bits of the whole stream is a multiple of 8.\<close>

definition align :: "bits \<Rightarrow> bits" where
  "align bs = drop (length bs mod 8) bs"

definition stored_block :: "bits \<Rightarrow> string \<Rightarrow> (string \<times> bits) option" where
  "stored_block bs acc =
     (case get_many 2 16 (align bs) of
        Some ([n, m], r) \<Rightarrow>
          if n + m \<noteq> 65535 then None
          else (case get_bytes n r of None \<Rightarrow> None | Some (s, r') \<Rightarrow> Some (rev s @ acc, r'))
      | _ \<Rightarrow> None)"

definition one_block :: "nat \<Rightarrow> bits \<Rightarrow> string \<Rightarrow> (string \<times> bits) option" where
  "one_block typ bs acc =
     (if typ = 0 then stored_block bs acc
      else if typ = 1 then run_codes (Suc (length bs)) fixed_lit fixed_dist bs acc
      else if typ = 2 then
        (case dynamic_codes bs of
           None \<Rightarrow> None
         | Some ((lit, dist), r) \<Rightarrow> run_codes (Suc (length r)) lit dist r acc)
      else None)"

fun blocks :: "nat \<Rightarrow> bits \<Rightarrow> string \<Rightarrow> (string \<times> bits) option" where
  "blocks 0 bs acc = None"
| "blocks (Suc k) bs acc =
     (case get_bits 3 bs of
        None \<Rightarrow> None
      | Some (h, r) \<Rightarrow>
          (case one_block (h div 2) r acc of
             None \<Rightarrow> None
           | Some (acc', r') \<Rightarrow> if odd h then Some (acc', r') else blocks k r' acc'))"

section \<open>The stream\<close>

definition adler32 :: "string \<Rightarrow> nat" where
  "adler32 s =
     (case foldl (\<lambda>(a, b) c. let a' = (a + code c) mod 65521 in (a', (b + a') mod 65521)) (1, 0) s of
        (a, b) \<Rightarrow> b * 65536 + a)"

definition big_endian :: "string \<Rightarrow> nat" where
  "big_endian s = foldl (\<lambda>n c. 256 * n + code c) 0 s"

text \<open>The two bytes of the header: method, window, check, no dictionary.\<close>

definition zlib_header :: "string \<Rightarrow> bool" where
  "zlib_header s \<longleftrightarrow>
     (case s of
        a # b # _ \<Rightarrow>
          code a mod 16 = 8 \<and> code a div 16 \<le> 7 \<and> (code a * 256 + code b) mod 31 = 0 \<and> code b div 32 mod 2 = 0
      | _ \<Rightarrow> False)"

definition zlib_read :: "string \<Rightarrow> string option" where
  "zlib_read s =
     (if \<not> zlib_header s then None
      else case blocks (8 * length s) (bits_of (drop 2 s)) [] of
        None \<Rightarrow> None
      | Some (acc, r) \<Rightarrow>
          (case get_bytes 4 (align r) of
             None \<Rightarrow> None
           | Some (ck, _) \<Rightarrow> if big_endian ck = adler32 (rev acc) then Some (rev acc) else None))"

end
