(* ===== verification/Amnezia_Ingest.thy ===== *)
theory Amnezia_Ingest
  imports Conf_Ingest Go_Zlib
begin

text \<open>
  AmneziaVPN containers (\<open>ray2sing/amnezia_ingest.go\<close>): \<open>vpn://\<close> followed by the base64 of a compressed JSON
  list of containers. Each supported container becomes a part (a link, an Xray configuration or a wg-quick
  text), and the two consumers turn the parts into links or records.
\<close>

section \<open>Decoding the link\<close>

definition amneziaMaxUncompressed :: nat where
  "amneziaMaxUncompressed = 16 * 2 ^ 20"

definition looksLikeAmneziaVPN :: "string \<Rightarrow> bool" where
  "looksLikeAmneziaVPN body =
     (let s = trim_space (trim_prefix body bom) in length s > 6 \<and> to_lower (take 6 s) = ''vpn://'')"

definition raw_url_decode :: "string \<Rightarrow> string option" where
  "raw_url_decode s = dec_quads url_val False (no_newlines s)"

definition vpn_payload :: "string \<Rightarrow> string" where
  "vpn_payload body =
     trim_right_set
       (filter (\<lambda>c. c \<notin> {CHR '' '', CHR 0x0A, CHR 0x0D, CHR 0x09}) (drop 6 (trim_space (trim_prefix body bom)))) ''=''"

definition inflate_export :: "string \<Rightarrow> string result" where
  "inflate_export d =
     (let expected = big_endian (take 4 d) in
      if expected = 0 \<or> expected > amneziaMaxUncompressed
      then err ''Amnezia vpn:// link: implausible uncompressed size in qCompress header'' []
      else case zlib_read (drop 4 d) of
        None \<Rightarrow> err ''Amnezia vpn:// link: corrupt zlib stream: '' []
      | Some out \<Rightarrow>
          if length out \<noteq> expected
          then err ''Amnezia vpn:// link: qCompress size header does not match the decompressed data'' []
          else Inr out)"

definition decodeAmneziaVPN :: "string \<Rightarrow> string result" where
  "decodeAmneziaVPN body =
     (let p = vpn_payload body in
      case (case raw_url_decode p of Some d \<Rightarrow> Some d | None \<Rightarrow> raw_std_decode p) of
        None \<Rightarrow> err ''Amnezia vpn:// link: payload is not valid base64: '' []
      | Some d \<Rightarrow>
          if length d \<ge> 5 \<and> d ! 4 = CHR 0x78 then inflate_export d
          else if looksLikeJSON d \<noteq> None then Inr d
          else err ''Amnezia vpn:// link: payload is neither qCompress(JSON) nor plain JSON'' [])"

section \<open>Containers\<close>

datatype amneziaPartKind = PartURI | PartXrayJSON | PartWGConf

record amneziaPart =
  ap_kind :: amneziaPartKind
  ap_body :: string
  ap_name :: string
  ap_label :: string

record amneziaExport =
  ae_containers :: "raw list"
  ae_defaultContainer :: string
  ae_description :: string
  ae_hostName :: string
  ae_dns1 :: string
  ae_dns2 :: string
  ae_configVersion :: int
  ae_apiEndpoint :: string
  ae_apiKey :: string
  ae_authData :: raw
  ae_apiConfig :: raw

definition store_amneziaExport :: "string \<Rightarrow> raw \<Rightarrow> amneziaExport \<Rightarrow> amneziaExport option" where
  "store_amneziaExport f t x =
     (if f = ''containers'' then map_option (\<lambda>v. x\<lparr>ae_containers := v\<rparr>) (dec_list Some t)
      else if f = ''defaultContainer'' then
        map_option (\<lambda>v. x\<lparr>ae_defaultContainer := v\<rparr>) (dec_string t (ae_defaultContainer x))
      else if f = ''description'' then map_option (\<lambda>v. x\<lparr>ae_description := v\<rparr>) (dec_string t (ae_description x))
      else if f = ''hostName'' then map_option (\<lambda>v. x\<lparr>ae_hostName := v\<rparr>) (dec_string t (ae_hostName x))
      else if f = ''dns1'' then map_option (\<lambda>v. x\<lparr>ae_dns1 := v\<rparr>) (dec_string t (ae_dns1 x))
      else if f = ''dns2'' then map_option (\<lambda>v. x\<lparr>ae_dns2 := v\<rparr>) (dec_string t (ae_dns2 x))
      else if f = ''config_version'' then map_option (\<lambda>v. x\<lparr>ae_configVersion := v\<rparr>) (dec_int t (ae_configVersion x))
      else if f = ''api_endpoint'' then map_option (\<lambda>v. x\<lparr>ae_apiEndpoint := v\<rparr>) (dec_string t (ae_apiEndpoint x))
      else if f = ''api_key'' then map_option (\<lambda>v. x\<lparr>ae_apiKey := v\<rparr>) (dec_string t (ae_apiKey x))
      else if f = ''auth_data'' then map_option (\<lambda>v. x\<lparr>ae_authData := v\<rparr>) (dec_raw t (ae_authData x))
      else map_option (\<lambda>v. x\<lparr>ae_apiConfig := v\<rparr>) (dec_raw t (ae_apiConfig x)))"

definition dec_amneziaExport :: "raw \<Rightarrow> amneziaExport option" where
  "dec_amneziaExport t = dec_struct
     [''containers'', ''defaultContainer'', ''description'', ''hostName'', ''dns1'', ''dns2'', ''config_version'',
      ''api_endpoint'', ''api_key'', ''auth_data'', ''api_config''] store_amneziaExport t
     \<lparr>ae_containers = [], ae_defaultContainer = '''', ae_description = '''', ae_hostName = '''', ae_dns1 = '''',
      ae_dns2 = '''', ae_configVersion = 0, ae_apiEndpoint = '''', ae_apiKey = '''', ae_authData = '''', ae_apiConfig = ''''\<rparr>"

definition isAPIKey :: "amneziaExport \<Rightarrow> bool" where
  "isAPIKey e \<longleftrightarrow>
     ae_configVersion e \<noteq> 0 \<or> ae_apiEndpoint e \<noteq> '''' \<or> ae_apiKey e \<noteq> '''' \<or> ae_authData e \<noteq> '''' \<or> ae_apiConfig e \<noteq> ''''"

datatype amneziaConvert = XrayPart | WGPart | SSPart

text \<open>Key, label and reader of each container; without a reader it is known but not supported.\<close>

definition amneziaHandlers :: "(string \<times> string \<times> string \<times> amneziaConvert option) list" where
  "amneziaHandlers =
     [(''amnezia-xray'', ''xray'', ''Xray'', Some XrayPart),
      (''amnezia-ssxray'', ''ssxray'', ''Xray Shadowsocks'', Some XrayPart),
      (''amnezia-wireguard'', ''wireguard'', ''WireGuard'', Some WGPart),
      (''amnezia-awg'', ''awg'', ''AmneziaWG'', Some WGPart),
      (''amnezia-awg2'', ''awg'', ''AmneziaWG 2'', Some WGPart),
      (''amnezia-shadowsocks'', ''shadowsocks'', ''Shadowsocks'', Some SSPart),
      (''amnezia-openvpn'', ''openvpn'', ''OpenVPN'', None),
      (''amnezia-openvpn-cloak'', ''cloak'', ''OpenVPN over Cloak'', None),
      (''amnezia-ipsec'', ''ikev2'', ''IKEv2'', None)]"

definition amneziaServiceContainers :: "string list" where
  "amneziaServiceContainers = [''amnezia-torwebsite'', ''amnezia-dns'', ''amnezia-sftp'', ''amnezia-socks5proxy'', ''none'']"

definition amneziaLastConfig :: "raw \<Rightarrow> string option" where
  "amneziaLastConfig sub =
     (case dec_struct [''last_config''] (\<lambda>f. dec_string) sub '''' of
        None \<Rightarrow> None
      | Some lc \<Rightarrow> if trim_space lc = '''' then None else Some lc)"

definition a_part :: "amneziaPartKind \<Rightarrow> string \<Rightarrow> amneziaPart" where
  "a_part k b = \<lparr>ap_kind = k, ap_body = b, ap_name = '''', ap_label = ''''\<rparr>"

definition amneziaXrayPart :: "raw \<Rightarrow> amneziaPart option" where
  "amneziaXrayPart sub =
     (case amneziaLastConfig sub of
        None \<Rightarrow> None
      | Some lc \<Rightarrow> if looksLikeJSON lc = None then None else Some (a_part PartXrayJSON lc))"

definition amneziaWGPart :: "raw \<Rightarrow> amneziaPart option" where
  "amneziaWGPart sub =
     (case amneziaLastConfig sub of
        None \<Rightarrow> None
      | Some lc \<Rightarrow>
          (case dec_struct [''config''] (\<lambda>f. dec_string) lc '''' of
             None \<Rightarrow> None
           | Some c \<Rightarrow> if looksLikeAWGConf c then Some (a_part PartWGConf c) else None))"

record amnezia_ss =
  as_server :: string
  as_port :: raw
  as_password :: string
  as_method :: string

definition dec_amnezia_ss :: "raw \<Rightarrow> amnezia_ss option" where
  "dec_amnezia_ss t0 = dec_struct [''server'', ''server_port'', ''password'', ''method'']
     (\<lambda>f t x.
        if f = ''server'' then map_option (\<lambda>v. x\<lparr>as_server := v\<rparr>) (dec_string t (as_server x))
        else if f = ''server_port'' then map_option (\<lambda>v. x\<lparr>as_port := v\<rparr>) (dec_raw t (as_port x))
        else if f = ''password'' then map_option (\<lambda>v. x\<lparr>as_password := v\<rparr>) (dec_string t (as_password x))
        else map_option (\<lambda>v. x\<lparr>as_method := v\<rparr>) (dec_string t (as_method x)))
     t0 \<lparr>as_server = '''', as_port = '''', as_password = '''', as_method = ''''\<rparr>"

definition amneziaSSPart :: "raw \<Rightarrow> amneziaExport \<Rightarrow> amneziaPart option" where
  "amneziaSSPart sub ex =
     (case amneziaLastConfig sub of
        None \<Rightarrow> None
      | Some lc \<Rightarrow>
          (case dec_amnezia_ss lc of
             None \<Rightarrow> None
           | Some s \<Rightarrow>
               let server = orDefault (as_server s) (ae_hostName ex);
                   port = uint (toUInt16 (trim_set (as_port s) [CHR 0x22]) 0) in
               if server = '''' \<or> as_method s = '''' then None
               else Some (a_part PartURI (buildSSURI (as_method s) (as_password s) server port '''' ''''))))"

definition convert_part :: "amneziaConvert \<Rightarrow> raw \<Rightarrow> amneziaExport \<Rightarrow> amneziaPart option" where
  "convert_part c sub ex =
     (case c of XrayPart \<Rightarrow> amneziaXrayPart sub | WGPart \<Rightarrow> amneziaWGPart sub | SSPart \<Rightarrow> amneziaSSPart sub ex)"

text \<open>One container: the parts and the names of the unsupported containers so far.\<close>

definition container_id :: "(string \<times> raw) list \<Rightarrow> string" where
  "container_id obj =
     (case map_of obj ''container'' of
        None \<Rightarrow> ''''
      | Some t \<Rightarrow> (case dec_string t '''' of None \<Rightarrow> '''' | Some s \<Rightarrow> s))"

definition container_step :: "amneziaExport \<Rightarrow> raw \<Rightarrow> amneziaPart list \<times> string list \<Rightarrow> amneziaPart list \<times> string list" where
  "container_step ex rawC st =
     (case dec_pairs Some rawC [] of
        None \<Rightarrow> st
      | Some obj \<Rightarrow>
          let cid = container_id obj; (parts, unsupported) = st in
          if cid \<in> set amneziaServiceContainers then st
          else case map_of amneziaHandlers cid of
            None \<Rightarrow> (parts, unsupported @ [orDefault cid ''<unnamed>''])
          | Some (key, label, conv) \<Rightarrow>
              (case conv of
                 None \<Rightarrow> (parts, unsupported @ [label])
               | Some c \<Rightarrow>
                   (case map_of obj key of
                      None \<Rightarrow> st
                    | Some sub \<Rightarrow>
                        (case convert_part c sub ex of
                           None \<Rightarrow> st
                         | Some p0 \<Rightarrow>
                             let p = p0\<lparr>ap_name := orDefault (ae_description ex) (ae_hostName ex), ap_label := label\<rparr> in
                             if cid = ae_defaultContainer ex \<and> parts \<noteq> [] then (p # parts, unsupported)
                             else (parts @ [p], unsupported)))))"

definition suffix_names :: "string \<Rightarrow> amneziaPart list \<Rightarrow> amneziaPart list" where
  "suffix_names base parts =
     (if length parts > 1 \<and> base \<noteq> ''''
      then map (\<lambda>p. p\<lparr>ap_name := base @ '' ('' @ ap_label p @ '')''\<rparr>) parts else parts)"

definition amneziaParts :: "string \<Rightarrow> amneziaPart list result" where
  "amneziaParts body =
     bindE (decodeAmneziaVPN body) (\<lambda>rw.
       case dec_amneziaExport rw of
         None \<Rightarrow> err ''Amnezia vpn:// payload is not valid JSON: '' []
       | Some ex \<Rightarrow>
           if ae_containers ex = [] then
             (if isAPIKey ex
              then err ''this vpn:// link is an Amnezia API key (Free/Premium service), not a server config'' []
              else err ''Amnezia config contains no protocol containers'' [])
           else
             let (parts, unsupported) = fold (container_step ex) (ae_containers ex) ([], []) in
             if parts = [] then
               (if unsupported \<noteq> []
                then err ''Amnezia config: protocol container(s) not supported yet: '' [join '', '' unsupported]
                else err ''Amnezia config: no importable nodes found'' [])
             else Inr (suffix_names (orDefault (ae_description ex) (ae_hostName ex)) parts))"

section \<open>The two consumers\<close>

text \<open>A text that begins with a brace is not \<open>null\<close>, so setting its tag does not panic.\<close>

definition amneziaRenameRecord :: "string \<Rightarrow> string \<Rightarrow> string" where
  "amneziaRenameRecord rec name =
     (if name = '''' \<or> rec = '''' then rec
      else if has_prefix rec ''{'' then
        (case minifyNodeJSON rec name of Some (Some r) \<Rightarrow> r | _ \<Rightarrow> rec)
      else renameURIFragment rec name)"

definition safeConvertAWGConfEntries :: "(endpoint list \<Rightarrow> string option) \<Rightarrow> string \<Rightarrow> string list option" where
  "safeConvertAWGConfEntries mj body = (case convertAWGConfEntries mj body of None \<Rightarrow> None | Some r \<Rightarrow> r)"

definition uri_lines :: "amneziaPart \<Rightarrow> string list" where
  "uri_lines p = map (\<lambda>u. amneziaRenameRecord u (ap_name p)) (filter (\<lambda>u. u \<noteq> '''') (split_byte nl (ap_body p)))"

definition import_part :: "(endpoint list \<Rightarrow> string option) \<Rightarrow> amneziaPart \<Rightarrow> string list" where
  "import_part mj p =
     (case ap_kind p of
        PartURI \<Rightarrow> uri_lines p
      | PartXrayJSON \<Rightarrow>
          (case ingestJSON (ap_body p) of
             None \<Rightarrow> []
           | Some uris \<Rightarrow> map (\<lambda>u. amneziaRenameRecord u (ap_name p)) (split_byte nl uris))
      | PartWGConf \<Rightarrow>
          (let recs = (case safeConvertAWGConfEntries mj (ap_body p) of None \<Rightarrow> [] | Some rs \<Rightarrow> rs);
               uris = filter (\<lambda>r. \<not> has_prefix r ''{'') recs
           in if uris = [] then [ap_body p] else map (\<lambda>u. amneziaRenameRecord u (ap_name p)) uris))"

text \<open>\<open>None\<close> when the body is no \<open>vpn://\<close> link.\<close>

definition ingestAmneziaVPN :: "(endpoint list \<Rightarrow> string option) \<Rightarrow> string \<Rightarrow> string result option" where
  "ingestAmneziaVPN mj body =
     (if \<not> looksLikeAmneziaVPN body then None
      else Some (bindE (amneziaParts body) (\<lambda>parts.
        let lines = concat (map (import_part mj) parts) in
        if lines = [] then err ''Amnezia config: nodes were recognized but none could be converted'' []
        else Inr (join [nl] lines))))"

text \<open>The records of a part; \<open>None\<close> is a panic.\<close>

definition record_part :: "(endpoint list \<Rightarrow> string option) \<Rightarrow> amneziaPart \<Rightarrow> string list option" where
  "record_part mj p =
     (let rename = map (\<lambda>u. amneziaRenameRecord u (ap_name p)) in
      case ap_kind p of
        PartURI \<Rightarrow> Some (uri_lines p)
      | PartXrayJSON \<Rightarrow>
          map_option (\<lambda>r. case r of None \<Rightarrow> [] | Some recs \<Rightarrow> rename recs) (convertJSONEntries (ap_body p))
      | PartWGConf \<Rightarrow>
          Some (case safeConvertAWGConfEntries mj (ap_body p) of None \<Rightarrow> [] | Some recs \<Rightarrow> rename recs))"

definition convertAmneziaEntries ::
  "(endpoint list \<Rightarrow> string option) \<Rightarrow> string \<Rightarrow> string list result option option" where
  "convertAmneziaEntries mj body =
     (if \<not> looksLikeAmneziaVPN body then Some None
      else case amneziaParts body of
        Inl e \<Rightarrow> Some (Some (Inl e))
      | Inr parts \<Rightarrow>
          (case map_opt (record_part mj) parts of
             None \<Rightarrow> None
           | Some rss \<Rightarrow>
               let records = concat rss in
               Some (Some (if records = []
                 then err ''Amnezia config: nodes were recognized but none could be converted'' []
                 else Inr records))))"

end
