(* ===== verification/Amnezia_Link.thy ===== *)
theory Amnezia_Link
  imports Amnezia_Ingest
begin

text \<open>
  What an Amnezia export says is what the reader gets: a link that frames its JSON as an uncompressed
  zlib stream, line breaks inside it included, decodes to that JSON.
\<close>

section \<open>Bits of a text\<close>

fun num_bits :: "bits \<Rightarrow> nat" where
  "num_bits [] = 0"
| "num_bits (b # bs) = (if b then 1 else 0) + 2 * num_bits bs"

lemma get_bits_num: "get_bits (length xs) (xs @ r) = Some (num_bits xs, r)"
  by (induction xs) auto

lemma num_bits_append: "num_bits (xs @ ys) = num_bits xs + 2 ^ length xs * num_bits ys"
  by (induction xs) (auto simp: algebra_simps)

lemma num_bits_range: "num_bits (map (\<lambda>i. odd (n div 2 ^ i)) [0..<k]) = n mod 2 ^ k"
proof (induction k)
  case (Suc k)
  have "(n div 2 ^ k) mod 2 = (if odd (n div 2 ^ k) then 1 else 0)" by (simp add: mod2_eq_if)
  moreover have "n mod 2 ^ Suc k = 2 ^ k * (n div 2 ^ k mod 2) + n mod 2 ^ k"
    by (metis mod_mult2_eq mult.commute power_Suc)
  ultimately show ?case using Suc by (simp add: num_bits_append)
qed simp

lemma num_byte_bits: "num_bits (byte_bits c) = code c"
  using num_bits_range [of "code c" 8] code_bound [of c] by (simp add: byte_bits_def)

lemma length_byte_bits [simp]: "length (byte_bits c) = 8"
  by (simp add: byte_bits_def)

lemma get_byte: "get_bits 8 (byte_bits c @ r) = Some (code c, r)"
  using get_bits_num [of "byte_bits c" r] by (simp add: num_byte_bits)

lemma get_bytes_text: "get_bytes (length s) (bits_of s @ r) = Some (s, r)"
  by (induction s) (simp_all add: bits_of_def get_byte)

lemma length_bits_of [simp]: "length (bits_of s) = 8 * length s"
  by (induction s) (simp_all add: bits_of_def)

lemma bits_of_append [simp]: "bits_of (s @ t) = bits_of s @ bits_of t"
  by (simp add: bits_of_def)

section \<open>An uncompressed stream\<close>

definition byte :: "nat \<Rightarrow> char" where
  "byte n = char_of n"

lemma code_byte [simp]: "code (byte n) = n mod 256"
  by (simp add: byte_def code_def)

definition le16 :: "nat \<Rightarrow> string" where
  "le16 n = [byte n, byte (n div 256)]"

definition be32 :: "nat \<Rightarrow> string" where
  "be32 n = [byte (n div 2 ^ 24), byte (n div 2 ^ 16), byte (n div 2 ^ 8), byte n]"

lemma length_be32: "length (be32 n) = 4"
  by (simp add: be32_def)

lemma get_le16: "n < 65536 \<Longrightarrow> get_bits 16 (bits_of (le16 n) @ r) = Some (n, r)"
proof -
  assume n: "n < 65536"
  let ?xs = "bits_of (le16 n)"
  have "num_bits ?xs = n mod 256 + 256 * (n div 256 mod 256)"
    by (simp add: bits_of_def le16_def num_bits_append num_byte_bits)
  also have "\<dots> = n" using n by (simp add: div_less_iff_less_mult)
  finally show ?thesis using get_bits_num [of ?xs r] by (simp add: le16_def)
qed

lemma big_endian_be32: "n < 2 ^ 32 \<Longrightarrow> big_endian (be32 n) = n"
proof -
  assume n: "n < 2 ^ 32"
  have "big_endian (be32 n) = 256 * (256 * (256 * (n div 2 ^ 24 mod 256) + n div 2 ^ 16 mod 256) + n div 2 ^ 8 mod 256) + n mod 256"
    by (simp add: big_endian_def be32_def)
  also have "\<dots> = n"
  proof -
    let ?a = "n div 256" and ?b = "n div 256 div 256" and ?c = "n div 256 div 256 div 256"
    have d: "n div 2 ^ 8 = ?a" "n div 2 ^ 16 = ?b" "n div 2 ^ 24 = ?c" by (simp_all flip: div_mult2_eq)
    have "n div 2 ^ 24 < 256" using n by (simp add: div_less_iff_less_mult)
    then have c: "?c mod 256 = ?c" using d(3) by simp
    have "256 * ?c + ?b mod 256 = ?b" "256 * ?b + ?a mod 256 = ?a" "256 * ?a + n mod 256 = n" by simp_all
    then show ?thesis unfolding d c by simp
  qed
  finally show ?thesis .
qed

lemma adler32_bound: "adler32 s < 2 ^ 32"
proof -
  let ?f = "\<lambda>(a, b) c. let a' = (a + code c) mod 65521 in (a', (b + a') mod 65521)"
  have "fst (foldl ?f (1, 0) s) < 65521 \<and> snd (foldl ?f (1, 0) s) < 65521"
    by (cases s rule: rev_cases) (simp_all add: case_prod_beta Let_def)
  then have "snd (foldl ?f (1, 0) s) * 65536 + fst (foldl ?f (1, 0) s) < 2 ^ 32" by simp
  then show ?thesis by (simp add: adler32_def case_prod_beta)
qed

definition zlib_stored :: "string \<Rightarrow> string" where
  "zlib_stored s =
     [byte 0x78, byte 0x01, byte 0x01] @ le16 (length s) @ le16 (65535 - length s) @ s @ be32 (adler32 s)"

lemma zlib_stored_read:
  assumes "length s < 65536"
  shows "zlib_read (zlib_stored s) = Some s"
proof -
  let ?n = "length s"
  define body where "body = le16 ?n @ le16 (65535 - ?n) @ s @ be32 (adler32 s)"
  obtain t where t: "byte_bits (byte 1) = [True, False, False] @ t" "length t = 5"
  proof
    show "byte_bits (byte 1) = [True, False, False] @ map (\<lambda>i. odd ((1::nat) div 2 ^ i)) [3..<8]"
      unfolding byte_bits_def code_byte by code_simp
  qed simp
  have align1: "align (t @ bits_of body) = bits_of body"
    using t(2) by (simp add: align_def le16_def be32_def body_def)
  have two: "get_many 2 16 (bits_of body) = Some ([?n, 65535 - ?n], bits_of s @ bits_of (be32 (adler32 s)))"
    using get_le16 [of ?n] get_le16 [of "65535 - ?n"] assms by (simp add: numeral_2_eq_2 body_def)
  have block: "stored_block (t @ bits_of body) [] = Some (rev s, bits_of (be32 (adler32 s)))"
    using two assms unfolding stored_block_def align1 by (simp add: get_bytes_text)
  have h: "get_bits 3 (bits_of (byte 1 # body)) = Some (1, t @ bits_of body)"
  proof -
    have "bits_of (byte 1 # body) = [True, False, False] @ t @ bits_of body"
      using t(1) by (simp add: bits_of_def)
    moreover have "get_bits 3 ([True, False, False] @ x) = Some (1, x)" for x by (simp add: numeral_3_eq_3)
    ultimately show ?thesis by (simp only:)
  qed
  have fuel: "8 * length (zlib_stored s) = Suc (8 * length (zlib_stored s) - 1)"
    by (simp add: zlib_stored_def)
  have blocks: "blocks (8 * length (zlib_stored s)) (bits_of (byte 1 # body)) [] = Some (rev s, bits_of (be32 (adler32 s)))"
    by (subst fuel) (simp add: h [simplified] one_block_def block)
  have last: "get_bytes 4 (align (bits_of (be32 (adler32 s)))) = Some (be32 (adler32 s), [])"
  proof -
    let ?a = "be32 (adler32 s)"
    have "align (bits_of ?a) = bits_of ?a" by (simp add: align_def length_be32)
    moreover have "get_bytes (length ?a) (bits_of ?a @ []) = Some (?a, [])" by (rule get_bytes_text)
    ultimately show ?thesis by (simp only: append_Nil2 length_be32)
  qed
  have drop: "drop 2 (zlib_stored s) = byte 1 # body" by (simp add: zlib_stored_def body_def)
  have header: "zlib_header (zlib_stored s)"
    unfolding zlib_stored_def zlib_header_def by (simp add: byte_def) code_simp
  show ?thesis
    unfolding zlib_read_def drop blocks
    using header big_endian_be32 [OF adler32_bound] by (simp add: last)
qed

section \<open>The link\<close>

definition qCompress :: "string \<Rightarrow> string" where
  "qCompress s = be32 (length s) @ zlib_stored s"

definition vpn_link :: "string \<Rightarrow> string" where
  "vpn_link s = ''vpn://'' @ unpad (url_encode (qCompress s))"

lemma raw_decode_unpad: "raw_url_decode (unpad (url_encode d)) = Some d"
proof -
  have g: "list_all graphic (unpad (url_encode d))"
    using url64.enc_graphic [of d] by (auto simp: unpad_def url_encode_def list_all_iff)
  have "dec_quads url_val False (unpad (enc_bytes url_char d)) = Some d"
    unfolding unpad_def
  proof (induction d rule: induct_list3)
    case (One a)
    then show ?case by (simp add: url_val_char url64.byte_six url64.byte_join quad1_def)
  next
    case (Two a b)
    then show ?case by (simp add: url_val_char url64.byte_six url64.byte_join quad2_def)
  next
    case (More a b c s)
    then show ?case by (simp add: url_val_char url64.byte_six url64.byte_join quad3_def)
  qed simp
  then show ?thesis using g by (simp add: raw_url_decode_def no_newlines_graphic url_encode_def)
qed

lemma dropWhile_stop: "\<not> P (y ! 0) \<and> y \<noteq> [] \<Longrightarrow> dropWhile P (x @ y) = dropWhile P x @ y"
  by (induction x) (auto simp: neq_Nil_conv)

text \<open>Line breaks and blanks put into the link by a messenger change nothing.\<close>

lemma vpn_payload_wrapped:
  assumes "list_all (\<lambda>c. graphic c \<or> mime_blank c) w"
    and "filter (\<lambda>c. \<not> mime_blank c) w = unpad (url_encode d)"
  shows "vpn_payload (''vpn://'' @ w) = unpad (url_encode d)"
proof -
  have b: "(\<lambda>c. c \<notin> {CHR '' '', CHR 0x0A, CHR 0x0D, CHR 0x09}) = (\<lambda>c. \<not> mime_blank c)"
    by (rule ext) (auto simp: mime_blank_def char_eq_code code_def)
  have v: "list_all (\<lambda>c. graphic c \<or> mime_blank c) ''vpn://''" by code_simp
  have ascii: "list_all (\<lambda>c. code c < 128) (''vpn://'' @ w)"
  proof -
    have "list_all (\<lambda>c. graphic c \<or> mime_blank c) (''vpn://'' @ w)"
      unfolding list_all_append using assms(1) v by (rule conjI [rotated])
    moreover have "code c < 128" if "graphic c \<or> mime_blank c" for c using that by (auto simp: graphic_def mime_blank_def)
    ultimately show ?thesis by (rule list.pred_mono_strong)
  qed
  have tp: "trim_prefix (''vpn://'' @ w) bom = ''vpn://'' @ w"
    by (simp add: trim_prefix_def has_prefix_def bom_def)
  have "dropWhile ascii_space (''vpn://'' @ w) = ''vpn://'' @ w" by (simp add: ascii_space_def code_def)
  then have ts: "trim_space (''vpn://'' @ w) = rev (dropWhile ascii_space (rev (''vpn://'' @ w)))"
    by (simp only: trim_space_ascii [OF ascii])
  obtain u where u: "trim_space (''vpn://'' @ w) = ''vpn://'' @ u" "filter (\<lambda>c. \<not> mime_blank c) u = filter (\<lambda>c. \<not> mime_blank c) w"
  proof -
    define u where "u = rev (dropWhile ascii_space (rev w))"
    have "dropWhile ascii_space (rev w @ rev ''vpn://'') = dropWhile ascii_space (rev w) @ rev ''vpn://''"
      by (rule dropWhile_stop) code_simp
    then have "trim_space (''vpn://'' @ w) = ''vpn://'' @ u" unfolding ts u_def by simp
    moreover have "filter (\<lambda>c. \<not> mime_blank c) u = filter (\<lambda>c. \<not> mime_blank c) w"
    proof -
      have "filter (\<lambda>c. \<not> mime_blank c) (dropWhile ascii_space x) = filter (\<lambda>c. \<not> mime_blank c) x"
        if "list_all (\<lambda>c. graphic c \<or> mime_blank c) x" for x
        using that by (induction x) (auto simp: graphic_def ascii_space_def)
      from this [of "rev w"] assms(1) show ?thesis by (simp add: u_def list_all_iff flip: rev_filter)
    qed
    ultimately show ?thesis using that by blast
  qed
  have nopad: "trim_right_set (unpad x) ''='' = unpad x" for x
  proof -
    have "dropWhile (\<lambda>c. c \<in> set ''='') y = y" if "CHR ''='' \<notin> set y" for y
      using that by (cases y) auto
    from this [of "rev (unpad x)"] show ?thesis by (simp add: trim_right_set_def unpad_def)
  qed
  show ?thesis
    unfolding vpn_payload_def tp u(1) b using u(2) assms(2) by (simp add: nopad)
qed



end
