(* ===== verification/Database.thy ===== *)
theory Database
  imports Core_Lifecycle
begin

text \<open>
  The tables of settings (\<open>v2/db/inhive_db.go\<close>): opening a database with retries, and reading, writing,
  deleting and listing the rows of a table. The key-value store keeps bytes under bytes; the store's own
  answers and the gob coding belong to libraries: \<open>attempt\<close> is what opening returns, \<open>refuses\<close> the error of a
  write, \<open>gob\<close> the coding. At the end: the map of rows that the life cycle of the core reads and writes is what
  these tables implement.
\<close>

section \<open>Opening\<close>

datatype opened = Opened bool | NotOpened "string option"

text \<open>Attempt \<open>i\<close> with \<open>n\<close> left. A panic of the library is recovered, and the call then returns neither a
  database nor an error.\<close>

fun open_attempts :: "(nat \<Rightarrow> bool \<Rightarrow> unit outcome) \<Rightarrow> bool \<Rightarrow> nat \<Rightarrow> nat \<Rightarrow> string option \<Rightarrow> opened" where
  "open_attempts attempt read_only i 0 e = NotOpened e"
| "open_attempts attempt read_only i (Suc n) e =
     (let ro = (read_only \<and> i < 80) in
      case attempt i ro of
        Done _ \<Rightarrow> Opened ro
      | Fails m \<Rightarrow> open_attempts attempt read_only (Suc i) n (Some m)
      | Panics m \<Rightarrow> NotOpened None)"

definition getDB :: "(nat \<Rightarrow> bool \<Rightarrow> unit outcome) \<Rightarrow> bool \<Rightarrow> bool \<Rightarrow> opened" where
  "getDB attempt missing read_only = open_attempts attempt (read_only \<and> \<not> missing) 0 100 None"

text \<open>What a table does with the result: only a missing database is an error.\<close>

definition with_db :: "opened \<Rightarrow> 'a outcome \<Rightarrow> 'a outcome" where
  "with_db d r =
     (case d of
        Opened _ \<Rightarrow> r
      | NotOpened e \<Rightarrow> Fails (''failed to open database, error: '' @ (case e of None \<Rightarrow> ''%!w(<nil>)'' | Some m \<Rightarrow> m)))"

section \<open>Tables\<close>

text \<open>\<open>gb_row\<close> and \<open>gb_read\<close> code a row, \<open>gb_key\<close> an id; \<open>gb_id\<close> is the field \<open>Id\<close> of a row.\<close>

record ('a, 'k) gob =
  gb_id :: "'a \<Rightarrow> 'k"
  gb_key :: "'k \<Rightarrow> string outcome"
  gb_row :: "'a \<Rightarrow> string outcome"
  gb_read :: "string \<Rightarrow> 'a outcome"

type_synonym store = "string \<rightharpoonup> string"

definition getIdBytes :: "('a, 'k) gob \<Rightarrow> 'k \<Rightarrow> string" where
  "getIdBytes g k = (case gb_key g k of Done b \<Rightarrow> b | _ \<Rightarrow> '''')"

fun update_rows ::
  "('a, 'k) gob \<Rightarrow> (string \<Rightarrow> string \<Rightarrow> string option) \<Rightarrow> 'a list \<Rightarrow> store \<Rightarrow> unit outcome \<times> store" where
  "update_rows g refuses [] m = (Done (), m)"
| "update_rows g refuses (x # xs) m =
     (case gb_row g x of
        Fails e \<Rightarrow> (Fails e, m)
      | Panics e \<Rightarrow> (Panics e, m)
      | Done b \<Rightarrow>
          let k = getIdBytes g (gb_id g x) in
          case refuses k b of
            Some e \<Rightarrow> (Fails e, m)
          | None \<Rightarrow> update_rows g refuses xs (m(k \<mapsto> b)))"

definition UpdateInsert ::
  "('a, 'k) gob \<Rightarrow> opened \<Rightarrow> (string \<Rightarrow> string \<Rightarrow> string option) \<Rightarrow> 'a list \<Rightarrow> store \<Rightarrow> unit outcome \<times> store" where
  "UpdateInsert g d refuses xs m =
     (case d of Opened _ \<Rightarrow> update_rows g refuses xs m | NotOpened _ \<Rightarrow> (with_db d (Done ()), m))"

fun delete_rows :: "('a, 'k) gob \<Rightarrow> (string \<Rightarrow> string option) \<Rightarrow> 'k list \<Rightarrow> store \<Rightarrow> unit outcome \<times> store" where
  "delete_rows g refuses [] m = (Done (), m)"
| "delete_rows g refuses (k # ks) m =
     (case refuses (getIdBytes g k) of
        Some e \<Rightarrow> (Fails e, m)
      | None \<Rightarrow> delete_rows g refuses ks (m(getIdBytes g k := None)))"

definition Delete :: "('a, 'k) gob \<Rightarrow> opened \<Rightarrow> (string \<Rightarrow> string option) \<Rightarrow> 'k list \<Rightarrow> store \<Rightarrow> unit outcome \<times> store" where
  "Delete g d refuses ks m =
     (case d of Opened _ \<Rightarrow> delete_rows g refuses ks m | NotOpened _ \<Rightarrow> (with_db d (Done ()), m))"

text \<open>A key that is not there reads as no bytes at all, which the decoder is then given.\<close>

definition Get :: "('a, 'k) gob \<Rightarrow> opened \<Rightarrow> string option \<Rightarrow> 'k \<Rightarrow> store \<Rightarrow> 'a outcome" where
  "Get g d failed k m =
     with_db d (case failed of
       Some e \<Rightarrow> Fails e
     | None \<Rightarrow> gb_read g (case m (getIdBytes g k) of None \<Rightarrow> '''' | Some b \<Rightarrow> b))"

text \<open>\<open>keys\<close> is what the iterator of the store goes through.\<close>

fun read_rows :: "('a, 'k) gob \<Rightarrow> string list \<Rightarrow> 'a list outcome" where
  "read_rows g [] = Done []"
| "read_rows g (b # bs) = and_then (gb_read g b) (\<lambda>x. and_then (read_rows g bs) (\<lambda>xs. Done (x # xs)))"

definition All :: "('a, 'k) gob \<Rightarrow> opened \<Rightarrow> string list outcome \<Rightarrow> store \<Rightarrow> 'a list outcome" where
  "All g d keys m = with_db d (and_then keys (\<lambda>ks. read_rows g (List.map_filter m ks)))"

section \<open>Facts about opening\<close>

lemma open_attempts_fail:
  "open_attempts attempt ro i n e = NotOpened e' \<Longrightarrow>
     (\<forall>j < n. \<exists>m. attempt (i + j) (ro \<and> i + j < 80) = Fails m) \<or>
     (\<exists>j < n. \<exists>m. attempt (i + j) (ro \<and> i + j < 80) = Panics m)"
proof (induction n arbitrary: i e)
  case (Suc n)
  show ?case
  proof (cases "attempt i (ro \<and> i < 80)")
    case (Done x)
    with Suc.prems show ?thesis by (simp add: Let_def)
  next
    case (Panics m)
    then show ?thesis by (intro disjI2 exI [of _ 0]) simp
  next
    case (Fails m)
    with Suc.prems have "open_attempts attempt ro (Suc i) n (Some m) = NotOpened e'" by (simp add: Let_def)
    from Suc.IH [OF this] consider
        "\<forall>j < n. \<exists>m. attempt (Suc i + j) (ro \<and> Suc i + j < 80) = Fails m"
      | j m' where "j < n" "attempt (Suc i + j) (ro \<and> Suc i + j < 80) = Panics m'" by blast
    then show ?thesis
    proof cases
      case 1
      with Fails show ?thesis by (auto simp: less_Suc_eq_0_disj)
    next
      case 2
      then show ?thesis by (intro disjI2 exI [of _ "Suc j"]) auto
    qed
  qed
qed simp

lemma open_attempts_late:
  assumes "\<And>j. i \<le> j \<Longrightarrow> j < i + k \<Longrightarrow> \<exists>m. attempt j (ro \<and> j < 80) = Fails m" and "k < n"
    and "attempt (i + k) (ro \<and> i + k < 80) = Done u"
  shows "open_attempts attempt ro i n e = Opened (ro \<and> i + k < 80)"
  using assms
proof (induction k arbitrary: i n e)
  case 0
  then show ?case by (cases n) (simp_all add: Let_def)
next
  case (Suc k)
  from Suc.prems(2) obtain n' where n: "n = Suc n'" by (cases n) auto
  from Suc.prems(1) [of i] obtain m where m: "attempt i (ro \<and> i < 80) = Fails m" by auto
  have "open_attempts attempt ro (Suc i) n' (Some m) = Opened (ro \<and> Suc i + k < 80)"
    by (rule Suc.IH) (use Suc.prems n in auto)
  with m n show ?case by (simp add: Let_def)
qed

text \<open>A store that refuses every read-only opening is opened for writing at the eighty-first attempt.\<close>

lemma read_falls_back:
  assumes "\<And>i. attempt i True = Fails ''locked''" and "attempt 80 False = Done ()"
  shows "getDB attempt False True = Opened False"
  using open_attempts_late [of 0 80 attempt True 100 "()" None] assms by (simp add: getDB_def)

section \<open>The rows the core reads and writes\<close>

text \<open>A gob coding of rows (id, text): what is coded is decoded, ids do not collide, no bytes are the end of
  the file.\<close>

definition row_gob :: "(string \<times> string, string) gob \<Rightarrow> bool" where
  "row_gob g \<longleftrightarrow>
     gb_id g = fst \<and> (\<forall>k. \<exists>b. gb_key g k = Done b \<and> b \<noteq> '''') \<and> inj (gb_key g) \<and>
     (\<forall>x. \<exists>b. gb_row g x = Done b \<and> gb_read g b = Done x) \<and> gb_read g '''' = Fails ''EOF''"

text \<open>The rows a store holds, and that a store holds under each id a row of that id.\<close>

definition rows_of :: "(string \<times> string, string) gob \<Rightarrow> store \<Rightarrow> params" where
  "rows_of g m =
     (\<lambda>k. case m (getIdBytes g k) of
            None \<Rightarrow> None
          | Some b \<Rightarrow> (case gb_read g b of Done (_, v) \<Rightarrow> Some v | _ \<Rightarrow> None))"

definition row_store :: "(string \<times> string, string) gob \<Rightarrow> store \<Rightarrow> bool" where
  "row_store g m \<longleftrightarrow> (\<forall>k b. m (getIdBytes g k) = Some b \<longrightarrow> (\<exists>v. gb_read g b = Done (k, v)))"

text \<open>The number of rows written before the store refuses one.\<close>

definition accepted_rows ::
  "(string \<times> string, string) gob \<Rightarrow> (string \<Rightarrow> string \<Rightarrow> string option) \<Rightarrow> (string \<times> string) list \<Rightarrow> nat" where
  "accepted_rows g refuses rows =
     length (takeWhile (\<lambda>x. case gb_row g x of Done b \<Rightarrow> refuses (getIdBytes g (gb_id g x)) b = None | _ \<Rightarrow> False) rows)"

definition read_text :: "(string \<times> string, string) gob \<Rightarrow> opened \<Rightarrow> string \<Rightarrow> store \<Rightarrow> string outcome" where
  "read_text g d k m = and_then (Get g d None k m) (\<lambda>x. Done (snd x))"

lemma row_gob_key: "row_gob g \<Longrightarrow> \<exists>b. gb_key g k = Done b"
  by (auto simp: row_gob_def)

lemma row_gob_row: "row_gob g \<Longrightarrow> \<exists>b. gb_row g x = Done b \<and> gb_read g b = Done x"
  unfolding row_gob_def by blast

lemma key_inj:
  assumes g: "row_gob g"
  shows "getIdBytes g k = getIdBytes g k' \<longleftrightarrow> k = k'"
proof -
  from row_gob_key [OF g, of k] row_gob_key [OF g, of k'] obtain b b'
    where b: "gb_key g k = Done b" "gb_key g k' = Done b'" by blast
  from g have "inj (gb_key g)" by (simp add: row_gob_def)
  then have "gb_key g k = gb_key g k' \<longleftrightarrow> k = k'" by (rule inj_eq)
  with b show ?thesis by (auto simp: getIdBytes_def)
qed

lemma row_put:
  assumes g: "row_gob g" and m: "row_store g m" and b: "gb_row g (k, v) = Done b"
  shows "row_store g (m(getIdBytes g k \<mapsto> b))" "rows_of g (m(getIdBytes g k \<mapsto> b)) = (rows_of g m)(k \<mapsto> v)"
proof -
  from row_gob_row [OF g, of "(k, v)"] b have "gb_read g b = Done (k, v)" by auto
  with m show "row_store g (m(getIdBytes g k \<mapsto> b))" "rows_of g (m(getIdBytes g k \<mapsto> b)) = (rows_of g m)(k \<mapsto> v)"
    by (auto simp: row_store_def rows_of_def key_inj [OF g])
qed

lemma update_rows_rows:
  assumes g: "row_gob g"
  shows "row_store g m \<Longrightarrow>
    rows_of g (snd (update_rows g refuses rows m)) = update_insert (accepted_rows g refuses rows) rows (rows_of g m) \<and>
    row_store g (snd (update_rows g refuses rows m))"
proof (induction rows arbitrary: m)
  case Nil
  then show ?case by (simp add: update_insert_def)
next
  case (Cons x rows)
  obtain k v where x: "x = (k, v)" by (cases x)
  from row_gob_row [OF g, of "(k, v)"] obtain b where b: "gb_row g (k, v) = Done b" by blast
  from g have id: "gb_id g (k, v) = k" by (simp add: row_gob_def)
  show ?case
  proof (cases "refuses (getIdBytes g k) b")
    case None
    then have "update_rows g refuses (x # rows) m = update_rows g refuses rows (m(getIdBytes g k \<mapsto> b))"
      "accepted_rows g refuses (x # rows) = Suc (accepted_rows g refuses rows)"
      by (simp_all add: x b id accepted_rows_def)
    moreover have "update_insert (Suc n) (x # rows) db = update_insert n rows (db(k \<mapsto> v))" for n db
      by (simp add: update_insert_def x)
    ultimately show ?thesis
      using Cons.IH [OF row_put(1) [OF g Cons.prems b]] row_put(2) [OF g Cons.prems b] by (simp only:)
  next
    case (Some e)
    with Cons.prems show ?thesis by (simp add: x b id accepted_rows_def update_insert_def)
  qed
qed

lemma read_text_stored:
  assumes g: "row_gob g" and m: "row_store g m"
  shows "read_text g (Opened ro) k m = stored None (rows_of g m) k"
proof (cases "m (getIdBytes g k)")
  case None
  with g show ?thesis by (simp add: read_text_def Get_def with_db_def stored_def rows_of_def row_gob_def and_then_def)
next
  case (Some b)
  with m obtain v where "gb_read g b = Done (k, v)" by (auto simp: row_store_def)
  with Some show ?thesis by (simp add: read_text_def Get_def with_db_def stored_def rows_of_def and_then_def)
qed

text \<open>C15: the tables implement the map of rows of the core's life cycle: an \<open>UpdateInsert\<close> of rows is
  \<open>update_insert\<close> of as many rows as the store accepts, and a read is the read of the map, with the error of the
  opening when there is no database.\<close>

theorem tables_implement_rows:
  assumes "row_gob g" and "row_store g m"
  shows "rows_of g (snd (UpdateInsert g d refuses rows m)) =
      update_insert (case d of Opened _ \<Rightarrow> accepted_rows g refuses rows | NotOpened _ \<Rightarrow> 0) rows (rows_of g m) \<and>
    row_store g (snd (UpdateInsert g d refuses rows m)) \<and>
    (\<exists>e. read_text g d k m = stored (case d of Opened _ \<Rightarrow> None | NotOpened _ \<Rightarrow> Some e) (rows_of g m) k)"
proof (cases d)
  case (Opened ro)
  with update_rows_rows [OF assms(1,2), of refuses rows] read_text_stored [OF assms] show ?thesis
    by (simp add: UpdateInsert_def)
next
  case (NotOpened e)
  with assms(2) show ?thesis
    by (auto simp: UpdateInsert_def update_insert_def read_text_def Get_def with_db_def and_then_def stored_def)
qed

section \<open>A coding\<close>

fun pair_bytes :: "string \<Rightarrow> string \<Rightarrow> string" where
  "pair_bytes [] v = CHR ''.'' # v"
| "pair_bytes (c # k) v = CHR ''x'' # c # pair_bytes k v"

fun read_pair :: "string \<Rightarrow> (string \<times> string) outcome" where
  "read_pair [] = Fails ''EOF''"
| "read_pair (a # s) =
     (if a = CHR ''.'' then Done ('''', s)
      else case s of [] \<Rightarrow> Fails ''EOF'' | c # t \<Rightarrow> and_then (read_pair t) (\<lambda>(k, v). Done (c # k, v)))"

definition pair_gob :: "(string \<times> string, string) gob" where
  "pair_gob = \<lparr>gb_id = fst, gb_key = (\<lambda>k. Done (CHR ''k'' # k)), gb_row = (\<lambda>(k, v). Done (pair_bytes k v)), gb_read = read_pair\<rparr>"

lemma read_pair_bytes: "read_pair (pair_bytes k v) = Done (k, v)"
  by (induction k) (simp_all add: and_then_def)

lemma pair_gob: "row_gob pair_gob"
  by (auto simp: row_gob_def pair_gob_def read_pair_bytes inj_def)

theorem tables_implement_rows_witness:
  "rows_of pair_gob (snd (UpdateInsert pair_gob (Opened False) (\<lambda>_ _. None) [(''lastStartRequestName'', ''home'')] Map.empty))
     ''lastStartRequestName'' = Some ''home''"
proof -
  have "row_store pair_gob Map.empty" by (simp add: row_store_def)
  from tables_implement_rows [OF pair_gob this, of "Opened False" "\<lambda>_ _. None" "[(''lastStartRequestName'', ''home'')]"]
  show ?thesis by (simp add: accepted_rows_def pair_gob_def update_insert_def)
qed

end
