(* ===== verification/Grpc_Server.thy ===== *)
theory Grpc_Server
  imports Core_Lifecycle Core_Log Go_Strconv
begin

text \<open>
  The servers through which the app speaks to the core (\<open>hcore/grpc_server.go\<close>, \<open>setup.go\<close>): one slot per
  mode, filled and cleared under a lock, and for every server a goroutine, not under that lock, that hands the
  listener to whatever server the slot then holds. The operating system's answers and the coding of keys are an
  environment; the grpc library is the pair of effects \<open>grpc_lib\<close>, with its documented behaviour as a named
  hypothesis. Then \<open>Setup\<close>, which also sets the paths, the files, the log factory and the stored settings.
\<close>

section \<open>Slots and listeners\<close>

datatype setup_mode = MODE_OLD | GRPC_NORMAL | GRPC_BACKGROUND | GRPC_NORMAL_INSECURE | GRPC_BACKGROUND_INSECURE

text \<open>A listener waits for its goroutine, is served, or was given to nobody and is never closed.\<close>

datatype listener = Waiting setup_mode | Served nat | Orphan

record servers =
  gs_slots :: "setup_mode \<rightharpoonup> nat"
  gs_next :: nat
  gs_stopped :: "nat set"
  gs_listening :: "(string \<times> listener) list"
  gs_cert :: "(string \<times> string) option"
  gs_db :: params

text \<open>\<open>gk_serves stopped\<close>: is a listener served by a server that was, or was not, stopped before;
  \<open>gk_stop\<close>: what stopping a server leaves of the listeners.\<close>

record grpc_lib =
  gk_serves :: "bool \<Rightarrow> bool"
  gk_stop :: "nat \<Rightarrow> (string \<times> listener) list \<Rightarrow> (string \<times> listener) list"

text \<open>The addresses that listen already are an argument of the operating system's answers.\<close>

record grpc_env =
  ge_in_use :: "string list \<Rightarrow> nat \<Rightarrow> bool"
  ge_listen :: "string list \<Rightarrow> string \<Rightarrow> string option"
  ge_open_err :: "string option"
  ge_rows :: nat
  ge_generate :: "(string \<times> string) outcome"
  ge_pair :: "string \<Rightarrow> string \<Rightarrow> string option"

definition addresses :: "servers \<Rightarrow> string list" where
  "addresses s = map fst (gs_listening s)"

definition insecure :: "setup_mode \<Rightarrow> bool" where
  "insecure m \<longleftrightarrow> m = GRPC_BACKGROUND_INSECURE \<or> m = GRPC_NORMAL_INSECURE"

definition listen_port :: "string \<Rightarrow> string" where
  "listen_port a = split_byte CHR '':'' a ! 1"

text \<open>Certificate and key of a server with mutual TLS: from the table, or generated and stored there.\<close>

definition server_keys :: "grpc_env \<Rightarrow> servers \<Rightarrow> (string \<times> string) outcome \<times> servers" where
  "server_keys E s =
     (case (stored (ge_open_err E) (gs_db s) ''grpc_server_private_key'',
            stored (ge_open_err E) (gs_db s) ''grpc_server_public_key'') of
        (Done k, Done c) \<Rightarrow> (Done (c, k), s\<lparr>gs_cert := Some (c, k)\<rparr>)
      | _ \<Rightarrow>
          (case ge_generate E of
             Done (c, k) \<Rightarrow>
               (Done (c, k), s\<lparr>gs_cert := Some (c, k),
                  gs_db := update_insert (ge_rows E)
                    [(''grpc_server_public_key'', c), (''grpc_server_private_key'', k)] (gs_db s)\<rparr>)
           | Fails e \<Rightarrow> (Fails e, s\<lparr>gs_cert := None\<rparr>)
           | Panics e \<Rightarrow> (Panics e, s)))"

definition new_server :: "setup_mode \<Rightarrow> servers \<Rightarrow> servers" where
  "new_server m s = s\<lparr>gs_slots := (gs_slots s)(m \<mapsto> gs_next s), gs_next := Suc (gs_next s)\<rparr>"

text \<open>With the server made: the service is registered and the address bound.\<close>

definition bind_server :: "grpc_env \<Rightarrow> string \<Rightarrow> setup_mode \<Rightarrow> servers \<Rightarrow> nat outcome \<times> servers" where
  "bind_server E a m s0 =
     (let s = new_server m s0 in
      case ge_listen E (addresses s) a of
        Some e \<Rightarrow> (Fails e, s)
      | None \<Rightarrow> (Done (gs_next s0), s\<lparr>gs_listening := gs_listening s @ [(a, Waiting m)]\<rparr>))"

definition StartGrpcServerByMode :: "grpc_env \<Rightarrow> string \<Rightarrow> setup_mode \<Rightarrow> servers \<Rightarrow> nat outcome \<times> servers" where
  "StartGrpcServerByMode E a m s =
     (if \<not> contains a '':'' then (Fails (''invalid listen address (no port): '' @ a), s)
      else case parse_uint 16 (listen_port a) of
        None \<Rightarrow> (Fails (''failed to convert port '' @ listen_port a @ '' to uint16''), s)
      | Some p \<Rightarrow>
          if ge_in_use E (addresses s) p then (Fails (''port '' @ listen_port a @ '' is already in use''), s)
          else case gs_slots s m of
            Some n \<Rightarrow> (Done n, s)
          | None \<Rightarrow>
              if insecure m then bind_server E a m s
              else case server_keys E s of
                (Done (c, k), s1) \<Rightarrow> (case ge_pair E c k of Some e \<Rightarrow> (Fails e, s1) | None \<Rightarrow> bind_server E a m s1)
              | (Fails e, s1) \<Rightarrow> (Fails e, s1)
              | (Panics e, s1) \<Rightarrow> (Panics e, s1))"

text \<open>The goroutine of the \<open>i\<close>th listener: it reads the slot when it runs. Without a server there it panics, which
  is recovered, and the listener stays.\<close>

definition serve :: "grpc_lib \<Rightarrow> nat \<Rightarrow> servers \<Rightarrow> servers" where
  "serve L i s =
     (case gs_listening s ! i of
        (a, Waiting m) \<Rightarrow>
          (case gs_slots s m of
             None \<Rightarrow> s\<lparr>gs_listening := (gs_listening s)[i := (a, Orphan)]\<rparr>
           | Some n \<Rightarrow>
               if gk_serves L (n \<in> gs_stopped s) then s\<lparr>gs_listening := (gs_listening s)[i := (a, Served n)]\<rparr>
               else s\<lparr>gs_listening := take i (gs_listening s) @ drop (Suc i) (gs_listening s)\<rparr>)
      | _ \<Rightarrow> s)"

definition closeGrpcServerLocked :: "grpc_lib \<Rightarrow> setup_mode \<Rightarrow> servers \<Rightarrow> servers" where
  "closeGrpcServerLocked L m s =
     (case gs_slots s m of
        None \<Rightarrow> s
      | Some n \<Rightarrow> s\<lparr>gs_stopped := insert n (gs_stopped s), gs_listening := gk_stop L n (gs_listening s),
                    gs_slots := (gs_slots s)(m := None)\<rparr>)"

definition CloseGrpcServer :: "grpc_lib \<Rightarrow> setup_mode \<Rightarrow> servers \<Rightarrow> servers" where
  "CloseGrpcServer L m s = closeGrpcServerLocked L m s"

definition GetGrpcServerPublicKey :: "servers \<Rightarrow> string option" where
  "GetGrpcServerPublicKey s = map_option fst (gs_cert s)"

text \<open>\<open>pem\<close> gives type and bytes of a block, \<open>cert\<close> and \<open>pkix\<close> what the two parsers make of the bytes.\<close>

definition AddGrpcClientPublicKey ::
  "(string \<Rightarrow> (string \<times> string) option) \<Rightarrow> (string \<Rightarrow> 'c option) \<Rightarrow> (string \<Rightarrow> 'c result) \<Rightarrow> string \<Rightarrow> 'c list \<Rightarrow>
     string option \<times> 'c list" where
  "AddGrpcClientPublicKey pem cert pkix key pool =
     (case pem key of
        None \<Rightarrow> (Some ''failed to decode client public key'', pool)
      | Some (ty, bytes) \<Rightarrow>
          if ty \<noteq> ''PUBLIC KEY'' then (Some ''failed to decode client public key'', pool)
          else case cert bytes of
            Some c \<Rightarrow> (None, pool @ [c])
          | None \<Rightarrow> (case pkix bytes of
               Inl e \<Rightarrow> (Some ''failed to parse client public key'', pool)
             | Inr c \<Rightarrow> (None, pool @ [c])))"

section \<open>Files of the process\<close>

text \<open>\<open>initCrashOutput\<close>: a crash of the last run is kept as \<open>.old\<close>, the file is emptied.\<close>

definition initCrashOutput :: "os_calls \<Rightarrow> string \<Rightarrow> (string \<rightharpoonup> string) \<Rightarrow> (string \<rightharpoonup> string)" where
  "initCrashOutput os dir disk =
     (let path = dir @ ''/crash.log'';
          crashed = (os_stat os \<and> (case disk path of None \<Rightarrow> False | Some c \<Rightarrow> c \<noteq> ''''));
          d1 = (if crashed \<and> os_rename os then disk(path @ ''.old'' := disk path, path := None) else disk)
      in if os_open os then d1(path \<mapsto> '''') else d1)"

definition heartbeatLogMaxBytes :: nat where
  "heartbeatLogMaxBytes = 1048576"

text \<open>\<open>heartbeatLoop\<close>: one rotation at its start, then a first line and a line per minute.\<close>

definition heartbeatLoop :: "nat \<Rightarrow> os_calls \<Rightarrow> string \<Rightarrow> string \<Rightarrow> string list \<Rightarrow> (string \<rightharpoonup> string) \<Rightarrow> (string \<rightharpoonup> string)" where
  "heartbeatLoop mx os dir first minutes disk =
     (let path = dir @ ''/data/heartbeat.log'';
          big = (os_stat os \<and> (case disk path of None \<Rightarrow> False | Some c \<Rightarrow> length c > mx));
          d1 = (if big \<and> os_rename os then disk(path @ ''.1'' := disk path, path := None) else disk);
          old = (case d1 path of None \<Rightarrow> '''' | Some c \<Rightarrow> c)
      in if os_open os then d1(path \<mapsto> old @ first @ concat minutes) else d1)"

section \<open>Setup\<close>

record setup_request =
  kq_working :: string
  kq_temp :: string
  kq_status_port :: int
  kq_listen :: string
  kq_debug :: bool
  kq_mode :: setup_mode

record 'r core_setup =
  ku_servers :: servers
  ku_platform :: bool
  ku_working :: string
  ku_temp :: string
  ku_log :: core_log
  ku_crash :: "string option"
  ku_heartbeat :: "string option"
  ku_cwd :: string
  ku_factory :: "nat option"
  ku_closed_factories :: "nat set"
  ku_next_factory :: nat
  ku_status_port :: int
  ku_settings :: "'r core_settings"

text \<open>\<open>sn_row_text\<close>: the stored settings are a text; \<open>sn_factory\<close>: the error of the log factory.\<close>

record 'r setup_env =
  sn_grpc :: grpc_env
  sn_lib :: grpc_lib
  sn_json :: "'r settings_json"
  sn_log_max :: nat
  sn_os :: os_calls
  sn_ios :: bool
  sn_windows :: bool
  sn_factory :: "string option"
  sn_row_text :: bool

text \<open>Paths, the log file, the crash file and the heartbeat, the last two once per process.\<close>

definition setup_paths :: "'r setup_env \<Rightarrow> bool \<Rightarrow> setup_request \<Rightarrow> 'r core_setup \<Rightarrow> 'r core_setup" where
  "setup_paths E platform q s =
     s\<lparr>ku_platform := platform, ku_settings := (ku_settings s)\<lparr>cs_debug := kq_debug q\<rparr>,
       ku_working := kq_working q, ku_temp := kq_temp q,
       ku_log := initCoreLog (sn_log_max E) (sn_os E) (kq_working q @ ''/data'') (ku_log s),
       ku_crash := (case ku_crash s of None \<Rightarrow> Some (kq_working q @ ''/data'') | Some d \<Rightarrow> Some d),
       ku_heartbeat := (if sn_ios E then ku_heartbeat s
                        else case ku_heartbeat s of None \<Rightarrow> Some (kq_working q) | Some d \<Rightarrow> Some d),
       ku_cwd := (if sn_windows E then ku_cwd s else kq_working q)\<rparr>"

definition setup_factory :: "'r setup_env \<Rightarrow> 'r core_setup \<Rightarrow> string option \<times> 'r core_setup" where
  "setup_factory E s =
     (case sn_factory E of
        Some e \<Rightarrow> (Some (''create logger: '' @ e), s)
      | None \<Rightarrow>
          (None, s\<lparr>ku_closed_factories := ku_closed_factories s \<union> set_option (ku_factory s),
                   ku_factory := Some (ku_next_factory s), ku_next_factory := Suc (ku_next_factory s)\<rparr>))"

definition setup_server :: "'r setup_env \<Rightarrow> setup_request \<Rightarrow> 'r core_setup \<Rightarrow> unit outcome \<times> 'r core_setup" where
  "setup_server E q s =
     (if kq_mode q = MODE_OLD then (Done (), s\<lparr>ku_status_port := kq_status_port q\<rparr>)
      else let (r, sv) = StartGrpcServerByMode (sn_grpc E) (kq_listen q) (kq_mode q) (ku_servers s)
           in (and_then r (\<lambda>_. Done ()), s\<lparr>ku_servers := sv\<rparr>))"

text \<open>The stored settings, or the empty request; its error is only logged.\<close>

definition setup_settings :: "'r setup_env \<Rightarrow> 'r core_setup \<Rightarrow> unit outcome \<times> 'r core_setup" where
  "setup_settings E s =
     (let change = (\<lambda>req. (Done (), s\<lparr>ku_settings := snd (ChangeInhiveSettings (sn_json E) req False False (ku_settings s))\<rparr>))
      in case stored (ge_open_err (sn_grpc E)) (gs_db (ku_servers s)) ''InHiveSettingsJson'' of
           Done v \<Rightarrow> if sn_row_text E then change v else (Panics ''interface conversion'', s)
         | _ \<Rightarrow> change '''')"

text \<open>A panic is recovered and logged: the error that is returned is then none.\<close>

definition Setup :: "'r setup_env \<Rightarrow> bool \<Rightarrow> setup_request \<Rightarrow> 'r core_setup \<Rightarrow> string option \<times> 'r core_setup" where
  "Setup E platform q s =
     (let s0 = (if gs_slots (ku_servers s) (kq_mode q) \<noteq> None
                then s\<lparr>ku_servers := closeGrpcServerLocked (sn_lib E) (kq_mode q) (ku_servers s)\<rparr> else s)
      in case setup_factory E (setup_paths E platform q s0) of
           (Some e, s1) \<Rightarrow> (Some e, s1)
         | (None, s1) \<Rightarrow>
             (case setup_server E q s1 of
                (Fails e, s2) \<Rightarrow> (Some e, s2)
              | (Panics _, s2) \<Rightarrow> (None, s2)
              | (Done _, s2) \<Rightarrow> (None, snd (setup_settings E s2))))"

text \<open>The call of \<open>setup.go\<close>: failed or not, the message, and the error of the call.\<close>

definition nil_panic :: string where
  "nil_panic = ''CoreService.Setup panic: runtime error: invalid memory address or nil pointer dereference''"

definition CoreService_Setup ::
  "'r setup_env \<Rightarrow> setup_request \<Rightarrow> 'r core_setup \<Rightarrow> (bool \<times> string \<times> string option) \<times> 'r core_setup" where
  "CoreService_Setup E q s =
     (if gs_slots (ku_servers s) (kq_mode q) \<noteq> None then ((False, '''', None), s)
      else case Setup E False q s of
        (Some e, t) \<Rightarrow> ((True, e, Some e), t)
      | (None, t) \<Rightarrow> ((True, nil_panic, Some nil_panic), t))"

section \<open>Facts about the servers\<close>

text \<open>What the documentation of the library says of \<open>Serve\<close> and \<open>Stop\<close>.\<close>

definition grpc_documented :: "grpc_lib \<Rightarrow> bool" where
  "grpc_documented L \<longleftrightarrow>
     gk_serves L False \<and> \<not> gk_serves L True \<and> (\<forall>n ls. gk_stop L n ls = filter (\<lambda>(a, k). k \<noteq> Served n) ls)"

definition servers_init :: "params \<Rightarrow> servers" where
  "servers_init db =
     \<lparr>gs_slots = Map.empty, gs_next = 0, gs_stopped = {}, gs_listening = [], gs_cert = None, gs_db = db\<rparr>"

inductive grpc_step :: "grpc_lib \<Rightarrow> servers \<Rightarrow> servers \<Rightarrow> bool" for L where
  g_start: "StartGrpcServerByMode E a m s = (r, t) \<Longrightarrow> grpc_step L s t"
| g_serve: "i < length (gs_listening s) \<Longrightarrow> grpc_step L s (serve L i s)"
| g_close: "grpc_step L s (closeGrpcServerLocked L m s)"

definition servers_ok :: "servers \<Rightarrow> bool" where
  "servers_ok s \<longleftrightarrow>
     (\<forall>m n. gs_slots s m = Some n \<longrightarrow> n < gs_next s \<and> n \<notin> gs_stopped s) \<and> (\<forall>n \<in> gs_stopped s. n < gs_next s) \<and>
     inj_on (gs_slots s) (dom (gs_slots s)) \<and> (\<forall>a n. (a, Served n) \<in> set (gs_listening s) \<longrightarrow> n \<in> ran (gs_slots s))"

lemma server_keys_frame:
  "server_keys E s = (r, t) \<Longrightarrow>
     gs_slots t = gs_slots s \<and> gs_next t = gs_next s \<and> gs_stopped t = gs_stopped s \<and> gs_listening t = gs_listening s"
  by (auto simp: server_keys_def split: outcome.splits)

lemma bind_server_frame:
  "bind_server E a m s = (r, t) \<Longrightarrow>
     gs_slots t = (gs_slots s)(m \<mapsto> gs_next s) \<and> gs_next t = Suc (gs_next s) \<and> gs_stopped t = gs_stopped s \<and>
     gs_listening t = gs_listening s @ (if r = Done (gs_next s) then [(a, Waiting m)] else [])"
  by (auto simp: bind_server_def new_server_def Let_def split: option.splits)

text \<open>A start either leaves slots and listeners alone or fills its own empty slot.\<close>

lemma start_frame:
  assumes "StartGrpcServerByMode E a m s = (r, t)"
  obtains (kept) "gs_slots t = gs_slots s" "gs_next t = gs_next s" "gs_stopped t = gs_stopped s" "gs_listening t = gs_listening s"
  | (made) "gs_slots s m = None" "gs_slots t = (gs_slots s)(m \<mapsto> gs_next s)" "gs_next t = Suc (gs_next s)"
      "gs_stopped t = gs_stopped s"
      "gs_listening t = gs_listening s @ (if r = Done (gs_next s) then [(a, Waiting m)] else [])"
proof -
  consider "t = s" | "gs_slots s m = None" "bind_server E a m s = (r, t)"
    | r' where "server_keys E s = (r', t)"
    | s1 r1 where "gs_slots s m = None" "server_keys E s = (r1, s1)" "bind_server E a m s1 = (r, t)"
    using assms by (auto simp: StartGrpcServerByMode_def split: if_splits option.splits prod.splits outcome.splits)
  then show thesis
  proof cases
    case 1
    then show thesis by (intro kept) simp_all
  next
    case 2
    with bind_server_frame [OF 2(2)] show thesis by (intro made) simp_all
  next
    case (3 r')
    with server_keys_frame [OF 3] show thesis by (intro kept) simp_all
  next
    case (4 s1 r1)
    with server_keys_frame [OF 4(2)] bind_server_frame [OF 4(3)] show thesis by (intro made) simp_all
  qed
qed

lemma close_frame:
  assumes "grpc_documented L" and "gs_slots s m = Some n"
  shows "gs_slots (closeGrpcServerLocked L m s) = (gs_slots s)(m := None)"
    "gs_next (closeGrpcServerLocked L m s) = gs_next s"
    "gs_stopped (closeGrpcServerLocked L m s) = insert n (gs_stopped s)"
    "gs_listening (closeGrpcServerLocked L m s) = filter (\<lambda>(a, k). k \<noteq> Served n) (gs_listening s)"
  using assms by (simp_all add: closeGrpcServerLocked_def grpc_documented_def)

lemma serve_listening:
  assumes "i < length (gs_listening s)" and "(b, k) \<in> set (gs_listening (serve L i s))"
  shows "(b, k) \<in> set (gs_listening s) \<or> k = Orphan \<or> (\<exists>n. k = Served n \<and> n \<in> ran (gs_slots s))"
  using assms
  by (auto simp: serve_def ran_def split: prod.splits listener.splits option.splits if_splits
      dest!: set_update_subset_insert [THEN subsetD] in_set_takeD in_set_dropD)

lemma serve_frame:
  "gs_slots (serve L i s) = gs_slots s" "gs_next (serve L i s) = gs_next s" "gs_stopped (serve L i s) = gs_stopped s"
  by (auto simp: serve_def split: prod.splits listener.splits option.splits)

lemma close_ok:
  assumes L: "grpc_documented L" and inv: "servers_ok s"
  shows "servers_ok (closeGrpcServerLocked L m s)"
proof (cases "gs_slots s m")
  case None
  with inv show ?thesis by (simp add: closeGrpcServerLocked_def)
next
  case (Some n)
  note f = close_frame [OF L Some]
  have other: "gs_slots s m' \<noteq> Some n" if "m' \<noteq> m" for m'
    using inv Some that by (auto simp: servers_ok_def inj_on_def dom_def)
  have "n' \<in> ran ((gs_slots s)(m := None))" if "n' \<in> ran (gs_slots s)" "n' \<noteq> n" for n'
  proof -
    from that(1) obtain k where k: "gs_slots s k = Some n'" by (auto simp: ran_def)
    with that(2) Some have "((gs_slots s)(m := None)) k = Some n'" by auto
    then show ?thesis by (rule ranI)
  qed
  moreover have "inj_on ((gs_slots s)(m := None)) (dom ((gs_slots s)(m := None)))"
    using inv by (auto simp: servers_ok_def inj_on_def dom_def)
  ultimately show ?thesis
    using inv Some other by (auto simp: servers_ok_def f split: if_splits)
qed

lemma start_ok:
  assumes inv: "servers_ok s" and start: "StartGrpcServerByMode E a m s = (r, t)"
  shows "servers_ok t"
  using start
proof (cases rule: start_frame)
  case kept
  with inv show ?thesis by (simp add: servers_ok_def)
next
  case made
  have "gs_next s \<notin> ran (gs_slots s)" "gs_next s \<notin> gs_stopped s" using inv by (auto simp: servers_ok_def ran_def)
  moreover have "ran (gs_slots s) \<subseteq> ran (gs_slots t)" using made(1,2) by (simp add: ran_map_upd subset_insertI)
  moreover have "inj_on (gs_slots t) (dom (gs_slots t))"
    using inv made(1,2) calculation(1) by (auto simp: servers_ok_def inj_on_def dom_def ran_def)
  moreover have "\<And>b n. (b, Served n) \<in> set (gs_listening t) \<Longrightarrow> (b, Served n) \<in> set (gs_listening s)"
    using made(5) by (auto split: if_splits)
  moreover have "\<And>b n. (b, Served n) \<in> set (gs_listening t) \<Longrightarrow> n \<in> ran (gs_slots t)"
    using inv calculation(3,5) unfolding servers_ok_def by blast
  ultimately show ?thesis using inv made(2,3,4) by (auto simp: servers_ok_def less_Suc_eq)
qed

lemma serve_ok: "servers_ok s \<Longrightarrow> i < length (gs_listening s) \<Longrightarrow> servers_ok (serve L i s)"
  using serve_listening [of i s _ _ L] by (fastforce simp: servers_ok_def serve_frame)

lemma grpc_step_ok:
  assumes "grpc_documented L" and "servers_ok s" and "grpc_step L s t"
  shows "servers_ok t"
  using assms(3)
proof cases
  case (g_start E a m r)
  with assms(2) show ?thesis by (blast intro: start_ok)
next
  case (g_serve i)
  with assms(2) show ?thesis by (simp add: serve_ok)
next
  case (g_close m)
  with assms(1,2) show ?thesis by (simp add: close_ok)
qed

lemma servers_init_ok: "servers_ok (servers_init db)"
  by (simp add: servers_ok_def servers_init_def)

text \<open>A library as documented.\<close>

definition plain_grpc :: grpc_lib where
  "plain_grpc = \<lparr>gk_serves = (\<lambda>stopped. \<not> stopped), gk_stop = (\<lambda>n. filter (\<lambda>(a, k). k \<noteq> Served n))\<rparr>"

lemma plain_grpc: "grpc_documented plain_grpc"
  by (simp add: grpc_documented_def plain_grpc_def)

interpretation grpc: invariant_system "servers_init db" "grpc_step plain_grpc" servers_ok for db
  by unfold_locales (simp_all add: servers_init_ok grpc_step_ok [OF plain_grpc])

lemma grpc_reach_ok: "reach (grpc_step L) s t \<Longrightarrow> grpc_documented L \<Longrightarrow> servers_ok s \<Longrightarrow> servers_ok t"
  by (induction rule: reach.induct) (auto intro: grpc_step_ok)

text \<open>A listener that was given to nobody stays.\<close>

lemma orphan_step:
  assumes "grpc_documented L" and "grpc_step L s t" and "(a, Orphan) \<in> set (gs_listening s)"
  shows "(a, Orphan) \<in> set (gs_listening t)"
  using assms(2)
proof cases
  case (g_start E b m r)
  from g_start(1) assms(3) show ?thesis by (cases rule: start_frame) auto
next
  case (g_serve i)
  from assms(3) obtain j where j: "j < length (gs_listening s)" "gs_listening s ! j = (a, Orphan)"
    by (auto simp: in_set_conv_nth)
  show ?thesis
  proof (cases "j = i")
    case True
    with j g_serve assms(3) show ?thesis by (simp add: serve_def)
  next
    case False
    have upd: "(a, Orphan) \<in> set ((gs_listening s)[i := x])" for x
      using j False by (auto simp: in_set_conv_nth intro!: exI [of _ j])
    have "(a, Orphan) \<in> set (take i (gs_listening s) @ drop (Suc i) (gs_listening s))"
    proof (cases "j < i")
      case True
      with j have "take i (gs_listening s) ! j = (a, Orphan)" "j < length (take i (gs_listening s))" by simp_all
      then show ?thesis by (metis UnI1 nth_mem set_append)
    next
      case False
      with \<open>j \<noteq> i\<close> j have "drop (Suc i) (gs_listening s) ! (j - Suc i) = (a, Orphan)"
        "j - Suc i < length (drop (Suc i) (gs_listening s))" by simp_all
      then show ?thesis by (metis UnI2 nth_mem set_append)
    qed
    with upd g_serve assms(3) show ?thesis
      by (auto simp: serve_def split: prod.splits listener.splits option.splits)
  qed
next
  case (g_close m)
  with assms(1,3) show ?thesis by (cases "gs_slots s m") (auto simp: closeGrpcServerLocked_def grpc_documented_def)
qed

lemma orphan_stays:
  assumes "reach (grpc_step L) s t" and "grpc_documented L" and "(a, Orphan) \<in> set (gs_listening s)"
  shows "(a, Orphan) \<in> set (gs_listening t)"
  using assms by (induction rule: reach.induct) (auto intro: orphan_step)

lemma start_made:
  assumes "gs_slots s m = None" and "StartGrpcServerByMode E a m s = (Done n, t)"
  shows "gs_slots t = (gs_slots s)(m \<mapsto> gs_next s)" "gs_listening t = gs_listening s @ [(a, Waiting m)]"
proof -
  consider "bind_server E a m s = (Done n, t)"
    | s1 r where "server_keys E s = (r, s1)" "bind_server E a m s1 = (Done n, t)"
    using assms by (auto simp: StartGrpcServerByMode_def split: if_splits option.splits prod.splits outcome.splits)
  then have "gs_slots t = (gs_slots s)(m \<mapsto> gs_next s) \<and> gs_listening t = gs_listening s @ [(a, Waiting m)]"
    by cases (auto simp: bind_server_def new_server_def Let_def split: option.splits dest!: server_keys_frame)
  then show "gs_slots t = (gs_slots s)(m \<mapsto> gs_next s)" "gs_listening t = gs_listening s @ [(a, Waiting m)]" by simp_all
qed

lemma start_insecure:
  assumes "contains a '':''" "parse_uint 16 (listen_port a) = Some p" "\<not> ge_in_use E (addresses s) p"
    "gs_slots s m = None" "insecure m" "ge_listen E (addresses s) a = None"
  shows "StartGrpcServerByMode E a m s =
    (Done (gs_next s), (new_server m s)\<lparr>gs_listening := gs_listening s @ [(a, Waiting m)]\<rparr>)"
  using assms by (simp add: StartGrpcServerByMode_def bind_server_def new_server_def addresses_def Let_def)

section \<open>Properties\<close>

text \<open>C7: closing a mode's server frees its slot and all its listeners that are served, and a start of the mode on an
  address the system then grants makes a fresh server with that listener, never the one already started.\<close>

theorem close_then_start_binds:
  assumes "grpc_documented L" and "reach (grpc_step L) (servers_init db) s" and "gs_slots s m = Some n"
    and t: "t = closeGrpcServerLocked L m s" and "contains a '':''" "parse_uint 16 (listen_port a) = Some p"
    and "\<not> ge_in_use E (addresses t) p" and "ge_listen E (addresses t) a = None" and "insecure m"
  shows "(\<forall>b. (b, Served n) \<notin> set (gs_listening t)) \<and>
    (\<exists>u. StartGrpcServerByMode E a m t = (Done (gs_next s), u) \<and> gs_next s \<noteq> n \<and>
       gs_slots u m = Some (gs_next s) \<and> gs_listening u = gs_listening t @ [(a, Waiting m)])"
proof -
  have ok: "servers_ok s" by (rule grpc_reach_ok [OF assms(2,1) servers_init_ok])
  note f = close_frame [OF assms(1,3), folded t]
  have "n < gs_next s" using ok assms(3) by (auto simp: servers_ok_def)
  moreover have "StartGrpcServerByMode E a m t =
      (Done (gs_next t), (new_server m t)\<lparr>gs_listening := gs_listening t @ [(a, Waiting m)]\<rparr>)"
    by (rule start_insecure) (use assms(5-9) f in simp_all)
  ultimately show ?thesis by (auto simp: f new_server_def)
qed


lemma setup_paths_servers [simp]: "ku_servers (setup_paths E pf q s) = ku_servers s"
  by (simp add: setup_paths_def)

lemma start_listen_fails:
  assumes "contains a '':''" "parse_uint 16 (listen_port a) = Some p" "\<not> ge_in_use E (addresses s) p"
    "gs_slots s m = None" "insecure m" "ge_listen E (addresses s) a = Some e"
  shows "StartGrpcServerByMode E a m s = (Fails e, new_server m s)"
  using assms by (simp add: StartGrpcServerByMode_def bind_server_def new_server_def addresses_def Let_def)

text \<open>the call of \<open>Setup\<close> over grpc answers the wrong way round. Whenever the setup of an empty slot succeeds the
  reply says failed, by the nil error it prints; when the address could not be bound the reply is that error, but
  the next call says that all is well, although no listener has been made.\<close>

theorem setup_reply_inverted:
  assumes "gs_slots (ku_servers s) (kq_mode q) = None"
  shows "(\<forall>t. Setup E False q s = (None, t) \<longrightarrow> CoreService_Setup E q s = ((True, nil_panic, Some nil_panic), t)) \<and>
    (sn_factory E = None \<and> insecure (kq_mode q) \<and> contains (kq_listen q) '':'' \<and>
     parse_uint 16 (listen_port (kq_listen q)) = Some p \<and>
     \<not> ge_in_use (sn_grpc E) (addresses (ku_servers s)) p \<and>
     ge_listen (sn_grpc E) (addresses (ku_servers s)) (kq_listen q) = Some e \<longrightarrow>
       (\<exists>t. CoreService_Setup E q s = ((True, e, Some e), t) \<and> CoreService_Setup E q t = ((False, '''', None), t) \<and>
          gs_listening (ku_servers t) = gs_listening (ku_servers s)))"
proof -
  have "\<exists>t. CoreService_Setup E q s = ((True, e, Some e), t) \<and> CoreService_Setup E q t = ((False, '''', None), t) \<and>
      gs_listening (ku_servers t) = gs_listening (ku_servers s)"
    if c: "sn_factory E = None" "insecure (kq_mode q)" "contains (kq_listen q) '':''"
      "parse_uint 16 (listen_port (kq_listen q)) = Some p" "\<not> ge_in_use (sn_grpc E) (addresses (ku_servers s)) p"
      "ge_listen (sn_grpc E) (addresses (ku_servers s)) (kq_listen q) = Some e"
  proof -
    from c(2) have "kq_mode q \<noteq> MODE_OLD" by (auto simp: insecure_def)
    moreover have "StartGrpcServerByMode (sn_grpc E) (kq_listen q) (kq_mode q) (ku_servers s) =
        (Fails e, new_server (kq_mode q) (ku_servers s))"
      by (rule start_listen_fails) (use c assms in simp_all)
    ultimately obtain t where "Setup E False q s = (Some e, t)" "ku_servers t = new_server (kq_mode q) (ku_servers s)"
      using c(1) assms
      by (auto simp: Setup_def setup_factory_def setup_server_def and_then_def Let_def simp del: not_None_eq)
    then show ?thesis using assms by (auto simp: CoreService_Setup_def new_server_def simp del: not_None_eq)
  qed
  moreover have "CoreService_Setup E q s = ((True, nil_panic, Some nil_panic), t)" if "Setup E False q s = (None, t)" for t
    using that assms by (simp add: CoreService_Setup_def)
  ultimately show ?thesis by blast
qed

text \<open>a panic inside a setup is no error of it: settings stored as anything but a text make \<open>Setup\<close> return without
  an error and without having read them.\<close>

lemma panicking_setup_succeeds:
  assumes "kq_mode q = MODE_OLD" "sn_factory E = None" "gs_slots (ku_servers s) MODE_OLD = None"
    and "stored (ge_open_err (sn_grpc E)) (gs_db (ku_servers s)) ''InHiveSettingsJson'' = Done v" "\<not> sn_row_text E"
  obtains t where "Setup E pf q s = (None, t)" "ku_settings t = (ku_settings s)\<lparr>cs_debug := kq_debug q\<rparr>"
  using assms
  by (auto simp: Setup_def setup_factory_def setup_server_def setup_settings_def setup_paths_def Let_def simp del: not_None_eq)

text \<open>the heartbeat file of an earlier process is moved away once it exceeds its limit; otherwise the new lines
  follow the old ones.\<close>

lemma heartbeat_rotates:
  assumes "os_stat os" "os_rename os" "os_open os" "disk (dir @ ''/data/heartbeat.log'') = Some old"
  shows "heartbeatLoop mx os dir first minutes disk (dir @ ''/data/heartbeat.log'') =
    Some ((if length old > mx then '''' else old) @ first @ concat minutes)"
  using assms by (simp add: heartbeatLoop_def Let_def)

section \<open>Witnesses\<close>

definition sample_grpc :: grpc_env where
  "sample_grpc =
     \<lparr>ge_in_use = (\<lambda>as p. ''127.0.0.1:17078'' \<in> set as \<and> p = 17078),
      ge_listen = (\<lambda>as a. if a \<in> set as then Some ''address already in use'' else None), ge_open_err = None, ge_rows = 2,
      ge_generate = Fails '''', ge_pair = (\<lambda>c k. None)\<rparr>"

lemma sample_address:
  "contains ''127.0.0.1:17078'' '':''" "parse_uint 16 (listen_port ''127.0.0.1:17078'') = Some 17078"
  by code_simp+

lemma sample_started:
  "StartGrpcServerByMode sample_grpc ''127.0.0.1:17078'' GRPC_NORMAL_INSECURE (servers_init Map.empty) =
     (Done 0, \<lparr>gs_slots = [GRPC_NORMAL_INSECURE \<mapsto> 0], gs_next = 1, gs_stopped = {},
       gs_listening = [(''127.0.0.1:17078'', Waiting GRPC_NORMAL_INSECURE)], gs_cert = None, gs_db = Map.empty\<rparr>)"
proof -
  have "StartGrpcServerByMode sample_grpc ''127.0.0.1:17078'' GRPC_NORMAL_INSECURE (servers_init Map.empty) =
      (Done (gs_next (servers_init Map.empty)), (new_server GRPC_NORMAL_INSECURE (servers_init Map.empty))
        \<lparr>gs_listening := gs_listening (servers_init Map.empty) @ [(''127.0.0.1:17078'', Waiting GRPC_NORMAL_INSECURE)]\<rparr>)"
    by (rule start_insecure [OF sample_address])
      (simp_all add: sample_grpc_def addresses_def servers_init_def insecure_def)
  then show ?thesis by (simp add: servers_init_def new_server_def)
qed

definition sample_running :: servers where
  "sample_running = serve plain_grpc 0 (snd (StartGrpcServerByMode sample_grpc ''127.0.0.1:17078'' GRPC_NORMAL_INSECURE (servers_init Map.empty)))"

lemma sample_running: "gs_slots sample_running = [GRPC_NORMAL_INSECURE \<mapsto> 0]" "gs_next sample_running = 1"
  "gs_listening sample_running = [(''127.0.0.1:17078'', Served 0)]"
  by (simp_all add: sample_running_def sample_started serve_def plain_grpc_def)

lemma sample_running_reach: "reach (grpc_step plain_grpc) (servers_init Map.empty) sample_running"
proof -
  let ?t = "snd (StartGrpcServerByMode sample_grpc ''127.0.0.1:17078'' GRPC_NORMAL_INSECURE (servers_init Map.empty))"
  have "grpc_step plain_grpc (servers_init Map.empty) ?t" by (rule g_start) (rule surjective_pairing)
  moreover have "grpc_step plain_grpc ?t sample_running"
    unfolding sample_running_def by (rule g_serve) (simp add: sample_started)
  ultimately show ?thesis by blast
qed

theorem close_then_start_binds_witness:
  "\<exists>u. StartGrpcServerByMode sample_grpc ''127.0.0.1:17078'' GRPC_NORMAL_INSECURE
     (closeGrpcServerLocked plain_grpc GRPC_NORMAL_INSECURE sample_running) = (Done 1, u)"
proof -
  have l: "addresses (closeGrpcServerLocked plain_grpc GRPC_NORMAL_INSECURE sample_running) = []"
    using close_frame(4) [OF plain_grpc, of sample_running GRPC_NORMAL_INSECURE 0]
    by (simp add: addresses_def sample_running)
  from close_then_start_binds [OF plain_grpc sample_running_reach _ refl sample_address, of GRPC_NORMAL_INSECURE 0 sample_grpc] l
  show ?thesis by (auto simp: sample_running sample_grpc_def insecure_def)
qed


definition sample_setup :: "unit core_setup" where
  "sample_setup =
     \<lparr>ku_servers = servers_init Map.empty, ku_platform = False, ku_working = '''', ku_temp = '''',
      ku_log = \<lparr>cl_open = False, cl_size = 0, cl_path = '''', cl_backlog = [], cl_disk = Map.empty\<rparr>, ku_crash = None,
      ku_heartbeat = None, ku_cwd = '''', ku_factory = None, ku_closed_factories = {}, ku_next_factory = 0,
      ku_status_port = 0,
      ku_settings = \<lparr>cs_options = None, cs_level = INFO, cs_debug = False, cs_box_level = None, cs_persisted = '''', cs_stored = None\<rparr>\<rparr>"

definition sample_setup_env :: "string option \<Rightarrow> unit setup_env" where
  "sample_setup_env taken =
     \<lparr>sn_grpc = sample_grpc\<lparr>ge_listen := (\<lambda>as a. taken)\<rparr>, sn_lib = plain_grpc,
      sn_json = \<lparr>sj_default = \<lparr>op_level = ''warn'', op_rest = ()\<rparr>, sj_keys = (\<lambda>t. None), sj_merge = (\<lambda>t x. Inr x), sj_known = (\<lambda>t. True)\<rparr>,
      sn_log_max = 1000, sn_os = \<lparr>os_mkdir = False, os_rename = False, os_open = False, os_stat = False, os_write = False\<rparr>,
      sn_ios = False, sn_windows = False, sn_factory = None, sn_row_text = True\<rparr>"

definition sample_request :: setup_request where
  "sample_request =
     \<lparr>kq_working = ''/w'', kq_temp = ''/t'', kq_status_port = 0, kq_listen = ''127.0.0.1:17078'', kq_debug = False,
      kq_mode = GRPC_NORMAL_INSECURE\<rparr>"

lemma sample_setup_started:
  "\<exists>t. Setup (sample_setup_env None) False sample_request sample_setup = (None, t)"
proof -
  have "StartGrpcServerByMode (sample_grpc\<lparr>ge_listen := \<lambda>as a. None\<rparr>) ''127.0.0.1:17078'' GRPC_NORMAL_INSECURE (servers_init Map.empty) =
      (Done (gs_next (servers_init Map.empty)), (new_server GRPC_NORMAL_INSECURE (servers_init Map.empty))
        \<lparr>gs_listening := gs_listening (servers_init Map.empty) @ [(''127.0.0.1:17078'', Waiting GRPC_NORMAL_INSECURE)]\<rparr>)"
    by (rule start_insecure [OF sample_address])
      (simp_all add: sample_grpc_def addresses_def servers_init_def insecure_def)
  then show ?thesis
    by (simp add: Setup_def setup_factory_def setup_server_def sample_setup_env_def sample_request_def sample_setup_def
        setup_paths_def servers_init_def and_then_def Let_def)
qed

theorem setup_reply_inverted_witness:
  "(\<exists>t. CoreService_Setup (sample_setup_env None) sample_request sample_setup = ((True, nil_panic, Some nil_panic), t)) \<and>
   (\<exists>t. CoreService_Setup (sample_setup_env (Some ''bind'')) sample_request sample_setup = ((True, ''bind'', Some ''bind''), t) \<and>
      CoreService_Setup (sample_setup_env (Some ''bind'')) sample_request t = ((False, '''', None), t))"
proof -
  have e: "gs_slots (ku_servers sample_setup) (kq_mode sample_request) = None" by (simp add: sample_setup_def servers_init_def)
  from sample_setup_started obtain t where t: "Setup (sample_setup_env None) False sample_request sample_setup = (None, t)" by blast
  have q: "kq_listen sample_request = ''127.0.0.1:17078''" by (simp add: sample_request_def)
  from setup_reply_inverted [OF e, of "sample_setup_env None" 17078 "''bind''"] t
    setup_reply_inverted [OF e, of "sample_setup_env (Some ''bind'')" 17078 "''bind''"]
  show ?thesis
    by (auto simp: q sample_address sample_setup_env_def sample_grpc_def sample_request_def sample_setup_def addresses_def
        servers_init_def insecure_def)
qed

end
