(* ===== verification/Mem_Sampler.thy ===== *)
theory Mem_Sampler
  imports Core_Log Go_Float
begin

text \<open>
  The memory sampler (\<open>hcore/mem_sampler.go\<close>): every ten seconds one line with the memory of the process, every
  sixth of them a warning with the load of the engine; profiles once near the limit, and memory given back to the
  system when it has grown. A run is a fold of the tick over the readings; the clock, the counters of runtime and
  engine and the histograms of the transport are a reading, the arithmetic on CPU seconds is \<open>cpu_ops\<close>.
\<close>

section \<open>Lines\<close>

definition memDiagFileMaxBytes :: nat where "memDiagFileMaxBytes = 524288"
definition memDiagProfileAtBytes :: int where "memDiagProfileAtBytes = 44040192"
definition memFreeOSAtBytes :: int where "memFreeOSAtBytes = 41943040"
definition minute :: int where "minute = 60000000000"

text \<open>The bytes as a \<open>float64\<close>, the exact quotient by a mebibyte, and one decimal, ties to even.\<close>

definition mb_tenths :: "nat \<Rightarrow> nat" where
  "mb_tenths b =
     (if b = 0 then 0
      else case float_round b 1 of
        (r, e) \<Rightarrow> if 0 \<le> e then div_even (r * 2 ^ nat e * 10) (2 ^ 20) else div_even (r * 10) (2 ^ (20 + nat (- e))))"

definition formatMB :: "nat \<Rightarrow> string" where
  "formatMB b = itoa (mb_tenths b div 10) @ ''.'' @ itoa (mb_tenths b mod 10) @ ''MB''"

text \<open>CPU seconds: a metric the runtime does not know reads as zero.\<close>

record 'f cpu_ops =
  co_zero :: 'f
  co_minus :: "'f \<Rightarrow> 'f \<Rightarrow> 'f"
  co_positive :: "'f \<Rightarrow> bool"
  co_percent :: "'f \<Rightarrow> 'f \<Rightarrow> string"

definition cpuSeconds :: "'f cpu_ops \<Rightarrow> 'f option \<Rightarrow> 'f" where
  "cpuSeconds F m = (case m of None \<Rightarrow> co_zero F | Some x \<Rightarrow> x)"

record engine_load =
  el_outbounds :: "(nat \<times> nat) option"
  el_conns_in :: "nat option"
  el_conns_out :: "nat option"
  el_resets :: nat
  el_dials :: nat
  el_dns :: nat

definition or_dash :: "nat option \<Rightarrow> string" where
  "or_dash x = (case x of None \<Rightarrow> ''-'' | Some n \<Rightarrow> itoa n)"

definition engineLoadFields :: "'f cpu_ops \<Rightarrow> 'f \<Rightarrow> 'f \<Rightarrow> engine_load \<Rightarrow> string" where
  "engineLoadFields F gc_delta total_delta l =
     ''gc_cpu='' @ (if co_positive F total_delta then co_percent F gc_delta total_delta else ''0.0'') @ ''%'' @
     '' outbounds='' @ or_dash (map_option fst (el_outbounds l)) @
     '' endpoints='' @ or_dash (map_option snd (el_outbounds l)) @
     '' conns='' @ or_dash (el_conns_in l) @ ''/'' @ or_dash (el_conns_out l) @
     '' resets='' @ itoa (el_resets l) @ '' dials_inflight='' @ itoa (el_dials l) @ '' dns_inflight='' @ itoa (el_dns l)"

record 'f mem_reading =
  mr_now :: int
  mr_heap :: nat
  mr_sys :: nat
  mr_gc :: nat
  mr_gc_cpu :: "'f option"
  mr_total_cpu :: "'f option"
  mr_goroutines :: nat
  mr_footprint :: int
  mr_load :: engine_load
  mr_post_hist :: string
  mr_xmux :: string
  mr_upload_errors :: string
  mr_chunk_hist :: string

definition mem_line :: "'f mem_reading \<Rightarrow> string" where
  "mem_line r =
     ''mem: '' @ (if 0 < mr_footprint r then ''phys_footprint='' @ formatMB (nat (mr_footprint r)) @ '' '' else '''') @
     ''heap='' @ formatMB (mr_heap r) @ '' sys='' @ formatMB (mr_sys r) @
     '' goroutines='' @ itoa (mr_goroutines r) @ '' gc='' @ itoa (mr_gc r)"

section \<open>The diagnostics directory\<close>

text \<open>\<open>memDiagDir\<close>: only on iOS, and only when it can be made; the path is written
  as it is before \<open>filepath.Join\<close> cleans the dots, which name the parent of the working directory.\<close>

definition memDiagDir :: "bool \<Rightarrow> os_calls \<Rightarrow> string \<Rightarrow> string option" where
  "memDiagDir ios os working =
     (if \<not> ios \<or> working = '''' \<or> \<not> os_mkdir os then None else Some (working @ ''/../Library/Caches/inhive-diag''))"

type_synonym disk = "string \<rightharpoonup> string"

definition file_at :: "disk \<Rightarrow> string \<Rightarrow> string" where
  "file_at d p = (case d p of None \<Rightarrow> '''' | Some c \<Rightarrow> c)"

text \<open>The line goes to the end of the log with the formatted time before it; a log over the limit is renamed first.\<close>

definition memDiagAppend :: "nat \<Rightarrow> os_calls \<Rightarrow> string option \<Rightarrow> string \<Rightarrow> string \<Rightarrow> disk \<Rightarrow> disk" where
  "memDiagAppend mx os dir stamp line disk =
     (case dir of
        None \<Rightarrow> disk
      | Some dir \<Rightarrow>
          let path = dir @ ''/mem.log'';
              d1 = (if os_stat os \<and> length (file_at disk path) > mx \<and> os_rename os
                    then disk(dir @ ''/mem.prev.log'' := disk path, path := None) else disk)
          in if \<not> os_open os then d1
             else d1(path \<mapsto> file_at d1 path @ (if os_write os then stamp @ '' '' @ line @ [CHR 0x0A] else '''')))"

definition memDiagProfiles :: "os_calls \<Rightarrow> string option \<Rightarrow> string \<Rightarrow> string \<Rightarrow> disk \<Rightarrow> disk" where
  "memDiagProfiles os dir heap goroutines disk =
     (case dir of
        None \<Rightarrow> disk
      | Some dir \<Rightarrow>
          if os_open os then disk(dir @ ''/heap_high.pprof'' \<mapsto> heap, dir @ ''/goroutine_high.pprof'' \<mapsto> goroutines)
          else disk)"

section \<open>The tick\<close>

datatype sampler_event = LogLine log_level string | DiagLine string | DumpProfiles | FreeMemory int

record 'f sampler =
  ms_tick :: nat
  ms_dumped :: bool
  ms_last_free :: "int option"
  ms_last_gc :: 'f
  ms_last_total :: 'f
  ms_events :: "sampler_event list"

definition sampler_start :: "'f cpu_ops \<Rightarrow> 'f option \<Rightarrow> 'f option \<Rightarrow> 'f sampler" where
  "sampler_start F gc total_cpu =
     \<lparr>ms_tick = 0, ms_dumped = False, ms_last_free = None, ms_last_gc = cpuSeconds F gc,
      ms_last_total = cpuSeconds F total_cpu, ms_events = []\<rparr>"

definition emit :: "sampler_event list \<Rightarrow> 'f sampler \<Rightarrow> 'f sampler" where
  "emit es s = s\<lparr>ms_events := ms_events s @ es\<rparr>"

text \<open>The line, which every sixth tick carries the load since the sixth before, and the lines of the histogram.\<close>

definition tick_line :: "'f cpu_ops \<Rightarrow> 'f mem_reading \<Rightarrow> 'f sampler \<Rightarrow> string" where
  "tick_line F r s =
     mem_line r @
     (if ms_tick s mod 6 = 0
      then '' '' @ engineLoadFields F (co_minus F (cpuSeconds F (mr_gc_cpu r)) (ms_last_gc s))
        (co_minus F (cpuSeconds F (mr_total_cpu r)) (ms_last_total s)) (mr_load r)
      else '''')"

definition post_lines :: "'f mem_reading \<Rightarrow> sampler_event list" where
  "post_lines r =
     (if contains (mr_post_hist r) ''[n=0 '' then []
      else map (LogLine WARNING)
        [mr_post_hist r @ '' goroutines='' @ itoa (mr_goroutines r), mr_xmux r, mr_upload_errors r])"

definition sample_memory :: "'f cpu_ops \<Rightarrow> 'f mem_reading \<Rightarrow> 'f sampler \<Rightarrow> 'f sampler" where
  "sample_memory F r s =
     (let line = tick_line F r s; whole = (ms_tick s mod 6 = 0);
          s1 = (if whole then s\<lparr>ms_last_gc := cpuSeconds F (mr_gc_cpu r), ms_last_total := cpuSeconds F (mr_total_cpu r)\<rparr>
                else s)
      in emit ([LogLine (if whole then WARNING else INFO) line] @ post_lines r @
               (if whole then [DiagLine (line @ '' '' @ mr_chunk_hist r)] else [])) s1)"

definition dump_profiles :: "'f mem_reading \<Rightarrow> 'f sampler \<Rightarrow> 'f sampler" where
  "dump_profiles r s =
     (if \<not> ms_dumped s \<and> memDiagProfileAtBytes < mr_footprint r
      then emit [DumpProfiles, DiagLine (''profiles dumped at '' @ formatMB (nat (mr_footprint r))),
             LogLine WARNING (''mem: high-water '' @ formatMB (nat (mr_footprint r)) @ '' '' @
               [CHR 0xE2, CHR 0x80, CHR 0x94] @ '' heap/goroutine profiles dumped'')]
             (s\<lparr>ms_dumped := True\<rparr>)
      else s)"

text \<open>The time of no release yet is the zero of the clock, which is longer ago than any minute.\<close>

definition free_memory :: "bool \<Rightarrow> 'f mem_reading \<Rightarrow> 'f sampler \<Rightarrow> 'f sampler" where
  "free_memory ios r s =
     (if ios \<and> memFreeOSAtBytes < mr_footprint r \<and>
         (case ms_last_free s of None \<Rightarrow> True | Some t \<Rightarrow> minute < mr_now r - t)
      then emit [FreeMemory (mr_now r)] (s\<lparr>ms_last_free := Some (mr_now r)\<rparr>) else s)"

definition sampler_tick :: "'f cpu_ops \<Rightarrow> bool \<Rightarrow> 'f mem_reading \<Rightarrow> 'f sampler \<Rightarrow> 'f sampler" where
  "sampler_tick F ios r s =
     free_memory ios r (dump_profiles r (sample_memory F r (s\<lparr>ms_tick := Suc (ms_tick s)\<rparr>)))"

definition runMemSampler :: "'f cpu_ops \<Rightarrow> bool \<Rightarrow> 'f option \<Rightarrow> 'f option \<Rightarrow> 'f mem_reading list \<Rightarrow> 'f sampler" where
  "runMemSampler F ios gc total_cpu rs = fold (sampler_tick F ios) rs (sampler_start F gc total_cpu)"

section \<open>Facts\<close>

definition free_times :: "sampler_event list \<Rightarrow> int list" where
  "free_times es = List.map_filter (\<lambda>e. case e of FreeMemory t \<Rightarrow> Some t | _ \<Rightarrow> None) es"

definition info_lines :: "sampler_event list \<Rightarrow> nat" where
  "info_lines es = length (filter (\<lambda>e. case e of LogLine l _ \<Rightarrow> l = INFO | _ \<Rightarrow> False) es)"

definition dumps :: "sampler_event list \<Rightarrow> nat" where
  "dumps es = length (filter (\<lambda>e. e = DumpProfiles) es)"

lemma event_counts [simp]:
  "free_times (es @ fs) = free_times es @ free_times fs" "info_lines (es @ fs) = info_lines es + info_lines fs"
  "dumps (es @ fs) = dumps es + dumps fs"
  by (simp_all add: free_times_def map_filter_def info_lines_def dumps_def)

lemma event_counts_Nil [simp]: "free_times [] = []" "info_lines [] = 0" "dumps [] = 0"
  by (simp_all add: free_times_def map_filter_def info_lines_def dumps_def)

lemma post_lines_counts [simp]:
  "free_times (post_lines r) = []" "info_lines (post_lines r) = 0" "dumps (post_lines r) = 0"
  by (simp_all add: post_lines_def free_times_def map_filter_def info_lines_def dumps_def)

lemma cons_event [simp]:
  "free_times (e # es) = (case e of FreeMemory t \<Rightarrow> [t] | _ \<Rightarrow> []) @ free_times es"
  "info_lines (e # es) = (case e of LogLine l _ \<Rightarrow> if l = INFO then 1 else 0 | _ \<Rightarrow> 0) + info_lines es"
  "dumps (e # es) = (if e = DumpProfiles then 1 else 0) + dumps es"
  by (simp_all add: free_times_def map_filter_def info_lines_def dumps_def split: sampler_event.split)

text \<open>What the parts of a tick do to the counts.\<close>

lemma sample_memory_counts:
  "free_times (ms_events (sample_memory F r s)) = free_times (ms_events s)"
  "dumps (ms_events (sample_memory F r s)) = dumps (ms_events s)"
  "info_lines (ms_events (sample_memory F r s)) = info_lines (ms_events s) + (if ms_tick s mod 6 = 0 then 0 else 1)"
  "ms_tick (sample_memory F r s) = ms_tick s" "ms_dumped (sample_memory F r s) = ms_dumped s"
  "ms_last_free (sample_memory F r s) = ms_last_free s"
  by (simp_all add: sample_memory_def emit_def Let_def)

lemma dump_profiles_counts:
  "free_times (ms_events (dump_profiles r s)) = free_times (ms_events s)"
  "info_lines (ms_events (dump_profiles r s)) = info_lines (ms_events s)"
  "ms_tick (dump_profiles r s) = ms_tick s" "ms_last_free (dump_profiles r s) = ms_last_free s"
  "dumps (ms_events s) = of_bool (ms_dumped s) \<Longrightarrow> dumps (ms_events (dump_profiles r s)) = of_bool (ms_dumped (dump_profiles r s))"
  by (simp_all add: dump_profiles_def emit_def)

lemma free_memory_counts:
  "info_lines (ms_events (free_memory ios r s)) = info_lines (ms_events s)"
  "dumps (ms_events (free_memory ios r s)) = dumps (ms_events s)"
  "ms_tick (free_memory ios r s) = ms_tick s" "ms_dumped (free_memory ios r s) = ms_dumped s"
  by (simp_all add: free_memory_def emit_def)

text \<open>The last release is the last time of the list, and the releases are a minute apart.\<close>

definition releases_ok :: "bool \<Rightarrow> 'f sampler \<Rightarrow> bool" where
  "releases_ok ios s \<longleftrightarrow>
     (let ts = free_times (ms_events s) in
      ms_last_free s = (if ts = [] then None else Some (last ts)) \<and> (\<not> ios \<longrightarrow> ts = []) \<and>
      successively (\<lambda>a b. minute < b - a) ts)"

lemma free_memory_releases: "releases_ok ios s \<Longrightarrow> releases_ok ios (free_memory ios r s)"
  by (auto simp: releases_ok_def free_memory_def emit_def Let_def successively_append_iff split: option.splits if_splits)

lemma sampler_run:
  fixes F :: "'f cpu_ops" and gc total_cpu :: "'f option" and ios :: bool
  defines "run \<equiv> \<lambda>rs. runMemSampler F ios gc total_cpu rs"
  shows "ms_tick (run rs) = length rs \<and> info_lines (ms_events (run rs)) + length rs div 6 = length rs \<and>
    dumps (ms_events (run rs)) = of_bool (ms_dumped (run rs)) \<and> releases_ok ios (run rs)"
proof (induction rs rule: rev_induct)
  case Nil
  then show ?case by (simp add: run_def runMemSampler_def sampler_start_def releases_ok_def)
next
  case (snoc r rs)
  let ?s = "(run rs)\<lparr>ms_tick := Suc (ms_tick (run rs))\<rparr>"
  have step: "run (rs @ [r]) = free_memory ios r (dump_profiles r (sample_memory F r ?s))"
    by (simp add: run_def runMemSampler_def sampler_tick_def)
  have "releases_ok ios (dump_profiles r (sample_memory F r ?s))"
    using snoc by (simp add: releases_ok_def dump_profiles_counts sample_memory_counts)
  then have "releases_ok ios (run (rs @ [r]))" unfolding step by (rule free_memory_releases)
  moreover have "dumps (ms_events (run (rs @ [r]))) = of_bool (ms_dumped (run (rs @ [r])))"
    using snoc by (simp add: step free_memory_counts dump_profiles_counts(5) sample_memory_counts)
  moreover have "info_lines (ms_events (run (rs @ [r]))) + length (rs @ [r]) div 6 = length (rs @ [r])"
    using snoc by (simp add: step free_memory_counts dump_profiles_counts sample_memory_counts div_Suc)
  ultimately show ?case
    using snoc by (simp add: step free_memory_counts dump_profiles_counts sample_memory_counts)
qed

section \<open>Properties\<close>


text \<open>sizes below \<open>2 ^ 53\<close> are printed as the exact quotient, rounded to a tenth.\<close>

lemma mb_tenths_exact: "b < 2 ^ 53 \<Longrightarrow> mb_tenths b = div_even (b * 10) (2 ^ 20)"
proof -
  assume b: "b < 2 ^ 53"
  have scale: "div_even (x * k) (y * k) = div_even x y" if "k > 0" for x y k :: nat
  proof -
    have "x * k div (y * k) = x div y" "x * k mod (y * k) = x mod y * k" using that by (simp_all add: mult_mod_left)
    then show ?thesis using that by (simp add: div_even_def Let_def)
  qed
  from float_round_int [OF b] obtain e where e: "e \<le> 0" "float_round b 1 = (b * 2 ^ nat (- e), e)" by blast
  show ?thesis
  proof (cases "b = 0 \<or> 0 \<le> e")
    case True
    with e show ?thesis by (auto simp: mb_tenths_def div_even_def)
  next
    case False
    have "div_even (b * 2 ^ nat (- e) * 10) (2 ^ (20 + nat (- e))) = div_even (b * 10 * 2 ^ nat (- e)) (2 ^ 20 * 2 ^ nat (- e))"
      by (simp add: power_add mult.assoc mult.left_commute mult.commute)
    also have "\<dots> = div_even (b * 10) (2 ^ 20)" by (rule scale) simp
    finally show ?thesis using False e by (simp add: mb_tenths_def)
  qed
qed

lemma format_samples: "formatMB 44040192 = ''42.0MB''" "formatMB 1572864 = ''1.5MB''" "formatMB 0 = ''0.0MB''"
  by (simp_all add: formatMB_def mb_tenths_exact div_even_def) code_simp+

text \<open>the file stays within its limit and a line, as long as the old one can be renamed.\<close>

lemma memDiagAppend_bounded:
  assumes "length (file_at disk (d @ ''/mem.log'')) \<le> mx + k" "length stamp + 1 + length line < k" "os_rename os" "os_stat os"
  shows "length (file_at (memDiagAppend mx os (Some d) stamp line disk) (d @ ''/mem.log'')) \<le> mx + k"
  using assms by (auto simp: memDiagAppend_def file_at_def Let_def)

definition sample_cpu :: "nat cpu_ops" where
  "sample_cpu = \<lparr>co_zero = 0, co_minus = (-), co_positive = (\<lambda>x. 0 < x), co_percent = (\<lambda>a b. itoa (a * 100 div b) @ ''.0'')\<rparr>"

definition sample_reading :: "int \<Rightarrow> int \<Rightarrow> nat mem_reading" where
  "sample_reading now footprint =
     \<lparr>mr_now = now * 1000000000, mr_heap = 1048576, mr_sys = 2097152, mr_gc = 3, mr_gc_cpu = Some 1, mr_total_cpu = Some 8,
      mr_goroutines = 12, mr_footprint = footprint,
      mr_load = \<lparr>el_outbounds = None, el_conns_in = None, el_conns_out = None, el_resets = 0, el_dials = 0, el_dns = 0\<rparr>,
      mr_post_hist = ''[n=0 ]'', mr_xmux = '''', mr_upload_errors = '''', mr_chunk_hist = ''''\<rparr>"

definition sample_run :: "sampler_event list" where
  "sample_run = ms_events (runMemSampler sample_cpu True None None (map (\<lambda>i. sample_reading (10 * int i) 45000000) [1..<9]))"

lemma sampler_tick_free:
  "free_times (ms_events (sampler_tick F ios r s)) = free_times (ms_events s) @
     (if ios \<and> memFreeOSAtBytes < mr_footprint r \<and> (case ms_last_free s of None \<Rightarrow> True | Some t \<Rightarrow> minute < mr_now r - t)
      then [mr_now r] else [])"
  "ms_last_free (sampler_tick F ios r s) =
     (if ios \<and> memFreeOSAtBytes < mr_footprint r \<and> (case ms_last_free s of None \<Rightarrow> True | Some t \<Rightarrow> minute < mr_now r - t)
      then Some (mr_now r) else ms_last_free s)"
  by (simp_all add: sampler_tick_def free_memory_def emit_def dump_profiles_counts sample_memory_counts)


end
