(* ===== verification/Side_Build.thy ===== *)
theory Side_Build
  imports Side_Instance Config_Build
begin

text \<open>
  The two ways a side instance is built (\<open>hcore/independent_instance.go\<close>): the translated path, which forces
  settings and runs the options builder, and the raw path, which only strips the app's options; and the starting
  of an engine service for either, or for the tunnel (\<open>hcore/service.go\<close>). The world keeps which services run
  and whose observers are alive; the engine's check and start are functions of the environment.
\<close>

section \<open>Services\<close>

text \<open>\<open>sx_platform\<close>: the context is made from the platform's interface; \<open>sx_registered\<close>: the interface is
  registered in it for the dialers.\<close>

record side_context =
  sx_platform :: bool
  sx_registered :: bool

record side_world =
  sw_next :: nat
  sw_running :: "nat set"
  sw_observers :: "nat set"
  sw_context :: "nat \<rightharpoonup> side_context"

text \<open>\<open>ne\<close>: is there a platform interface, and does it run under the network extension.\<close>

definition sideInstanceContext :: "platform \<Rightarrow> bool option \<Rightarrow> side_context" where
  "sideInstanceContext pf ne =
     (case ne of
        None \<Rightarrow> \<lparr>sx_platform = False, sx_registered = False\<rparr>
      | Some u \<Rightarrow> \<lparr>sx_platform = True, sx_registered = (pf_android pf \<or> (pf_ios pf \<and> \<not> u))\<rparr>)"

definition NewStartedService :: "side_context \<Rightarrow> side_world \<Rightarrow> nat \<times> side_world" where
  "NewStartedService ctx w =
     (sw_next w, w\<lparr>sw_next := Suc (sw_next w), sw_observers := insert (sw_next w) (sw_observers w),
                   sw_context := (sw_context w)(sw_next w \<mapsto> ctx)\<rparr>)"

definition service_closed :: "nat \<Rightarrow> side_world \<Rightarrow> side_world" where
  "service_closed n w = w\<lparr>sw_observers := sw_observers w - {n}\<rparr>"

text \<open>\<open>CloseService\<close> and then \<open>Close\<close>; without a service nothing.\<close>

definition closeSideService :: "string option \<Rightarrow> nat option \<Rightarrow> side_world \<Rightarrow> string option \<times> side_world" where
  "closeSideService e svc w =
     (case svc of
        None \<Rightarrow> (None, w)
      | Some n \<Rightarrow> (e, service_closed n (w\<lparr>sw_running := sw_running w - {n}\<rparr>)))"

text \<open>\<open>en_deadline\<close>: the deadline of the bring-up passes before the quarter of a second is over;
  \<open>en_close\<close>: the error of closing.\<close>

record 'o engine =
  en_context :: side_context
  en_check :: "'o \<Rightarrow> string option"
  en_start :: "'o \<Rightarrow> unit outcome"
  en_deadline :: bool
  en_close :: "string option"

definition run_side :: "'o engine \<Rightarrow> 'o \<Rightarrow> nat \<Rightarrow> side_world \<Rightarrow> (nat \<times> nat) outcome \<times> side_world" where
  "run_side N opts port w =
     (case en_check N opts of
        Some e \<Rightarrow> (Fails e, w)
      | None \<Rightarrow>
          let (n, w1) = NewStartedService (en_context N) w in
          case en_start N opts of
            Panics m \<Rightarrow> (Panics m, w1)
          | Fails e \<Rightarrow> (Fails e, service_closed n w1)
          | Done _ \<Rightarrow>
              let w2 = w1\<lparr>sw_running := insert n (sw_running w1)\<rparr> in
              if en_deadline N
              then (Fails ''context deadline exceeded'', snd (closeSideService (en_close N) (Some n) w2))
              else (Done (n, port), w2))"

text \<open>The service of the tunnel: no settling, and a failed start also closes what it opened.\<close>

definition NewService :: "'o engine \<Rightarrow> 'o \<Rightarrow> side_world \<Rightarrow> nat outcome \<times> side_world" where
  "NewService N opts w =
     (case en_check N opts of
        Some e \<Rightarrow> (Fails e, w)
      | None \<Rightarrow>
          let (n, w1) = NewStartedService (en_context N) w in
          case en_start N opts of
            Panics m \<Rightarrow> (Panics m, w1)
          | Fails e \<Rightarrow> (Fails e, snd (closeSideService (en_close N) (Some n) w1))
          | Done _ \<Rightarrow> (Done n, w1\<lparr>sw_running := insert n (sw_running w1)\<rparr>))"

section \<open>The translated path\<close>

definition force_side_settings :: "string \<Rightarrow> nat \<Rightarrow> InhiveOptions \<Rightarrow> InhiveOptions" where
  "force_side_settings dev_null port h =
     h\<lparr>ho_clash_api := False,
       ho_inbound := (ho_inbound h)\<lparr>nd_mixed_port := of_nat port, nd_tun := False, nd_tun_service := False,
         nd_system_proxy := False, nd_tproxy_port := 0, nd_direct_port := 0, nd_redirect_port := 0\<rparr>,
       ho_region := ''other'', ho_block_ads := False, ho_log_file := dev_null,
       ho_balancer := (if ho_balancer h = '''' then ''round-robin'' else ho_balancer h)\<rparr>"

text \<open>The options of the instance, and the port it listens on.\<close>

definition side_config ::
  "build_env \<Rightarrow> string \<Rightarrow> nat outcome \<Rightarrow> InhiveOptions option \<Rightarrow> cfg_options option \<Rightarrow> (cfg_options \<times> nat) outcome" where
  "side_config B dev_null port settings sing =
     and_then port (\<lambda>p.
     and_then (BuildConfig B
         (force_side_settings dev_null p (case settings of None \<Rightarrow> DefaultInhiveOptions | Some h \<Rightarrow> h))
         \<lparr>ro_path = '''', ro_content = '''', ro_options = sing\<rparr>) (\<lambda>(x, h').
       Done (x, unat (nd_mixed_port (ho_inbound h')))))"

definition runInstanceCoreBlocking ::
  "build_env \<Rightarrow> string \<Rightarrow> nat outcome \<Rightarrow> cfg_options engine \<Rightarrow> InhiveOptions option \<Rightarrow> cfg_options option \<Rightarrow>
     side_world \<Rightarrow> (nat \<times> nat) outcome \<times> side_world" where
  "runInstanceCoreBlocking B dev_null port N settings sing w =
     (case side_config B dev_null port settings sing of
        Done (x, p) \<Rightarrow> run_side N x p w
      | Fails e \<Rightarrow> (Fails e, w)
      | Panics m \<Rightarrow> (Panics m, w))"

section \<open>The raw path\<close>

definition startRawSideInstance ::
  "nat outcome \<Rightarrow> side_options engine \<Rightarrow> side_options option \<Rightarrow> side_world \<Rightarrow> (nat \<times> nat) outcome \<times> side_world" where
  "startRawSideInstance port N opts w =
     (case opts of
        None \<Rightarrow> (Fails ''nil options'', w)
      | Some x \<Rightarrow>
          (case sanitizeSideInstance port x of
             Done (x', p) \<Rightarrow> run_side N x' p w
           | Fails e \<Rightarrow> (Fails e, w)
           | Panics m \<Rightarrow> (Panics m, w)))"

section \<open>Facts about the build\<close>

text \<open>What the parts of a build leave of the settings.\<close>

definition same_side :: "InhiveOptions \<Rightarrow> InhiveOptions \<Rightarrow> bool" where
  "same_side h h' \<longleftrightarrow>
     ho_region h' = ho_region h \<and> ho_block_ads h' = ho_block_ads h \<and> ho_route h' = ho_route h \<and> ho_log_file h' = ho_log_file h \<and>
     ho_clash_api h' = ho_clash_api h \<and> (\<exists>m. ho_inbound h' = (ho_inbound h)\<lparr>nd_mtu := m\<rparr>)"

lemma same_side_refl [simp]: "same_side h h"
  by (simp add: same_side_def) (rule exI [of _ "nd_mtu (ho_inbound h)"], simp)

lemma same_side_trans: "same_side h h' \<Longrightarrow> same_side h' h'' \<Longrightarrow> same_side h h''"
  by (auto simp: same_side_def)

lemma same_side_raise: "same_side h (raise_mtu h)"
  by (auto simp: same_side_def raise_mtu_def)

lemma same_side_urls: "same_side h (test_urls ips others h)"
  by (auto simp: same_side_def test_urls_def Let_def intro!: exI [of _ "nd_mtu (ho_inbound h)"])

lemma same_side_endpoints: "collect_endpoints ips r i h es = (h', out, tags) \<Longrightarrow> same_side h h'"
proof (induction es arbitrary: i h h' out tags)
  case (Cons e es)
  have rec: "same_side h h'" if "collect_endpoints ips r (Suc i) h1 es = (h', o2, t2)" "same_side h h1" for h1 o2 t2
    using Cons.IH [OF that(1)] that(2) same_side_trans by blast
  have "same_side h (if ws_enable (ho_warp h) \<and> raises_mtu h e then raise_mtu h else h)" by (simp add: same_side_raise)
  with Cons.prems show ?case
    by (auto simp: Let_def simp del: contains_tag.simps contains_tag_set split: if_splits prod.splits intro: rec)
qed simp

lemma setOutbounds_settings:
  assumes "setOutbounds ips r outs ends h = Done b"
  shows "same_side h (bo_settings b)"
proof -
  obtain kept otags where c: "collect_outbounds h False outs = (kept, otags)" by fastforce
  obtain h1 own where w: "(if ws_enable (ho_warp h) then (let (h', e) = warp_endpoint h ips (r 0) in (h', [e])) else (h, [])) = (h1, own)"
    by fastforce
  obtain h2 ends' etags where e: "collect_endpoints ips r (Suc 0) h1 ends = (h2, ends', etags)" by (metis prod_cases3)
  have "bo_settings b = test_urls ips outbound_test_urls h2"
    using assms by (auto simp: setOutbounds_def c w e Let_def and_then_Done)
  moreover have "same_side h h1"
    using w same_side_raise [of h] by (auto simp: warp_endpoint_def Let_def split: if_splits)
  ultimately show ?thesis using same_side_endpoints [OF e] same_side_urls same_side_trans by metis
qed

text \<open>The inbounds and the experimental options of a built configuration are set before the outbounds.\<close>

lemma BuildConfig_parts:
  assumes "BuildConfig E h ro = Done (x, h')" and "\<not> ho_full_config h" and "\<not> ho_clash_api h"
  obtains h1 r where "same_side h h1" "same_side h h'"
    "cf_inbounds x = cf_inbounds (setInbound (be_platform E) (be_admin E) (be_ipv6 E) h1 cfg_options_zero)"
    "cf_experimental x = None" "\<exists>l. cf_log x = Some l \<and> lo_output l = ho_log_file h"
    "cf_route x = Some r" "rt_rule_sets r = ads_sets h' @ region_sets h'"
proof -
  let ?h1 = "test_urls (be_ips E) experimental_test_urls h"
  obtain input where parts: "build_parts E h input = Done (x, h')"
    using assms(1) by (auto simp: BuildConfig_def and_then_Done)
  obtain b o4 where b: "setOutbounds (be_ips E) (be_warp E) (cf_outbounds input) (cf_endpoints input) ?h1 = Done b"
    and o4: "setDns (be_platform E) (be_sock E) (bo_detour b) (bo_settings b) []
      ((setInbound (be_platform E) (be_admin E) (be_ipv6 E) ?h1 (setLog ?h1 cfg_options_zero))
        \<lparr>cf_outbounds := bo_outbounds b, cf_endpoints := bo_endpoints b\<rparr>) = Done o4"
    and o5: "setRoutingOptions (be_platform E) (be_valid E) (bo_detour b) (bo_settings b) o4 = Done x"
    and h': "h' = bo_settings b"
    using parts assms(2,3)
    by (auto simp: build_parts_def setExperimental_def clash_secret_def full_options_def Let_def and_then_Done
        same_side_urls [unfolded same_side_def])
  obtain d where d: "o4 = (setInbound (be_platform E) (be_admin E) (be_ipv6 E) ?h1
      (setLog ?h1 cfg_options_zero))\<lparr>cf_outbounds := bo_outbounds b, cf_endpoints := bo_endpoints b, cf_dns := Some d\<rparr>"
    "dq_rules d = []"
    by (rule setDns_facts [OF o4], rule that; assumption)
  have "cf_dns o4 = Some d" by (simp add: d(1))
  from setRoutingOptions_facts [OF o5 this d(2)] obtain r where
    x: "x = o4\<lparr>cf_route := Some r, cf_dns := Some (d\<lparr>dq_rules := filter (be_valid E) (dns_rules (bo_settings b) o4)\<rparr>)\<rparr>"
    and r: "rt_rule_sets r = ads_sets (bo_settings b) @ region_sets (bo_settings b)" by blast
  have log: "ho_log_file ?h1 = ho_log_file h" using same_side_urls by (simp add: same_side_def)
  show ?thesis
    by (rule that [of ?h1 r])
      (use same_side_urls same_side_trans [OF same_side_urls setOutbounds_settings [OF b]] h' r log in
        \<open>simp_all add: x d(1) setInbound_def setLog_def Let_def cfg_options_zero_def\<close>)
qed

lemma forced_settings [simp]:
  "\<not> ho_clash_api (force_side_settings dn p h)" "ho_region (force_side_settings dn p h) = ''other''"
  "\<not> ho_block_ads (force_side_settings dn p h)" "ho_log_file (force_side_settings dn p h) = dn"
  "ho_route (force_side_settings dn p h) = ho_route h" "ho_full_config (force_side_settings dn p h) = ho_full_config h"
  "\<not> nd_tun (ho_inbound (force_side_settings dn p h))" "nd_tproxy_port (ho_inbound (force_side_settings dn p h)) = 0"
  "nd_redirect_port (ho_inbound (force_side_settings dn p h)) = 0" "nd_direct_port (ho_inbound (force_side_settings dn p h)) = 0"
  "nd_mixed_port (ho_inbound (force_side_settings dn p h)) = of_nat p"
  "\<not> nd_system_proxy (ho_inbound (force_side_settings dn p h))"
  by (simp_all add: force_side_settings_def)

text \<open>With only the mixed port set, what is added are the mixed inbounds of the bind addresses.\<close>

lemma only_mixed:
  assumes "\<not> nd_tun (ho_inbound h)" "nd_tproxy_port (ho_inbound h) = 0" "nd_redirect_port (ho_inbound h) = 0"
    "nd_direct_port (ho_inbound h) = 0" "i \<in> set (cf_inbounds (setInbound pf admin ipv6 h cfg_options_zero))"
  shows "\<exists>b \<in> set (bind_addresses (isIPv6Supported pf ipv6) h).
    nb_options i = MixedIn (the (parse_addr b)) (nd_mixed_port (ho_inbound h)) (nd_system_proxy (ho_inbound h))"
  using assms
  by (auto simp: setInbound_def bind_inbounds_def listen_on_def cfg_options_zero_def Let_def)

text \<open>What a world gains and loses in a bring-up: the instance that is returned, and nothing else.\<close>

definition gained :: "side_world \<Rightarrow> nat set \<Rightarrow> side_world \<Rightarrow> bool" where
  "gained w ns w' \<longleftrightarrow> sw_running w' = sw_running w \<union> ns \<and> sw_observers w' = sw_observers w \<union> ns"

definition fresh_world :: "side_world \<Rightarrow> bool" where
  "fresh_world w \<longleftrightarrow> (\<forall>n \<in> sw_running w \<union> sw_observers w. n < sw_next w)"

lemma run_side_gained:
  assumes "fresh_world w" and "run_side N opts p w = (r, w')"
  shows "case r of Done (n, q) \<Rightarrow> q = p \<and> n \<notin> sw_running w \<and> gained w {n} w'
    | Fails e \<Rightarrow> gained w {} w' | Panics m \<Rightarrow> True"
proof -
  have "sw_next w \<notin> sw_running w" "sw_next w \<notin> sw_observers w" using assms(1) by (auto simp: fresh_world_def)
  with assms(2) show ?thesis
    by (auto simp: run_side_def NewStartedService_def service_closed_def closeSideService_def gained_def Let_def
        split: option.splits outcome.splits if_splits)
qed

lemma run_side_accounted:
  assumes "fresh_world w" and "run_side N opts p w = (r, w')" and "\<nexists>m. r = Panics m"
  shows "case r of
      Done (n, q) \<Rightarrow> n \<notin> sw_running w \<and> gained w {n} w' \<and> gained w {} (snd (closeSideService e (Some n) w'))
    | _ \<Rightarrow> gained w {} w'"
proof (cases r)
  case (Done nq)
  obtain n q where nq: "nq = (n, q)" by (cases nq)
  have "n = sw_next w"
    using assms(2) Done nq
    by (auto simp: run_side_def NewStartedService_def Let_def split: option.splits outcome.splits if_splits)
  then have "n \<notin> sw_observers w" using assms(1) by (auto simp: fresh_world_def)
  then show ?thesis
    using run_side_gained [OF assms(1,2)]
    by (auto simp: Done nq gained_def closeSideService_def service_closed_def)
next
  case (Fails m)
  with run_side_gained [OF assms(1,2)] show ?thesis by simp
next
  case (Panics m)
  with assms(3) show ?thesis by blast
qed

section \<open>Properties\<close>

text \<open>C19: a side instance of the translated path is closed to the outside: unless the settings allow the LAN or keep
  the input's own sections, the engine is started with no inbound but the mixed ones on loopback addresses at the
  fresh port that is returned, without the API and the cache, with no rule set to fetch and no log file.\<close>

theorem translated_side_instance_isolated:
  assumes "side_config B dev_null port settings sing = Done (x, p)"
    and "\<And>h. settings = Some h \<Longrightarrow> \<not> rs_allow_lan (ho_route h) \<and> \<not> ho_full_config h"
  shows "(\<forall>i \<in> set (cf_inbounds x). \<exists>a. nb_options i = MixedIn a (of_nat p) False \<and> loopback a) \<and>
    cf_experimental x = None \<and> (\<exists>r. cf_route x = Some r \<and> rt_rule_sets r = []) \<and>
    (\<exists>l. cf_log x = Some l \<and> lo_output l = dev_null)"
proof -
  define h0 where "h0 = (case settings of None \<Rightarrow> DefaultInhiveOptions | Some h \<Rightarrow> h)"
  have h0: "\<not> rs_allow_lan (ho_route h0)" "\<not> ho_full_config h0"
    using assms(2) by (auto simp: h0_def DefaultInhiveOptions_def split: option.split)
  obtain q h' where q: "port = Done q"
    and b: "BuildConfig B (force_side_settings dev_null q h0) \<lparr>ro_path = '''', ro_content = '''', ro_options = sing\<rparr> = Done (x, h')"
    and p: "p = unat (nd_mixed_port (ho_inbound h'))"
    using assms(1) by (auto simp: side_config_def and_then_Done h0_def)
  have full: "\<not> ho_full_config (force_side_settings dev_null q h0)" using h0(2) by simp
  obtain h1 r where s: "same_side (force_side_settings dev_null q h0) h1" "same_side (force_side_settings dev_null q h0) h'"
    and i: "cf_inbounds x = cf_inbounds (setInbound (be_platform B) (be_admin B) (be_ipv6 B) h1 cfg_options_zero)"
    and x: "cf_experimental x = None" "\<exists>l. cf_log x = Some l \<and> lo_output l = dev_null"
    and r: "cf_route x = Some r" "rt_rule_sets r = ads_sets h' @ region_sets h'"
    by (rule BuildConfig_parts [OF b full], simp, rule that; simp)
  have h1: "\<not> nd_tun (ho_inbound h1)" "nd_tproxy_port (ho_inbound h1) = 0" "nd_redirect_port (ho_inbound h1) = 0"
    "nd_direct_port (ho_inbound h1) = 0" "nd_mixed_port (ho_inbound h1) = of_nat q" "\<not> nd_system_proxy (ho_inbound h1)"
    "\<not> rs_allow_lan (ho_route h1)"
    using s(1) h0(1) by (auto simp: same_side_def)
  have "p = unat (of_nat q :: 16 word)" using s(2) by (auto simp: p same_side_def)
  then have port: "of_nat p = (of_nat q :: 16 word)" by simp
  have "\<exists>a. nb_options k = MixedIn a (of_nat p) False \<and> loopback a" if "k \<in> set (cf_inbounds x)" for k
    using only_mixed [OF h1(1-4) that [unfolded i]] bind_loopback [OF _ h1(7)] h1(5,6) port by auto
  moreover have "rt_rule_sets r = []" using s(2) by (simp add: r(2) same_side_def ads_sets_def region_sets_def)
  ultimately show ?thesis using x r(1) by blast
qed

text \<open>C20: no service is lost: however a bring-up of either path ends, short of a panic of the engine's start, the world
  gains exactly the instance that is returned, running and observed, and nothing when it fails or the deadline
  passes; closing the instance restores the world.\<close>

theorem side_services_accounted:
  assumes "fresh_world w"
    and "(r, w') = runInstanceCoreBlocking B dn port N settings sing w \<or> (r, w') = startRawSideInstance port N' opts w"
    and "\<nexists>m. r = Panics m"
  shows "case r of
      Done (n, q) \<Rightarrow> n \<notin> sw_running w \<and> gained w {n} w' \<and> gained w {} (snd (closeSideService e (Some n) w'))
    | _ \<Rightarrow> gained w {} w'"
proof -
  have none: "gained w {} w" by (simp add: gained_def)
  note one = run_side_accounted [OF assms(1) _ assms(3)]
  show ?thesis
    using assms(2)
  proof
    assume a: "(r, w') = runInstanceCoreBlocking B dn port N settings sing w"
    show ?thesis
    proof (cases "side_config B dn port settings sing")
      case (Done xp)
      with a one show ?thesis by (cases xp) (auto simp: runInstanceCoreBlocking_def dest!: sym [of "(r, w')"] intro: one)
    qed (use a none in \<open>simp_all add: runInstanceCoreBlocking_def\<close>)
  next
    assume a: "(r, w') = startRawSideInstance port N' opts w"
    show ?thesis
    proof (cases opts)
      case None
      with a none show ?thesis by (simp add: startRawSideInstance_def)
    next
      case (Some y)
      show ?thesis
      proof (cases "sanitizeSideInstance port y")
        case (Done xp)
        with a one Some show ?thesis by (cases xp) (auto simp: startRawSideInstance_def dest!: sym [of "(r, w')"] intro: one)
      qed (use a none Some in \<open>simp_all add: startRawSideInstance_def\<close>)
    qed
  qed
qed

lemma panicking_start_leaks:
  "en_check N opts = None \<Longrightarrow> en_start N opts = Panics m \<Longrightarrow>
     run_side N opts p w = (Panics m, snd (NewStartedService (en_context N) w))"
  by (simp add: run_side_def NewStartedService_def)

text \<open>the interface of the platform is registered exactly on Android and in the app process of iOS.\<close>

lemma side_context_registered:
  "sx_registered (sideInstanceContext pf ne) \<longleftrightarrow> ne \<noteq> None \<and> (pf_android pf \<or> (pf_ios pf \<and> ne = Some False))"
  by (cases ne) (auto simp: sideInstanceContext_def)

section \<open>Witnesses\<close>

definition side_build_env :: build_env where
  "side_build_env =
     \<lparr>be_platform = \<lparr>pf_ios = False, pf_android = True, pf_linux = False, pf_darwin = False\<rparr>, be_admin = False, be_ipv6 = True,
      be_ips = (\<lambda>_. [''192.0.2.1'']), be_random = (\<lambda>n. replicate n (CHR ''a'')),
      be_warp = (\<lambda>_. \<lparr>wr_ipv4 = ''162.159.192.1'', wr_ipv6 = ''2606:4700:d0::1'', wr_port = 2408\<rparr>),
      be_sock = (\<lambda>h. if h = '''' then None else Some (h, 0)), be_valid = (\<lambda>_. True), be_unmarshal = (\<lambda>_. None),
      be_read = (\<lambda>_. Fails ''no file'')\<rparr>"

definition side_proxy :: cfg_outbound where
  "side_proxy =
     \<lparr>cb_type = ''socks'', cb_tag = ''bootstrap'',
      cb_options = ProxyOut (OSocks
        \<lparr>sk_dialer = dialer_zero, sk_server = \<lparr>so_server = ''192.0.2.9'', so_port = 1080\<rparr>, sk_version = ''5'',
         sk_username = '''', sk_password = '''', sk_uot = None\<rparr>)\<rparr>"

definition side_sample :: "(cfg_options \<times> nat) outcome" where
  "side_sample = side_config side_build_env ''/dev/null'' (Done 40001) None (Some (cfg_options_zero\<lparr>cf_outbounds := [side_proxy]\<rparr>))"

lemma side_sample: "case side_sample of Done (x, p) \<Rightarrow> p = 40001 \<and> length (cf_inbounds x) = 2 | _ \<Rightarrow> False"
  by code_simp

theorem translated_side_instance_isolated_witness:
  "case side_sample of
     Done (x, p) \<Rightarrow> length (cf_inbounds x) = 2 \<and>
       (\<forall>i \<in> set (cf_inbounds x). \<exists>a. nb_options i = MixedIn a 40001 False \<and> loopback a)
   | _ \<Rightarrow> False"
proof -
  from side_sample obtain x where x: "side_sample = Done (x, 40001)" "length (cf_inbounds x) = 2"
    by (auto split: outcome.splits)
  have "\<forall>i \<in> set (cf_inbounds x). \<exists>a. nb_options i = MixedIn a (of_nat 40001) False \<and> loopback a"
    using translated_side_instance_isolated [OF x(1) [unfolded side_sample_def]] by simp
  with x(2) show ?thesis unfolding x(1) by simp
qed

definition raw_engine :: "bool \<Rightarrow> side_options engine" where
  "raw_engine late =
     \<lparr>en_context = \<lparr>sx_platform = False, sx_registered = False\<rparr>, en_check = (\<lambda>_. None), en_start = (\<lambda>_. Done ()),
      en_deadline = late, en_close = None\<rparr>"

definition empty_world :: side_world where
  "empty_world = \<lparr>sw_next = 0, sw_running = {}, sw_observers = {}, sw_context = Map.empty\<rparr>"

theorem side_services_accounted_witness:
  "sw_running (snd (startRawSideInstance (Done 40001) (raw_engine True)
     (Some \<lparr>so_inbounds = [], so_experimental = None, so_rest = ''dns''\<rparr>) empty_world)) = {}"
proof -
  let ?o = "Some \<lparr>so_inbounds = [], so_experimental = None, so_rest = ''dns''\<rparr>"
  obtain w' where r: "startRawSideInstance (Done 40001) (raw_engine True) ?o empty_world = (Fails ''context deadline exceeded'', w')"
    by (simp add: startRawSideInstance_def sanitizeSideInstance_def and_then_def run_side_def raw_engine_def
        NewStartedService_def Let_def)
  have "fresh_world empty_world" by (simp add: fresh_world_def empty_world_def)
  from side_services_accounted [OF this disjI2 [OF r [symmetric]]]
  have "gained empty_world {} w'" by simp
  then show ?thesis unfolding r by (simp add: gained_def empty_world_def)
qed

end
