(* ===== verification/Clash_Ingest.thy ===== *)
theory Clash_Ingest
  imports Link_Writer Shadowsocks "HOL-Library.AList"
begin

text \<open>
  Clash YAML subscriptions (\<open>ray2sing/clash_ingest.go\<close>): each proxy of the list becomes a share link. The
  YAML decoder and the values of its free-form maps belong to \<open>yaml.v3\<close>: they are the parameters of
  \<open>clash_env\<close>, with what the code asks of a value (is it a text, is it a truth value, how does it print, how
  does a map of them encode). A map whose keys are walked is an association list.
\<close>

section \<open>The document\<close>

record clashWSOpts =
  cw_path :: string
  cw_headers :: "string \<rightharpoonup> string"

record clashRealityOpts =
  cr_publicKey :: string
  cr_shortId :: string

record clashH2Opts =
  ch2_host :: "string list"
  ch2_path :: string

record clashHTTPOpts =
  cht_method :: string
  cht_path :: "string list"
  cht_headers :: "(string \<times> string list) list"

record clashECHOpts =
  cec_enable :: bool
  cec_config :: string

record 'y clashProxy =
  cp_name :: string
  cp_type :: string
  cp_server :: string
  cp_port :: int
  cp_uuid :: string
  cp_password :: string
  cp_cipher :: string
  cp_alterId :: int
  cp_flow :: string
  cp_tls :: bool
  cp_sni :: string
  cp_servername :: string
  cp_skipCertVerify :: bool
  cp_alpn :: "string list"
  cp_fingerprint :: string
  cp_network :: string
  cp_ws :: "clashWSOpts option"
  cp_grpc :: "string option"
  cp_reality :: "clashRealityOpts option"
  cp_h2 :: "clashH2Opts option"
  cp_http :: "clashHTTPOpts option"
  cp_xhttp :: "(string \<times> 'y) list"
  cp_plugin :: string
  cp_pluginOpts :: "(string \<times> 'y) list"
  cp_ech :: "clashECHOpts option"
  cp_obfs :: string
  cp_obfsPassword :: string
  cp_congestion :: string
  cp_udpRelayMode :: string

text \<open>
  \<open>yaml_doc\<close> gives the proxies of a document, also when some fields had the wrong type; \<open>None\<close> is any
  other error.
\<close>

record 'y clash_env =
  yaml_doc :: "string \<Rightarrow> 'y clashProxy list option"
  any_text :: "'y \<Rightarrow> string option"
  any_bool :: "'y \<Rightarrow> bool option"
  any_print :: "'y \<Rightarrow> string"
  any_json :: "(string \<times> 'y) list \<Rightarrow> string option"

section \<open>Transport and TLS\<close>

definition clashSNI :: "'y clashProxy \<Rightarrow> string" where
  "clashSNI p = (if cp_servername p \<noteq> '''' then cp_servername p else cp_sni p)"

definition head_or_empty :: "string list \<Rightarrow> string" where
  "head_or_empty xs = (case xs of [] \<Rightarrow> '''' | x # _ \<Rightarrow> x)"

definition clashSingleValueHeaders :: "(string \<times> string list) list \<Rightarrow> query" where
  "clashSingleValueHeaders h =
     List.map_filter (\<lambda>(k, v). if to_lower k = ''host'' \<or> head_or_empty v = '''' then None else Some (k, head_or_empty v)) h"

definition http_obfs_params :: "clashHTTPOpts \<Rightarrow> query \<Rightarrow> query" where
  "http_obfs_params h q =
     (let hdrs = clashSingleValueHeaders (cht_headers h) in
      qset_if (hdrs \<noteq> []) ''headers'' (enc_map enc_string (map fst hdrs) (map_of hdrs))
        (qset_ne ''host'' (case map_of (cht_headers h) ''Host'' of None \<Rightarrow> '''' | Some v \<Rightarrow> head_or_empty v)
          (qset_ne ''method'' (cht_method h) (qset_ne ''path'' (head_or_empty (cht_path h)) q))))"

text \<open>The text under a key of a free-form map, empty when there is none.\<close>

definition any_member :: "'y clash_env \<Rightarrow> (string \<times> 'y) list \<Rightarrow> string \<Rightarrow> string" where
  "any_member E m k =
     (case map_of m k of None \<Rightarrow> '''' | Some v \<Rightarrow> (case any_text E v of None \<Rightarrow> '''' | Some s \<Rightarrow> s))"

definition clash_xhttp_params :: "'y clash_env \<Rightarrow> (string \<times> 'y) list \<Rightarrow> query \<Rightarrow> query" where
  "clash_xhttp_params E m q =
     (if m = [] then q
      else
        (let q1 = qset_ne ''mode'' (any_member E m ''mode'')
                    (qset_ne ''host'' (any_member E m ''host'') (qset_ne ''path'' (any_member E m ''path'') q))
         in case any_json E m of None \<Rightarrow> q1 | Some b \<Rightarrow> qset ''extra'' b q1))"

definition applyClashTransport :: "'y clash_env \<Rightarrow> 'y clashProxy \<Rightarrow> query \<Rightarrow> query" where
  "applyClashTransport E p q0 =
     (let net = orDefault (cp_network p) ''tcp''; q = qset ''type'' net q0 in
      if net = ''ws'' \<or> net = ''httpupgrade'' then
        (case cp_ws p of
           None \<Rightarrow> q
         | Some w \<Rightarrow>
             qset_ne ''host'' (case cw_headers w ''Host'' of None \<Rightarrow> '''' | Some h \<Rightarrow> h)
               (qset_ne ''path'' (cw_path w) q))
      else if net = ''grpc'' then
        (case cp_grpc p of None \<Rightarrow> q | Some s \<Rightarrow> qset_ne ''serviceName'' s q)
      else if net = ''h2'' then
        (case cp_h2 p of
           None \<Rightarrow> q
         | Some h \<Rightarrow> qset_if (ch2_host h \<noteq> []) ''host'' (join '','' (ch2_host h)) (qset_ne ''path'' (ch2_path h) q))
      else if net = ''http'' then
        (let q1 = qset ''headerType'' ''http'' (qset ''type'' ''tcp'' q) in
         case cp_http p of None \<Rightarrow> q1 | Some h \<Rightarrow> http_obfs_params h q1)
      else if net = ''xhttp'' \<or> net = ''splithttp'' then clash_xhttp_params E (cp_xhttp p) q
      else q)"

definition clash_reality_key :: "'y clashProxy \<Rightarrow> string" where
  "clash_reality_key p = (case cp_reality p of None \<Rightarrow> '''' | Some r \<Rightarrow> cr_publicKey r)"

definition clash_security :: "'y clashProxy \<Rightarrow> bool \<Rightarrow> query \<Rightarrow> query" where
  "clash_security p tls_on q =
     (if clash_reality_key p \<noteq> '''' then
        qset_ne ''sid'' (case cp_reality p of None \<Rightarrow> '''' | Some r \<Rightarrow> cr_shortId r)
          (qset ''pbk'' (clash_reality_key p) (qset ''security'' ''reality'' q))
      else if tls_on then qset ''security'' ''tls'' q
      else qset ''security'' ''none'' q)"

definition clash_ech :: "'y clashProxy \<Rightarrow> query \<Rightarrow> query" where
  "clash_ech p q =
     (case cp_ech p of None \<Rightarrow> q | Some e \<Rightarrow> if cec_enable e then qset ''ech'' (cec_config e) q else q)"

definition applyClashTLS :: "'y clashProxy \<Rightarrow> bool \<Rightarrow> query \<Rightarrow> query" where
  "applyClashTLS p implied q =
     (let tls_on = (cp_tls p \<or> implied); q1 = clash_security p tls_on q in
      if \<not> (tls_on \<or> clash_reality_key p \<noteq> '''') then q1
      else
        clash_ech p
          (qset_if (cp_skipCertVerify p) ''allowInsecure'' ''1''
            (qset_if (cp_skipCertVerify p) ''insecure'' ''1''
              (qset_ne ''fp'' (cp_fingerprint p)
                (qset_if (cp_alpn p \<noteq> []) ''alpn'' (join '','' (cp_alpn p)) (qset_ne ''sni'' (clashSNI p) q1))))))"

section \<open>Proxies\<close>

definition clash_link :: "string \<Rightarrow> string \<times> string option \<Rightarrow> query \<Rightarrow> 'y clashProxy \<Rightarrow> string" where
  "clash_link sch user q p = link_of sch (Some user) (hostPort (cp_server p) (cp_port p)) q (cp_name p)"

definition clashHysteria2 :: "'y clashProxy \<Rightarrow> string option" where
  "clashHysteria2 p =
     (let q = qset_if (cp_skipCertVerify p) ''insecure'' ''1''
                (qset_if (cp_alpn p \<noteq> []) ''alpn'' (join '','' (cp_alpn p)) (qset_ne ''sni'' (clashSNI p) []));
          q1 = (if cp_obfs p = '''' then q
                else qset_ne ''obfs-password'' (cp_obfsPassword p) (qset ''obfs'' (cp_obfs p) q))
      in Some (clash_link ''hysteria2'' (cp_password p, None) q1 p))"

definition clash_vless_query :: "'y clash_env \<Rightarrow> 'y clashProxy \<Rightarrow> query" where
  "clash_vless_query E p =
     applyClashTLS p False
       (applyClashTransport E p (qset_ne ''flow'' (cp_flow p) (qset ''encryption'' ''none'' [])))"

definition clashVLESS :: "'y clash_env \<Rightarrow> 'y clashProxy \<Rightarrow> string option" where
  "clashVLESS E p =
     (if cp_uuid p = '''' then None else Some (clash_link ''vless'' (cp_uuid p, None) (clash_vless_query E p) p))"

definition clashTrojan :: "'y clash_env \<Rightarrow> 'y clashProxy \<Rightarrow> string option" where
  "clashTrojan E p =
     (if cp_password p = '''' then None
      else Some (clash_link ''trojan'' (cp_password p, None) (applyClashTLS p True (applyClashTransport E p [])) p))"

text \<open>The plugin with its options in the order of their keys; a true option stands alone, a false one goes.\<close>

definition plugin_part :: "'y clash_env \<Rightarrow> string \<times> 'y \<Rightarrow> string option" where
  "plugin_part E kv =
     (case any_bool E (snd kv) of
        Some b \<Rightarrow> (if b then Some (fst kv) else None)
      | None \<Rightarrow> Some (fst kv @ ''='' @ any_print E (snd kv)))"

definition plugin_name :: "string \<Rightarrow> string" where
  "plugin_name n =
     (let l = to_lower n in
      if l = ''obfs'' \<or> l = ''simple-obfs'' then ''obfs-local''
      else if l = ''xray-plugin'' then ''v2ray-plugin''
      else n)"

definition clashPluginParam :: "'y clash_env \<Rightarrow> 'y clashProxy \<Rightarrow> string" where
  "clashPluginParam E p =
     (if cp_plugin p = '''' then ''''
      else if cp_pluginOpts p = [] then plugin_name (cp_plugin p)
      else join '';'' (plugin_name (cp_plugin p) #
             List.map_filter (\<lambda>k. case map_of (cp_pluginOpts p) k of None \<Rightarrow> None | Some v \<Rightarrow> plugin_part E (k, v))
               (sorted_keys (map fst (cp_pluginOpts p)))))"

definition clash_plugins :: "string list" where
  "clash_plugins = [''obfs'', ''simple-obfs'', ''obfs-local'', ''xray-plugin'', ''v2ray-plugin'']"

definition clashShadowsocks :: "'y clash_env \<Rightarrow> 'y clashProxy \<Rightarrow> string option" where
  "clashShadowsocks E p =
     (if cp_cipher p = '''' then None
      else if normalizeSSMethod (cp_cipher p) \<notin> set ssSupportedMethods then None
      else if cp_plugin p \<noteq> '''' \<and> to_lower (cp_plugin p) \<notin> set clash_plugins then None
      else Some (buildSSURI (cp_cipher p) (cp_password p) (cp_server p) (cp_port p) (cp_name p) (clashPluginParam E p)))"

definition clashTUIC :: "'y clashProxy \<Rightarrow> string option" where
  "clashTUIC p =
     (if cp_uuid p = '''' then None
      else
        (let q = qset_if (cp_skipCertVerify p) ''allow_insecure'' ''1''
                   (qset_if (cp_alpn p \<noteq> []) ''alpn'' (join '','' (cp_alpn p))
                     (qset_ne ''sni'' (clashSNI p)
                       (qset_ne ''udp_relay_mode'' (cp_udpRelayMode p)
                         (qset_ne ''congestion_control'' (cp_congestion p) []))))
         in Some (clash_link ''tuic'' (cp_uuid p, Some (cp_password p)) q p)))"

definition clash_vmess_object :: "'y clash_env \<Rightarrow> 'y clashProxy \<Rightarrow> query" where
  "clash_vmess_object E p =
     (let m0 = [(''v'', ''2''), (''ps'', cp_name p), (''add'', cp_server p), (''port'', itoa_int (cp_port p)),
                (''id'', cp_uuid p), (''aid'', itoa_int (cp_alterId p)), (''scy'', orDefault (cp_cipher p) ''auto''),
                (''net'', orDefault (cp_network p) ''tcp''), (''type'', ''none'')];
          m1 = mergeQueryIntoVmessMap (applyClashTLS p False (applyClashTransport E p [])) m0
      in if cp_network p = ''grpc'' then
           (case cp_grpc p of None \<Rightarrow> m1 | Some s \<Rightarrow> qset_ne ''path'' s m1)
         else m1)"

definition clashVMess :: "'y clash_env \<Rightarrow> 'y clashProxy \<Rightarrow> string option" where
  "clashVMess E p = (if cp_uuid p = '''' then None else Some (vmess_link (clash_vmess_object E p)))"

definition uriFromClashProxy :: "'y clash_env \<Rightarrow> 'y clashProxy \<Rightarrow> string option" where
  "uriFromClashProxy E p =
     (if cp_server p = '''' \<or> cp_port p = 0 then None
      else
        let t = to_lower (cp_type p) in
        if t = ''hysteria2'' \<or> t = ''hy2'' then clashHysteria2 p
        else if t = ''vless'' then clashVLESS E p
        else if t = ''vmess'' then clashVMess E p
        else if t = ''trojan'' then clashTrojan E p
        else if t = ''ss'' \<or> t = ''shadowsocks'' then clashShadowsocks E p
        else if t = ''tuic'' then clashTUIC p
        else None)"

definition clashLooksLikeYAML :: "string \<Rightarrow> bool" where
  "clashLooksLikeYAML s = list_ex (\<lambda>l. has_prefix l ''proxies:'') (split_byte (CHR 0x0A) s)"

definition ingestClashYAML :: "'y clash_env \<Rightarrow> string \<Rightarrow> string option" where
  "ingestClashYAML E input =
     (if \<not> clashLooksLikeYAML input then None
      else case yaml_doc E input of
        None \<Rightarrow> None
      | Some ps \<Rightarrow>
          let links = List.map_filter (uriFromClashProxy E) ps in
          if links = [] then None else Some (join [CHR 0x0A] links))"

end
