(* ===== verification/Subscription.thy ===== *)
theory Subscription
  imports Convert Clash_Ingest Amnezia_Ingest Ingest_Links
begin

text \<open>
  The two entry points of the converter (\<open>ray2sing/convert.go\<close>): \<open>Ray2SingboxOptions\<close>, which turns any
  subscription body into outbounds and endpoints, and \<open>ConvertToShareLinks\<close>, which turns it into records.
  Both try the containers first. \<open>sub_env\<close> collects the parameters: the environment of the link parsers,
  the YAML decoder and the encoder of endpoints.
\<close>

record 'y sub_env =
  se_env :: env
  se_clash :: "'y clash_env"
  se_marshal :: "endpoint list \<Rightarrow> string option"

text \<open>The containers in the order of the code: Amnezia with its errors, JSON, Clash, or the body itself.\<close>

definition container_input :: "'y sub_env \<Rightarrow> string \<Rightarrow> string result" where
  "container_input S input =
     (case ingestAmneziaVPN (se_marshal S) input of
        Some r \<Rightarrow> r
      | None \<Rightarrow>
          Inr (case ingestJSON input of
                 Some uris \<Rightarrow> uris
               | None \<Rightarrow> (case ingestClashYAML (se_clash S) input of Some uris \<Rightarrow> uris | None \<Rightarrow> input)))"

definition GenerateConfigLite :: "'y sub_env \<Rightarrow> string \<Rightarrow> sb_options result" where
  "GenerateConfigLite S input = bindE (container_input S input) (generate_links (se_env S))"

definition Ray2SingboxOptions :: "'y sub_env \<Rightarrow> string \<Rightarrow> sb_options result" where
  "Ray2SingboxOptions S configs = GenerateConfigLite S (fst (decodeBase64IfNeeded (trim_prefix configs bom)))"

text \<open>A text with an entry prefix at the start of one of its lines.\<close>

definition has_entry :: "string \<Rightarrow> bool" where
  "has_entry r \<longleftrightarrow> find_all split_prefixes 0 0 True r \<noteq> []"

definition joined :: "string list \<Rightarrow> string result" where
  "joined rs = (if rs = [] then err ''No servers found'' [] else Inr (join [nl] rs))"

definition plain_records :: "string \<Rightarrow> string result" where
  "plain_records body =
     (let rs = expandDecodedConfig body in
      if list_ex has_entry rs then Inr (join [nl] rs) else err ''No servers found'' [])"

text \<open>\<open>None\<close> is a panic, which \<open>ConvertToShareLinks\<close> turns into an error.\<close>

definition share_records :: "'y sub_env \<Rightarrow> string \<Rightarrow> string result option" where
  "share_records S body =
     (case convertAWGConfEntries (se_marshal S) body of
        None \<Rightarrow> None
      | Some (Some rs) \<Rightarrow> Some (joined rs)
      | Some None \<Rightarrow>
          (case convertAmneziaEntries (se_marshal S) body of
             None \<Rightarrow> None
           | Some (Some (Inl e)) \<Rightarrow> Some (Inl e)
           | Some (Some (Inr rs)) \<Rightarrow> Some (Inr (join [nl] rs))
           | Some None \<Rightarrow>
               (case convertJSONEntries body of
                  None \<Rightarrow> None
                | Some (Some rs) \<Rightarrow> Some (joined rs)
                | Some None \<Rightarrow>
                    (case ingestClashYAML (se_clash S) body of
                       Some uris \<Rightarrow> Some (Inr uris)
                     | None \<Rightarrow> Some (plain_records body)))))"

definition ConvertToShareLinks :: "'y sub_env \<Rightarrow> string \<Rightarrow> string result" where
  "ConvertToShareLinks S content =
     (case share_records S (fst (decodeBase64IfNeeded content)) of
        None \<Rightarrow> err ''Error in ConvertToShareLinks: '' []
      | Some r \<Rightarrow> r)"

section \<open>No panic\<close>

lemma json_no_panic: "convertJSONEntries body \<noteq> None"
proof (cases "collectContainerEntries body")
  case (Some es)
  then show ?thesis using entry_records_kept [OF collect_ok [OF Some]] by (auto simp: convertJSONEntries_def)
qed (simp add: convertJSONEntries_def)

lemma conf_no_panic: "convertAWGConfEntries mj body \<noteq> None"
  using json_no_panic by (auto simp: convertAWGConfEntries_def Let_def simp del: not_None_eq split: option.split)

lemma map_opt_total: "(\<And>x. f x \<noteq> None) \<Longrightarrow> map_opt f xs \<noteq> None"
  by (induction xs) (auto split: option.split)

lemma record_part_total: "record_part mj p \<noteq> None"
  using json_no_panic [of "ap_body p"] by (auto simp: record_part_def Let_def simp del: not_None_eq split: amneziaPartKind.split)

lemma amnezia_no_panic: "convertAmneziaEntries mj body \<noteq> None"
  using map_opt_total [of "record_part mj", OF record_part_total]
  by (auto simp: convertAmneziaEntries_def Let_def simp del: not_None_eq split: sum.split option.split)


section \<open>A written link as a line\<close>

lemma written_char_graphic: "link_char c \<Longrightarrow> graphic c"
  by (auto simp: link_char_def graphic_def is_alnum_def is_digit_def is_upper_def is_lower_def code_def)

lemma fragment_graphic: "list_all graphic (escape EncFragment s)"
proof -
  have "list_all graphic (escape_byte EncFragment c)" for c
    using percent_chars [of c] written_char_graphic
    by (auto simp: escape_byte_def should_escape_def list_all_iff graphic_def is_alnum_def is_digit_def is_upper_def
        is_lower_def code_def split: if_splits)
  then show ?thesis by (induction s) (auto simp: escape_def)
qed

lemma fold_match_self: "fold_match p (p @ t) = Some (length p)"
  by (induction p) auto

lemma first_match_prefix: "p \<in> set ps \<Longrightarrow> first_match ps (p @ t) \<noteq> None"
  by (induction ps) (auto simp: fold_match_self split: option.split)

lemma split_str_single: "str_index s sep = None \<Longrightarrow> split_str s sep = [s]"
  by (subst split_str.simps) simp

lemma no_arrow: "CHR '' '' \<notin> set s \<Longrightarrow> str_index s '' -> '' = None"
  by (induction s) auto

lemma share_link_line:
  assumes "host_ok h" and "list_all link_char q"
  shows "link_line (share_link ''vless'' (escape EncUserPassword user) h n q name)"
proof -
  let ?l = "share_link ''vless'' (escape EncUserPassword user) h n q name"
  define r where "r = escape EncUserPassword user @ ''@'' @ h @ '':'' @ itoa n @
     (if q = '''' then '''' else ''?'' @ q) @ (if name = '''' then '''' else ''#'' @ escape EncFragment name)"
  have l: "?l = ''vless://'' @ r" by (simp add: share_link_def r_def)
  have g: "list_all graphic s" if "list_all link_char s" for s
    using that written_char_graphic by (auto simp: list_all_iff)
  have sp: "graphic (CHR ''@'')" "graphic (CHR '':'')" "graphic (CHR ''?'')" "graphic (CHR ''#'')" "graphic (CHR ''/'')"
    "list_all graphic ''vless''" by code_simp+
  have e: "list_all link_char (escape EncUserPassword user)" by (rule escape_chars) simp
  have gr: "list_all graphic r"
    unfolding r_def using g [OF e] g [OF host_link_chars [OF assms(1)]] g [OF itoa_link_chars [of n]] g [OF assms(2)]
      fragment_graphic [of name] sp by simp
  have "r \<noteq> []" by (simp add: r_def)
  then have last: "last ?l = last r" "graphic (last r)" using gr by (auto simp: l list_all_iff)
  have gl: "list_all graphic ?l" using gr sp by (simp add: l)
  have "\<not> graphic (CHR '' '')" by code_simp
  with gl have "CHR '' '' \<notin> set ?l" by (auto simp: list_all_iff)
  then have "split_str ?l '' -> '' = [?l]" by (intro split_str_single no_arrow)
  moreover have "''vless://'' \<in> set split_prefixes" by (simp add: split_prefixes_def)
  then have "starts_entry ?l" unfolding starts_entry_def l by (rule first_match_prefix)
  moreover have "list_all (\<lambda>c. graphic c \<or> c = CHR '' '') ?l" using gl by (auto simp: list_all_iff)
  moreover have "graphic (CHR ''v'')" by code_simp
  ultimately show ?thesis using last by (simp add: link_line_def) (simp add: l)
qed

lemma vless_dispatched:
  assumes "VlessSingbox (ev_xhttp ev) (''vless://'' @ r) = Inr x"
  shows "processSingleConfig ev (''vless://'' @ r) = Inr (single_outbound (default_out_tag x))"
proof -
  have s: "lower_scheme (''vless://'' @ r) = ''vless://'' @ r"
    using lower_scheme_text [of "''vless''" r] by (simp add: to_lower_def to_lower_byte_def is_upper_def code_def)
  have d: "dispatch (configTypes ev) (''vless://'' @ r) = Some (Inr x)"
    using assms by (simp add: configTypes_def Let_def)
  have e: "dispatch (endpointParsers ev) (''vless://'' @ r) = None"
    by (simp add: endpointParsers_def)
  have c: "canonical_header (''vless://'' @ r) = ''vless://'' @ r" by (simp add: canonical_header_def)
  show ?thesis
    unfolding processSingleConfig_def s c run_parsers_def d e
    by (simp add: single_outbound_def)
qed

section \<open>From a container to outbounds\<close>

text \<open>An entry that is an Xray VLESS node with a plain host, and the outbound that should come of it.\<close>

definition vless_node :: "raw \<Rightarrow> xrayOutbound \<times> vnext_server \<times> vnext_user \<Rightarrow> bool" where
  "vless_node t n \<longleftrightarrow>
     (case n of (ob, srv, usr) \<Rightarrow>
        (\<exists>p. dec_probe [''protocol'', ''type'', ''method'', ''password'', ''server''] t = Some p \<and>
           to_lower (pr_protocol p) = ''vless'') \<and>
        dec_xrayOutbound t = Some ob \<and> first_vnext (ob_settings ob) = Some (srv, usr) \<and>
        host_ok (vn_address srv) \<and> 0 \<le> vn_port srv \<and> vn_port srv < 65536 \<and>
        vu_encryption usr \<in> {'''', ''none''} \<and> \<not> isl (normalizeVlessFlow (vu_flow usr)) \<and>
        blank_free (vless_query (ob_stream ob) usr) \<and>
        (\<forall>w. stream_net (ob_stream ob) = Some w \<longrightarrow> w \<in> set linkable_nets))"

definition vless_built :: "xrayOutbound \<times> vnext_server \<times> vnext_user \<Rightarrow> outbound \<Rightarrow> bool" where
  "vless_built n b \<longleftrightarrow>
     (case n of (ob, srv, usr) \<Rightarrow>
        o_type b = ''vless'' \<and> o_tag b = (if ob_tag ob = '''' then ''vless'' else ob_tag ob) \<and>
        (\<exists>v. o_options b = OVless v \<and> vl_uuid v = vu_id usr \<and>
           vl_server v = \<lparr>so_server = vn_address srv, so_port = eff_port (vn_port srv)\<rparr> \<and>
           (vl_tls v \<noteq> None \<longleftrightarrow> stream_security (ob_stream ob) \<in> {''tls'', ''reality''})))"

lemma vless_node_links:
  assumes "vless_node t (ob, srv, usr)"
  shows "\<exists>b. toURI (plain_entry t) = Some (vless_link srv usr ob) \<and> link_line (vless_link srv usr ob) \<and>
    processSingleConfig ev (vless_link srv usr ob) = Inr (single_outbound b) \<and> vless_built (ob, srv, usr) b"
proof -
  obtain p where p: "dec_probe [''protocol'', ''type'', ''method'', ''password'', ''server''] t = Some p"
    "to_lower (pr_protocol p) = ''vless''" using assms by (auto simp: vless_node_def)
  obtain flow where flow: "normalizeVlessFlow (vu_flow usr) = Inr flow"
    using assms unfolding vless_node_def by (cases "normalizeVlessFlow (vu_flow usr)") auto
  have h: "dec_xrayOutbound t = Some ob" "first_vnext (ob_settings ob) = Some (srv, usr)" "host_ok (vn_address srv)"
    "0 \<le> vn_port srv" "vn_port srv < 65536" "vu_encryption usr \<in> {'''', ''none''}"
    "blank_free (vless_query (ob_stream ob) usr)" "\<And>w. stream_net (ob_stream ob) = Some w \<Longrightarrow> w \<in> set linkable_nets"
    using assms unfolding vless_node_def by auto
  obtain x v where x: "uriFromXrayOutbound t (pr_protocol p) = Some (vless_link srv usr ob)"
    "VlessSingbox (ev_xhttp ev) (vless_link srv usr ob) = Inr x" "o_type x = ''vless''" "o_tag x = ob_tag ob"
    "o_options x = OVless v" "vl_uuid v = vu_id usr"
    "vl_server v = \<lparr>so_server = vn_address srv, so_port = eff_port (vn_port srv)\<rparr>"
    "vl_tls v \<noteq> None \<longleftrightarrow> stream_security (ob_stream ob) \<in> {''tls'', ''reality''}"
    using vless_link_imported [OF h(1,2) p(2) h(3-6) flow h(7,8), of "ev_xhttp ev"] by auto
  have share: "vless_link srv usr ob =
      share_link ''vless'' (escape EncUserPassword (vu_id usr)) (vn_address srv)
        (nat (if vn_port srv = 0 then 443 else vn_port srv))
        (link_query (sorted_query (vless_query (ob_stream ob) usr))) (ob_tag ob)"
    unfolding vless_link_def hostPort_text [OF h(3,4)]
    by (subst link_of_share) (simp_all add: h(3) scheme_ok_def is_lower_def code_def user_text_def qencode_link)
  have line: "link_line (vless_link srv usr ob)"
    unfolding share by (rule share_link_line [OF h(3) link_query_chars])
  obtain r where r: "vless_link srv usr ob = ''vless://'' @ r" by (simp add: share share_link_def)
  have single: "processSingleConfig ev (vless_link srv usr ob) = Inr (single_outbound (default_out_tag x))"
    unfolding r by (rule vless_dispatched) (use x(2) r in simp)
  have "pr_protocol p \<noteq> ''''" using p(2) by (auto simp: to_lower_def)
  then have "toURI (plain_entry t) = Some (vless_link srv usr ob)"
    using p(1) x(1) by (simp add: toURI_def plain_entry_def uriFromAnyEntry_def)
  with line single show ?thesis
    using x(3-8) by (auto simp: vless_built_def default_out_tag_def)
qed

lemma json_vless_lite:
  assumes es: "collectContainerEntries body = Some (map plain_entry ts)" and ns: "list_all2 vless_node ts ns"
    and "\<not> looksLikeAmneziaVPN body"
  shows "\<exists>bs. GenerateConfigLite S body = Inr \<lparr>sb_outbounds = nth_outbounds 0 bs, sb_endpoints = []\<rparr> \<and>
    list_all2 vless_built ns bs"
proof -
  let ?ev = "se_env S" and ?link = "\<lambda>(ob, srv, usr). vless_link srv usr ob"
  have uris: "List.map_filter (\<lambda>e. if ce_isEndpoint e then None else toURI e) (map plain_entry ts) = map ?link ns"
    and lines: "list_all link_line (map ?link ns)"
    and built: "\<exists>bs. list_all2 (\<lambda>l b. processSingleConfig ?ev l = Inr (single_outbound b)) (map ?link ns) bs \<and>
      list_all2 vless_built ns bs"
    using ns
  proof (induction ts ns rule: list_all2_induct)
    case (Cons t ts n ns)
    obtain ob srv usr where n: "n = (ob, srv, usr)" by (cases n)
    obtain b where b: "toURI (plain_entry t) = Some (vless_link srv usr ob)" "link_line (vless_link srv usr ob)"
      "processSingleConfig ?ev (vless_link srv usr ob) = Inr (single_outbound b)" "vless_built n b"
      using vless_node_links [of t ob srv usr ?ev] Cons.hyps(1) n by auto
    {
      case 1
      show ?case using Cons.IH(1) b(1) by (simp add: n List.map_filter_simps plain_entry_def)
    next
      case 2
      show ?case using Cons.IH(2) b(2) by (simp add: n)
    next
      case 3
      from Cons.IH(3) obtain bs where "list_all2 (\<lambda>l b. processSingleConfig ?ev l = Inr (single_outbound b)) (map ?link ns) bs"
        "list_all2 vless_built ns bs" by blast
      with b(3,4) show ?case by (intro exI [of _ "b # bs"]) (simp add: n)
    }
  qed (simp_all add: List.map_filter_simps)
  from es have "ts \<noteq> []" by (auto simp: collectContainerEntries_def split: option.splits if_splits)
  with ns have ne: "map ?link ns \<noteq> []" by auto
  have input: "container_input S body = Inr (join [nl] (map ?link ns))"
    using assms(3) es uris ne by (simp add: container_input_def ingestAmneziaVPN_def ingestJSON_def nl_def)
  from built obtain bs where bs: "list_all2 (\<lambda>l b. processSingleConfig ?ev l = Inr (single_outbound b)) (map ?link ns) bs"
    "list_all2 vless_built ns bs" by blast
  have "GenerateConfigLite S body = Inr \<lparr>sb_outbounds = nth_outbounds 0 bs, sb_endpoints = []\<rparr>"
    using links_line_outbounds [OF lines ne bs(1)] by (simp add: GenerateConfigLite_def input)
  with bs(2) show ?thesis by blast
qed


definition no_yaml :: "raw clash_env" where
  "no_yaml = \<lparr>yaml_doc = (\<lambda>_. None), any_text = (\<lambda>_. None), any_bool = (\<lambda>_. None), any_print = (\<lambda>s. s),
     any_json = (\<lambda>_. None)\<rparr>"

definition offline_sub :: "raw sub_env" where
  "offline_sub = \<lparr>se_env = offline_env, se_clash = no_yaml, se_marshal = (\<lambda>_. None)\<rparr>"

definition sample_subscription :: string where
  "sample_subscription = quoted ''{`dns`:{},`outbounds`:['' @ sample_vless @ '']}''"

lemma sample_collected:
  "collectContainerEntries sample_subscription = Some (map plain_entry [sample_vless])"
  by code_simp

lemma sample_probe:
  "case dec_probe [''protocol'', ''type'', ''method'', ''password'', ''server''] sample_vless of
     None \<Rightarrow> False | Some p \<Rightarrow> to_lower (pr_protocol p) = ''vless''"
  by code_simp

lemma sample_node: "\<exists>n. vless_node sample_vless n"
proof -
  obtain ob where ob: "dec_xrayOutbound sample_vless = Some ob" and s: "is_sample ob"
    using sample_decodes by (auto split: option.splits)
  obtain p where p: "dec_probe [''protocol'', ''type'', ''method'', ''password'', ''server''] sample_vless = Some p"
    "to_lower (pr_protocol p) = ''vless''" using sample_probe by (auto split: option.splits)
  let ?n = "(ob, sample_server, hd (vn_users sample_server))"
  have a: "host_ok (vn_address sample_server)" "0 \<le> vn_port sample_server" "vn_port sample_server < 65536"
    "vu_encryption (hd (vn_users sample_server)) \<in> {'''', ''none''}"
    "\<not> isl (normalizeVlessFlow (vu_flow (hd (vn_users sample_server))))"
    by code_simp+
  have "vless_node sample_vless ?n"
    using ob s p a by (auto simp: vless_node_def is_sample_def blank_freeI linkable_nets_def)
  then show ?thesis by blast
qed

lemma sample_not_amnezia: "\<not> looksLikeAmneziaVPN sample_subscription"
  by code_simp


end
