(* ===== verification/Config_Parse.thy ===== *)
theory Config_Parse
  imports Subscription Config_Read Config_Outbound
begin

text \<open>
  Parsing a profile of any format into engine options (\<open>config/parser.go\<close>): the engine's own JSON first, then
  the converter, then the Clash library. \<open>parse_env\<close> collects what belongs to libraries: the JSON reader that
  skips comments (\<open>pe_any\<close>), the engine's decoder applied to the members of an object (\<open>pe_decode\<close>), its
  registry of endpoint types, its check of a configuration, the Clash converter, and the order in which the
  concurrent patches of the endpoints end.
\<close>

datatype clash_reading = NotClash | NoProxies | ClashFails string | ClashOptions cfg_options

record 'y parse_env =
  pe_sub :: "'y sub_env"
  pe_any :: "string \<Rightarrow> json option"
  pe_decode :: "(string \<times> json) list \<Rightarrow> cfg_options option"
  pe_endpoint_type :: "string \<Rightarrow> bool"
  pe_check :: "cfg_options \<Rightarrow> bool"
  pe_clash :: "string \<Rightarrow> clash_reading"
  pe_order :: "nat \<Rightarrow> nat list"

section \<open>Patching and validation\<close>

text \<open>The patch before a start is of WARP endpoints only: it asks for no random choice and no lookup.\<close>

definition early_patch :: "endpoint \<Rightarrow> endpoint" where
  "early_patch e = patchWarp (\<lambda>_. []) \<lparr>wr_ipv4 = '''', wr_ipv6 = '''', wr_port = 0\<rparr> False e"

text \<open>The results of the batch, kept by tag in the order in which the patches end.\<close>

definition batch_results :: "nat list \<Rightarrow> endpoint list \<Rightarrow> (string \<rightharpoonup> endpoint)" where
  "batch_results order es = foldl (\<lambda>m i. m(e_tag (es ! i) \<mapsto> early_patch (es ! i))) Map.empty order"

fun take_results :: "(string \<rightharpoonup> endpoint) \<Rightarrow> endpoint list \<Rightarrow> endpoint list outcome" where
  "take_results m [] = Done []"
| "take_results m (e # es) =
     (case m (e_tag e) of
        None \<Rightarrow> Panics ''nil pointer dereference''
      | Some x \<Rightarrow> and_then (take_results m es) (\<lambda>xs. Done (x # xs)))"

definition validateResult :: "'y parse_env \<Rightarrow> string \<Rightarrow> cfg_options \<Rightarrow> cfg_options outcome" where
  "validateResult P name x = (if pe_check P x then Done x else Fails (''['' @ name @ ''] invalid sing-box config: ''))"

definition patchConfigOptions :: "'y parse_env \<Rightarrow> string \<Rightarrow> cfg_options \<Rightarrow> cfg_options outcome" where
  "patchConfigOptions P name x =
     (let es = cf_endpoints x in
      and_then (take_results (batch_results (pe_order P (length es)) es) es) (\<lambda>es'.
        validateResult P name (x\<lparr>cf_endpoints := es'\<rparr>)))"

definition patchConfigStr :: "'y parse_env \<Rightarrow> string \<Rightarrow> (string \<times> json) list \<Rightarrow> cfg_options outcome" where
  "patchConfigStr P name obj =
     (case pe_decode P obj of
        None \<Rightarrow> Fails ''[SingboxParser] unmarshal error: ''
      | Some x \<Rightarrow> patchConfigOptions P name x)"

section \<open>The engine's own JSON\<close>

text \<open>A member that is there and not \<open>null\<close>; the last one of a name counts.\<close>

definition member :: "(string \<times> json) list \<Rightarrow> string \<Rightarrow> json option" where
  "member ms k = (case map_of (rev ms) k of Some v \<Rightarrow> if v = JNull then None else Some v | None \<Rightarrow> None)"

definition isEndpointType :: "'y parse_env \<Rightarrow> (string \<times> json) list \<Rightarrow> bool" where
  "isEndpointType P ms =
     (case member ms ''type'' of Some (JStr t) \<Rightarrow> t \<noteq> '''' \<and> pe_endpoint_type P t | _ \<Rightarrow> False)"

text \<open>A single object, tried in its containers; the error is that of the first.\<close>

definition single_containers :: "'y parse_env \<Rightarrow> (string \<times> json) list \<Rightarrow> string list" where
  "single_containers P ms = (if isEndpointType P ms then [''endpoints'', ''outbounds''] else [''outbounds''])"

fun try_containers :: "'y parse_env \<Rightarrow> json \<Rightarrow> string option \<Rightarrow> string list \<Rightarrow> cfg_options outcome" where
  "try_containers P v e [] = Fails (case e of None \<Rightarrow> '''' | Some m \<Rightarrow> m)"
| "try_containers P v e (c # cs) =
     (case patchConfigStr P ''SingboxParser'' [(c, JArr [v])] of
        Done x \<Rightarrow> Done x
      | Fails m \<Rightarrow> try_containers P v (case e of None \<Rightarrow> Some m | Some m0 \<Rightarrow> Some m0) cs
      | Panics m \<Rightarrow> Panics m)"

definition section_members :: "(string \<times> json) list \<Rightarrow> (string \<times> json) list" where
  "section_members ms =
     List.map_filter (\<lambda>k. map_option (\<lambda>v. (k, v)) (member ms k)) [''outbounds'', ''endpoints'']"

definition is_endpoint_item :: "'y parse_env \<Rightarrow> json \<Rightarrow> bool" where
  "is_endpoint_item P v = (case v of JObj ms \<Rightarrow> isEndpointType P ms | _ \<Rightarrow> False)"

definition split_items :: "'y parse_env \<Rightarrow> json list \<Rightarrow> (string \<times> json) list" where
  "split_items P vs =
     (let ends = filter (is_endpoint_item P) vs; outs = filter (\<lambda>v. \<not> is_endpoint_item P v) vs
      in (if outs = [] then [] else [(''outbounds'', JArr outs)]) @
         (if ends = [] then [] else [(''endpoints'', JArr ends)]))"

definition parseSingboxJSON :: "'y parse_env \<Rightarrow> bool \<Rightarrow> json \<Rightarrow> cfg_options outcome" where
  "parseSingboxJSON P full v =
     (case v of
        JObj ms \<Rightarrow>
          if member ms ''outbounds'' = None \<and> member ms ''endpoints'' = None
          then try_containers P v None (single_containers P ms)
          else patchConfigStr P ''SingboxParser'' (if full then ms else section_members ms)
      | JArr [] \<Rightarrow> Fails ''[SingboxParser] Incorrect Json Format''
      | JArr vs \<Rightarrow> patchConfigStr P ''SingboxParser'' (split_items P vs)
      | _ \<Rightarrow> Fails ''[SingboxParser] Incorrect Json Format'')"

section \<open>All formats\<close>

definition converted_options :: "sb_options \<Rightarrow> cfg_options" where
  "converted_options s =
     cfg_options_zero
       \<lparr>cf_outbounds := map (\<lambda>b. \<lparr>cb_type = o_type b, cb_tag = o_tag b, cb_options = ProxyOut (o_options b)\<rparr>) (sb_outbounds s),
        cf_endpoints := sb_endpoints s\<rparr>"

text \<open>After the engine's JSON: the converter, the Clash library, and the error that is left.\<close>

definition parse_other :: "'y parse_env \<Rightarrow> string option \<Rightarrow> string \<Rightarrow> cfg_options outcome" where
  "parse_other P json_err content =
     (case Ray2SingboxOptions (pe_sub P) content of
        Inr s \<Rightarrow> patchConfigOptions P ''V2rayParser'' (converted_options s)
      | Inl _ \<Rightarrow>
          (case pe_clash P content of
             NoProxies \<Rightarrow> Fails ''[ClashParser] no outbounds found''
           | ClashFails m \<Rightarrow> Fails m
           | ClashOptions x \<Rightarrow> patchConfigOptions P ''ClashParser'' x
           | NotClash \<Rightarrow> Fails (case json_err of Some m \<Rightarrow> m | None \<Rightarrow> ''unable to determine config format'')))"

definition parseConfigContent :: "'y parse_env \<Rightarrow> bool \<Rightarrow> string \<Rightarrow> cfg_options outcome" where
  "parseConfigContent P full content =
     (case pe_any P content of
        None \<Rightarrow> parse_other P None content
      | Some v \<Rightarrow>
          (case parseSingboxJSON P full v of
             Done x \<Rightarrow> Done x
           | Fails m \<Rightarrow> parse_other P (Some m) content
           | Panics m \<Rightarrow> Panics m))"

text \<open>\<open>ParseConfig\<close> passes on neither the settings nor the wish for a full configuration.\<close>

definition ParseConfig ::
  "'y parse_env \<Rightarrow> (string \<Rightarrow> string outcome) \<Rightarrow> InhiveOptions \<Rightarrow> bool \<Rightarrow> read_options \<Rightarrow> cfg_options outcome" where
  "ParseConfig P rd h full ro = and_then (ReadContent rd ro) (\<lambda>content. parseConfigContent P False content)"

definition ParseConfigBytes ::
  "'y parse_env \<Rightarrow> (cfg_options \<Rightarrow> string outcome) \<Rightarrow> (string \<Rightarrow> string outcome) \<Rightarrow> InhiveOptions \<Rightarrow> bool \<Rightarrow>
     read_options \<Rightarrow> string outcome" where
  "ParseConfigBytes P mj rd h full ro = and_then (ParseConfig P rd h full ro) mj"

section \<open>Facts\<close>

lemma batch_results_some:
  assumes "i \<in> set order" and "\<And>j. j \<in> set order \<Longrightarrow> e_tag (es ! j) = e_tag (es ! i) \<Longrightarrow> es ! j = es ! i"
  shows "batch_results order es (e_tag (es ! i)) = Some (early_patch (es ! i))"
  using assms
proof (induction order rule: rev_induct)
  case (snoc k order)
  show ?case
  proof (cases "e_tag (es ! k) = e_tag (es ! i)")
    case True
    with snoc.prems(2) have "es ! k = es ! i" by simp
    then show ?thesis by (simp add: batch_results_def)
  next
    case False
    with snoc.prems(1) have "i \<in> set order" by auto
    with snoc have "batch_results order es (e_tag (es ! i)) = Some (early_patch (es ! i))" by simp
    with False show ?thesis by (simp add: batch_results_def)
  qed
qed simp

lemma take_results_map:
  "(\<And>e. e \<in> set es \<Longrightarrow> m (e_tag e) = Some (f e)) \<Longrightarrow> take_results m es = Done (map f es)"
  by (induction es) (simp_all add: and_then_def)

lemma take_results_tags:
  "take_results m es = Done xs \<Longrightarrow> length xs = length es \<and> (\<forall>i < length es. Some (xs ! i) = m (e_tag (es ! i)))"
proof (induction es arbitrary: xs)
  case (Cons e es)
  from Cons.prems obtain y ys where "m (e_tag e) = Some y" "take_results m es = Done ys" "xs = y # ys"
    by (auto simp: and_then_Done split: option.splits)
  with Cons.IH show ?case by (auto simp: nth_Cons split: nat.split)
qed simp

text \<open>C21: when the endpoints have different tags, the concurrent patching is the sequential one: in whatever
  order the patches end, each endpoint is replaced by its own patched form and the rest is untouched.\<close>

theorem patch_order_immaterial:
  assumes "distinct (map e_tag (cf_endpoints x))"
    and "set (pe_order P (length (cf_endpoints x))) = {..<length (cf_endpoints x)}"
  shows "patchConfigOptions P name x = validateResult P name (x\<lparr>cf_endpoints := map early_patch (cf_endpoints x)\<rparr>)"
proof -
  let ?es = "cf_endpoints x" and ?o = "pe_order P (length (cf_endpoints x))"
  have "batch_results ?o ?es (e_tag e) = Some (early_patch e)" if "e \<in> set ?es" for e
  proof -
    from that obtain i where i: "i < length ?es" "e = ?es ! i" by (auto simp: in_set_conv_nth)
    have same: "?es ! j = ?es ! i" if "j \<in> set ?o" "e_tag (?es ! j) = e_tag (?es ! i)" for j
    proof -
      from that(1) assms(2) have "j < length ?es" by simp
      with i(1) that(2) assms(1) have "j = i" by (metis length_map nth_eq_iff_index_eq nth_map)
      then show ?thesis by simp
    qed
    show ?thesis unfolding i(2) by (rule batch_results_some) (use i(1) assms(2) same in auto)
  qed
  then have "take_results (batch_results ?o ?es) ?es = Done (map early_patch ?es)" by (rule take_results_map)
  then show ?thesis by (simp add: patchConfigOptions_def and_then_def)
qed

text \<open>C40: two endpoints with the same tag, or both without one, do not survive: the results of the batch are
  kept by tag, so whatever comes back holds the same endpoint at both places.\<close>

theorem same_tag_endpoints_collapse:
  assumes "patchConfigOptions P name x = Done y" and "i < length (cf_endpoints x)" and "j < length (cf_endpoints x)"
    and "e_tag (cf_endpoints x ! i) = e_tag (cf_endpoints x ! j)"
  shows "cf_endpoints y ! i = cf_endpoints y ! j"
proof -
  let ?es = "cf_endpoints x" and ?o = "pe_order P (length (cf_endpoints x))"
  obtain es' where es': "take_results (batch_results ?o ?es) ?es = Done es'"
    and y: "validateResult P name (x\<lparr>cf_endpoints := es'\<rparr>) = Done y"
    using assms(1) by (auto simp: patchConfigOptions_def and_then_Done Let_def)
  from y have "cf_endpoints y = es'" by (auto simp: validateResult_def split: if_splits)
  moreover have "Some (es' ! k) = batch_results ?o ?es (e_tag (?es ! k))" if "k < length ?es" for k
    using take_results_tags [OF es'] that by blast
  ultimately show ?thesis using assms(2-4) by (metis option.inject)
qed

section \<open>Samples\<close>

definition in_order :: "nat \<Rightarrow> nat list" where
  "in_order n = [0..<n]"

definition plain_parse :: "raw parse_env" where
  "plain_parse =
     \<lparr>pe_sub = offline_sub, pe_any = (\<lambda>_. None), pe_decode = (\<lambda>_. None), pe_endpoint_type = (\<lambda>t. t = ''wireguard''),
      pe_check = (\<lambda>_. True), pe_clash = (\<lambda>_. NotClash), pe_order = in_order\<rparr>"

definition awg_named :: "string \<Rightarrow> string \<Rightarrow> endpoint" where
  "awg_named tag key =
     \<lparr>e_type = ''wireguard'', e_tag = tag,
      e_options = EWireGuard \<lparr>wg_dialer = dialer_zero, wg_private = key, wg_address = [], wg_mtu = 0, wg_peers = [],
        wg_noise = noise_zero, wg_workers = 0\<rparr>\<rparr>"

definition two_endpoints :: "string \<Rightarrow> string \<Rightarrow> cfg_options" where
  "two_endpoints t u = cfg_options_zero\<lparr>cf_endpoints := [awg_named t ''k1'', awg_named u ''k2'']\<rparr>"

theorem patch_order_immaterial_witness:
  "patchConfigOptions plain_parse ''n'' (two_endpoints ''a'' ''b'') = Done (two_endpoints ''a'' ''b'')"
proof -
  have d: "distinct (map e_tag (cf_endpoints (two_endpoints ''a'' ''b'')))" by code_simp
  have s: "set (pe_order plain_parse (length (cf_endpoints (two_endpoints ''a'' ''b'')))) =
      {..<length (cf_endpoints (two_endpoints ''a'' ''b''))}"
    by (simp add: plain_parse_def in_order_def atLeast0LessThan)
  have "early_patch (awg_named t k) = awg_named t k" for t k by (simp add: early_patch_def patchWarp_def awg_named_def)
  then have "(two_endpoints ''a'' ''b'')\<lparr>cf_endpoints := map early_patch (cf_endpoints (two_endpoints ''a'' ''b''))\<rparr> =
      two_endpoints ''a'' ''b''"
    by (simp add: two_endpoints_def)
  with patch_order_immaterial [OF d s, of "''n''"] show ?thesis by (simp add: validateResult_def plain_parse_def)
qed

theorem same_tag_endpoints_collapse_witness:
  "\<exists>y. patchConfigOptions plain_parse ''n'' (two_endpoints '''' '''') = Done y \<and> cf_endpoints y ! 0 = cf_endpoints y ! 1"
proof -
  have "case patchConfigOptions plain_parse ''n'' (two_endpoints '''' '''') of Done _ \<Rightarrow> True | _ \<Rightarrow> False" by code_simp
  then obtain y where y: "patchConfigOptions plain_parse ''n'' (two_endpoints '''' '''') = Done y"
    by (auto split: outcome.splits)
  have "cf_endpoints y ! 0 = cf_endpoints y ! 1"
    by (rule same_tag_endpoints_collapse [OF y]) (simp_all add: two_endpoints_def awg_named_def)
  with y show ?thesis by blast
qed

section \<open>A container that is not the engine's own\<close>



end
