(* ===== verification/Core_Config.thy ===== *)
theory Core_Config
  imports Config_Build Config_Parse
begin

text \<open>
  What the core makes of a request before an engine exists (\<open>hcore/buildconfighelper.go\<close>): the options of a start,
  read as they are or put through the builder, and the \<open>Parse\<close> call, which turns any profile into the engine's
  JSON and may write it to a file. The traffic padding of \<open>initDaita\<close> is a library: \<open>fw\<close> makes its framework.
\<close>

section \<open>A start\<close>

record 'f daita_settings =
  da_enabled :: bool
  da_machines :: string
  da_max_pad :: 'f

text \<open>The framework put into the context, if any; an error is only logged. \<open>low\<close>: the share is not positive.\<close>

definition initDaita ::
  "(string \<Rightarrow> 'f \<Rightarrow> 'w option outcome) \<Rightarrow> ('f \<Rightarrow> bool) \<Rightarrow> 'f \<Rightarrow> string \<Rightarrow> 'f daita_settings option \<Rightarrow> 'w option outcome" where
  "initDaita fw low tenth bundled s =
     (case s of
        None \<Rightarrow> Panics ''nil pointer dereference''
      | Some d \<Rightarrow>
          if \<not> da_enabled d then Done None
          else case fw (if da_machines d = '''' then bundled else da_machines d)
                  (if low (da_max_pad d) then tenth else da_max_pad d) of
            Done w \<Rightarrow> Done w
          | Fails e \<Rightarrow> Done None
          | Panics m \<Rightarrow> Panics m)"

definition read_of :: "start_request \<Rightarrow> read_options" where
  "read_of r = \<lparr>ro_path = sr_path r, ro_content = sr_content r, ro_options = None\<rparr>"

text \<open>The settings are those of the core, which has none before its setup.\<close>

definition core_BuildConfig :: "build_env \<Rightarrow> 'w option outcome \<Rightarrow> InhiveOptions option \<Rightarrow> start_request \<Rightarrow> cfg_options outcome" where
  "core_BuildConfig B padding settings r =
     and_then padding (\<lambda>_.
       if \<not> sr_raw r then
         (case settings of
            None \<Rightarrow> Panics ''nil pointer dereference''
          | Some h \<Rightarrow> and_then (BuildConfig B h (read_of r)) (\<lambda>(x, _). Done x))
       else ReadSingOptions (be_unmarshal B) (be_read B) (read_of r))"

section \<open>Parse\<close>

record parse_request =
  pq_content :: string
  pq_temp_path :: string
  pq_config_path :: string

record parse_response =
  ps_failed :: bool
  ps_content :: string
  ps_message :: string

definition parse_failed :: "string \<Rightarrow> parse_response \<times> string option" where
  "parse_failed m = (\<lparr>ps_failed = True, ps_content = '''', ps_message = m\<rparr>, Some m)"

text \<open>The response, the error, and what was written where; \<open>wr\<close> is the error of writing a file.\<close>

definition Parse ::
  "'y parse_env \<Rightarrow> (cfg_options \<Rightarrow> string outcome) \<Rightarrow> (string \<Rightarrow> string outcome) \<Rightarrow> (string \<Rightarrow> string option) \<Rightarrow>
     InhiveOptions \<Rightarrow> parse_request \<Rightarrow> (parse_response \<times> string option) \<times> (string \<times> string) option" where
  "Parse P mj rd wr h q =
     (let path = (if pq_temp_path q = '''' then pq_config_path q else pq_temp_path q) in
      case ParseConfigBytes P mj rd h False \<lparr>ro_path = path, ro_content = pq_content q, ro_options = None\<rparr> of
        Fails e \<Rightarrow> (parse_failed e, None)
      | Panics m \<Rightarrow> (parse_failed (''parse panic: '' @ m), None)
      | Done c \<Rightarrow>
          let fine = (\<lparr>ps_failed = False, ps_content = c, ps_message = ''''\<rparr>, None) in
          if pq_config_path q = '''' then (fine, None)
          else case wr (pq_config_path q) of
            Some e \<Rightarrow> (parse_failed e, None)
          | None \<Rightarrow> (fine, Some (pq_config_path q, c)))"

section \<open>Facts\<close>

text \<open>Nothing leaves the parser that the engine's check has not passed.\<close>

lemma patchConfigOptions_checked: "patchConfigOptions P name x = Done y \<Longrightarrow> pe_check P y"
  by (auto simp: patchConfigOptions_def validateResult_def and_then_Done Let_def split: if_splits)

lemma patchConfigStr_checked: "patchConfigStr P name obj = Done y \<Longrightarrow> pe_check P y"
  by (auto simp: patchConfigStr_def intro: patchConfigOptions_checked split: option.splits)

lemma try_containers_checked: "try_containers P v e cs = Done y \<Longrightarrow> pe_check P y"
proof (induction cs arbitrary: e)
  case (Cons c cs)
  then show ?case
    by (cases "patchConfigStr P ''SingboxParser'' [(c, JArr [v])]") (auto intro: patchConfigStr_checked)
qed simp

lemma parseSingboxJSON_checked: "parseSingboxJSON P full v = Done y \<Longrightarrow> pe_check P y"
  by (auto simp: parseSingboxJSON_def split: json.splits if_splits list.splits
      intro: try_containers_checked patchConfigStr_checked)

lemma parse_other_checked: "parse_other P e content = Done y \<Longrightarrow> pe_check P y"
  by (auto simp: parse_other_def split: sum.splits clash_reading.splits option.splits intro: patchConfigOptions_checked)

lemma parseConfigContent_checked: "parseConfigContent P full content = Done y \<Longrightarrow> pe_check P y"
  by (auto simp: parseConfigContent_def split: option.splits outcome.splits
      intro: parse_other_checked parseSingboxJSON_checked)

text \<open>A start that is replayed from the store is raw, so it never runs the builder.\<close>

lemma replay_is_read:
  assumes "load_last open_err db = Done r"
  shows "core_BuildConfig B (Done w) settings r = ReadSingOptions (be_unmarshal B) (be_read B) (read_of r)"
proof -
  have "sr_raw r" using assms by (auto simp: load_last_def and_then_Done)
  then show ?thesis by (simp add: core_BuildConfig_def and_then_def)
qed

lemma build_before_setup_panics: "core_BuildConfig B (initDaita fw low tenth bundled None) settings r = Panics ''nil pointer dereference''"
  by (simp add: core_BuildConfig_def initDaita_def and_then_def)

section \<open>Properties\<close>


definition decoding_parse :: "raw parse_env" where
  "decoding_parse =
     plain_parse\<lparr>pe_any := (\<lambda>_. Some (JObj [(''outbounds'', JArr [])])), pe_decode := (\<lambda>_. Some cfg_options_zero)\<rparr>"

definition parse_to_file :: "(parse_response \<times> string option) \<times> (string \<times> string) option" where
  "parse_to_file = Parse decoding_parse (\<lambda>_. Done ''{}'') (\<lambda>_. Fails '''') (\<lambda>_. None) DefaultInhiveOptions
     \<lparr>pq_content = ''{ }'', pq_temp_path = '''', pq_config_path = ''/data/p.json''\<rparr>"


end
