(* ===== verification/Go_Quote.thy ===== *)
theory Go_Quote
  imports Json_Raw
begin

text \<open>
  \<open>strconv.Quote\<close>, which writes a Go string literal, and which of its literals are strings of JSON as well.
\<close>

text \<open>\<open>strconv.Quote\<close>; \<open>printable\<close> is \<open>IsPrint\<close> of the runes beyond ASCII.\<close>

definition lower_hex :: "nat list \<Rightarrow> nat \<Rightarrow> string" where
  "lower_hex places r = map (\<lambda>i. to_lower_byte (hex_digit (r div 16 ^ i mod 16))) places"

definition quote_ascii :: "char \<Rightarrow> string" where
  "quote_ascii c =
     (if c = CHR 0x22 \<or> c = CHR 0x5C then [CHR 0x5C, c]
      else if 32 \<le> code c \<and> code c < 127 then [c]
      else if c = CHR 0x07 then [CHR 0x5C, CHR ''a'']
      else if c = CHR 0x08 then [CHR 0x5C, CHR ''b'']
      else if c = CHR 0x0C then [CHR 0x5C, CHR ''f'']
      else if c = CHR 0x0A then [CHR 0x5C, CHR ''n'']
      else if c = CHR 0x0D then [CHR 0x5C, CHR ''r'']
      else if c = CHR 0x09 then [CHR 0x5C, CHR ''t'']
      else if c = CHR 0x0B then [CHR 0x5C, CHR ''v'']
      else [CHR 0x5C, CHR ''x''] @ lower_hex [1, 0] (code c))"

definition rune_of :: "string \<Rightarrow> nat" where
  "rune_of s =
     (case map code s of
        [a, b] \<Rightarrow> (a - 0xC0) * 64 + (b - 0x80)
      | [a, b, c] \<Rightarrow> (a - 0xE0) * 4096 + (b - 0x80) * 64 + (c - 0x80)
      | [a, b, c, d] \<Rightarrow> (a - 0xF0) * 262144 + (b - 0x80) * 4096 + (c - 0x80) * 64 + (d - 0x80)
      | _ \<Rightarrow> 0xFFFD)"

definition quote_rune :: "(nat \<Rightarrow> bool) \<Rightarrow> string \<Rightarrow> string" where
  "quote_rune printable s =
     (let r = rune_of s in
      if printable r then s
      else if r < 0x10000 then [CHR 0x5C, CHR ''u''] @ lower_hex [3, 2, 1, 0] r
      else [CHR 0x5C, CHR ''U''] @ lower_hex [7, 6, 5, 4, 3, 2, 1, 0] r)"

function quote_body :: "(nat \<Rightarrow> bool) \<Rightarrow> string \<Rightarrow> string" where
  "quote_body printable s =
     (case s of
        [] \<Rightarrow> []
      | c # t \<Rightarrow>
          if code c < 0x80 then quote_ascii c @ quote_body printable t
          else
            (let n = (if valid_utf8 (take 2 s) \<and> 2 \<le> length s then 2
                      else if valid_utf8 (take 3 s) \<and> 3 \<le> length s then 3
                      else if valid_utf8 (take 4 s) \<and> 4 \<le> length s then 4 else 0)
             in if n = 0 then [CHR 0x5C, CHR ''x''] @ lower_hex [1, 0] (code c) @ quote_body printable t
                else quote_rune printable (take n s) @ quote_body printable (drop n s)))"
  by pat_completeness auto
termination
  by (relation "measure (\<lambda>(p, s). length s)") (auto split: if_splits)

declare quote_body.simps [simp del]

definition go_quote :: "(nat \<Rightarrow> bool) \<Rightarrow> string \<Rightarrow> string" where
  "go_quote printable s = [CHR 0x22] @ quote_body printable s @ [CHR 0x22]"

section \<open>When a quoted text is JSON\<close>

text \<open>The ASCII characters for which the escape of \<open>Quote\<close> is one of JSON too.\<close>

definition json_fine :: "char \<Rightarrow> bool" where
  "json_fine c \<longleftrightarrow> (32 \<le> code c \<and> code c < 127) \<or> c \<in> {CHR 0x08, CHR 0x0C, CHR 0x0A, CHR 0x0D, CHR 0x09}"

lemma quote_body_ascii [simp]:
  "quote_body p [] = []" "code c < 128 \<Longrightarrow> quote_body p (c # t) = quote_ascii c @ quote_body p t"
  by (subst quote_body.simps, simp)+

lemma utf8_fix_ascii: "\<forall>c \<in> set s. code c < 128 \<Longrightarrow> utf8_fix s = s"
  by (induction s) (subst utf8_fix.simps, simp)+

lemma quote_ascii_simps:
  "quote_ascii (CHR 0x22) = [CHR 0x5C, CHR 0x22]" "quote_ascii (CHR 0x5C) = [CHR 0x5C, CHR 0x5C]"
  "quote_ascii (CHR 0x08) = [CHR 0x5C, CHR ''b'']" "quote_ascii (CHR 0x0C) = [CHR 0x5C, CHR ''f'']"
  "quote_ascii (CHR 0x0A) = [CHR 0x5C, CHR ''n'']" "quote_ascii (CHR 0x0D) = [CHR 0x5C, CHR ''r'']"
  "quote_ascii (CHR 0x09) = [CHR 0x5C, CHR ''t'']" "quote_ascii (CHR 0x07) = [CHR 0x5C, CHR ''a'']"
  "quote_ascii (CHR 0x0B) = [CHR 0x5C, CHR ''v'']"
  by (simp_all add: quote_ascii_def code_def)

lemma quote_ascii_fine:
  assumes "json_fine c"
  obtains (escaped) e where "quote_ascii c = [CHR 0x5C, e]" "e \<noteq> CHR ''u''" "simple_escape e = Some [c]"
  | (plain) "quote_ascii c = [c]" "c \<noteq> CHR 0x22" "c \<noteq> CHR 0x5C" "\<not> code c < 32"
proof (cases "c \<in> {CHR 0x22, CHR 0x5C, CHR 0x08, CHR 0x0C, CHR 0x0A, CHR 0x0D, CHR 0x09}")
  case True
  then have "\<exists>e. quote_ascii c = [CHR 0x5C, e] \<and> e \<noteq> CHR ''u'' \<and> simple_escape e = Some [c]"
    by (elim insertE emptyE; simp add: quote_ascii_simps simple_escape_def)
  then show thesis by (blast intro: escaped)
next
  case False
  with assms have "32 \<le> code c" "code c < 127" by (auto simp: json_fine_def)
  with False show thesis by (intro plain) (simp_all add: quote_ascii_def)
qed

lemma json_fine_special:
  "c \<in> {CHR 0x22, CHR 0x5C, CHR 0x08, CHR 0x0C, CHR 0x0A, CHR 0x0D, CHR 0x09} \<Longrightarrow> json_fine c"
  by (elim insertE emptyE; simp add: json_fine_def code_def)

lemma quote_ascii_unfine:
  assumes "\<not> json_fine c"
  obtains e r where "quote_ascii c = CHR 0x5C # e # r" "e \<noteq> CHR ''u''" "simple_escape e = None"
    "e \<noteq> CHR 0x00" "r = [] \<or> r = lower_hex [1, 0] (code c)"
proof (cases "c \<in> {CHR 0x07, CHR 0x0B}")
  case True
  then have "\<exists>e r. quote_ascii c = CHR 0x5C # e # r \<and> e \<noteq> CHR ''u'' \<and> simple_escape e = None \<and> e \<noteq> CHR 0x00 \<and> r = []"
    by (elim insertE emptyE; simp add: quote_ascii_simps simple_escape_def)
  then show thesis by (blast intro: that)
next
  case False
  have "c \<notin> {CHR 0x22, CHR 0x5C, CHR 0x08, CHR 0x0C, CHR 0x0A, CHR 0x0D, CHR 0x09}" "\<not> (32 \<le> code c \<and> code c < 127)"
    using assms json_fine_special [of c] by (blast, simp add: json_fine_def)
  with False have "quote_ascii c = CHR 0x5C # CHR ''x'' # lower_hex [1, 0] (code c)" by (simp add: quote_ascii_def)
  then show thesis by (rule that) (simp_all add: simple_escape_def)
qed

lemma json_lit_quoted: "json_fine c \<Longrightarrow> json_lit (quote_ascii c @ r) = map_option (\<lambda>(x, y). (c # x, y)) (json_lit r)"
  by (erule quote_ascii_fine; subst json_lit.simps; simp add: code_def)

lemma json_lit_refused: "\<not> json_fine c \<Longrightarrow> json_lit (quote_ascii c @ r) = None"
  by (erule quote_ascii_unfine; subst json_lit.simps; simp add: code_def)

lemma json_lit_quote_body:
  assumes "\<forall>c \<in> set s. code c < 128"
  shows "json_lit (quote_body p s @ CHR 0x22 # r) = (if \<forall>c \<in> set s. json_fine c then Some (s, r) else None)"
  using assms
proof (induction s)
  case Nil
  show ?case by (subst json_lit.simps) simp
next
  case (Cons c s)
  then show ?case by (cases "json_fine c") (auto simp: json_lit_quoted json_lit_refused)
qed

text \<open>An object with one member whose value is a quoted ASCII text.\<close>

lemma ws_stop: "skip_ws (CHR 0x22 # s) = CHR 0x22 # s" "skip_ws (CHR '':'' # s) = CHR '':'' # s" "skip_ws (CHR ''}'' # s) = CHR ''}'' # s"
  "skip_ws (CHR ''{'' # s) = CHR ''{'' # s" "skip_ws [] = []"
  by (simp_all add: skip_ws_def json_ws_def code_def)

lemma one_member_parse:
  assumes "\<forall>c \<in> set k. json_fine c \<and> code c < 128" and "\<forall>c \<in> set s. code c < 128"
  shows "json_parse (''{'' @ go_quote p k @ '':'' @ go_quote p s @ ''}'') =
    (if \<forall>c \<in> set s. json_fine c then Some (JObj [(k, JStr s)]) else None)"
proof -
  let ?t = "''{'' @ go_quote p k @ '':'' @ go_quote p s @ ''}''"
  have len: "2 * length ?t + 2 = Suc (Suc (Suc (2 * length ?t - 1)))" by simp
  have k: "json_string (quote_body p k @ CHR 0x22 # r) = Some (k, r)" for r
    using json_lit_quote_body [of k p r] assms(1) by (simp add: json_string_def utf8_fix_ascii)
  have s: "json_string (quote_body p s @ CHR 0x22 # r) = (if \<forall>c \<in> set s. json_fine c then Some (s, r) else None)" for r
    using json_lit_quote_body [OF assms(2), of p r] assms(2) by (simp add: json_string_def utf8_fix_ascii)
  show ?thesis
    unfolding json_parse_def len by (simp add: go_quote_def ws_stop k s has_prefix_iff)
qed

lemma quote_ascii_no_zero: "code c < 128 \<Longrightarrow> CHR 0x00 \<notin> set (quote_ascii c)"
proof -
  assume c: "code c < 128"
  have hex: "to_lower_byte (hex_digit (n mod 16)) \<noteq> CHR 0x00" for n
  proof -
    have "48 \<le> code (to_lower_byte (hex_digit (n mod 16)))"
      by (auto simp: hex_digit_def to_lower_byte_def is_upper_def code_char_of)
    then show ?thesis by (auto simp: code_def)
  qed
  show ?thesis
  proof (cases "json_fine c")
    case True
    then show ?thesis by (rule quote_ascii_fine) (auto simp: simple_escape_def code_def split: if_splits)
  next
    case False
    then obtain e r where q: "quote_ascii c = CHR 0x5C # e # r" "e \<noteq> CHR 0x00" "r = [] \<or> r = lower_hex [1, 0] (code c)"
      by (rule quote_ascii_unfine)
    then show ?thesis using hex [of "code c"] hex [of "code c div 16"] by (auto simp: lower_hex_def)
  qed
qed

lemma quote_no_zero: "\<forall>c \<in> set s. code c < 128 \<Longrightarrow> CHR 0x00 \<notin> set (quote_body p s)"
  by (induction s) (auto simp: quote_ascii_no_zero)

end
