(* ===== verification/App_Api.thy ===== *)
theory App_Api
  imports Grpc_Server Core_Config Mode_Watcher Go_Quote
begin

text \<open>
  What the app calls: the exports of the phones (\<open>platform/mobile/mobile.go\<close>), of the desktop library
  (\<open>platform/desktop/custom.go\<close>), the streams of log lines and of modes (\<open>logproto.go\<close>, \<open>commands.go\<close>), and the
  log shared with the app on iOS (\<open>log_shared.go\<close>). A call that panics is recovered: its message becomes the error,
  without the stack trace. \<open>txt\<close> is the text of a converter's error, \<open>mj\<close> the encoder of the engine's options.
\<close>

section \<open>Phones\<close>

definition recovered :: "string \<Rightarrow> 'a outcome \<Rightarrow> 'a outcome" where
  "recovered name r = (case r of Panics m \<Rightarrow> Fails (name @ '' panic: '' @ m) | _ \<Rightarrow> r)"

definition Ray2Singbox ::
  "(go_error \<Rightarrow> string) \<Rightarrow> (sb_options \<Rightarrow> string outcome) \<Rightarrow> 'y sub_env \<Rightarrow> string \<Rightarrow> string outcome" where
  "Ray2Singbox txt mj S configs =
     (case Ray2SingboxOptions S configs of Inl e \<Rightarrow> Fails (txt e) | Inr x \<Rightarrow> mj x)"

definition share_links :: "(go_error \<Rightarrow> string) \<Rightarrow> 'y sub_env \<Rightarrow> string \<Rightarrow> string outcome" where
  "share_links txt S content = (case ConvertToShareLinks S content of Inl e \<Rightarrow> Fails (txt e) | Inr x \<Rightarrow> Done x)"

definition mobile_Setup :: "'r setup_env \<Rightarrow> bool \<Rightarrow> setup_request \<Rightarrow> 'r core_setup \<Rightarrow> string option \<times> 'r core_setup" where
  "mobile_Setup E platform opt s = Setup E platform (opt\<lparr>kq_status_port := 0\<rparr>) s"

definition mobile_Parse ::
  "(go_error \<Rightarrow> string) \<Rightarrow> (sb_options \<Rightarrow> string outcome) \<Rightarrow> 'y sub_env \<Rightarrow> string \<Rightarrow> string outcome" where
  "mobile_Parse txt mj S content = recovered ''mobile.Parse'' (Ray2Singbox txt mj S content)"

definition mobile_ConvertToShareLinks :: "(go_error \<Rightarrow> string) \<Rightarrow> 'y sub_env \<Rightarrow> string \<Rightarrow> string outcome" where
  "mobile_ConvertToShareLinks txt S content = recovered ''mobile.ConvertToShareLinks'' (share_links txt S content)"

text \<open>A start of the phone is always raw; it differs from a start for pings in one flag.\<close>

definition mobile_request :: "string \<Rightarrow> string \<Rightarrow> bool \<Rightarrow> start_request" where
  "mobile_request path content ping =
     \<lparr>sr_path = path, sr_content = content, sr_name = '''', sr_raw = True, sr_ping_only = ping\<rparr>"

definition mobile_start :: "start_env \<Rightarrow> string \<Rightarrow> string \<Rightarrow> bool \<Rightarrow> inhive \<Rightarrow> string option \<times> inhive" where
  "mobile_start E path content ping i =
     (let (r, i') = StartService E (Some (mobile_request path content ping)) i in (snd r, i'))"

definition mobile_Start :: "start_env \<Rightarrow> string \<Rightarrow> string \<Rightarrow> inhive \<Rightarrow> string option \<times> inhive" where
  "mobile_Start E path content = mobile_start E path content False"

definition mobile_StartPingOnly :: "start_env \<Rightarrow> string \<Rightarrow> inhive \<Rightarrow> string option \<times> inhive" where
  "mobile_StartPingOnly E content = mobile_start E '''' content True"

definition mobile_Stop :: "unit outcome \<Rightarrow> inhive \<Rightarrow> string option \<times> inhive" where
  "mobile_Stop close i = (let (r, i') = Stop close i in (snd r, i'))"

text \<open>The calls without a result log a panic and return; \<open>closed\<close> is the panic of closing the server.\<close>

definition mobile_Close :: "unit outcome \<Rightarrow> string option \<Rightarrow> inhive \<Rightarrow> inhive" where
  "mobile_Close close closed i = snd (Core_Lifecycle.Close close closed i)"

definition mobile_Pause :: "bool \<Rightarrow> instant \<Rightarrow> inhive \<Rightarrow> inhive" where
  "mobile_Pause ios now i = Pause ios now i"

definition mobile_Wake :: "instant \<Rightarrow> inhive \<Rightarrow> inhive" where
  "mobile_Wake now i = snd (Wake now i)"

section \<open>The desktop library\<close>

text \<open>A C string ends at its first zero byte, on the way in and on the way out.\<close>

definition c_string :: "string \<Rightarrow> string" where
  "c_string s = takeWhile (\<lambda>c. c \<noteq> CHR 0x00) s"

definition emptyOrErrorC :: "string option \<Rightarrow> string" where
  "emptyOrErrorC e = (case e of None \<Rightarrow> '''' | Some m \<Rightarrow> c_string m)"

definition parse_error_reply :: "(nat \<Rightarrow> bool) \<Rightarrow> string \<Rightarrow> string" where
  "parse_error_reply printable e =
     ''{'' @ [CHR 0x22] @ ''__parse_error__'' @ [CHR 0x22] @ '':'' @ go_quote printable e @ ''}''"

definition desktop_reply :: "(nat \<Rightarrow> bool) \<Rightarrow> string outcome \<Rightarrow> string" where
  "desktop_reply printable r =
     c_string (case r of Done x \<Rightarrow> x | Fails e \<Rightarrow> parse_error_reply printable e | Panics m \<Rightarrow> parse_error_reply printable m)"

definition desktop_parse ::
  "(nat \<Rightarrow> bool) \<Rightarrow> (go_error \<Rightarrow> string) \<Rightarrow> (sb_options \<Rightarrow> string outcome) \<Rightarrow> 'y sub_env \<Rightarrow> string \<Rightarrow> string" where
  "desktop_parse printable txt mj S content =
     desktop_reply printable (recovered ''parse'' (Ray2Singbox txt mj S (c_string content)))"

definition desktop_convertToShareLinks ::
  "(nat \<Rightarrow> bool) \<Rightarrow> (go_error \<Rightarrow> string) \<Rightarrow> 'y sub_env \<Rightarrow> string \<Rightarrow> string" where
  "desktop_convertToShareLinks printable txt S content =
     desktop_reply printable (recovered ''convertToShareLinks'' (share_links txt S (c_string content)))"

definition desktop_setup :: "'r setup_env \<Rightarrow> setup_request \<Rightarrow> 'r core_setup \<Rightarrow> string \<times> 'r core_setup" where
  "desktop_setup E q s = (let (e, s') = Setup E False q s in (emptyOrErrorC e, s'))"

text \<open>A start of the desktop library is not raw.\<close>

definition desktop_request :: "string \<Rightarrow> start_request" where
  "desktop_request path = \<lparr>sr_path = c_string path, sr_content = '''', sr_name = '''', sr_raw = False, sr_ping_only = False\<rparr>"

definition desktop_start :: "start_env \<Rightarrow> string \<Rightarrow> inhive \<Rightarrow> string \<times> inhive" where
  "desktop_start E path i = (let (r, i') = StartService E (Some (desktop_request path)) i in (emptyOrErrorC (snd r), i'))"

definition desktop_stop :: "unit outcome \<Rightarrow> inhive \<Rightarrow> string \<times> inhive" where
  "desktop_stop close i = (let (r, i') = Stop close i in (emptyOrErrorC (snd r), i'))"

definition desktop_GetServerPublicKey :: "servers \<Rightarrow> string" where
  "desktop_GetServerPublicKey s = c_string (case GetGrpcServerPublicKey s of None \<Rightarrow> '''' | Some k \<Rightarrow> k)"

definition desktop_AddGrpcClientPublicKey ::
  "(string \<Rightarrow> (string \<times> string) option) \<Rightarrow> (string \<Rightarrow> 'c option) \<Rightarrow> (string \<Rightarrow> 'c result) \<Rightarrow> string \<Rightarrow> 'c list \<Rightarrow>
     string \<times> 'c list" where
  "desktop_AddGrpcClientPublicKey pem cert pkix key pool =
     (let (e, pool') = AddGrpcClientPublicKey pem cert pkix (c_string key) pool in (emptyOrErrorC e, pool'))"

definition desktop_closeGrpc :: "unit outcome \<Rightarrow> string option \<Rightarrow> inhive \<Rightarrow> inhive" where
  "desktop_closeGrpc close closed i = snd (Core_Lifecycle.Close close closed i)"

section \<open>Calls and streams over grpc\<close>

text \<open>\<open>CoreService.Close\<close>: is there a response, and the servers.\<close>

definition CoreService_Close :: "grpc_lib \<Rightarrow> setup_mode option \<Rightarrow> servers \<Rightarrow> bool \<times> servers" where
  "CoreService_Close L req s =
     (case req of
        None \<Rightarrow> (False, s)
      | Some m \<Rightarrow> if gs_slots s m = None then (False, s) else (True, CloseGrpcServer L m s))"

text \<open>What a stream waits for; the bus closes when the process ends.\<close>

datatype 'e stream_input = ClientGone | BusClosed | Published "'e option"

text \<open>The \<open>n\<close>th message of a stream is refused or sent; the result is what was sent and how the call ended.\<close>

fun mode_stream :: "(nat \<Rightarrow> string option) \<Rightarrow> mode_event stream_input list \<Rightarrow> mode_event list \<Rightarrow> mode_event list \<times> string option" where
  "mode_stream refuse [] sent = (sent, None)"
| "mode_stream refuse (ClientGone # xs) sent = (sent, None)"
| "mode_stream refuse (BusClosed # xs) sent = (sent, None)"
| "mode_stream refuse (Published None # xs) sent = mode_stream refuse xs sent"
| "mode_stream refuse (Published (Some e) # xs) sent =
     (case refuse (length sent) of Some m \<Rightarrow> (sent, Some m) | None \<Rightarrow> mode_stream refuse xs (sent @ [e]))"

definition ModeStateListener ::
  "(nat \<Rightarrow> string option) \<Rightarrow> bool \<Rightarrow> string \<Rightarrow> modes \<Rightarrow> mode_event stream_input list \<Rightarrow> mode_event list \<times> string option" where
  "ModeStateListener refuse observer transport m xs =
     (if \<not> observer then ([], Some ''modeStateObserver not initialised'')
      else
        let snapshot = \<lparr>me_mode = md_current m, me_success = True, me_error = '''', me_transport = transport\<rparr> in
        case refuse 0 of Some e \<Rightarrow> ([], Some e) | None \<Rightarrow> mode_stream refuse xs [snapshot])"

text \<open>\<open>LogListener\<close>: a message below the level is passed over; a closed bus delivers no message and the handler panics.\<close>

fun LogListener ::
  "(nat \<Rightarrow> string option) \<Rightarrow> log_level \<Rightarrow> (log_level \<times> string) stream_input list \<Rightarrow> (log_level \<times> string) list \<Rightarrow>
     (log_level \<times> string) list \<times> unit outcome" where
  "LogListener refuse level [] sent = (sent, Done ())"
| "LogListener refuse level (ClientGone # xs) sent = (sent, Done ())"
| "LogListener refuse level (BusClosed # xs) sent = (sent, Panics ''nil pointer dereference'')"
| "LogListener refuse level (Published None # xs) sent = (sent, Panics ''nil pointer dereference'')"
| "LogListener refuse level (Published (Some (l, m)) # xs) sent =
     (if level_num l < level_num level then LogListener refuse level xs sent
      else case refuse (length sent) of
        Some e \<Rightarrow> (sent, Fails e)
      | None \<Rightarrow> LogListener refuse level xs (sent @ [(l, m)]))"

text \<open>\<open>WriteSharedLog\<close>: on iOS, once the working directory is known; \<open>stamp\<close> is the formatted time.\<close>

definition WriteSharedLog ::
  "bool \<Rightarrow> os_calls \<Rightarrow> string \<Rightarrow> string \<Rightarrow> string \<Rightarrow> (string \<rightharpoonup> string) \<Rightarrow> (string \<rightharpoonup> string)" where
  "WriteSharedLog ios os working stamp msg disk =
     (if \<not> ios \<or> working = '''' then disk
      else
        let path = working @ ''/ne_last_error.log'' in
        if \<not> os_open os then disk
        else disk(path \<mapsto> (case disk path of None \<Rightarrow> '''' | Some c \<Rightarrow> c) @
               (if os_write os then ''['' @ stamp @ ''] '' @ msg @ [CHR 0x0A] else '''')))"

section \<open>Facts\<close>

text \<open>What a start, a launch and a stop leave of the stored last start.\<close>

lemma status_db [simp]: "in_db (snd (SetCoreStatus s t m i)) = in_db i"
  by (simp add: SetCoreStatus_def Let_def)

lemma drop_db [simp]: "in_db (drop_service i) = in_db i" "in_db (stop_helpers i) = in_db i" "in_db (StopAndAlert t m i) = in_db i"
  by (simp_all add: drop_service_def stop_helpers_def StopAndAlert_def resetPauseState_def split: option.split)

lemma errorWrapper_db [simp]: "in_db (snd (errorWrapper t e i)) = in_db i"
  by (simp add: errorWrapper_def case_prod_beta Let_def)

lemma launch_db [simp]: "in_db (snd (launch E ports i)) = in_db i"
  by (simp add: launch_def engine_started_def case_prod_beta Let_def split: outcome.split)

lemma Stop_db: "in_db (snd (Stop close i)) = in_db i"
  by (simp add: Stop_def case_prod_beta Let_def split: option.split outcome.split)

lemma started_db:
  "sr_content r \<noteq> '''' \<or> sr_path r \<noteq> '''' \<Longrightarrow>
     in_db (snd (StartService E (Some r) i)) =
       (if in_state i = STOPPED \<and> (\<exists>ports. se_build E r = Done ports) then saveLastStartRequest (se_rows E) r (in_db i) else in_db i)"
  by (auto simp: StartService_def loadLastStartRequestIfNeeded_def SetCoreStatus_def Let_def split: outcome.split)

lemma ping_start_keeps_db: "c \<noteq> '''' \<Longrightarrow> in_db (snd (mobile_StartPingOnly E c i)) = in_db i"
  by (simp add: mobile_StartPingOnly_def mobile_start_def case_prod_beta started_db mobile_request_def saveLastStartRequest_def)

text \<open>A start for pings without a configuration is not one: it runs the stored configuration as a connection.\<close>

lemma empty_ping_start_connects:
  "load_last (se_open_err E) (in_db i) = Done r \<Longrightarrow> in_state i = STOPPED \<Longrightarrow> mobile_StartPingOnly E '''' i = mobile_Start E '''' '''' i"
  by (simp add: mobile_StartPingOnly_def mobile_Start_def mobile_start_def mobile_request_def StartService_def
      loadLastStartRequestIfNeeded_def SetCoreStatus_def Let_def)

text \<open>The library is not raw, so its start runs the builder; what it stores is replayed without it.\<close>

lemma desktop_start_translates:
  "core_BuildConfig B (Done w) (Some h) (desktop_request p) =
     and_then (BuildConfig B h \<lparr>ro_path = c_string p, ro_content = '''', ro_options = None\<rparr>) (\<lambda>(x, _). Done x)"
  by (simp add: core_BuildConfig_def and_then_def desktop_request_def read_of_def)

section \<open>Properties\<close>

text \<open>C13: what a phone connects with is what it replays: after a connection was started with a configuration, however
  many cores for pings are started and stopped since, an empty start loads that configuration again, and it is read
  as it is, by no means through the builder.\<close>

theorem phone_start_replays:
  assumes "in_state i = STOPPED" and "content \<noteq> '''' \<or> path \<noteq> ''''" and "se_build E (mobile_request path content False) = Done ports"
    and "3 \<le> se_rows E" and "\<forall>(F, q, cl) \<in> set pings. q \<noteq> ''''"
    and i': "i' = foldl (\<lambda>j (F, q, cl). snd (mobile_Stop cl (snd (mobile_StartPingOnly F q j)))) (snd (mobile_Start E path content i)) pings"
  shows "loadLastStartRequestIfNeeded None (in_db i') None = Done (mobile_request path content False) \<and>
    core_BuildConfig B (Done w) settings (mobile_request path content False) =
      ReadSingOptions (be_unmarshal B) (be_read B) \<lparr>ro_path = path, ro_content = content, ro_options = None\<rparr>"
proof -
  have "in_db (foldl (\<lambda>j (F, q, cl). snd (mobile_Stop cl (snd (mobile_StartPingOnly F q j)))) j pings) = in_db j" for j
    using assms(5)
  proof (induction pings arbitrary: j)
    case (Cons p pings)
    then show ?case by (cases p) (simp add: mobile_Stop_def case_prod_beta Stop_db ping_start_keeps_db)
  qed simp
  then have "in_db i' = saveLastStartRequest (se_rows E) (mobile_request path content False) (in_db i)"
    using assms(1,2,3) by (simp add: i' mobile_Start_def mobile_start_def case_prod_beta started_db mobile_request_def)
  then show ?thesis
    using assms(2,4)
    by (auto simp: loadLastStartRequestIfNeeded_def load_last_def saveLastStartRequest_def mobile_request_def update_insert_def
        last_start_rows_def stored_def and_then_def core_BuildConfig_def read_of_def)
qed

text \<open>C32: the answer of the desktop library to a body that cannot be converted is read by the app as the object with
  the error, exactly when the message has no control characters but those with a short escape in JSON: the literal of
  \<open>Quote\<close> writes the others, and DEL, in a form that JSON does not have, and the whole answer is then no JSON at all.\<close>

theorem desktop_error_readable:
  assumes "\<forall>c \<in> set e. code c < 128" and "r = Fails e \<or> r = Panics e"
  shows "json_parse (desktop_reply printable r) =
    (if \<forall>c \<in> set e. json_fine c then Some (JObj [(''__parse_error__'', JStr e)]) else None)"
proof -
  have key: "parse_error_reply printable e = ''{'' @ go_quote printable ''__parse_error__'' @ '':'' @ go_quote printable e @ ''}''"
    by (simp add: parse_error_reply_def go_quote_def quote_ascii_def code_def)
  have zero: "CHR 0x00 \<notin> set (go_quote printable e)" using quote_no_zero [OF assms(1)] by (simp add: go_quote_def)
  have "desktop_reply printable r = parse_error_reply printable e"
    using assms(2) zero by (auto simp: desktop_reply_def c_string_def parse_error_reply_def takeWhile_eq_all_conv)
  then show ?thesis
    unfolding key using one_member_parse [of "''__parse_error__''" e printable] assms(1) by (simp add: json_fine_def code_def)
qed

definition tunnel_then_pings :: inhive where
  "tunnel_then_pings =
     foldl (\<lambda>j (F, q, cl). snd (mobile_Stop cl (snd (mobile_StartPingOnly F q j))))
       (snd (mobile_Start sample_start_env '''' ''tunnel'' (core_init Map.empty))) [(sample_start_env, ''pings'', Done ())]"

theorem phone_start_replays_witness:
  "loadLastStartRequestIfNeeded None (in_db tunnel_then_pings) None = Done (mobile_request '''' ''tunnel'' False)"
  by (rule conjunct1 [OF phone_start_replays [where B = undefined and w = "None :: unit option" and settings = None,
        OF _ _ _ _ _ tunnel_then_pings_def]])
    (simp_all add: core_init_def sample_start_env_def)

theorem desktop_error_readable_witness:
  "json_parse (desktop_reply (\<lambda>_. True) (Fails ''no node'')) = Some (JObj [(''__parse_error__'', JStr ''no node'')]) \<and>
   json_parse (desktop_reply (\<lambda>_. True) (Fails [CHR ''a'', CHR 0x1B])) = None"
  using desktop_error_readable [of "''no node''" "Fails ''no node''" "\<lambda>_. True"]
    desktop_error_readable [of "[CHR ''a'', CHR 0x1B]" "Fails [CHR ''a'', CHR 0x1B]" "\<lambda>_. True"]
  by (simp add: json_fine_def code_def)

end
